(* ===== verification/Prelude.thy ===== *)
theory Prelude
  imports Main "HOL-Library.Signed_Division"
begin

text \<open>
  Shared vocabulary of the development: Go panics as values, Go's truncating integer
  division, and the functions of Go's \<^verbatim>\<open>strings\<close> package that the router, the pattern matcher
  and the plugins use. A Go string is a byte sequence, so it is an Isabelle \<^typ>\<open>string\<close>
  (a list of 8-bit characters). The generic facts about these functions are collected in
  \<open>go_strings\<close> and used by every component.
\<close>

named_theorems go_strings \<open>facts about the modelled functions of Go's strings package\<close>

section \<open>Panics\<close>

text \<open>A Go run-time panic, or a \<^verbatim>\<open>panic(...)\<close> call with its message.\<close>

datatype go_panic = PanicMsg string | IndexOutOfRange | NilDereference

type_synonym 'a go = "go_panic + 'a"

abbreviation ret :: "'a \<Rightarrow> 'a go" where "ret \<equiv> Inr"
abbreviation panic :: "string \<Rightarrow> 'a go" where "panic m \<equiv> Inl (PanicMsg m)"

fun go_bind :: "'a go \<Rightarrow> ('a \<Rightarrow> 'b go) \<Rightarrow> 'b go" where
  "go_bind (Inl p) f = Inl p"
| "go_bind (Inr x) f = f x"

fun go_map :: "('a \<Rightarrow> 'b go) \<Rightarrow> 'a list \<Rightarrow> 'b list go" where
  "go_map f [] = ret []"
| "go_map f (x # xs) = go_bind (f x) (\<lambda>y. go_bind (go_map f xs) (\<lambda>ys. ret (y # ys)))"

lemma go_bind_ret_iff: "go_bind m f = ret y \<longleftrightarrow> (\<exists>x. m = ret x \<and> f x = ret y)"
  by (cases m) auto

lemma go_map_ret_length: "go_map f xs = ret ys \<Longrightarrow> length ys = length xs"
  by (induction xs arbitrary: ys) (auto simp: go_bind_ret_iff)

lemma go_map_ret_nth:
  "go_map f xs = ret ys \<Longrightarrow> i < length xs \<Longrightarrow> f (xs ! i) = ret (ys ! i)"
proof (induction xs arbitrary: ys i)
  case Nil
  then show ?case by simp
next
  case (Cons x xs)
  then show ?case by (cases i) (auto simp: go_bind_ret_iff)
qed

lemma go_map_ret_iff:
  "(\<exists>ys. go_map f xs = ret ys) \<longleftrightarrow> (\<forall>x\<in>set xs. \<exists>y. f x = ret y)"
  by (induction xs) (auto simp: go_bind_ret_iff)

section \<open>Go's integer division\<close>

text \<open>
  Go's \<^verbatim>\<open>/\<close> and \<^verbatim>\<open>%\<close> truncate towards zero; the library's \<open>sdiv\<close> and \<open>smod\<close> on
  \<^typ>\<open>int\<close> do the same. On non-negative operands they agree with \<open>div\<close> and \<open>mod\<close>.
\<close>

lemma sdiv_nonneg: "0 \<le> a \<Longrightarrow> 0 < b \<Longrightarrow> (a::int) sdiv b = a div b"
  by (cases "a = 0") (simp_all add: signed_divide_int_def)

lemma smod_nonneg: "0 \<le> a \<Longrightarrow> 0 < b \<Longrightarrow> (a::int) smod b = a mod b"
  by (cases "a = 0") (simp_all add: signed_modulo_int_def)

section \<open>Go strings\<close>

definition hasPrefix :: "string \<Rightarrow> string \<Rightarrow> bool" where
  "hasPrefix s p \<longleftrightarrow> take (length p) s = p"

definition hasSuffix :: "string \<Rightarrow> string \<Rightarrow> bool" where
  "hasSuffix s p \<longleftrightarrow> length p \<le> length s \<and> drop (length s - length p) s = p"

definition trimPrefix :: "string \<Rightarrow> string \<Rightarrow> string" where
  "trimPrefix s p = (if hasPrefix s p then drop (length p) s else s)"

definition trimSuffix :: "string \<Rightarrow> string \<Rightarrow> string" where
  "trimSuffix s p = (if hasSuffix s p then take (length s - length p) s else s)"

definition trimByte :: "char \<Rightarrow> string \<Rightarrow> string" where
  \<comment> \<open>\<^verbatim>\<open>strings.Trim\<close> with a one-byte cutset\<close>
  "trimByte c s = rev (dropWhile ((=) c) (rev (dropWhile ((=) c) s)))"

fun splitOn :: "char \<Rightarrow> string \<Rightarrow> string list" where
  \<comment> \<open>\<^verbatim>\<open>strings.Split\<close> with a one-byte separator\<close>
  "splitOn c [] = [[]]"
| "splitOn c (x # xs) =
     (if x = c then [] # splitOn c xs
      else (case splitOn c xs of [] \<Rightarrow> [[x]] | s # ss \<Rightarrow> (x # s) # ss))"

fun joinWith :: "char \<Rightarrow> string list \<Rightarrow> string" where
  "joinWith c [] = []"
| "joinWith c [s] = s"
| "joinWith c (s # t # ss) = s @ c # joinWith c (t # ss)"

fun indexByte :: "string \<Rightarrow> char \<Rightarrow> nat option" where
  \<comment> \<open>\<^verbatim>\<open>strings.IndexByte\<close>, with \<open>None\<close> for its \<open>-1\<close>\<close>
  "indexByte [] c = None"
| "indexByte (x # xs) c = (if x = c then Some 0 else map_option Suc (indexByte xs c))"

definition strContains :: "string \<Rightarrow> char \<Rightarrow> bool" where
  "strContains s c \<longleftrightarrow> c \<in> set s"

subsection \<open>Facts\<close>

lemma hasPrefix_append [go_strings]: "hasPrefix (p @ s) p"
  by (simp add: hasPrefix_def)

lemma hasPrefixE:
  assumes "hasPrefix s p" obtains t where "s = p @ t"
  using assms by (metis append_take_drop_id hasPrefix_def)

lemma hasSuffix_append [go_strings]: "hasSuffix (s @ p) p"
  by (simp add: hasSuffix_def)

lemma hasSuffix_iff: "hasSuffix s p \<longleftrightarrow> (\<exists>t. s = t @ p)"
  unfolding hasSuffix_def
  by (metis append_take_drop_id append_eq_conv_conj diff_add_inverse2 le_add2 length_append)

lemma hasSuffix_singleton [go_strings]: "hasSuffix s [c] \<longleftrightarrow> s \<noteq> [] \<and> last s = c"
  unfolding hasSuffix_iff by (metis append_butlast_last_id last_snoc snoc_eq_iff_butlast)

lemma trimPrefix_append [go_strings]: "trimPrefix (p @ s) p = s"
  by (simp add: trimPrefix_def hasPrefix_append)

lemma trimSuffix_append [go_strings]: "trimSuffix (s @ p) p = s"
  by (simp add: trimSuffix_def hasSuffix_append)

lemma splitOn_not_Nil [simp]: "splitOn c s \<noteq> []"
  by (induction s) (auto split: list.splits)

lemma joinWith_splitOn: "joinWith c (splitOn c s) = s"
proof (induction s)
  case Nil
  then show ?case by simp
next
  case (Cons x xs)
  obtain t ts where ts: "splitOn c xs = t # ts"
    by (cases "splitOn c xs") auto
  with Cons show ?case by (cases ts) auto
qed

lemma splitOn_no_sep: "t \<in> set (splitOn c s) \<Longrightarrow> c \<notin> set t"
  by (induction s arbitrary: t) (auto split: list.splits if_splits)

lemma splitOn_id: "c \<notin> set s \<Longrightarrow> splitOn c s = [s]"
  by (induction s) auto

lemma splitOn_append_sep: "c \<notin> set s \<Longrightarrow> splitOn c (s @ c # t) = s # splitOn c t"
  by (induction s) auto

lemma splitOn_joinWith:
  "ss \<noteq> [] \<Longrightarrow> (\<forall>s\<in>set ss. c \<notin> set s) \<Longrightarrow> splitOn c (joinWith c ss) = ss"
  by (induction c ss rule: joinWith.induct) (auto simp: splitOn_id splitOn_append_sep)

lemma indexByte_None_iff: "indexByte s c = None \<longleftrightarrow> c \<notin> set s"
  by (induction s) auto

lemma indexByte_SomeD:
  "indexByte s c = Some i \<Longrightarrow>
     i < length s \<and> s ! i = c \<and> c \<notin> set (take i s) \<and> s = take i s @ c # drop (Suc i) s"
  by (induction s arbitrary: i) (auto split: if_splits)

lemma indexByte_append: "c \<notin> set s \<Longrightarrow> indexByte (s @ c # t) c = Some (length s)"
  by (induction s) auto

section \<open>Decimal rendering\<close>

text \<open>
  \<^verbatim>\<open>itoa\<close> of \<^verbatim>\<open>response.go\<close> fills a 20-byte buffer from the right; the loop is the accumulator
  recursion below. Negating the least 64-bit integer wraps to itself, so the loop does not run
  for it.
\<close>

function itoaLoop :: "nat \<Rightarrow> string \<Rightarrow> string" where
  "itoaLoop n acc = (if n = 0 then acc else itoaLoop (n div 10) (char_of (48 + n mod 10) # acc))"
  by pat_completeness auto
termination
  by (relation "measure fst") auto

declare itoaLoop.simps [simp del]

definition itoa :: "int \<Rightarrow> string" where
  "itoa i =
     (if i = 0 then ''0''
      else let neg = i < 0; j = (if neg then (if i = - (2 ^ 63) then i else - i) else i);
               ds = (if 0 < j then itoaLoop (nat j) [] else [])
           in (if neg then CHR ''-'' # ds else ds))"

definition digitVal :: "char \<Rightarrow> nat" where
  "digitVal c = of_char c - 48"

definition decValue :: "string \<Rightarrow> nat" where
  "decValue ds = foldl (\<lambda>a c. 10 * a + digitVal c) 0 ds"

lemma digitVal_char: "d < 10 \<Longrightarrow> digitVal (char_of (48 + d)) = d"
  by (simp add: digitVal_def)

lemma foldl_dec_append:
  "foldl (\<lambda>a c. 10 * a + digitVal c) k ds = k * 10 ^ length ds + decValue ds"
proof (induction ds arbitrary: k)
  case (Cons d ds)
  show ?case
    using Cons [of "10 * k + digitVal d"] Cons [of "digitVal d"]
    by (simp add: decValue_def algebra_simps)
qed (simp add: decValue_def)

lemma decValue_Cons: "decValue (c # ds) = digitVal c * 10 ^ length ds + decValue ds"
  using foldl_dec_append [of "digitVal c" ds] by (simp add: decValue_def)

lemma decValue_itoaLoop: "decValue (itoaLoop n acc) = n * 10 ^ length acc + decValue acc"
proof (induction n acc rule: itoaLoop.induct)
  case (1 n acc)
  show ?case
  proof (cases "n = 0")
    case True
    then show ?thesis by (simp add: itoaLoop.simps [of 0 acc])
  next
    case False
    then have "decValue (itoaLoop n acc) =
        n div 10 * 10 ^ Suc (length acc) + (n mod 10 * 10 ^ length acc + decValue acc)"
      using 1 by (simp add: itoaLoop.simps [of n acc] decValue_Cons digitVal_char)
    also have "\<dots> = (10 * (n div 10) + n mod 10) * 10 ^ length acc + decValue acc"
      by (simp only: power_Suc distrib_right mult.assoc mult.left_commute)
    also have "10 * (n div 10) + n mod 10 = n" by simp
    finally show ?thesis .
  qed
qed

lemma length_itoaLoop: "n < 10 ^ k \<Longrightarrow> length (itoaLoop n acc) \<le> k + length acc"
proof (induction k arbitrary: n acc)
  case 0
  then show ?case by (simp add: itoaLoop.simps [of 0 acc])
next
  case (Suc k)
  then have "n div 10 < 10 ^ k" by (simp add: less_mult_imp_div_less mult.commute)
  then show ?case using Suc.IH [of "n div 10" "char_of (48 + n mod 10) # acc"]
    by (simp add: itoaLoop.simps [of n acc])
qed

lemma itoaLoop_digits:
  "set acc \<subseteq> set ''0123456789'' \<Longrightarrow> set (itoaLoop n acc) \<subseteq> set ''0123456789''"
proof (induction n acc rule: itoaLoop.induct)
  case (1 n acc)
  have "n mod 10 \<in> set [0..<10]" by simp
  moreover have "list_all (\<lambda>k::nat. char_of (48 + k) \<in> set ''0123456789'') [0..<10]" by code_simp
  ultimately have "char_of (48 + n mod 10) \<in> set ''0123456789''" by (simp only: list_all_iff)
  with 1 show ?case by (subst itoaLoop.simps) auto
qed

end
