(* ===== verification/Patterns.thy ===== *)
theory Patterns
  imports Prelude
begin

text \<open>
  The route patterns of \<^verbatim>\<open>dispatch.go\<close>: compilation of a pattern such as
  \<open>/users/{id}/files/{path...}\<close> into parts, the segment matcher that the fast dispatch paths
  run, percent-decoding of captured values, the trailing-slash redirect decision and the
  removal of the method from a \<^verbatim>\<open>ServeMux\<close> pattern. The matcher is related to a reference
  that works on the list of segments.
\<close>

section \<open>Percent decoding\<close>

definition isHex :: "char \<Rightarrow> bool" where
  "isHex c \<longleftrightarrow> c \<in> set ''0123456789abcdefABCDEF''"

definition unhex :: "char \<Rightarrow> nat" where
  "unhex c =
     (let n = of_char c :: nat
      in if n \<le> 57 then n - 48 else if n \<le> 70 then n - 55 else n - 87)"

fun pathUnescape :: "string \<Rightarrow> string option" where
  \<comment> \<open>\<^verbatim>\<open>url.PathUnescape\<close>: \<open>None\<close> is its error on a malformed escape\<close>
  "pathUnescape [] = Some []"
| "pathUnescape (c # cs) =
     (if c = CHR ''%'' then
        (case cs of
           a # b # rest \<Rightarrow>
             (if isHex a \<and> isHex b
              then map_option (Cons (char_of (16 * unhex a + unhex b))) (pathUnescape rest)
              else None)
         | _ \<Rightarrow> None)
      else map_option (Cons c) (pathUnescape cs))"

definition decodePathValue :: "string \<Rightarrow> string" where
  "decodePathValue seg =
     (if CHR ''%'' \<in> set seg
      then (case pathUnescape seg of None \<Rightarrow> seg | Some decoded \<Rightarrow> decoded)
      else seg)"

lemma decodePathValue_plain: "CHR ''%'' \<notin> set seg \<Longrightarrow> decodePathValue seg = seg"
  by (simp add: decodePathValue_def)

section \<open>Compiled patterns\<close>

record directPatternPart =
  literal :: string
  pname :: string
  catchAll :: bool

type_synonym directPattern = "directPatternPart list"

definition isWildSegment :: "string \<Rightarrow> bool" where
  "isWildSegment seg \<longleftrightarrow>
     2 \<le> length seg \<and> hd seg = CHR ''{'' \<and> last seg = CHR ''}''"

definition compileSegment :: "string \<Rightarrow> directPatternPart" where
  "compileSegment seg =
     (if isWildSegment seg then
        (let name = butlast (tl seg)
         in if hasSuffix name ''...''
            then \<lparr>literal = [], pname = trimSuffix name ''...'', catchAll = True\<rparr>
            else \<lparr>literal = [], pname = name, catchAll = False\<rparr>)
      else \<lparr>literal = seg, pname = [], catchAll = False\<rparr>)"

definition compileDirectPattern :: "string \<Rightarrow> directPattern" where
  "compileDirectPattern pattern =
     (let trimmed = trimByte CHR ''/'' pattern
      in if trimmed = [] then [] else map compileSegment (splitOn CHR ''/'' trimmed))"

text \<open>
  The matcher buffers captured parameters in two arrays of 16; writing a seventeenth entry is
  a Go index-out-of-range panic. The result is \<open>ret None\<close> for \<^verbatim>\<open>false\<close> and
  \<open>ret (Some ps)\<close> for \<^verbatim>\<open>true\<close> with the parameters committed to the context.
\<close>

definition maxParams :: nat where "maxParams = 16"

definition pushParam :: "(string \<times> string) list \<Rightarrow> string \<Rightarrow> string \<Rightarrow> (string \<times> string) list go" where
  "pushParam buf n v =
     (if length buf < maxParams then ret (buf @ [(n, v)]) else Inl IndexOutOfRange)"

definition nextSegment :: "string \<Rightarrow> string \<times> string" where
  "nextSegment path =
     (case indexByte path CHR ''/'' of
        Some idx \<Rightarrow> (take idx path, drop (Suc idx) path)
      | None \<Rightarrow> (path, []))"

fun matchLoop :: "directPattern \<Rightarrow> string \<Rightarrow> (string \<times> string) list
    \<Rightarrow> (string \<times> string) list option go" where
  "matchLoop [] path buf = ret (if path = [] then Some buf else None)"
| "matchLoop (part # parts) path buf =
     (if catchAll part then
        (if pname part \<noteq> []
         then go_bind (pushParam buf (pname part) (decodePathValue path)) (\<lambda>b. ret (Some b))
         else ret (Some buf))
      else if path = [] then ret None
      else (let (seg, rest) = nextSegment path
            in if pname part \<noteq> [] then
                 go_bind (pushParam buf (pname part) (decodePathValue seg))
                   (\<lambda>b. matchLoop parts rest b)
               else if literal part \<noteq> seg then ret None
               else matchLoop parts rest buf))"

definition stripLead :: "string \<Rightarrow> string" where
  "stripLead path = (case path of c # cs \<Rightarrow> if c = CHR ''/'' then cs else path | [] \<Rightarrow> [])"

definition match_path :: "directPattern \<Rightarrow> string \<Rightarrow> (string \<times> string) list option go" where
  "match_path p path = matchLoop p (stripLead path) []"

section \<open>Removing the method of a mux pattern\<close>

definition stripMethodPattern :: "string \<Rightarrow> string" where
  "stripMethodPattern p =
     (if p = [] then []
      else (case indexByte p CHR '' '' of
              Some i \<Rightarrow>
                (if i + 1 < length p \<and> (65::nat) \<le> of_char (hd p) \<and> of_char (hd p) \<le> (90::nat)
                 then drop (i + 1) p else p)
            | None \<Rightarrow> p))"

section \<open>The simple matcher\<close>

definition matchPatternPart :: "string \<Rightarrow> string \<Rightarrow> bool" where
  "matchPatternPart pattern path \<longleftrightarrow>
     pattern = path \<or> (hasPrefix pattern ''{'' \<and> hasSuffix pattern ''}'')"

definition matchesPattern :: "string \<Rightarrow> string \<Rightarrow> bool" where
  "matchesPattern pattern path =
     (if pattern = path then True
      else let patternParts = splitOn CHR ''/'' pattern; pathParts = splitOn CHR ''/'' path
           in if length patternParts \<noteq> length pathParts then
                (if hasSuffix (last patternParts) ''...}''
                    \<and> length patternParts - 1 \<le> length pathParts
                 then list_all (\<lambda>i. matchPatternPart (patternParts ! i) (pathParts ! i))
                        [0..<length patternParts - 1]
                 else False)
              else list_all2 matchPatternPart patternParts pathParts)"

section \<open>The trailing-slash redirect\<close>

definition togglesSlash :: "string \<Rightarrow> string" where
  \<comment> \<open>the alternative path, computed alike by \<^verbatim>\<open>shouldRedirectTrailingSlash\<close> and \<^verbatim>\<open>ServeHTTP\<close>\<close>
  "togglesSlash path =
     (if hasSuffix path ''/'' then trimSuffix path ''/'' else path @ ''/'')"

fun anyMatch :: "directPattern list \<Rightarrow> string \<Rightarrow> bool go" where
  "anyMatch [] path = ret False"
| "anyMatch (p # ps) path =
     go_bind (match_path p path) (\<lambda>r. if r \<noteq> None then ret True else anyMatch ps path)"

definition shouldRedirectTrailingSlash :: "string set \<Rightarrow> directPattern list \<Rightarrow> string \<Rightarrow> bool go" where
  "shouldRedirectTrailingSlash redirectSlashExact redirectSlashDynamic path =
     (let altPath = togglesSlash path
      in if altPath \<in> redirectSlashExact then ret True
         else anyMatch redirectSlashDynamic altPath)"

definition redirectTarget :: "string \<Rightarrow> string \<Rightarrow> string" where
  "redirectTarget path rawQuery =
     togglesSlash path @ (if rawQuery \<noteq> [] then ''?'' @ rawQuery else [])"

definition trailingSlashRedirect ::
  "bool \<Rightarrow> string set \<Rightarrow> directPattern list \<Rightarrow> string \<Rightarrow> string \<Rightarrow> string option go" where
  \<comment> \<open>the guard at the top of \<^verbatim>\<open>ServeHTTP\<close>: \<open>Some t\<close> is the 301 to \<open>t\<close>\<close>
  "trailingSlashRedirect enabled exact dyn path rawQuery =
     (if enabled \<and> 1 < length path
      then go_bind (shouldRedirectTrailingSlash exact dyn path)
             (\<lambda>b. ret (if b then Some (redirectTarget path rawQuery) else None))
      else ret None)"

section \<open>The segment reference\<close>

text \<open>
  The segments the matcher sees: the split at \<open>/\<close>, less one empty last segment (a trailing
  slash is consumed with the segment before it).
\<close>

definition pathSegs :: "string \<Rightarrow> string list" where
  "pathSegs s = (let ss = splitOn CHR ''/'' s in if last ss = [] then butlast ss else ss)"

definition partAccepts :: "directPatternPart \<Rightarrow> string \<Rightarrow> bool" where
  "partAccepts part seg \<longleftrightarrow> pname part \<noteq> [] \<or> literal part = seg"

definition named :: "directPattern \<Rightarrow> directPattern" where
  "named parts = filter (\<lambda>p. pname p \<noteq> []) parts"

definition captures :: "directPattern \<Rightarrow> string list \<Rightarrow> (string \<times> string) list" where
  "captures parts segs =
     map (\<lambda>(p, s). (pname p, decodePathValue s)) (filter (\<lambda>(p, s). pname p \<noteq> []) (zip parts segs))"

lemma pathSegs_Nil [simp]: "pathSegs [] = []"
  by (simp add: pathSegs_def)

lemma pathSegs_step:
  assumes "path \<noteq> []"
  shows "pathSegs path = fst (nextSegment path) # pathSegs (snd (nextSegment path))"
proof (cases "indexByte path CHR ''/''")
  case None
  then have "CHR ''/'' \<notin> set path" by (simp add: indexByte_None_iff)
  with None assms show ?thesis
    by (simp add: pathSegs_def nextSegment_def splitOn_id)
next
  case (Some i)
  then have d: "path = take i path @ CHR ''/'' # drop (Suc i) path"
    and n: "CHR ''/'' \<notin> set (take i path)"
    by (auto dest: indexByte_SomeD)
  have "splitOn CHR ''/'' path = take i path # splitOn CHR ''/'' (drop (Suc i) path)"
    by (subst d) (simp only: splitOn_append_sep [OF n])
  with Some show ?thesis
    by (simp add: pathSegs_def nextSegment_def Let_def)
qed

lemma captures_Nil [simp]: "captures [] segs = []"
  by (simp add: captures_def)

lemma captures_Cons [simp]:
  "captures (p # ps) (s # ss) =
     (if pname p \<noteq> [] then [(pname p, decodePathValue s)] else []) @ captures ps ss"
  by (simp add: captures_def)

lemma named_simps [simp]:
  "named [] = []"
  "named (p # ps) = (if pname p \<noteq> [] then p # named ps else named ps)"
  by (simp_all add: named_def)

lemma matchLoop_exact:
  assumes "list_all (\<lambda>p. \<not> catchAll p) parts" and "length buf + length (named parts) \<le> maxParams"
  shows "matchLoop parts path buf =
     ret (if list_all2 partAccepts parts (pathSegs path)
          then Some (buf @ captures parts (pathSegs path)) else None)"
  using assms
proof (induction parts arbitrary: path buf)
  case Nil
  show ?case
  proof (cases "path = []")
    case False
    then have "pathSegs path \<noteq> []" by (simp add: pathSegs_step)
    with False show ?thesis by simp
  qed simp
next
  case (Cons part parts)
  show ?case
  proof (cases "path = []")
    case True
    with Cons.prems show ?thesis by simp
  next
    case False
    obtain seg rest where sr: "nextSegment path = (seg, rest)" by fastforce
    with False have ps: "pathSegs path = seg # pathSegs rest" by (simp add: pathSegs_step)
    show ?thesis
      using Cons.prems False sr ps
      by (cases "pname part = []") (auto simp: Cons.IH pushParam_def partAccepts_def)
  qed
qed

text \<open>
  On patterns without a catch-all and with at most sixteen parameters the byte-level matcher
  computes the segment reference, and never panics.
\<close>

lemma match_path_exact_lemma:
  assumes "list_all (\<lambda>p. \<not> catchAll p) parts" and "length (named parts) \<le> maxParams"
  shows "match_path parts path =
     (let segs = pathSegs (stripLead path)
      in ret (if list_all2 partAccepts parts segs then Some (captures parts segs) else None))"
  using matchLoop_exact [of parts "[]"] assms by (simp add: match_path_def Let_def)

section \<open>Catch-all patterns\<close>

definition segPrefix :: "string list \<Rightarrow> string" where
  "segPrefix segs = concat (map (\<lambda>s. s @ ''/'') segs)"

lemma nextSegment_slash: "CHR ''/'' \<notin> set s \<Longrightarrow> nextSegment (s @ CHR ''/'' # t) = (s, t)"
  by (simp add: nextSegment_def indexByte_append)

lemma segPrefix_Cons [simp]: "segPrefix (s # ss) = s @ CHR ''/'' # segPrefix ss"
  by (simp add: segPrefix_def)

lemma matchLoop_catchall:
  assumes "list_all2 partAccepts ps segs"
    and "list_all (\<lambda>p. \<not> catchAll p) ps" and "list_all (\<lambda>s. CHR ''/'' \<notin> set s) segs"
    and "length buf + length (named ps) \<le> maxParams"
  shows "matchLoop (ps @ tailparts) (segPrefix segs @ rest) buf =
           matchLoop tailparts rest (buf @ captures ps segs)"
  using assms
proof (induction ps segs arbitrary: buf rule: list_all2_induct)
  case Nil
  then show ?case by (simp add: segPrefix_def)
next
  case (Cons p ps s segs)
  then show ?case
    by (cases "pname p = []") (auto simp: nextSegment_slash pushParam_def partAccepts_def)
qed

section \<open>Trailing slashes\<close>

lemma nextSegment_snoc:
  assumes "path \<noteq> []" and "last path \<noteq> CHR ''/''"
  shows "nextSegment (path @ ''/'') =
     (fst (nextSegment path),
      if snd (nextSegment path) = [] then [] else snd (nextSegment path) @ ''/'')"
    and "snd (nextSegment path) \<noteq> [] \<Longrightarrow> last (snd (nextSegment path)) \<noteq> CHR ''/''"
proof -
  have "nextSegment (path @ ''/'') =
     (fst (nextSegment path),
      if snd (nextSegment path) = [] then [] else snd (nextSegment path) @ ''/'') \<and>
     (snd (nextSegment path) \<noteq> [] \<longrightarrow> last (snd (nextSegment path)) \<noteq> CHR ''/'')"
  proof (cases "indexByte path CHR ''/''")
    case None
    then have "CHR ''/'' \<notin> set path" by (simp add: indexByte_None_iff)
    with None nextSegment_slash [of path "[]"] show ?thesis
      by (simp add: nextSegment_def)
  next
    case (Some i)
    then have d: "path = take i path @ CHR ''/'' # drop (Suc i) path"
      and n: "CHR ''/'' \<notin> set (take i path)"
      by (auto dest: indexByte_SomeD)
    let ?s = "take i path" and ?t = "drop (Suc i) path"
    have p: "nextSegment path = (?s, ?t)" using Some by (simp add: nextSegment_def)
    have t: "?t \<noteq> []" using d assms(2) by (metis last_snoc)
    have "nextSegment (path @ ''/'') = (?s, ?t @ ''/'')"
      by (subst d) (simp add: nextSegment_slash [OF n, of "?t @ ''/''", simplified])
    moreover have "last ?t \<noteq> CHR ''/''" using d t assms(2) by (metis last_ConsR last_appendR list.discI)
    ultimately show ?thesis using p t by simp
  qed
  then show "nextSegment (path @ ''/'') =
     (fst (nextSegment path),
      if snd (nextSegment path) = [] then [] else snd (nextSegment path) @ ''/'')"
    and "snd (nextSegment path) \<noteq> [] \<Longrightarrow> last (snd (nextSegment path)) \<noteq> CHR ''/''"
    by blast+
qed

lemma go_bind_pushParam:
  "go_bind (pushParam buf n v) f =
     (if length buf < maxParams then f (buf @ [(n, v)]) else Inl IndexOutOfRange)"
  by (simp add: pushParam_def)

lemma matchLoop_snoc_slash:
  assumes "matchLoop parts path buf = ret (Some r)" and "path \<noteq> []" and "last path \<noteq> CHR ''/''"
  shows "\<exists>r'. matchLoop parts (path @ ''/'') buf = ret (Some r')"
  using assms
proof (induction parts arbitrary: path buf)
  case Nil
  then show ?case by simp
next
  case (Cons part parts)
  let ?seg = "fst (nextSegment path)" and ?rest = "snd (nextSegment path)"
  have rec: "\<exists>r'. matchLoop parts (if ?rest = [] then [] else ?rest @ ''/'') b = ret (Some r')"
    if "matchLoop parts ?rest b = ret (Some r)" for b
    using Cons.IH [OF that] that nextSegment_snoc(2) [OF Cons.prems(2,3)] by auto
  note step = nextSegment_snoc(1) [OF Cons.prems(2,3)]
  show ?case
    using Cons.prems(1,2) rec
    by (auto simp: step go_bind_pushParam case_prod_beta Let_def split: if_splits)
qed

section \<open>Properties\<close>

text \<open>
  C33. The byte-level matcher is the segment matcher: for a pattern without a catch-all and with at
  most sixteen parameters, \<^verbatim>\<open>directPattern.match\<close> never panics, accepts a path exactly when its
  segments agree one by one with the pattern's parts, and then captures the percent-decoded
  segments under the parameter names, in order.
\<close>

theorem match_path_exact:
  assumes "list_all (\<lambda>p. \<not> catchAll p) parts" and "length (named parts) \<le> maxParams"
  shows "match_path parts path =
     (let segs = pathSegs (stripLead path)
      in ret (if list_all2 partAccepts parts segs then Some (captures parts segs) else None))"
  using assms by (rule match_path_exact_lemma)

theorem match_path_exact_witness:
  "match_path (compileDirectPattern ''/users/{id}'') ''/users/a%20b'' =
     ret (Some [(''id'', ''a b'')])"
  by (subst match_path_exact) code_simp+

text \<open>
  Round trip of a registered pattern: take a pattern made of non-empty segments, none of them a
  catch-all, and build a request path by writing a value without \<open>/\<close> and \<open>%\<close> for each
  wildcard. Matching that path with the compiled pattern succeeds and returns exactly the values,
  under the wildcards' names.
\<close>

definition fillPattern :: "string list \<Rightarrow> string list \<Rightarrow> string list" where
  "fillPattern psegs vals = map2 (\<lambda>p v. if isWildSegment p then v else p) psegs vals"

definition plainSegment :: "string \<Rightarrow> bool" where
  "plainSegment s \<longleftrightarrow> s \<noteq> [] \<and> CHR ''/'' \<notin> set s"

definition simpleWild :: "string \<Rightarrow> bool" where
  "simpleWild p \<longleftrightarrow> isWildSegment p \<and> butlast (tl p) \<noteq> [] \<and> \<not> hasSuffix (butlast (tl p)) ''...''"

lemma compileSegment_simple:
  "simpleWild p \<Longrightarrow> compileSegment p = \<lparr>literal = [], pname = butlast (tl p), catchAll = False\<rparr>"
  "\<not> isWildSegment p \<Longrightarrow> compileSegment p = \<lparr>literal = p, pname = [], catchAll = False\<rparr>"
  by (simp_all add: compileSegment_def simpleWild_def Let_def)

lemma joinWith_ends:
  assumes "ss \<noteq> []" and "list_all plainSegment ss"
  shows "joinWith CHR ''/'' ss \<noteq> [] \<and> hd (joinWith CHR ''/'' ss) \<noteq> CHR ''/''
     \<and> last (joinWith CHR ''/'' ss) \<noteq> CHR ''/''"
  using assms
proof (induction "CHR ''/''" ss rule: joinWith.induct)
  case (2 s)
  then show ?case by (auto simp: plainSegment_def) (metis list.set_sel(1), metis last_in_set)
next
  case (3 s t ss)
  then have s: "s \<noteq> []" "CHR ''/'' \<notin> set s" by (auto simp: plainSegment_def)
  with 3 show ?case by (auto simp: hd_append) (metis list.set_sel(1))
qed simp

lemma trimByte_id:
  assumes "s \<noteq> []" and "hd s \<noteq> c" and "last s \<noteq> c"
  shows "trimByte c s = s" and "trimByte c (c # s) = s"
proof -
  have a: "dropWhile ((=) c) s = s" using assms by (cases s) auto
  obtain t x where s: "s = t @ [x]" using assms(1) by (cases s rule: rev_exhaust) auto
  then have b: "dropWhile ((=) c) (rev s) = rev s" using assms(3) by auto
  show "trimByte c s = s" and "trimByte c (c # s) = s"
    by (simp_all add: trimByte_def a b)
qed

lemma splitOn_plain:
  "ss \<noteq> [] \<Longrightarrow> list_all plainSegment ss \<Longrightarrow> splitOn CHR ''/'' (joinWith CHR ''/'' ss) = ss"
  by (rule splitOn_joinWith) (auto simp: list_all_iff plainSegment_def)

lemma compile_joined:
  assumes "psegs \<noteq> []" and "list_all plainSegment psegs"
  shows "compileDirectPattern (CHR ''/'' # joinWith CHR ''/'' psegs) = map compileSegment psegs"
  using joinWith_ends [OF assms] splitOn_plain [OF assms]
  by (simp add: compileDirectPattern_def trimByte_id Let_def)

lemma pathSegs_joined:
  assumes "ss \<noteq> []" and "list_all plainSegment ss"
  shows "pathSegs (joinWith CHR ''/'' ss) = ss"
  using assms splitOn_plain [OF assms]
  by (auto simp: pathSegs_def Let_def list_all_iff plainSegment_def dest: last_in_set)

lemma fill_plain:
  assumes "length vals = length psegs" and "list_all plainSegment psegs" and "list_all plainSegment vals"
  shows "list_all plainSegment (fillPattern psegs vals)"
  using assms unfolding fillPattern_def
  by (induction vals psegs rule: list_induct2) auto

lemma fill_accepts:
  assumes "length vals = length psegs" and "list_all (\<lambda>p. isWildSegment p \<longrightarrow> simpleWild p) psegs"
  shows "list_all2 partAccepts (map compileSegment psegs) (fillPattern psegs vals)"
  using assms unfolding fillPattern_def
proof (induction vals psegs rule: list_induct2)
  case (Cons v vs p ps)
  then show ?case
    by (cases "isWildSegment p")
      (auto simp: partAccepts_def compileSegment_simple simpleWild_def)
qed simp

lemma fill_captures:
  assumes "length vals = length psegs" and "list_all (\<lambda>p. isWildSegment p \<longrightarrow> simpleWild p) psegs"
    and "list_all (\<lambda>v. CHR ''%'' \<notin> set v) vals"
  shows "captures (map compileSegment psegs) (fillPattern psegs vals) =
     map (\<lambda>(p, v). (butlast (tl p), v)) (filter (\<lambda>(p, v). isWildSegment p) (zip psegs vals))"
  using assms unfolding fillPattern_def
proof (induction vals psegs rule: list_induct2)
  case (Cons v vs p ps)
  then show ?case
    by (cases "isWildSegment p")
      (auto simp: compileSegment_simple simpleWild_def decodePathValue_plain)
qed simp

lemma compile_named_length:
  "list_all (\<lambda>p. isWildSegment p \<longrightarrow> simpleWild p) psegs \<Longrightarrow>
     length (named (map compileSegment psegs)) = length (filter isWildSegment psegs)
     \<and> list_all (\<lambda>p. \<not> catchAll p) (map compileSegment psegs)"
proof (induction psegs)
  case (Cons p ps)
  then show ?case
    by (cases "isWildSegment p") (auto simp: compileSegment_simple simpleWild_def)
qed simp

theorem compiled_pattern_round_trip:
  assumes "psegs \<noteq> []" and "list_all plainSegment psegs"
    and "list_all (\<lambda>p. isWildSegment p \<longrightarrow> simpleWild p) psegs"
    and "length (filter isWildSegment psegs) \<le> maxParams"
    and "length vals = length psegs" and "list_all plainSegment vals"
    and "list_all (\<lambda>v. CHR ''%'' \<notin> set v) vals"
  shows "match_path (compileDirectPattern (CHR ''/'' # joinWith CHR ''/'' psegs))
           (CHR ''/'' # joinWith CHR ''/'' (fillPattern psegs vals)) =
         ret (Some (map (\<lambda>(p, v). (butlast (tl p), v))
                     (filter (\<lambda>(p, v). isWildSegment p) (zip psegs vals))))"
proof -
  let ?f = "fillPattern psegs vals"
  have ne: "?f \<noteq> []" using assms(1,5) by (cases psegs; cases vals) (auto simp: fillPattern_def)
  have segs: "pathSegs (stripLead (CHR ''/'' # joinWith CHR ''/'' ?f)) = ?f"
    using pathSegs_joined [OF ne fill_plain] assms by (simp add: stripLead_def)
  show ?thesis
    using match_path_exact_lemma [of "map compileSegment psegs"] compile_named_length [OF assms(3)]
      fill_accepts fill_captures segs assms
    by (simp add: compile_joined Let_def)
qed

theorem compiled_pattern_round_trip_witness:
  "match_path (compileDirectPattern ''/users/{id}/posts/{post}'') ''/users/42/posts/7'' =
     ret (Some [(''id'', ''42''), (''post'', ''7'')])"
proof -
  let ?p = "[''users'', ''{id}'', ''posts'', ''{post}'']" and ?v = "[''x'', ''42'', ''x'', ''7'']"
  have "match_path (compileDirectPattern (CHR ''/'' # joinWith CHR ''/'' ?p))
           (CHR ''/'' # joinWith CHR ''/'' (fillPattern ?p ?v)) =
         ret (Some (map (\<lambda>(p, v). (butlast (tl p), v)) (filter (\<lambda>(p, v). isWildSegment p) (zip ?p ?v))))"
    by (rule compiled_pattern_round_trip) code_simp+
  then show ?thesis
    by (simp add: fillPattern_def isWildSegment_def)
qed

text \<open>
  A catch-all captures the rest of the path: behind any accepted prefix of segments, the
  parameter of a \<open>{name...}\<close> part receives the whole remaining path, slashes included,
  percent-decoded, after the parameters of the prefix.
\<close>

theorem match_path_catchall:
  assumes "list_all2 partAccepts ps segs" and "list_all (\<lambda>p. \<not> catchAll p) ps"
    and "list_all (\<lambda>s. CHR ''/'' \<notin> set s) segs"
    and "length (named ps) < maxParams" and "catchAll c" and "pname c \<noteq> []"
  shows "match_path (ps @ [c]) (CHR ''/'' # segPrefix segs @ rest) =
           ret (Some (captures ps segs @ [(pname c, decodePathValue rest)]))"
proof -
  have "length (captures ps segs) = length (named ps)"
    using assms(1) by (induction rule: list_all2_induct) auto
  then show ?thesis
    using matchLoop_catchall [OF assms(1-3), of "[]" "[c]" rest] assms(4-6)
    by (simp add: match_path_def stripLead_def go_bind_pushParam)
qed

theorem match_path_catchall_witness:
  "match_path (compileDirectPattern ''/files/{path...}'') ''/files/a/b.txt'' =
     ret (Some [(''path'', ''a/b.txt'')])"
proof -
  let ?l = "\<lparr>literal = ''files'', pname = [], catchAll = False\<rparr>"
  let ?c = "\<lparr>literal = [], pname = ''path'', catchAll = True\<rparr>"
  have "match_path ([?l] @ [?c]) (CHR ''/'' # segPrefix [''files''] @ ''a/b.txt'') =
          ret (Some (captures [?l] [''files''] @ [(pname ?c, decodePathValue ''a/b.txt'')]))"
    by (rule match_path_catchall) (simp_all add: partAccepts_def maxParams_def)
  moreover have "compileDirectPattern ''/files/{path...}'' = [?l, ?c]" by code_simp
  ultimately show ?thesis by (simp add: segPrefix_def decodePathValue_def)
qed

text \<open>
  With trailing-slash redirects enabled, a dynamic route redirects for ever: if a registered
  dynamic pattern matches a path that has no trailing slash (and no earlier pattern panics), the
  request for the path is redirected to the path with a slash, and the request for that one is
  redirected back.
\<close>

lemma anyMatch_hit:
  assumes "\<forall>p \<in> set ps. \<exists>r. match_path p path = ret r" and "p \<in> set ps" and "match_path p path = ret (Some r)"
  shows "anyMatch ps path = ret True"
  using assms by (induction ps) (auto simp: go_bind_ret_iff)

lemma match_path_snoc_slash:
  assumes "match_path p path = ret (Some r)" and "1 < length path" and "last path \<noteq> CHR ''/''"
  shows "\<exists>r'. match_path p (path @ ''/'') = ret (Some r')"
proof -
  obtain a b cs where "path = a # b # cs" using assms(2) by (cases path rule: list.exhaust; cases "tl path") auto
  then have "stripLead path \<noteq> []" "last (stripLead path) \<noteq> CHR ''/''"
    "stripLead (path @ ''/'') = stripLead path @ ''/''"
    using assms(3) by (auto simp: stripLead_def)
  then show ?thesis using matchLoop_snoc_slash [of p "stripLead path" "[]" r] assms(1)
    by (simp add: match_path_def)
qed

theorem trailing_slash_redirect_loop:
  assumes "p \<in> set dyn" and "match_path p path = ret (Some r)"
    and "1 < length path" and "last path \<noteq> CHR ''/''"
    and "\<forall>q \<in> set dyn. (\<exists>r. match_path q path = ret r) \<and> (\<exists>r. match_path q (path @ ''/'') = ret r)"
  shows "trailingSlashRedirect True exact dyn path [] = ret (Some (path @ ''/''))
    \<and> trailingSlashRedirect True exact dyn (path @ ''/'') [] = ret (Some path)"
proof -
  obtain r' where r': "match_path p (path @ ''/'') = ret (Some r')"
    using match_path_snoc_slash [OF assms(2-4)] by blast
  have "anyMatch dyn (path @ ''/'') = ret True" "anyMatch dyn path = ret True"
    using anyMatch_hit assms(1,2,5) r' by blast+
  moreover have "togglesSlash path = path @ ''/''" "togglesSlash (path @ ''/'') = path"
    using assms(4) by (simp_all add: togglesSlash_def go_strings)
  ultimately show ?thesis
    using assms(3)
    by (cases path)
      (auto simp: trailingSlashRedirect_def shouldRedirectTrailingSlash_def redirectTarget_def Let_def)
qed

theorem trailing_slash_redirect_loop_witness:
  "trailingSlashRedirect True {} [compileDirectPattern ''/users/{id}''] ''/users/42'' [] =
      ret (Some ''/users/42/'')
   \<and> trailingSlashRedirect True {} [compileDirectPattern ''/users/{id}''] ''/users/42/'' [] =
      ret (Some ''/users/42'')"
proof -
  have m: "match_path (compileDirectPattern ''/users/{id}'') ''/users/42'' = ret (Some [(''id'', ''42'')])"
    "match_path (compileDirectPattern ''/users/{id}'') ''/users/42/'' = ret (Some [(''id'', ''42'')])"
    by code_simp+
  show ?thesis
    using trailing_slash_redirect_loop
      [of "compileDirectPattern ''/users/{id}''" "[compileDirectPattern ''/users/{id}'']" "''/users/42''"
        "[(''id'', ''42'')]" "{}"] m
    by simp
qed

text \<open>
  A pattern with more than sixteen parameters makes the matcher panic on every path that
  reaches the seventeenth one.
\<close>

lemma matchLoop_overflow:
  assumes "list_all (\<lambda>p. \<not> catchAll p \<and> pname p \<noteq> []) parts"
    and "length buf \<le> maxParams" and "maxParams < length buf + length parts"
    and "maxParams < length buf + length (pathSegs path)"
  shows "matchLoop parts path buf = Inl IndexOutOfRange"
  using assms
proof (induction parts arbitrary: path buf)
  case (Cons part parts)
  then have "path \<noteq> []" by (cases path) auto
  moreover obtain seg rest where sr: "nextSegment path = (seg, rest)" by fastforce
  ultimately have "pathSegs path = seg # pathSegs rest" by (simp add: pathSegs_step)
  with Cons \<open>path \<noteq> []\<close> sr show ?case by (simp add: go_bind_pushParam)
qed simp

theorem too_many_params_panic:
  assumes "list_all (\<lambda>p. \<not> catchAll p \<and> pname p \<noteq> []) parts" and "16 < length parts"
    and "16 < length (pathSegs (stripLead path))"
  shows "match_path parts path = Inl IndexOutOfRange"
  using matchLoop_overflow [OF assms(1), of "[]" "stripLead path"] assms(2,3)
  by (simp add: match_path_def maxParams_def)

theorem too_many_params_panic_witness:
  "match_path (replicate 17 \<lparr>literal = [], pname = ''p'', catchAll = False\<rparr>)
     (concat (replicate 17 ''/x'')) = Inl IndexOutOfRange"
  by (rule too_many_params_panic) (simp add: list_all_iff, simp, code_simp)

text \<open>
  Stripping the method of a mux pattern undoes its construction: for a method that starts with
  an upper-case letter and has no space, \<^verbatim>\<open>stripMethodPattern(method + " " + pattern)\<close> is the
  pattern.
\<close>

theorem stripMethodPattern_round_trip:
  assumes "meth \<noteq> []" and "(65::nat) \<le> of_char (hd meth)" and "of_char (hd meth) \<le> (90::nat)"
    and "CHR '' '' \<notin> set meth" and "pattern \<noteq> []"
  shows "stripMethodPattern (meth @ '' '' @ pattern) = pattern"
  using assms by (simp add: stripMethodPattern_def indexByte_append [of "CHR '' ''" meth pattern, simplified])

theorem stripMethodPattern_round_trip_witness:
  "stripMethodPattern (''GET'' @ '' '' @ ''/users/{id}'') = ''/users/{id}''"
  by (rule stripMethodPattern_round_trip) simp_all

text \<open>
  The end-of-path wildcard of \<^verbatim>\<open>ServeMux\<close> is compiled as an ordinary parameter: the compiled form
  of \<open>/users/{$}\<close> accepts every one-segment path below \<open>/users/\<close>, where \<^verbatim>\<open>ServeMux\<close> accepts
  \<open>/users/\<close> alone.
\<close>

theorem dollar_wildcard_is_a_parameter:
  assumes "seg \<noteq> []" and "CHR ''/'' \<notin> set seg"
  shows "match_path (compileDirectPattern ''/users/{$}'') (''/users/'' @ seg) =
           ret (Some [(''$'', decodePathValue seg)])
    \<and> match_path (compileDirectPattern ''/users/{$}'') ''/users/'' = ret None"
proof -
  let ?u = "\<lparr>literal = ''users'', pname = [], catchAll = False\<rparr>"
  let ?d = "\<lparr>literal = [], pname = ''$'', catchAll = False\<rparr>"
  have c: "compileDirectPattern ''/users/{$}'' = [?u, ?d]" by code_simp
  have "pathSegs (''users/'' @ seg) = [''users'', seg]"
    using assms splitOn_append_sep [of "CHR ''/''" "''users''" seg] splitOn_id [of "CHR ''/''" seg]
    by (simp add: pathSegs_def)
  moreover have "pathSegs ''users/'' = [''users'']" by code_simp
  ultimately show ?thesis unfolding c
    using match_path_exact_lemma [of "[?u, ?d]"]
    by (simp add: stripLead_def partAccepts_def maxParams_def)
qed

theorem dollar_wildcard_is_a_parameter_witness:
  "match_path (compileDirectPattern ''/users/{$}'') ''/users/42'' = ret (Some [(''$'', ''42'')])"
  using dollar_wildcard_is_a_parameter [of "''42''"] by (simp add: decodePathValue_def)

end
