(* ===== verification/Hooks.thy ===== *)
theory Hooks
  imports Prelude "HOL-Library.Multiset"
begin

text \<open>
  The lifecycle hooks of \<^verbatim>\<open>hooks.go\<close>: a registry with one list of entries per phase, stable
  sorting by priority when the app is finalised, and running a phase until its first error. A
  hook function takes the request state and returns it with an optional error.
\<close>

section \<open>Phases and the registry\<close>

datatype hookPhase =
  OnRequest | PreRouting | PreParsing | PreValidation | PreHandler
| OnResponse | OnSend | OnError | OnStartup | OnShutdown

fun phaseIndex :: "hookPhase \<Rightarrow> nat" where
  \<comment> \<open>the \<^verbatim>\<open>iota\<close> value of the constant\<close>
  "phaseIndex OnRequest = 0"
| "phaseIndex PreRouting = 1"
| "phaseIndex PreParsing = 2"
| "phaseIndex PreValidation = 3"
| "phaseIndex PreHandler = 4"
| "phaseIndex OnResponse = 5"
| "phaseIndex OnSend = 6"
| "phaseIndex OnError = 7"
| "phaseIndex OnStartup = 8"
| "phaseIndex OnShutdown = 9"

lemma phaseIndex_inj: "phaseIndex p = phaseIndex q \<longleftrightarrow> p = q"
  by (cases p; cases q) simp_all

instantiation hookPhase :: linorder
begin

definition less_eq_hookPhase :: "hookPhase \<Rightarrow> hookPhase \<Rightarrow> bool" where
  "p \<le> q \<longleftrightarrow> phaseIndex p \<le> phaseIndex q"

definition less_hookPhase :: "hookPhase \<Rightarrow> hookPhase \<Rightarrow> bool" where
  "p < q \<longleftrightarrow> phaseIndex p < phaseIndex q"

instance
  by standard (auto simp: less_eq_hookPhase_def less_hookPhase_def phaseIndex_inj)

end

definition allPhases :: "hookPhase list" where
  "allPhases = [OnRequest, PreRouting, PreParsing, PreValidation, PreHandler,
     OnResponse, OnSend, OnError, OnStartup, OnShutdown]"

lemma allPhases_sorted: "sorted_wrt (<) allPhases \<and> set allPhases = UNIV"
proof -
  have "p \<in> set allPhases" for p by (cases p) (simp_all add: allPhases_def)
  then show ?thesis by (auto simp: allPhases_def less_hookPhase_def)
qed

type_synonym ('c, 'e) hookFunc = "'c \<Rightarrow> 'c \<times> 'e option"

record ('c, 'e) hookEntry =
  priority :: int
  fn :: "('c, 'e) hookFunc"

type_synonym ('c, 'e) hookRegistry = "hookPhase \<Rightarrow> ('c, 'e) hookEntry list"

definition newHookRegistry :: "('c, 'e) hookRegistry" where
  "newHookRegistry = (\<lambda>_. [])"

definition addWithPriority ::
  "('c, 'e) hookRegistry \<Rightarrow> hookPhase \<Rightarrow> int \<Rightarrow> ('c, 'e) hookFunc \<Rightarrow> ('c, 'e) hookRegistry" where
  "addWithPriority hr phase prio f = hr(phase := hr phase @ [\<lparr>priority = prio, fn = f\<rparr>])"

definition addHook ::
  "('c, 'e) hookRegistry \<Rightarrow> hookPhase \<Rightarrow> ('c, 'e) hookFunc \<Rightarrow> ('c, 'e) hookRegistry" where
  "addHook hr phase f = addWithPriority hr phase 0 f"

definition sortPhase :: "('c, 'e) hookRegistry \<Rightarrow> hookPhase \<Rightarrow> ('c, 'e) hookRegistry" where
  \<comment> \<open>\<^verbatim>\<open>sort.SliceStable\<close> by priority is the stable \<^const>\<open>sort_key\<close>\<close>
  "sortPhase hr phase = hr(phase := sort_key priority (hr phase))"

definition finalize :: "('c, 'e) hookRegistry \<Rightarrow> ('c, 'e) hookRegistry" where
  "finalize hr = foldl sortPhase hr allPhases"

fun runEntries :: "('c, 'e) hookEntry list \<Rightarrow> ('c, 'e) hookFunc" where
  "runEntries [] c = (c, None)"
| "runEntries (e # es) c =
     (case fn e c of
        (c', Some err) \<Rightarrow> (c', Some err)
      | (c', None) \<Rightarrow> runEntries es c')"

definition run :: "('c, 'e) hookRegistry \<Rightarrow> hookPhase \<Rightarrow> ('c, 'e) hookFunc" where
  "run hr phase c = runEntries (hr phase) c"

section \<open>Facts\<close>

lemma foldl_sortPhase:
  "distinct ps \<Longrightarrow>
     foldl sortPhase hr ps p = (if p \<in> set ps then sort_key priority (hr p) else hr p)"
  by (induction ps arbitrary: hr) (auto simp: sortPhase_def)

lemma finalize_phase: "finalize hr p = sort_key priority (hr p)"
proof -
  have "distinct allPhases" by (simp add: allPhases_def)
  then show ?thesis using foldl_sortPhase [of allPhases hr p] allPhases_sorted
    by (simp add: finalize_def)
qed

lemma runEntries_append:
  "runEntries (xs @ ys) c =
     (case runEntries xs c of (c', Some e) \<Rightarrow> (c', Some e) | (c', None) \<Rightarrow> runEntries ys c')"
  by (induction xs arbitrary: c) (auto split: prod.splits option.splits)

lemma runEntries_error_split:
  "runEntries es c = (c', Some err) \<Longrightarrow>
     \<exists>pre e post cm. es = pre @ e # post \<and> runEntries pre c = (cm, None) \<and> fn e cm = (c', Some err)"
proof (induction es arbitrary: c)
  case (Cons e es)
  obtain c1 o1 where f: "fn e c = (c1, o1)" by fastforce
  show ?case
  proof (cases o1)
    case None
    with Cons.prems f have "runEntries es c1 = (c', Some err)" by simp
    from Cons.IH [OF this] obtain pre e' post cm where
      "es = pre @ e' # post" "runEntries pre c1 = (cm, None)" "fn e' cm = (c', Some err)" by blast
    with f None show ?thesis by (intro exI [of _ "e # pre"]) auto
  next
    case (Some x)
    with Cons.prems f have "e # es = [] @ e # es \<and> runEntries [] c = (c, None) \<and> fn e c = (c', Some err)"
      by simp
    then show ?thesis by blast
  qed
qed simp

section \<open>Properties\<close>

text \<open>
  Finalising the registry sorts each phase by priority and is stable: the entries of a phase
  are a permutation of the registered ones, in ascending priority, and entries of equal priority
  keep their registration order.
\<close>

theorem finalize_sorted_stable:
  "mset (finalize hr p) = mset (hr p)
   \<and> sorted (map priority (finalize hr p))
   \<and> filter (\<lambda>e. priority e = k) (finalize hr p) = filter (\<lambda>e. priority e = k) (hr p)
   \<and> finalize (finalize hr) = finalize hr"
proof (intro conjI)
  show "filter (\<lambda>e. priority e = k) (finalize hr p) = filter (\<lambda>e. priority e = k) (hr p)"
    using sort_key_stable [of priority k "hr p"] by (simp add: finalize_phase)
  show "finalize (finalize hr) = finalize hr"
    by (rule ext) (simp add: finalize_phase sort_key_id_if_sorted)
qed (simp_all add: finalize_phase)

text \<open>
  Running a phase is fail-fast: either every entry ran, in order, without an error, and the
  result is the state they leave, or there is a first failing entry, all entries before it ran
  without an error, none after it ran, and its error is the result.
\<close>

theorem run_fail_fast:
  "(\<exists>c'. run hr p c = (c', None) \<and>
      (\<forall>pre e post. hr p = pre @ e # post \<longrightarrow>
         (\<exists>cm cn. runEntries pre c = (cm, None) \<and> fn e cm = (cn, None) \<and> runEntries post cn = (c', None))))
   \<or> (\<exists>pre e post cm c' err. hr p = pre @ e # post \<and> runEntries pre c = (cm, None)
         \<and> fn e cm = (c', Some err) \<and> run hr p c = (c', Some err))"
proof (cases "run hr p c")
  case (Pair c' r)
  show ?thesis
  proof (cases r)
    case None
    have "\<exists>cm cn. runEntries pre c = (cm, None) \<and> fn e cm = (cn, None) \<and> runEntries post cn = (c', None)"
      if "hr p = pre @ e # post" for pre e post
      using Pair None unfolding run_def that
      by (auto simp: runEntries_append split: prod.splits option.splits)
    with Pair None show ?thesis by blast
  next
    case (Some err)
    with Pair runEntries_error_split [of "hr p" c c' err] show ?thesis
      unfolding run_def by blast
  qed
qed

theorem run_fail_fast_witness:
  "run (addHook (addHook newHookRegistry OnSend (\<lambda>c::nat. (c + 1, None))) OnSend (\<lambda>c. (c, Some ''stop'')))
     OnSend 1 = (2, Some ''stop'')"
  using run_fail_fast
    [of "addHook (addHook newHookRegistry OnSend (\<lambda>c::nat. (c + 1, None))) OnSend (\<lambda>c. (c, Some ''stop''))"
      OnSend 1]
  by (simp add: run_def addHook_def addWithPriority_def newHookRegistry_def)

end
