(* ===== verification/Errors.thy ===== *)
theory Errors
  imports Prelude
begin

text \<open>
  The errors of \<^verbatim>\<open>errors.go\<close> and the default error handler of \<^verbatim>\<open>server.go\<close>. An error is a value
  of one datatype: the framework's structured \<open>AppError\<close>, a \<open>BindError\<close>, a set of
  \<open>ValidationErrors\<close>, a sentinel, or any other error with its text. The unwrap chain follows
  Go's \<^verbatim>\<open>errors.As\<close>, and the response of the default handler is a function of the chain.
\<close>

section \<open>Values and errors\<close>

text \<open>A dynamically typed value (\<^verbatim>\<open>any\<close>), as far as the modelled code inspects one.\<close>

datatype any = AStr string | AInt int | ABool bool | AOther nat

record validationError =
  Field :: string
  Tag :: string
  Param :: string
  Value :: "any option"
  Message :: string

datatype err =
  AppError int string string string "err option" \<comment> \<open>status, code, message, detail, internal\<close>
| BindError err string
| ValidationErrors "validationError list"
| Sentinel string
| PlainError string

definition ErrResponseAlreadyWritten :: err where
  "ErrResponseAlreadyWritten = Sentinel ''aarv: response already written''"

definition ErrNilServer :: err where
  "ErrNilServer = Sentinel ''aarv: ListenServer requires non-nil *http.Server''"

definition ErrNilServeFunc :: err where
  "ErrNilServeFunc = Sentinel ''aarv: ListenServer requires non-nil serve func''"

fun Error :: "err \<Rightarrow> string" where
  "Error (AppError s c m d None) = m"
| "Error (AppError s c m d (Some e)) = m @ '': '' @ Error e"
| "Error (BindError e src) = ''bind error ('' @ src @ ''): '' @ Error e"
| "Error (ValidationErrors es) = ''validation failed: '' @ itoa (int (length es)) @ '' error(s)''"
| "Error (Sentinel m) = m"
| "Error (PlainError m) = m"

fun unwrap :: "err \<Rightarrow> err option" where
  "unwrap (AppError s c m d i) = i"
| "unwrap (BindError e src) = Some e"
| "unwrap _ = None"

section \<open>Constructors\<close>

definition NewError :: "int \<Rightarrow> string \<Rightarrow> string \<Rightarrow> err" where
  "NewError st cd msg = AppError st cd msg [] None"

fun WithDetail :: "err \<Rightarrow> string \<Rightarrow> err" where
  "WithDetail (AppError s c m d i) d' = AppError s c m d' i"
| "WithDetail e d' = e"

fun WithInternal :: "err \<Rightarrow> err option \<Rightarrow> err" where
  "WithInternal (AppError s c m d i) i' = AppError s c m d i'"
| "WithInternal e i' = e"

definition ErrBadRequest :: "string \<Rightarrow> err" where
  "ErrBadRequest msg = AppError 400 ''bad_request'' msg [] None"

definition ErrUnauthorized :: "string \<Rightarrow> err" where
  "ErrUnauthorized msg = AppError 401 ''unauthorized'' msg [] None"

definition ErrForbidden :: "string \<Rightarrow> err" where
  "ErrForbidden msg = AppError 403 ''forbidden'' msg [] None"

definition ErrNotFound :: "string \<Rightarrow> err" where
  "ErrNotFound msg = AppError 404 ''not_found'' msg [] None"

definition ErrMethodNotAllowed :: "string \<Rightarrow> err" where
  "ErrMethodNotAllowed msg = AppError 405 ''method_not_allowed'' msg [] None"

definition ErrConflict :: "string \<Rightarrow> err" where
  "ErrConflict msg = AppError 409 ''conflict'' msg [] None"

definition ErrPayloadTooLarge :: "string \<Rightarrow> err" where
  "ErrPayloadTooLarge msg = AppError 413 ''payload_too_large'' msg [] None"

definition ErrUnprocessable :: "string \<Rightarrow> err" where
  "ErrUnprocessable msg = AppError 422 ''validation_failed'' msg [] None"

definition ErrTooManyRequests :: "string \<Rightarrow> err" where
  "ErrTooManyRequests msg = AppError 429 ''too_many_requests'' msg [] None"

definition ErrInternal :: "err option \<Rightarrow> err" where
  "ErrInternal e = AppError 500 ''internal_error'' ''Internal server error'' [] e"

definition ErrBadGateway :: "string \<Rightarrow> err" where
  "ErrBadGateway msg = AppError 502 ''bad_gateway'' msg [] None"

definition ErrServiceUnavailable :: "string \<Rightarrow> err" where
  "ErrServiceUnavailable msg = AppError 503 ''service_unavailable'' msg [] None"

definition ErrGatewayTimeout :: "string \<Rightarrow> err" where
  "ErrGatewayTimeout msg = AppError 504 ''gateway_timeout'' msg [] None"

section \<open>The unwrap chain and the default handler\<close>

function errChain :: "err \<Rightarrow> err list" where
  \<comment> \<open>the errors \<^verbatim>\<open>errors.As\<close> visits, in order\<close>
  "errChain e = e # (case unwrap e of None \<Rightarrow> [] | Some e' \<Rightarrow> errChain e')"
  by pat_completeness auto
termination
proof (relation "measure size", simp)
  fix e e' assume "unwrap e = Some e'"
  then show "(e', e) \<in> measure size" by (cases e) auto
qed

declare errChain.simps [simp del]

definition asValidation :: "err \<Rightarrow> validationError list option" where
  "asValidation e =
     (case filter (\<lambda>x. case x of ValidationErrors _ \<Rightarrow> True | _ \<Rightarrow> False) (errChain e) of
        ValidationErrors es # _ \<Rightarrow> Some es | _ \<Rightarrow> None)"

definition asBind :: "err \<Rightarrow> err option" where
  "asBind e =
     (case filter (\<lambda>x. case x of BindError _ _ \<Rightarrow> True | _ \<Rightarrow> False) (errChain e) of
        b # _ \<Rightarrow> Some b | [] \<Rightarrow> None)"

definition asApp :: "err \<Rightarrow> err option" where
  "asApp e =
     (case filter (\<lambda>x. case x of AppError _ _ _ _ _ \<Rightarrow> True | _ \<Rightarrow> False) (errChain e) of
        a # _ \<Rightarrow> Some a | [] \<Rightarrow> None)"

text \<open>The JSON body the handler passes to \<^verbatim>\<open>c.JSON\<close>, with the status it is sent under.\<close>

record errorResponse =
  rStatus :: int
  rError :: string
  rMessage :: string
  rDetail :: string
  rDetails :: "validationError list option"
  rRequestID :: string

definition defaultErrorHandler :: "err \<Rightarrow> string \<Rightarrow> errorResponse" where
  "defaultErrorHandler e requestID =
     (case asValidation e of
        Some es \<Rightarrow>
          \<lparr>rStatus = 422, rError = ''validation_failed'', rMessage = ''Request validation failed'',
           rDetail = [], rDetails = Some es, rRequestID = requestID\<rparr>
      | None \<Rightarrow>
          (case asBind e of
             Some b \<Rightarrow>
               \<lparr>rStatus = 400, rError = ''bad_request'', rMessage = Error b, rDetail = [],
                rDetails = None, rRequestID = requestID\<rparr>
           | None \<Rightarrow>
               (case asApp e of
                  Some (AppError s c m d i) \<Rightarrow>
                    \<lparr>rStatus = s, rError = c, rMessage = m, rDetail = d, rDetails = None,
                     rRequestID = requestID\<rparr>
                | _ \<Rightarrow>
                    \<lparr>rStatus = 500, rError = ''internal_error'',
                     rMessage = ''Internal server error'', rDetail = [], rDetails = None,
                     rRequestID = requestID\<rparr>)))"

lemmas err_as_defs = asValidation_def asBind_def asApp_def

lemma errChain_simps [simp]:
  "errChain (AppError s c m d None) = [AppError s c m d None]"
  "errChain (AppError s c m d (Some e)) = AppError s c m d (Some e) # errChain e"
  "errChain (BindError e src) = BindError e src # errChain e"
  "errChain (ValidationErrors es) = [ValidationErrors es]"
  "errChain (Sentinel t) = [Sentinel t]"
  "errChain (PlainError t) = [PlainError t]"
  by (subst errChain.simps, simp)+

lemma as_App_Some:
  "asValidation (AppError s c m d (Some e)) = asValidation e"
  "asBind (AppError s c m d (Some e)) = asBind e"
  "asApp (AppError s c m d i) = Some (AppError s c m d i)"
  by (simp_all add: err_as_defs) (cases i, simp_all)

section \<open>Properties\<close>

lemma asValidation_iff: "asValidation e = Some es \<longleftrightarrow> ValidationErrors es \<in> set (errChain e)"
proof (induction e rule: errChain.induct)
  case (1 e)
  show ?case
  proof (cases e)
    case (AppError s c m d i)
    with 1 show ?thesis by (cases i) (auto simp: asValidation_def)
  next
    case (BindError e' src)
    with 1 show ?thesis by (auto simp: asValidation_def)
  qed (auto simp: asValidation_def)
qed

lemma asValidation_None_iff: "asValidation e = None \<longleftrightarrow> (\<forall>es. ValidationErrors es \<notin> set (errChain e))"
  using asValidation_iff [of e] by (metis not_Some_eq)

lemma asBind_None_iff: "asBind e = None \<longleftrightarrow> (\<forall>x src. BindError x src \<notin> set (errChain e))"
proof -
  have "asBind e = None \<longleftrightarrow> filter (\<lambda>x. case x of BindError _ _ \<Rightarrow> True | _ \<Rightarrow> False) (errChain e) = []"
    by (auto simp: asBind_def split: list.splits)
  then show ?thesis by (auto simp: filter_empty_conv split: err.splits)
qed

lemma asApp_None_iff: "asApp e = None \<longleftrightarrow> (\<forall>s c m d i. AppError s c m d i \<notin> set (errChain e))"
proof -
  have "asApp e = None \<longleftrightarrow> filter (\<lambda>x. case x of AppError _ _ _ _ _ \<Rightarrow> True | _ \<Rightarrow> False) (errChain e) = []"
    by (auto simp: asApp_def split: list.splits)
  then show ?thesis by (auto simp: filter_empty_conv split: err.splits)
qed

text \<open>
  The default handler answers by the whole unwrap chain: validation failures anywhere in the
  chain, however deeply wrapped, give a 422 with exactly those failures as details; without them, a
  bind error anywhere gives a 400; a chain of neither whose head is an \<^verbatim>\<open>AppError\<close> gives that
  error's status; and a chain with none of the three gives the same 500 body for every error text.
\<close>

theorem default_handler_classifies:
  "(ValidationErrors es \<in> set (errChain e) \<longrightarrow>
      rStatus (defaultErrorHandler e rid) = 422 \<and> rDetails (defaultErrorHandler e rid) = Some es)
   \<and> ((\<forall>es. ValidationErrors es \<notin> set (errChain e)) \<and> BindError b src \<in> set (errChain e) \<longrightarrow>
      rStatus (defaultErrorHandler e rid) = 400)
   \<and> ((\<forall>es. ValidationErrors es \<notin> set (errChain e)) \<and> (\<forall>b src. BindError b src \<notin> set (errChain e))
        \<and> e = AppError s c m d i \<longrightarrow>
      defaultErrorHandler e rid =
        \<lparr>rStatus = s, rError = c, rMessage = m, rDetail = d, rDetails = None, rRequestID = rid\<rparr>)
   \<and> ((\<forall>x \<in> set (errChain e). \<exists>t. x = Sentinel t \<or> x = PlainError t) \<longrightarrow>
      defaultErrorHandler e rid =
        \<lparr>rStatus = 500, rError = ''internal_error'', rMessage = ''Internal server error'',
         rDetail = [], rDetails = None, rRequestID = rid\<rparr>)"
proof (intro conjI impI, goal_cases)
  case 1
  then show ?case by (simp_all flip: asValidation_iff add: defaultErrorHandler_def)
next
  case 2
  then show ?case by (simp_all flip: asValidation_iff add: defaultErrorHandler_def)
next
  case 3
  then have "asValidation e = None" "asBind e \<noteq> None"
    using asValidation_None_iff asBind_None_iff by blast+
  then show ?case by (auto simp: defaultErrorHandler_def)
next
  case 4
  then have "asValidation e = None" "asBind e = None"
    using asValidation_None_iff asBind_None_iff by metis+
  with 4 show ?case by (simp add: defaultErrorHandler_def as_App_Some)
next
  case 5
  then have "asValidation e = None" "asBind e = None" "asApp e = None"
    using asValidation_None_iff asBind_None_iff asApp_None_iff by blast+
  then show ?case by (simp add: defaultErrorHandler_def)
qed

theorem default_handler_classifies_witness:
  "rStatus (defaultErrorHandler (ErrInternal (Some (BindError (ValidationErrors []) ''body''))) ''r1'') = 422
   \<and> rStatus (defaultErrorHandler (BindError (PlainError ''eof'') ''body'') ''r1'') = 400
   \<and> rStatus (defaultErrorHandler (AppError 404 ''not_found'' ''no'' [] None) ''r1'') = 404
   \<and> rStatus (defaultErrorHandler (PlainError ''disk full'') ''r1'') = 500"
proof (intro conjI)
  show "rStatus (defaultErrorHandler (ErrInternal (Some (BindError (ValidationErrors []) ''body''))) ''r1'') = 422"
    using default_handler_classifies [of "[]" "ErrInternal (Some (BindError (ValidationErrors []) ''body''))" "''r1''"]
    by (simp add: ErrInternal_def)
  show "rStatus (defaultErrorHandler (BindError (PlainError ''eof'') ''body'') ''r1'') = 400"
    using default_handler_classifies
      [of _ "BindError (PlainError ''eof'') ''body''" "''r1''" "PlainError ''eof''" "''body''"] by simp
  show "rStatus (defaultErrorHandler (AppError 404 ''not_found'' ''no'' [] None) ''r1'') = 404"
    using default_handler_classifies
      [of _ "AppError 404 ''not_found'' ''no'' [] None" "''r1''" _ _ 404 "''not_found''" "''no''" "[]" None] by simp
  show "rStatus (defaultErrorHandler (PlainError ''disk full'') ''r1'') = 500"
    using default_handler_classifies [of _ "PlainError ''disk full''" "''r1''"] by simp
qed

text \<open>
  An internal cause stays internal as long as it is itself unstructured: attaching an internal
  error whose chain has no bind error and no validation failure does not change the response of
  an \<^verbatim>\<open>AppError\<close>.
\<close>

theorem internal_error_not_serialized:
  assumes "asValidation e = None" and "asBind e = None"
  shows "defaultErrorHandler (WithInternal (AppError s c m d None) (Some e)) rid =
           defaultErrorHandler (AppError s c m d None) rid"
  using assms by (simp add: defaultErrorHandler_def as_App_Some) (simp add: err_as_defs)

theorem internal_error_not_serialized_witness:
  "defaultErrorHandler (WithInternal (AppError 500 ''internal_error'' ''Internal server error'' [] None)
      (Some (PlainError ''password=secret''))) ''r1'' =
   defaultErrorHandler (AppError 500 ''internal_error'' ''Internal server error'' [] None) ''r1''"
  by (rule internal_error_not_serialized) (simp_all add: err_as_defs)

text \<open>
  An internal bind error is serialised: although an internal error is documented as not sent
  to clients, an \<^verbatim>\<open>AppError\<close> whose internal cause is a \<^verbatim>\<open>BindError\<close> is answered with status 400
  and the bind error's text, whatever status, code and message the \<^verbatim>\<open>AppError\<close> has.
\<close>

theorem internal_bind_error_serialized:
  assumes "asValidation e = None"
  shows "defaultErrorHandler (AppError s c m d (Some (BindError e src))) rid =
     \<lparr>rStatus = 400, rError = ''bad_request'', rMessage = ''bind error ('' @ src @ ''): '' @ Error e,
      rDetail = [], rDetails = None, rRequestID = rid\<rparr>"
  using assms by (simp add: defaultErrorHandler_def err_as_defs)

theorem internal_bind_error_serialized_witness:
  "rMessage (defaultErrorHandler (ErrInternal (Some (BindError (PlainError ''db row'') ''body''))) ''r'') =
     ''bind error (body): db row''"
  using internal_bind_error_serialized
    [of "PlainError ''db row''" 500 "''internal_error''" "''Internal server error''" "[]" "''body''" "''r''"]
  by (simp add: ErrInternal_def err_as_defs)

end
