(* ===== verification/Writers.thy ===== *)
theory Writers
  imports Errors "HOL-Library.AList"
begin

text \<open>
  Response writers. Go's \<^verbatim>\<open>http.ResponseWriter\<close> interface is a dictionary of operations on a
  writer state; the locale \<open>response_writer\<close> states what its implementations promise in terms
  of the status the client has been sent and the body bytes accepted so far. The writer of
  \<^verbatim>\<open>net/http\<close> satisfies it, and wrapping a writer in the \<^verbatim>\<open>StatusRecorder\<close> of \<^verbatim>\<open>recorder.go\<close>
  satisfies it again. The buffering writer of \<^verbatim>\<open>response.go\<close> is modelled with every operation
  and compared with writing directly.
\<close>

section \<open>Headers\<close>

text \<open>\<^verbatim>\<open>http.Header\<close>: canonical names with their values.\<close>

type_synonym header = "(string \<times> string list) list"

definition isTokenByte :: "char \<Rightarrow> bool" where
  "isTokenByte c \<longleftrightarrow> c \<in> set ''!#$%&'' \<or> c = CHR 39 \<or> c \<in> set ''*+-.^_`|~''
     \<or> c \<in> set ''0123456789abcdefghijklmnopqrstuvwxyzABCDEFGHIJKLMNOPQRSTUVWXYZ''"

definition upperByte :: "char \<Rightarrow> char" where
  "upperByte c = (if (97::nat) \<le> of_char c \<and> of_char c \<le> (122::nat) then char_of (of_char c - 32 :: nat) else c)"

definition lowerByte :: "char \<Rightarrow> char" where
  "lowerByte c = (if (65::nat) \<le> of_char c \<and> of_char c \<le> (90::nat) then char_of (of_char c + 32 :: nat) else c)"

fun canonBytes :: "bool \<Rightarrow> string \<Rightarrow> string" where
  "canonBytes up [] = []"
| "canonBytes up (c # cs) = (if up then upperByte c else lowerByte c) # canonBytes (c = CHR ''-'') cs"

definition canonicalHeaderKey :: "string \<Rightarrow> string" where
  "canonicalHeaderKey k = (if list_all isTokenByte k then canonBytes True k else k)"

definition hValues :: "header \<Rightarrow> string \<Rightarrow> string list" where
  "hValues h k = (case map_of h (canonicalHeaderKey k) of None \<Rightarrow> [] | Some vs \<Rightarrow> vs)"

definition hGet :: "header \<Rightarrow> string \<Rightarrow> string" where
  "hGet h k = (case hValues h k of [] \<Rightarrow> [] | v # _ \<Rightarrow> v)"

definition hSet :: "header \<Rightarrow> string \<Rightarrow> string \<Rightarrow> header" where
  "hSet h k v = AList.update (canonicalHeaderKey k) [v] h"

definition hAdd :: "header \<Rightarrow> string \<Rightarrow> string \<Rightarrow> header" where
  "hAdd h k v = AList.update (canonicalHeaderKey k) (hValues h k @ [v]) h"

definition hAddAll :: "header \<Rightarrow> header \<Rightarrow> header" where
  \<comment> \<open>the copying loops \<^verbatim>\<open>for k, vs := range src { for _, v := range vs { dst.Add(k, v) } }\<close>\<close>
  "hAddAll dst src = foldl (\<lambda>d (k, vs). foldl (\<lambda>d v. hAdd d k v) d vs) dst src"

section \<open>The writer interface\<close>

record 'w responseWriter =
  rwHeader :: "'w \<Rightarrow> header"
  rwPutHeader :: "'w \<Rightarrow> header \<Rightarrow> 'w"
  rwWriteHeader :: "'w \<Rightarrow> int \<Rightarrow> 'w"
  rwWrite :: "'w \<Rightarrow> string \<Rightarrow> 'w \<times> int \<times> err option"

text \<open>Informational codes do not end the header: \<^verbatim>\<open>net/http\<close> sends them and keeps waiting.\<close>

definition informational :: "int \<Rightarrow> bool" where
  "informational code \<longleftrightarrow> 100 \<le> code \<and> code \<le> 199 \<and> code \<noteq> 101"

definition bodyAllowedForStatus :: "int \<Rightarrow> bool" where
  "bodyAllowedForStatus st \<longleftrightarrow> \<not> (100 \<le> st \<and> st \<le> 199) \<and> st \<noteq> 204 \<and> st \<noteq> 304"

locale response_writer =
  fixes ops :: "'w responseWriter"
    and sent :: "'w \<Rightarrow> int option"
    and body :: "'w \<Rightarrow> string"
  assumes writeHeader_sent:
      "sent (rwWriteHeader ops w c) =
         (case sent w of Some s \<Rightarrow> Some s | None \<Rightarrow> if informational c then None else Some c)"
    and writeHeader_body: "body (rwWriteHeader ops w c) = body w"
    and write_sent: "rwWrite ops w b = (w', n, e) \<Longrightarrow>
         sent w' = Some (case sent w of Some s \<Rightarrow> s | None \<Rightarrow> 200)"
    and write_body: "rwWrite ops w b = (w', n, e) \<Longrightarrow>
         0 \<le> n \<and> n \<le> int (length b) \<and> body w' = body w @ take (nat n) b"
    and putHeader_frame: "sent (rwPutHeader ops w h) = sent w" "body (rwPutHeader ops w h) = body w"

section \<open>The writer of net/http\<close>

record netWriter =
  nHeader :: header
  nSent :: "(int \<times> header) option"
  nInfo :: "int list"
  nBody :: string

definition netFresh :: netWriter where
  "netFresh = \<lparr>nHeader = [], nSent = None, nInfo = [], nBody = []\<rparr>"

definition netWriteHeader :: "netWriter \<Rightarrow> int \<Rightarrow> netWriter" where
  "netWriteHeader w c =
     (if nSent w \<noteq> None then w
      else if informational c then w\<lparr>nInfo := nInfo w @ [c]\<rparr>
      else w\<lparr>nSent := Some (c, nHeader w)\<rparr>)"

definition ErrBodyNotAllowed :: err where
  "ErrBodyNotAllowed = Sentinel ''http: request method or response status code does not allow body''"

definition netWrite :: "netWriter \<Rightarrow> string \<Rightarrow> netWriter \<times> int \<times> err option" where
  "netWrite w b =
     (let w1 = netWriteHeader w 200
      in if b = [] then (w1, 0, None)
         else if bodyAllowedForStatus (fst (the (nSent w1)))
              then (w1\<lparr>nBody := nBody w1 @ b\<rparr>, int (length b), None)
              else (w1, 0, Some ErrBodyNotAllowed))"

definition netOps :: "netWriter responseWriter" where
  "netOps = \<lparr>rwHeader = nHeader, rwPutHeader = (\<lambda>w h. w\<lparr>nHeader := h\<rparr>),
     rwWriteHeader = netWriteHeader, rwWrite = netWrite\<rparr>"

definition netStatus :: "netWriter \<Rightarrow> int option" where
  "netStatus w = map_option fst (nSent w)"

lemma netWriteHeader_status:
  "netStatus (netWriteHeader w c) =
     (case netStatus w of Some s \<Rightarrow> Some s | None \<Rightarrow> if informational c then None else Some c)"
  by (auto simp: netStatus_def netWriteHeader_def split: option.splits)

lemma netWriteHeader_body [simp]: "nBody (netWriteHeader w c) = nBody w"
  by (simp add: netWriteHeader_def)

lemma not_informational_200 [simp]: "\<not> informational 200"
  by (simp add: informational_def)

lemma netWrite_spec:
  "netWrite w b = (w', n, e) \<Longrightarrow>
     netStatus w' = Some (case netStatus w of Some s \<Rightarrow> s | None \<Rightarrow> 200)
     \<and> 0 \<le> n \<and> n \<le> int (length b) \<and> nBody w' = nBody w @ take (nat n) b"
  by (auto simp: netWrite_def Let_def netWriteHeader_def netStatus_def
      split: if_splits option.splits)

interpretation net: response_writer netOps netStatus nBody
proof unfold_locales
  show "netStatus (rwWriteHeader netOps w c) =
         (case netStatus w of Some s \<Rightarrow> Some s | None \<Rightarrow> if informational c then None else Some c)" for w c
    by (simp add: netOps_def netWriteHeader_status)
  show "nBody (rwWriteHeader netOps w c) = nBody w" for w c
    by (simp add: netOps_def)
  show "netStatus w' = Some (case netStatus w of Some s \<Rightarrow> s | None \<Rightarrow> 200)"
    if "rwWrite netOps w b = (w', n, e)" for w b w' n e
    using that netWrite_spec by (simp add: netOps_def)
  show "0 \<le> n \<and> n \<le> int (length b) \<and> nBody w' = nBody w @ take (nat n) b"
    if "rwWrite netOps w b = (w', n, e)" for w b w' n e
    using that netWrite_spec by (simp add: netOps_def)
  show "netStatus (rwPutHeader netOps w h) = netStatus w" "nBody (rwPutHeader netOps w h) = nBody w" for w h
    by (simp_all add: netOps_def netStatus_def)
qed

section \<open>Programs over a writer\<close>

datatype wOp = OpWriteHeader int | OpWrite string | OpHeader "header \<Rightarrow> header"

fun wStep :: "'w responseWriter \<Rightarrow> 'w \<Rightarrow> wOp \<Rightarrow> 'w" where
  "wStep ops w (OpWriteHeader c) = rwWriteHeader ops w c"
| "wStep ops w (OpWrite b) = fst (rwWrite ops w b)"
| "wStep ops w (OpHeader f) = rwPutHeader ops w (f (rwHeader ops w))"

definition wRun :: "'w responseWriter \<Rightarrow> 'w \<Rightarrow> wOp list \<Rightarrow> 'w" where
  "wRun ops w prog = foldl (wStep ops) w prog"

lemma wRun_simps [simp]:
  "wRun ops w [] = w"
  "wRun ops w (p # ps) = wRun ops (wStep ops w p) ps"
  by (simp_all add: wRun_def)

fun finalOp :: "wOp \<Rightarrow> bool" where
  "finalOp (OpWriteHeader c) = (\<not> informational c)"
| "finalOp _ = True"

section \<open>StatusRecorder\<close>

record 'w statusRecorder =
  srInner :: 'w
  srStatus :: int
  srBytes :: int
  srWroteHeader :: bool

definition NewStatusRecorder :: "'w \<Rightarrow> 'w statusRecorder" where
  "NewStatusRecorder w = \<lparr>srInner = w, srStatus = 200, srBytes = 0, srWroteHeader = False\<rparr>"

definition sr_Reset :: "'w statusRecorder \<Rightarrow> 'w \<Rightarrow> 'w statusRecorder" where
  "sr_Reset r w = r\<lparr>srInner := w, srStatus := 200, srBytes := 0, srWroteHeader := False\<rparr>"

definition sr_WriteHeader :: "'w responseWriter \<Rightarrow> 'w statusRecorder \<Rightarrow> int \<Rightarrow> 'w statusRecorder" where
  "sr_WriteHeader ops r c =
     (let r1 = (if \<not> srWroteHeader r then r\<lparr>srStatus := c, srWroteHeader := True\<rparr> else r)
      in r1\<lparr>srInner := rwWriteHeader ops (srInner r1) c\<rparr>)"

definition sr_Write :: "'w responseWriter \<Rightarrow> 'w statusRecorder \<Rightarrow> string
    \<Rightarrow> 'w statusRecorder \<times> int \<times> err option" where
  "sr_Write ops r b =
     (let r1 = (if \<not> srWroteHeader r then r\<lparr>srWroteHeader := True\<rparr> else r);
          (w, n, e) = rwWrite ops (srInner r1) b
      in (r1\<lparr>srInner := w, srBytes := srBytes r1 + n\<rparr>, n, e))"

definition statusRecorderOps :: "'w responseWriter \<Rightarrow> 'w statusRecorder responseWriter" where
  "statusRecorderOps ops =
     \<lparr>rwHeader = (\<lambda>r. rwHeader ops (srInner r)),
      rwPutHeader = (\<lambda>r h. r\<lparr>srInner := rwPutHeader ops (srInner r) h\<rparr>),
      rwWriteHeader = sr_WriteHeader ops, rwWrite = sr_Write ops\<rparr>"

text \<open>
  What the recorder knows, over any writer that keeps the interface's promises: it has seen a
  header exactly when one was sent, its status is the one sent, and its count is the growth of
  the body since the recorder was bound.
\<close>

context response_writer
begin

definition sr_inv :: "nat \<Rightarrow> 'w statusRecorder \<Rightarrow> bool" where
  "sr_inv k r \<longleftrightarrow>
     (srWroteHeader r \<longleftrightarrow> sent (srInner r) \<noteq> None)
     \<and> srStatus r = (case sent (srInner r) of Some s \<Rightarrow> s | None \<Rightarrow> 200)
     \<and> int k + srBytes r = int (length (body (srInner r)))"

lemma sr_inv_new: "sent w = None \<Longrightarrow> sr_inv (length (body w)) (NewStatusRecorder w)"
  by (simp add: sr_inv_def NewStatusRecorder_def)

lemma sr_inv_step:
  assumes "sr_inv k r" and "finalOp p"
  shows "sr_inv k (wStep (statusRecorderOps ops) r p)"
proof (cases p)
  case (OpWriteHeader c)
  with assms show ?thesis
    by (cases "srWroteHeader r")
      (auto simp: sr_inv_def statusRecorderOps_def sr_WriteHeader_def writeHeader_sent writeHeader_body
        split: option.splits)
next
  case (OpWrite b)
  obtain w' n e where w: "rwWrite ops (srInner r) b = (w', n, e)" by (cases "rwWrite ops (srInner r) b") auto
  from assms(1) OpWrite w write_sent [OF w] write_body [OF w] show ?thesis
    by (cases "srWroteHeader r")
      (auto simp: sr_inv_def statusRecorderOps_def sr_Write_def min_def split: option.splits)
next
  case (OpHeader f)
  with assms show ?thesis
    by (simp add: sr_inv_def statusRecorderOps_def putHeader_frame)
qed

lemma sr_inv_run:
  "sr_inv k r \<Longrightarrow> list_all finalOp ps \<Longrightarrow> sr_inv k (wRun (statusRecorderOps ops) r ps)"
  by (induction ps arbitrary: r) (auto intro: sr_inv_step)

end

text \<open>A recorder over a response writer is a response writer: the wrapper hides nothing.\<close>

locale recorded_writer = response_writer

sublocale recorded_writer \<subseteq> rec: response_writer "statusRecorderOps ops" "\<lambda>r. sent (srInner r)" "\<lambda>r. body (srInner r)"
proof unfold_locales
  show "sent (srInner (rwWriteHeader (statusRecorderOps ops) w c)) =
         (case sent (srInner w) of Some s \<Rightarrow> Some s | None \<Rightarrow> if informational c then None else Some c)" for w c
    by (simp add: statusRecorderOps_def sr_WriteHeader_def Let_def writeHeader_sent)
  show "body (srInner (rwWriteHeader (statusRecorderOps ops) w c)) = body (srInner w)" for w c
    by (simp add: statusRecorderOps_def sr_WriteHeader_def Let_def writeHeader_body)
  show "sent (srInner w') = Some (case sent (srInner w) of Some s \<Rightarrow> s | None \<Rightarrow> 200)"
    if "rwWrite (statusRecorderOps ops) w b = (w', n, e)" for w b w' n e
    using that write_sent [of "srInner w" b]
    by (cases "srWroteHeader w") (auto simp: statusRecorderOps_def sr_Write_def Let_def split: prod.splits)
  show "0 \<le> n \<and> n \<le> int (length b) \<and> body (srInner w') = body (srInner w) @ take (nat n) b"
    if "rwWrite (statusRecorderOps ops) w b = (w', n, e)" for w b w' n e
    using that write_body [of "srInner w" b]
    by (cases "srWroteHeader w") (auto simp: statusRecorderOps_def sr_Write_def Let_def split: prod.splits)
  show "sent (srInner (rwPutHeader (statusRecorderOps ops) w h)) = sent (srInner w)"
    "body (srInner (rwPutHeader (statusRecorderOps ops) w h)) = body (srInner w)" for w h
    by (simp_all add: statusRecorderOps_def putHeader_frame)
qed

interpretation netrec: recorded_writer netOps netStatus nBody
  by unfold_locales

section \<open>The buffering writer\<close>

record 'w bufferedResponseWriter =
  bwInner :: 'w
  bwBuf :: string
  bwStatusCode :: int
  bwWritten :: bool
  bwBypassed :: bool

definition acquireBufferedWriter :: "'w \<Rightarrow> 'w bufferedResponseWriter" where
  "acquireBufferedWriter w =
     \<lparr>bwInner = w, bwBuf = [], bwStatusCode = 200, bwWritten = False, bwBypassed = False\<rparr>"

definition bw_WriteHeader :: "'w responseWriter \<Rightarrow> 'w bufferedResponseWriter \<Rightarrow> int
    \<Rightarrow> 'w bufferedResponseWriter" where
  "bw_WriteHeader ops bw c =
     (let bw1 = (if \<not> bwWritten bw then bw\<lparr>bwStatusCode := c, bwWritten := True\<rparr> else bw)
      in if bwBypassed bw1 then bw1\<lparr>bwInner := rwWriteHeader ops (bwInner bw1) c\<rparr> else bw1)"

definition bw_Write :: "'w responseWriter \<Rightarrow> 'w bufferedResponseWriter \<Rightarrow> string
    \<Rightarrow> 'w bufferedResponseWriter \<times> int \<times> err option" where
  "bw_Write ops bw b =
     (let bw1 = (if \<not> bwWritten bw then bw\<lparr>bwWritten := True\<rparr> else bw)
      in if bwBypassed bw1
         then (let (w, n, e) = rwWrite ops (bwInner bw1) b in (bw1\<lparr>bwInner := w\<rparr>, n, e))
         else (bw1\<lparr>bwBuf := bwBuf bw1 @ b\<rparr>, int (length b), None))"

definition bw_Bypass :: "'w responseWriter \<Rightarrow> 'w bufferedResponseWriter \<Rightarrow> 'w bufferedResponseWriter" where
  "bw_Bypass ops bw =
     (let bw1 = bw\<lparr>bwBypassed := True\<rparr>
      in if bwBuf bw1 \<noteq> []
         then bw1\<lparr>bwInner := fst (rwWrite ops (rwWriteHeader ops (bwInner bw1) (bwStatusCode bw1)) (bwBuf bw1)),
                  bwBuf := []\<rparr>
         else bw1)"

definition bw_SetBody :: "'w bufferedResponseWriter \<Rightarrow> string \<Rightarrow> 'w bufferedResponseWriter" where
  "bw_SetBody bw d = bw\<lparr>bwBuf := d\<rparr>"

definition bwSend :: "'w responseWriter \<Rightarrow> 'w bufferedResponseWriter \<Rightarrow> 'w" where
  \<comment> \<open>the common part of \<^verbatim>\<open>Flush\<close> and \<^verbatim>\<open>flush\<close>: length header, status, body\<close>
  "bwSend ops bw =
     (let b = bwBuf bw; w = bwInner bw;
          w1 = (if b \<noteq> [] then rwPutHeader ops w (hSet (rwHeader ops w) ''Content-Length'' (itoa (int (length b)))) else w);
          w2 = rwWriteHeader ops w1 (bwStatusCode bw)
      in if b \<noteq> [] then fst (rwWrite ops w2 b) else w2)"

definition bw_flush :: "'w responseWriter \<Rightarrow> 'w bufferedResponseWriter \<Rightarrow> 'w bufferedResponseWriter" where
  "bw_flush ops bw = (if bwBypassed bw then bw else bw\<lparr>bwInner := bwSend ops bw\<rparr>)"

definition bw_Flush :: "'w responseWriter \<Rightarrow> 'w bufferedResponseWriter \<Rightarrow> 'w bufferedResponseWriter" where
  \<comment> \<open>in bypass mode the call goes to the inner flusher, which adds no bytes\<close>
  "bw_Flush ops bw =
     (if bwBypassed bw then bw else bw\<lparr>bwInner := bwSend ops bw, bwBuf := [], bwBypassed := True\<rparr>)"

definition bufferedOps :: "'w responseWriter \<Rightarrow> 'w bufferedResponseWriter responseWriter" where
  "bufferedOps ops =
     \<lparr>rwHeader = (\<lambda>bw. rwHeader ops (bwInner bw)),
      rwPutHeader = (\<lambda>bw h. bw\<lparr>bwInner := rwPutHeader ops (bwInner bw) h\<rparr>),
      rwWriteHeader = bw_WriteHeader ops, rwWrite = bw_Write ops\<rparr>"

text \<open>
  The status and body a program of writes asks for: the first header wins, a body write before
  any header means 200.
\<close>

fun progStatus :: "wOp list \<Rightarrow> int option" where
  "progStatus [] = None"
| "progStatus (OpWriteHeader c # ps) = Some c"
| "progStatus (OpWrite b # ps) = Some 200"
| "progStatus (OpHeader f # ps) = progStatus ps"

fun progBody :: "wOp list \<Rightarrow> string" where
  "progBody [] = []"
| "progBody (OpWrite b # ps) = b @ progBody ps"
| "progBody (_ # ps) = progBody ps"

definition statusOr200 :: "int option \<Rightarrow> int" where
  "statusOr200 o1 = (case o1 of Some s \<Rightarrow> s | None \<Rightarrow> 200)"

lemma statusOr200_simps [simp]: "statusOr200 None = 200" "statusOr200 (Some s) = s"
  by (simp_all add: statusOr200_def)

lemma net_run_sent:
  "nSent w = Some (s, h) \<Longrightarrow>
     nSent (wRun netOps w ps) = Some (s, h)
     \<and> nBody (wRun netOps w ps) = nBody w @ (if bodyAllowedForStatus s then progBody ps else [])"
proof (induction ps arbitrary: w)
  case (Cons p ps)
  show ?case
  proof (cases p)
    case (OpWrite b)
    with Cons.prems show ?thesis
      by (auto simp: netOps_def netWrite_def netWriteHeader_def Let_def Cons.IH [unfolded netOps_def])
  qed (use Cons in \<open>auto simp: netOps_def netWriteHeader_def\<close>)
qed simp

lemma bodyAllowed_200 [simp]: "bodyAllowedForStatus 200"
  by (simp add: bodyAllowedForStatus_def)

lemma net_run_fresh:
  assumes "nSent w = None" and "nBody w = []" and "list_all finalOp ps"
  shows "netStatus (wRun netOps w ps) = progStatus ps
    \<and> nBody (wRun netOps w ps) = (if bodyAllowedForStatus (statusOr200 (progStatus ps)) then progBody ps else [])"
  using assms
proof (induction ps arbitrary: w)
  case (Cons p ps)
  show ?case
  proof (cases p)
    case (OpWriteHeader c)
    with Cons.prems net_run_sent [of "netWriteHeader w c" c "nHeader w" ps] show ?thesis
      by (simp add: netOps_def netWriteHeader_def netStatus_def)
  next
    case (OpWrite b)
    let ?w = "fst (netWrite w b)"
    have "nSent ?w = Some (200, nHeader w)" "nBody ?w = b"
      using Cons.prems by (auto simp: netWrite_def netWriteHeader_def Let_def)
    with OpWrite net_run_sent [of ?w 200 "nHeader w" ps] show ?thesis
      by (simp add: netOps_def netStatus_def)
  next
    case (OpHeader f)
    with Cons show ?thesis by (simp add: netOps_def)
  qed
qed (simp add: netStatus_def)

text \<open>While it is not bypassed, the buffer collects the program and the inner writer sees nothing.\<close>

lemma bw_run:
  assumes "\<not> bwBypassed bw" and "bwWritten bw \<or> bwStatusCode bw = 200"
  shows "\<not> bwBypassed (wRun (bufferedOps netOps) bw ps)
    \<and> bwBuf (wRun (bufferedOps netOps) bw ps) = bwBuf bw @ progBody ps
    \<and> bwStatusCode (wRun (bufferedOps netOps) bw ps) =
        (if bwWritten bw then bwStatusCode bw else statusOr200 (progStatus ps))
    \<and> nSent (bwInner (wRun (bufferedOps netOps) bw ps)) = nSent (bwInner bw)
    \<and> nBody (bwInner (wRun (bufferedOps netOps) bw ps)) = nBody (bwInner bw)"
  using assms
proof (induction ps arbitrary: bw)
  case (Cons p ps)
  show ?case
  proof (cases p)
    case (OpWriteHeader c)
    with Cons.prems show ?thesis
      by (auto simp: bufferedOps_def bw_WriteHeader_def Let_def Cons.IH [unfolded bufferedOps_def])
  next
    case (OpWrite b)
    with Cons.prems show ?thesis
      by (auto simp: bufferedOps_def bw_Write_def Let_def Cons.IH [unfolded bufferedOps_def])
  next
    case (OpHeader f)
    with Cons.prems show ?thesis
      by (auto simp: bufferedOps_def netOps_def Cons.IH [unfolded bufferedOps_def netOps_def, simplified])
  qed
qed auto

lemma bwSend_net:
  assumes "nSent (bwInner bw) = None" and "nBody (bwInner bw) = []" and "\<not> informational (bwStatusCode bw)"
  shows "nSent (bwSend netOps bw) =
      Some (bwStatusCode bw,
            if bwBuf bw = [] then nHeader (bwInner bw)
            else hSet (nHeader (bwInner bw)) ''Content-Length'' (itoa (int (length (bwBuf bw)))))
    \<and> nBody (bwSend netOps bw) = (if bodyAllowedForStatus (bwStatusCode bw) then bwBuf bw else [])"
  using assms
  by (auto simp: bwSend_def netOps_def netWriteHeader_def netWrite_def Let_def)

lemma hGet_hSet: "hGet (hSet h k v) k = v"
  by (simp add: hGet_def hSet_def hValues_def update_conv')

lemma progStatus_final: "list_all finalOp ps \<Longrightarrow> progStatus ps = Some c \<Longrightarrow> \<not> informational c"
  by (induction ps rule: progStatus.induct) auto

section \<open>Properties\<close>

text \<open>
  C34. The status recorder is transparent and truthful: for every sequence of header and body
  writes without informational codes, the wrapped writer ends in the state it would have reached
  without the recorder, \<^verbatim>\<open>Status()\<close> is the status the client is sent (200 when nothing was
  written), and \<^verbatim>\<open>BytesWritten()\<close> is the number of body bytes accepted. The same holds for a
  recorder around a recorder.
\<close>

lemma sr_inner_run: "srInner (wRun (statusRecorderOps ops) r ps) = wRun ops (srInner r) ps"
proof (induction ps arbitrary: r)
  case (Cons p ps)
  have "srInner (wStep (statusRecorderOps ops) r p) = wStep ops (srInner r) p"
    by (cases p) (auto simp: statusRecorderOps_def sr_WriteHeader_def sr_Write_def Let_def split: prod.splits)
  with Cons show ?case by simp
qed simp

theorem status_recorder_truthful:
  assumes "list_all finalOp ps"
  shows "let r = wRun (statusRecorderOps netOps) (NewStatusRecorder netFresh) ps;
             rr = wRun (statusRecorderOps (statusRecorderOps netOps)) (NewStatusRecorder (NewStatusRecorder netFresh)) ps;
             w = wRun netOps netFresh ps
         in srInner r = w \<and> srStatus r = statusOr200 (netStatus w) \<and> srBytes r = int (length (nBody w))
            \<and> srInner (srInner rr) = w \<and> srStatus rr = statusOr200 (netStatus w)
            \<and> srBytes rr = int (length (nBody w))"
proof -
  have f: "netStatus netFresh = None" "nBody netFresh = []"
    by (simp_all add: netFresh_def netStatus_def)
  have 1: "net.sr_inv 0 (wRun (statusRecorderOps netOps) (NewStatusRecorder netFresh) ps)"
    using net.sr_inv_run [OF net.sr_inv_new assms, of netFresh] f by simp
  have 2: "netrec.rec.sr_inv 0
     (wRun (statusRecorderOps (statusRecorderOps netOps)) (NewStatusRecorder (NewStatusRecorder netFresh)) ps)"
    using netrec.rec.sr_inv_run [OF netrec.rec.sr_inv_new assms, of "NewStatusRecorder netFresh"] f
    by (simp add: NewStatusRecorder_def)
  show ?thesis
    using 1 2 unfolding net.sr_inv_def netrec.rec.sr_inv_def
    by (simp add: Let_def sr_inner_run statusOr200_def NewStatusRecorder_def)
qed

theorem status_recorder_truthful_witness:
  "srStatus (wRun (statusRecorderOps netOps) (NewStatusRecorder netFresh) [OpWriteHeader 404, OpWrite ''no'']) = 404
   \<and> srBytes (wRun (statusRecorderOps netOps) (NewStatusRecorder netFresh) [OpWriteHeader 404, OpWrite ''no'']) = 2"
proof -
  have p: "list_all finalOp [OpWriteHeader 404, OpWrite ''no'']" by (simp add: informational_def)
  have d: "netStatus (wRun netOps netFresh [OpWriteHeader 404, OpWrite ''no'']) = Some 404"
    "nBody (wRun netOps netFresh [OpWriteHeader 404, OpWrite ''no'']) = ''no''"
    by code_simp+
  show ?thesis using status_recorder_truthful [OF p] unfolding Let_def d by simp
qed

text \<open>
  C35. Buffering for \<^verbatim>\<open>OnSend\<close> is transparent: for every sequence of header and body writes without
  informational codes, running it against the buffering writer leaves the client's writer untouched,
  and the final \<^verbatim>\<open>flush\<close> sends the status and the body that direct writing would have sent, with a
  \<open>Content-Length\<close> equal to the length of a non-empty buffered body.
\<close>

theorem buffered_writer_transparent:
  assumes "list_all finalOp ps"
  shows "let bw = wRun (bufferedOps netOps) (acquireBufferedWriter netFresh) ps;
             w' = bwInner (bw_flush netOps bw); w = wRun netOps netFresh ps
         in nSent (bwInner bw) = None \<and> nBody (bwInner bw) = []
            \<and> netStatus w' = Some (statusOr200 (netStatus w)) \<and> nBody w' = nBody w
            \<and> (progBody ps \<noteq> [] \<longrightarrow>
                 (\<exists>h. nSent w' = Some (statusOr200 (netStatus w), h)
                    \<and> hGet h ''Content-Length'' = itoa (int (length (progBody ps)))))"
proof -
  let ?bw = "wRun (bufferedOps netOps) (acquireBufferedWriter netFresh) ps"
  have r: "\<not> bwBypassed ?bw" "bwBuf ?bw = progBody ps" "bwStatusCode ?bw = statusOr200 (progStatus ps)"
    "nSent (bwInner ?bw) = None" "nBody (bwInner ?bw) = []"
    using bw_run [of "acquireBufferedWriter netFresh" ps] by (simp_all add: acquireBufferedWriter_def netFresh_def)
  have d: "netStatus (wRun netOps netFresh ps) = progStatus ps"
    "nBody (wRun netOps netFresh ps) = (if bodyAllowedForStatus (statusOr200 (progStatus ps)) then progBody ps else [])"
    using net_run_fresh [of netFresh ps] assms by (simp_all add: netFresh_def)
  have "\<not> informational (bwStatusCode ?bw)"
    using progStatus_final [OF assms] r(3) by (cases "progStatus ps") auto
  from bwSend_net [OF r(4,5) this] show ?thesis
    using r d by (simp add: bw_flush_def Let_def hGet_hSet netStatus_def)
qed

theorem buffered_writer_transparent_witness:
  "nBody (bwInner (bw_flush netOps (wRun (bufferedOps netOps) (acquireBufferedWriter netFresh)
      [OpWriteHeader 201, OpWrite ''a'', OpWrite ''b'']))) = ''ab''"
proof -
  have p: "list_all finalOp [OpWriteHeader 201, OpWrite ''a'', OpWrite ''b'']" by (simp add: informational_def)
  have d: "nBody (wRun netOps netFresh [OpWriteHeader 201, OpWrite ''a'', OpWrite ''b'']) = ''ab''" by code_simp
  show ?thesis using buffered_writer_transparent [OF p] unfolding Let_def d by simp
qed

text \<open>
  An informational status masks the final one: after \<^verbatim>\<open>WriteHeader(103)\<close> and
  \<^verbatim>\<open>WriteHeader(code)\<close> the client of a direct writer is sent \<open>code\<close>, but the status recorder
  reports 103, and the buffering writer never forwards \<open>code\<close>: the client is left with the
  implicit 200.
\<close>

theorem informational_masks_final_status:
  assumes "\<not> informational c"
  shows "netStatus (wRun netOps netFresh [OpWriteHeader 103, OpWriteHeader c]) = Some c
    \<and> srStatus (wRun (statusRecorderOps netOps) (NewStatusRecorder netFresh)
         [OpWriteHeader 103, OpWriteHeader c]) = 103
    \<and> netStatus (bwInner (bw_flush netOps (wRun (bufferedOps netOps) (acquireBufferedWriter netFresh)
         [OpWriteHeader 103, OpWriteHeader c]))) = None"
  using assms
  by (simp add: netOps_def netWriteHeader_def netFresh_def netStatus_def informational_def
      statusRecorderOps_def sr_WriteHeader_def NewStatusRecorder_def bufferedOps_def bw_WriteHeader_def
      acquireBufferedWriter_def bw_flush_def bwSend_def Let_def)

theorem informational_masks_final_status_witness:
  "netStatus (wRun netOps netFresh [OpWriteHeader 103, OpWriteHeader 404]) = Some 404
    \<and> netStatus (bwInner (bw_flush netOps (wRun (bufferedOps netOps) (acquireBufferedWriter netFresh)
         [OpWriteHeader 103, OpWriteHeader 404]))) = None"
  using informational_masks_final_status [of 404] by (simp add: informational_def)

text \<open>
  \<^verbatim>\<open>itoa\<close> renders faithfully: for every 64-bit integer but the least one, the digits denote its
  absolute value, the sign is written exactly for negative numbers, and the result fits the 20-byte
  buffer.
\<close>

lemma itoaLoop_not_Nil: "0 < n \<Longrightarrow> itoaLoop n acc \<noteq> []"
proof (induction n acc rule: itoaLoop.induct)
  case (1 n acc)
  show ?case
  proof (cases "n div 10 = 0")
    case True
    then have "itoaLoop (n div 10) xs = xs" for xs by (simp add: itoaLoop.simps [of 0])
    with 1 show ?thesis by (subst itoaLoop.simps) simp
  next
    case False
    with 1 show ?thesis by (subst itoaLoop.simps) simp
  qed
qed

theorem itoa_faithful:
  assumes "- (2 ^ 63) < i" and "i < 2 ^ 63"
  shows "length (itoa i) \<le> 20
    \<and> (let s = itoa i; ds = (if i < 0 then tl s else s)
       in (i < 0 \<longrightarrow> hd s = CHR ''-'') \<and> ds \<noteq> [] \<and> set ds \<subseteq> set ''0123456789'' \<and> int (decValue ds) = \<bar>i\<bar>)"
proof (cases "i = 0")
  case True
  then show ?thesis by (simp add: itoa_def decValue_def digitVal_def)
next
  case False
  let ?n = "nat \<bar>i\<bar>"
  have n: "0 < ?n" "?n < 10 ^ 19" using False assms by (auto simp: abs_if)
  have e: "itoa i = (if i < 0 then CHR ''-'' # itoaLoop ?n [] else itoaLoop ?n [])"
    using False assms by (auto simp: itoa_def Let_def abs_if)
  show ?thesis
    using e length_itoaLoop [OF n(2), of "[]"] itoaLoop_digits [of "[]" ?n] itoaLoop_not_Nil [OF n(1), of "[]"]
      decValue_itoaLoop [of ?n "[]"]
    by (auto simp: Let_def decValue_def)
qed

theorem itoa_faithful_witness: "int (decValue (itoa 12345)) = 12345"
  using itoa_faithful [of 12345] by (simp add: Let_def)

end
