(* ===== verification/GoStd.thy ===== *)
theory GoStd
  imports Prelude Patterns
begin

text \<open>
  The parts of Go's standard library that the request context and the plugins call and whose
  results matter to them: \<^verbatim>\<open>strconv\<close> parsing, \<^verbatim>\<open>strings.TrimSpace\<close>, query parsing of \<^verbatim>\<open>net/url\<close>,
  \<^verbatim>\<open>net.SplitHostPort\<close> and \<^verbatim>\<open>http.StatusText\<close>. They model the library, not the repository, and so
  have no counterpart under the source tree.
\<close>

section \<open>Numbers\<close>

definition isDigit :: "char \<Rightarrow> bool" where
  "isDigit c \<longleftrightarrow> c \<in> set ''0123456789''"

definition parseInt64 :: "string \<Rightarrow> int option" where
  \<comment> \<open>\<^verbatim>\<open>strconv.ParseInt(s, 10, 64)\<close>; \<open>None\<close> is a syntax or range error\<close>
  "parseInt64 s =
     (let neg = (case s of c # _ \<Rightarrow> c = CHR ''-'' | [] \<Rightarrow> False);
          ds = (case s of c # cs \<Rightarrow> (if c = CHR ''-'' \<or> c = CHR ''+'' then cs else s) | [] \<Rightarrow> [])
      in if ds = [] \<or> \<not> list_all isDigit ds then None
         else let v = (if neg then - int (decValue ds) else int (decValue ds))
              in if - (2 ^ 63) \<le> v \<and> v < 2 ^ 63 then Some v else None)"

definition parseBool :: "string \<Rightarrow> bool option" where
  "parseBool s =
     (if s \<in> {''1'', ''t'', ''T'', ''true'', ''TRUE'', ''True''} then Some True
      else if s \<in> {''0'', ''f'', ''F'', ''false'', ''FALSE'', ''False''} then Some False
      else None)"

lemma isDigit_set: "list_all isDigit s \<longleftrightarrow> set s \<subseteq> set ''0123456789''"
  unfolding list_all_iff isDigit_def by blast

section \<open>Strings\<close>

definition isSpaceByte :: "char \<Rightarrow> bool" where
  \<comment> \<open>the ASCII white space that \<^verbatim>\<open>strings.TrimSpace\<close> removes\<close>
  "isSpaceByte c \<longleftrightarrow> of_char c \<in> {9, 10, 11, 12, 13, 32 :: nat}"

definition trimSpace :: "string \<Rightarrow> string" where
  "trimSpace s = rev (dropWhile isSpaceByte (rev (dropWhile isSpaceByte s)))"

section \<open>Queries\<close>

type_synonym urlValues = "(string \<times> string list) list"

fun queryUnescape :: "string \<Rightarrow> string option" where
  "queryUnescape [] = Some []"
| "queryUnescape (c # cs) =
     (if c = CHR ''%'' then
        (case cs of
           a # b # rest \<Rightarrow>
             (if isHex a \<and> isHex b
              then map_option (Cons (char_of (16 * unhex a + unhex b))) (queryUnescape rest)
              else None)
         | _ \<Rightarrow> None)
      else map_option (Cons (if c = CHR ''+'' then CHR '' '' else c)) (queryUnescape cs))"

definition valuesAdd :: "urlValues \<Rightarrow> string \<Rightarrow> string \<Rightarrow> urlValues" where
  "valuesAdd vs k v =
     (case map_of vs k of
        None \<Rightarrow> vs @ [(k, [v])]
      | Some _ \<Rightarrow> map (\<lambda>(k', xs). if k' = k then (k', xs @ [v]) else (k', xs)) vs)"

definition parseQueryPart :: "urlValues \<Rightarrow> string \<Rightarrow> urlValues" where
  \<comment> \<open>one part between ampersands; malformed parts are dropped, as \<^verbatim>\<open>URL.Query\<close> ignores the error\<close>
  "parseQueryPart vs part =
     (if CHR '';'' \<in> set part \<or> part = [] then vs
      else let (k, v) = (case indexByte part (CHR ''='') of
                           None \<Rightarrow> (part, []) | Some i \<Rightarrow> (take i part, drop (Suc i) part))
           in (case (queryUnescape k, queryUnescape v) of
                 (Some k', Some v') \<Rightarrow> valuesAdd vs k' v'
               | _ \<Rightarrow> vs))"

definition parseQuery :: "string \<Rightarrow> urlValues" where
  "parseQuery raw = foldl parseQueryPart [] (splitOn (CHR ''&'') raw)"

definition valuesOf :: "urlValues \<Rightarrow> string \<Rightarrow> string list" where
  "valuesOf vs k = (case map_of vs k of None \<Rightarrow> [] | Some xs \<Rightarrow> xs)"

definition valuesGet :: "urlValues \<Rightarrow> string \<Rightarrow> string" where
  "valuesGet vs k = (case valuesOf vs k of [] \<Rightarrow> [] | v # _ \<Rightarrow> v)"

section \<open>Addresses\<close>

definition lastIndexByte :: "string \<Rightarrow> char \<Rightarrow> nat option" where
  "lastIndexByte s c =
     (case indexByte (rev s) c of None \<Rightarrow> None | Some i \<Rightarrow> Some (length s - 1 - i))"

definition splitHostPort :: "string \<Rightarrow> (string \<times> string) option" where
  \<comment> \<open>\<^verbatim>\<open>net.SplitHostPort\<close>; \<open>None\<close> is its error\<close>
  "splitHostPort hp =
     (case lastIndexByte hp (CHR '':'') of
        None \<Rightarrow> None
      | Some i \<Rightarrow>
          (if take 1 hp = ''['' then
             (case indexByte hp (CHR '']'') of
                None \<Rightarrow> None
              | Some e \<Rightarrow>
                  (if e + 1 \<noteq> i then None
                   else if CHR ''['' \<in> set (drop 1 hp) \<or> CHR '']'' \<in> set (drop (e + 1) hp) then None
                   else Some (take (e - 1) (drop 1 hp), drop (i + 1) hp)))
           else if CHR '':'' \<in> set (take i hp) then None
           else if CHR ''['' \<in> set hp \<or> CHR '']'' \<in> set hp then None
           else Some (take i hp, drop (i + 1) hp)))"

section \<open>Status texts\<close>

definition statusTexts :: "(int \<times> string) list" where
  "statusTexts =
    [(100, ''Continue''), (101, ''Switching Protocols''), (102, ''Processing''), (103, ''Early Hints''),
     (200, ''OK''), (201, ''Created''), (202, ''Accepted''), (203, ''Non-Authoritative Information''),
     (204, ''No Content''), (205, ''Reset Content''), (206, ''Partial Content''), (207, ''Multi-Status''),
     (208, ''Already Reported''), (226, ''IM Used''),
     (300, ''Multiple Choices''), (301, ''Moved Permanently''), (302, ''Found''), (303, ''See Other''),
     (304, ''Not Modified''), (305, ''Use Proxy''), (307, ''Temporary Redirect''), (308, ''Permanent Redirect''),
     (400, ''Bad Request''), (401, ''Unauthorized''), (402, ''Payment Required''), (403, ''Forbidden''),
     (404, ''Not Found''), (405, ''Method Not Allowed''), (406, ''Not Acceptable''),
     (407, ''Proxy Authentication Required''), (408, ''Request Timeout''), (409, ''Conflict''), (410, ''Gone''),
     (411, ''Length Required''), (412, ''Precondition Failed''), (413, ''Request Entity Too Large''),
     (414, ''Request URI Too Long''), (415, ''Unsupported Media Type''),
     (416, ''Requested Range Not Satisfiable''), (417, ''Expectation Failed''), (418, ''I'' @ [CHR 39] @ ''m a teapot''),
     (421, ''Misdirected Request''), (422, ''Unprocessable Entity''), (423, ''Locked''),
     (424, ''Failed Dependency''), (425, ''Too Early''), (426, ''Upgrade Required''),
     (428, ''Precondition Required''), (429, ''Too Many Requests''),
     (431, ''Request Header Fields Too Large''), (451, ''Unavailable For Legal Reasons''),
     (500, ''Internal Server Error''), (501, ''Not Implemented''), (502, ''Bad Gateway''),
     (503, ''Service Unavailable''), (504, ''Gateway Timeout''), (505, ''HTTP Version Not Supported''),
     (506, ''Variant Also Negotiates''), (507, ''Insufficient Storage''), (508, ''Loop Detected''),
     (510, ''Not Extended''), (511, ''Network Authentication Required'')]"

definition statusText :: "int \<Rightarrow> string" where
  "statusText st = (case map_of statusTexts st of None \<Rightarrow> [] | Some t \<Rightarrow> t)"

end
