(* ===== verification/Context.thy ===== *)
theory Context
  imports GoStd Writers
begin

text \<open>
  The pooled request context of \<^verbatim>\<open>context.go\<close>: its record has the fields of the Go struct, over an
  arbitrary response writer whose operations are passed explicitly. Requests are records with the
  parts the framework reads; a body is the bytes still unread and the error, if any, that ends it.
  Modelled are the pool reset, the request accessors, path and query parameters, the cached body,
  the response helpers, the request-scoped store and the framework's context markers.
\<close>

section \<open>Requests\<close>

datatype goctx =
  BaseCtx
| AarvRequestContext goctx nat \<comment> \<open>wrapped context and the framework context it marks\<close>
| AarvRequestValueContext goctx nat any any

datatype ctxKeyOrAny = CtxKey | AnyKey any
datatype ctxValue = CtxPtr nat | AnyVal any

fun ctxLookup :: "goctx \<Rightarrow> ctxKeyOrAny \<Rightarrow> ctxValue option" where
  \<comment> \<open>the \<^verbatim>\<open>Value\<close> methods of the two wrapping contexts\<close>
  "ctxLookup BaseCtx k = None"
| "ctxLookup (AarvRequestContext g c) k = (if k = CtxKey then Some (CtxPtr c) else ctxLookup g k)"
| "ctxLookup (AarvRequestValueContext g c key v) k =
     (if k = CtxKey then Some (CtxPtr c) else if k = AnyKey key then Some (AnyVal v) else ctxLookup g k)"

record request =
  rMethod :: string
  rPath :: string
  rRawQuery :: string
  rHost :: string
  rProto :: string
  rHeader :: header
  rRemoteAddr :: string
  rTLS :: bool
  rContentLength :: int
  rBody :: string
  rBodyErr :: "err option"
  rPathValues :: "(string \<times> string) list"
  rCtx :: goctx

section \<open>The context\<close>

definition maxReusableBodyCache :: nat where "maxReusableBodyCache = 16384"
definition maxReusableStoreKeys :: nat where "maxReusableStoreKeys = 32"

record byteSlice =
  bsData :: string
  bsCap :: nat

record 'w ctx =
  cReq :: request
  cRes :: 'w
  cStore :: "(string \<times> any) list option"
  cRequestID :: string
  cRequestIDSet :: bool
  cHookErr :: "err option"
  cQuery :: "urlValues option"
  cBodyCache :: "byteSlice option"
  cBodyRead :: bool
  cWritten :: bool
  cStatusCode :: int
  cLogger :: "string option" \<comment> \<open>the cached logger, named by its attached request id\<close>
  cRoutePattern :: string
  cParamNames :: "string list"
  cParamValues :: "string list"
  cParamCount :: nat
  cParamsApplied :: bool

definition reuseBodyCache :: "byteSlice option \<Rightarrow> byteSlice option" where
  "reuseBodyCache b =
     (case b of None \<Rightarrow> None
      | Some s \<Rightarrow> if maxReusableBodyCache < bsCap s then None else Some (s\<lparr>bsData := []\<rparr>))"

definition reset :: "'w ctx \<Rightarrow> 'w \<Rightarrow> request \<Rightarrow> 'w ctx" where
  "reset c w r =
     c\<lparr>cReq := r, cRes := w, cBodyCache := reuseBodyCache (cBodyCache c), cBodyRead := False,
       cWritten := False, cStatusCode := 200, cQuery := None, cRequestID := [],
       cRequestIDSet := False, cParamCount := 0, cParamsApplied := False, cHookErr := None,
       cRoutePattern := [], cLogger := None,
       cStore := (case cStore c of None \<Rightarrow> None
                  | Some m \<Rightarrow> if maxReusableStoreKeys < length m then None else Some [])\<rparr>"

section \<open>The request\<close>

definition setPathValue :: "request \<Rightarrow> string \<Rightarrow> string \<Rightarrow> request" where
  "setPathValue r n v = r\<lparr>rPathValues := AList.update n v (rPathValues r)\<rparr>"

definition pathValue :: "request \<Rightarrow> string \<Rightarrow> string" where
  "pathValue r n = (case map_of (rPathValues r) n of None \<Rightarrow> [] | Some v \<Rightarrow> v)"

definition materializePathParams :: "'w ctx \<Rightarrow> 'w ctx" where
  "materializePathParams c =
     (if cParamsApplied c \<or> cParamCount c = 0 then c
      else c\<lparr>cReq := foldl (\<lambda>r i. setPathValue r (cParamNames c ! i) (cParamValues c ! i))
                        (cReq c) [0..<cParamCount c],
             cParamsApplied := True\<rparr>)"

definition ctxRequest :: "'w ctx \<Rightarrow> 'w ctx \<times> request" where
  "ctxRequest c = (let c' = materializePathParams c in (c', cReq c'))"

definition setBody :: "'w ctx \<Rightarrow> string \<Rightarrow> err option \<Rightarrow> 'w ctx" where
  "setBody c b e =
     c\<lparr>cReq := (cReq c)\<lparr>rBody := b, rBodyErr := e\<rparr>, cBodyRead := False,
       cBodyCache := reuseBodyCache (cBodyCache c)\<rparr>"

definition withAarvContext :: "goctx \<Rightarrow> nat \<Rightarrow> goctx" where
  "withAarvContext g cid =
     (if ctxLookup g CtxKey = Some (CtxPtr cid) then g else AarvRequestContext g cid)"

definition setContext :: "'w ctx \<Rightarrow> nat \<Rightarrow> goctx \<Rightarrow> 'w ctx" where
  \<comment> \<open>the second argument is the identity of the framework context itself\<close>
  "setContext c cid g =
     c\<lparr>cReq := (cReq c)\<lparr>rCtx := withAarvContext g cid\<rparr>, cParamsApplied := False\<rparr>"

definition setContextValue :: "'w ctx \<Rightarrow> nat \<Rightarrow> any \<Rightarrow> any \<Rightarrow> 'w ctx" where
  "setContextValue c cid k v =
     c\<lparr>cReq := (cReq c)\<lparr>rCtx := AarvRequestValueContext (rCtx (cReq c)) cid k v\<rparr>, cParamsApplied := False\<rparr>"

definition bindRequest :: "'w ctx \<Rightarrow> nat \<Rightarrow> request \<Rightarrow> 'w ctx" where
  "bindRequest c cid r =
     c\<lparr>cReq := r\<lparr>rCtx := withAarvContext (rCtx r) cid\<rparr>, cParamsApplied := False, cQuery := None,
       cBodyRead := False, cBodyCache := reuseBodyCache (cBodyCache c)\<rparr>"

definition scheme :: "'w ctx \<Rightarrow> string" where
  "scheme c =
     (if rTLS (cReq c) then ''https''
      else if hGet (rHeader (cReq c)) ''X-Forwarded-Proto'' \<noteq> []
           then hGet (rHeader (cReq c)) ''X-Forwarded-Proto'' else ''http'')"

record proxyConfig =
  TrustedProxies :: "string list"
  trustedProxyIPs :: "string list"
  trustedCIDRContains :: "string \<Rightarrow> bool" \<comment> \<open>\<^verbatim>\<open>network.Contains\<close> for some trusted network\<close>
  validIP :: "string \<Rightarrow> bool" \<comment> \<open>\<^verbatim>\<open>net.ParseIP\<close> accepts\<close>

definition isTrustedProxy :: "proxyConfig \<Rightarrow> string \<Rightarrow> bool" where
  "isTrustedProxy px ip =
     (if TrustedProxies px = [] then True
      else if \<not> validIP px ip then False
      else if ip \<in> set (trustedProxyIPs px) then True
      else trustedCIDRContains px ip)"

definition directIP :: "request \<Rightarrow> string" where
  "directIP r =
     (case splitHostPort (rRemoteAddr r) of
        None \<Rightarrow> rRemoteAddr r
      | Some (h, _) \<Rightarrow> if h = [] then rRemoteAddr r else h)"

definition realIP :: "proxyConfig \<Rightarrow> 'w ctx \<Rightarrow> string" where
  "realIP px c =
     (let d = directIP (cReq c); h = rHeader (cReq c)
      in if TrustedProxies px \<noteq> [] \<and> \<not> isTrustedProxy px d then d
         else if hGet h ''X-Real-IP'' \<noteq> [] then hGet h ''X-Real-IP''
         else if hGet h ''X-Forwarded-For'' \<noteq> []
              then (let xff = hGet h ''X-Forwarded-For''
                    in case indexByte xff (CHR '','') of
                         None \<Rightarrow> xff
                       | Some i \<Rightarrow> if 0 < i then trimSpace (take i xff) else xff)
              else d)"

section \<open>Path parameters\<close>

definition maxPathParams :: nat where "maxPathParams = 16"

definition findParam :: "'w ctx \<Rightarrow> string \<Rightarrow> string option" where
  \<comment> \<open>the loop over the inline parameters\<close>
  "findParam c name =
     map_of (take (cParamCount c) (zip (cParamNames c) (cParamValues c))) name"

definition ctxParam :: "'w ctx \<Rightarrow> string \<Rightarrow> string" where
  "ctxParam c name = (case findParam c name of Some v \<Rightarrow> v | None \<Rightarrow> pathValue (cReq c) name)"

definition setDirectPathParam :: "'w ctx \<Rightarrow> string \<Rightarrow> string \<Rightarrow> 'w ctx" where
  "setDirectPathParam c name v =
     (if cParamCount c < maxPathParams
      then c\<lparr>cParamNames := (cParamNames c)[cParamCount c := name],
             cParamValues := (cParamValues c)[cParamCount c := v],
             cParamCount := cParamCount c + 1\<rparr>
      else let c' = materializePathParams c in c'\<lparr>cReq := setPathValue (cReq c') name v\<rparr>)"

definition paramInt64 :: "'w ctx \<Rightarrow> string \<Rightarrow> int option" where
  "paramInt64 c name = parseInt64 (ctxParam c name)"

definition isHexByte :: "char \<Rightarrow> bool" where
  "isHexByte c \<longleftrightarrow> c \<in> set ''0123456789abcdefABCDEF''"

fun uuidLoop :: "nat \<Rightarrow> string \<Rightarrow> bool" where
  "uuidLoop i [] = True"
| "uuidLoop i (c # cs) =
     (if i = 8 \<or> i = 13 \<or> i = 18 \<or> i = 23 then (if c \<noteq> CHR ''-'' then False else uuidLoop (Suc i) cs)
      else if \<not> isHexByte c then False else uuidLoop (Suc i) cs)"

definition isValidUUID :: "string \<Rightarrow> bool" where
  "isValidUUID s = (if length s \<noteq> 36 then False else uuidLoop 0 s)"

definition paramUUID :: "'w ctx \<Rightarrow> string \<Rightarrow> err + string" where
  "paramUUID c name =
     (let v = ctxParam c name
      in if \<not> isValidUUID v then Inl (PlainError (''invalid UUID: '' @ v)) else Inr v)"

section \<open>Query parameters\<close>

definition queryValues :: "'w ctx \<Rightarrow> 'w ctx \<times> urlValues" where
  "queryValues c =
     (case cQuery c of
        Some q \<Rightarrow> (c, q)
      | None \<Rightarrow> (let q = parseQuery (rRawQuery (cReq c)) in (c\<lparr>cQuery := Some q\<rparr>, q)))"

definition ctxQuery :: "'w ctx \<Rightarrow> string \<Rightarrow> string" where
  "ctxQuery c name = valuesGet (snd (queryValues c)) name"

definition queryDefault :: "'w ctx \<Rightarrow> string \<Rightarrow> string \<Rightarrow> string" where
  "queryDefault c name fallback = (if ctxQuery c name = [] then fallback else ctxQuery c name)"

definition queryParsed :: "(string \<Rightarrow> 'a option) \<Rightarrow> 'w ctx \<Rightarrow> string \<Rightarrow> 'a \<Rightarrow> 'a" where
  \<comment> \<open>the common shape of the typed query accessors\<close>
  "queryParsed parse c name fallback =
     (if ctxQuery c name = [] then fallback
      else case parse (ctxQuery c name) of None \<Rightarrow> fallback | Some x \<Rightarrow> x)"

definition queryInt :: "'w ctx \<Rightarrow> string \<Rightarrow> int \<Rightarrow> int" where
  "queryInt = queryParsed parseInt64"

definition queryInt64 :: "'w ctx \<Rightarrow> string \<Rightarrow> int \<Rightarrow> int" where
  "queryInt64 = queryParsed parseInt64"

definition queryFloat64 :: "(string \<Rightarrow> 'f option) \<Rightarrow> 'w ctx \<Rightarrow> string \<Rightarrow> 'f \<Rightarrow> 'f" where
  "queryFloat64 parseFloat = queryParsed parseFloat"

definition queryBool :: "'w ctx \<Rightarrow> string \<Rightarrow> bool \<Rightarrow> bool" where
  "queryBool = queryParsed parseBool"

definition querySlice :: "'w ctx \<Rightarrow> string \<Rightarrow> string list" where
  "querySlice c name = valuesOf (snd (queryValues c)) name"

section \<open>The body\<close>

text \<open>
  \<^verbatim>\<open>io.ReadFull\<close> fills the buffer or stops where the body ends; a reader hands out at least one
  byte per call until the end, so the chunk loop is a recursion on the unread bytes.
\<close>

definition readFull :: "string \<Rightarrow> err option \<Rightarrow> nat \<Rightarrow> nat \<times> err option" where
  \<comment> \<open>bytes read and the error; \<open>None\<close> stands for no error and for the two end-of-file errors\<close>
  "readFull b e sz = (min sz (length b), if length b < sz then e else None)"

function readChunks :: "string \<Rightarrow> err option \<Rightarrow> string \<Rightarrow> err + string" where
  "readChunks b e buf =
     (if b = [] then (case e of None \<Rightarrow> Inr buf | Some x \<Rightarrow> Inl x)
      else readChunks (drop 512 b) e (buf @ take 512 b))"
  by pat_completeness auto
termination
  by (relation "measure (\<lambda>(b, _, _). length b)") auto

declare readChunks.simps [simp del]

definition readBodyInto :: "string \<Rightarrow> err option \<Rightarrow> byteSlice option \<Rightarrow> int \<Rightarrow> err + byteSlice" where
  "readBodyInto b e buf contentLength =
     (if 0 \<le> contentLength \<and> contentLength < 2 ^ 63 then
        (let sz = nat contentLength;
             capacity = (case buf of None \<Rightarrow> 0 | Some s \<Rightarrow> bsCap s);
             cap' = (if capacity < sz then sz else capacity);
             (n, er) = readFull b e sz
         in case er of
              None \<Rightarrow> Inr \<lparr>bsData = take n b, bsCap = cap'\<rparr>
            | Some x \<Rightarrow> Inl x)
      else (case readChunks b e [] of
              Inl x \<Rightarrow> Inl x
            | Inr d \<Rightarrow> Inr \<lparr>bsData = d, bsCap = max (length d) (case buf of None \<Rightarrow> 0 | Some s \<Rightarrow> bsCap s)\<rparr>))"

definition consumed :: "request \<Rightarrow> request" where
  \<comment> \<open>what a body read leaves: with a content length the bytes beyond it, otherwise nothing\<close>
  "consumed r =
     r\<lparr>rBody := (if 0 \<le> rContentLength r \<and> rContentLength r < 2 ^ 63
                 then drop (nat (rContentLength r)) (rBody r) else [])\<rparr>"

definition ctxBody :: "'w ctx \<Rightarrow> 'w ctx \<times> (err + string)" where
  "ctxBody c =
     (if cBodyRead c then (c, Inr (case cBodyCache c of None \<Rightarrow> [] | Some s \<Rightarrow> bsData s))
      else case readBodyInto (rBody (cReq c)) (rBodyErr (cReq c)) (cBodyCache c) (rContentLength (cReq c)) of
             Inl x \<Rightarrow> (c\<lparr>cReq := consumed (cReq c)\<rparr>, Inl x)
           | Inr s \<Rightarrow> (c\<lparr>cReq := consumed (cReq c), cBodyCache := Some s, cBodyRead := True\<rparr>, Inr (bsData s)))"

section \<open>Responses\<close>

definition setHeader :: "'w responseWriter \<Rightarrow> 'w ctx \<Rightarrow> string \<Rightarrow> string \<Rightarrow> 'w ctx" where
  "setHeader ops c n v = c\<lparr>cRes := rwPutHeader ops (cRes c) (hSet (rwHeader ops (cRes c)) n v)\<rparr>"

definition addHeader :: "'w responseWriter \<Rightarrow> 'w ctx \<Rightarrow> string \<Rightarrow> string \<Rightarrow> 'w ctx" where
  "addHeader ops c n v = c\<lparr>cRes := rwPutHeader ops (cRes c) (hAdd (rwHeader ops (cRes c)) n v)\<rparr>"

definition setContentType :: "'w responseWriter \<Rightarrow> 'w ctx \<Rightarrow> string \<Rightarrow> 'w ctx" where
  "setContentType ops c v =
     c\<lparr>cRes := rwPutHeader ops (cRes c) (AList.update ''Content-Type'' [v] (rwHeader ops (cRes c)))\<rparr>"

definition writeHeaderUnless200 :: "'w responseWriter \<Rightarrow> 'w ctx \<Rightarrow> int \<Rightarrow> 'w ctx" where
  "writeHeaderUnless200 ops c st =
     (if st \<noteq> 200 then c\<lparr>cRes := rwWriteHeader ops (cRes c) st\<rparr> else c)"

definition resWrite :: "'w responseWriter \<Rightarrow> 'w ctx \<Rightarrow> string \<Rightarrow> 'w ctx \<times> err option" where
  "resWrite ops c b = (case rwWrite ops (cRes c) b of (w, n, e) \<Rightarrow> (c\<lparr>cRes := w\<rparr>, e))"

record 'v codec =
  codecContentType :: string
  codecMarshal :: "'v \<Rightarrow> err + string"

definition codecEncode :: "'w responseWriter \<Rightarrow> 'v codec \<Rightarrow> 'w ctx \<Rightarrow> 'v \<Rightarrow> 'w ctx \<times> err option" where
  \<comment> \<open>\<^verbatim>\<open>json.NewEncoder(w).Encode(v)\<close> marshals first and then writes once\<close>
  "codecEncode ops cdc c v =
     (case codecMarshal cdc v of Inl e \<Rightarrow> (c, Some e) | Inr d \<Rightarrow> resWrite ops c d)"

definition ctxJSON :: "'w responseWriter \<Rightarrow> 'v codec \<Rightarrow> 'w ctx \<Rightarrow> int \<Rightarrow> 'v \<Rightarrow> 'w ctx \<times> err option" where
  "ctxJSON ops cdc c status v =
     (if cWritten c then (c, Some ErrResponseAlreadyWritten)
      else let c1 = c\<lparr>cWritten := True\<rparr>;
               st = (if status = 0 then cStatusCode c1 else status);
               c2 = setContentType ops c1 (codecContentType cdc);
               c3 = writeHeaderUnless200 ops c2 st
           in codecEncode ops cdc c3 v)"

definition ctxJSONPretty :: "'w responseWriter \<Rightarrow> 'v codec \<Rightarrow> 'w ctx \<Rightarrow> int \<Rightarrow> 'v \<Rightarrow> 'w ctx \<times> err option" where
  "ctxJSONPretty ops cdc c status v =
     (let c1 = c\<lparr>cWritten := True\<rparr>
      in case codecMarshal cdc v of
           Inl e \<Rightarrow> (c1, Some e)
         | Inr d \<Rightarrow>
             (let c2 = setContentType ops c1 (codecContentType cdc);
                  c3 = c2\<lparr>cRes := rwWriteHeader ops (cRes c2) status\<rparr>
              in resWrite ops c3 d))"

definition ctxBlob :: "'w responseWriter \<Rightarrow> 'w ctx \<Rightarrow> int \<Rightarrow> string \<Rightarrow> string \<Rightarrow> 'w ctx \<times> err option" where
  "ctxBlob ops c status contentType d =
     (let c1 = c\<lparr>cWritten := True\<rparr>;
          c2 = setContentType ops c1 contentType;
          c3 = writeHeaderUnless200 ops c2 status
      in resWrite ops c3 d)"

definition ctxText :: "'w responseWriter \<Rightarrow> 'w ctx \<Rightarrow> int \<Rightarrow> string \<Rightarrow> 'w ctx \<times> err option" where
  "ctxText ops c status txt =
     (let c1 = c\<lparr>cWritten := True\<rparr>;
          c2 = setContentType ops c1 ''text/plain; charset=utf-8'';
          c3 = writeHeaderUnless200 ops c2 status
      in resWrite ops c3 txt)"

definition ctxHTML :: "'w responseWriter \<Rightarrow> 'w ctx \<Rightarrow> int \<Rightarrow> string \<Rightarrow> 'w ctx \<times> err option" where
  "ctxHTML ops c status html =
     (let c1 = c\<lparr>cWritten := True\<rparr>;
          c2 = setContentType ops c1 ''text/html; charset=utf-8'';
          c3 = writeHeaderUnless200 ops c2 status
      in resWrite ops c3 html)"

definition ctxXML :: "('v \<Rightarrow> err + string) \<Rightarrow> 'w responseWriter \<Rightarrow> 'w ctx \<Rightarrow> int \<Rightarrow> 'v \<Rightarrow> 'w ctx \<times> err option" where
  "ctxXML xmlMarshal ops c status v =
     (let c1 = c\<lparr>cWritten := True\<rparr>;
          c2 = setContentType ops c1 ''application/xml; charset=utf-8'';
          c3 = writeHeaderUnless200 ops c2 status
      in case xmlMarshal v of Inl e \<Rightarrow> (c3, Some e) | Inr d \<Rightarrow> resWrite ops c3 d)"

definition ctxNoContent :: "'w responseWriter \<Rightarrow> 'w ctx \<Rightarrow> int \<Rightarrow> 'w ctx \<times> err option" where
  "ctxNoContent ops c status =
     (let c1 = c\<lparr>cWritten := True\<rparr> in (c1\<lparr>cRes := rwWriteHeader ops (cRes c1) status\<rparr>, None))"

definition ctxSendStatus :: "'w responseWriter \<Rightarrow> 'w ctx \<Rightarrow> int \<Rightarrow> 'w ctx \<times> err option" where
  "ctxSendStatus = ctxNoContent"

definition ctxStatus :: "'w ctx \<Rightarrow> int \<Rightarrow> 'w ctx" where
  "ctxStatus c st = c\<lparr>cStatusCode := st\<rparr>"

fun lastPathSegment :: "string \<Rightarrow> string \<Rightarrow> string" where
  \<comment> \<open>scanning the reversed path: what follows the last separator, or nothing without one\<close>
  "lastPathSegment [] acc = []"
| "lastPathSegment (x # xs) acc =
     (if x = CHR ''/'' \<or> x = CHR 92 then acc else lastPathSegment xs (x # acc))"

definition attachmentName :: "string \<Rightarrow> string \<Rightarrow> string" where
  "attachmentName filepath filename =
     (if filename = []
      then (let f = lastPathSegment (rev filepath) [] in if f = [] then filepath else f)
      else filename)"

definition ctxError :: "int \<Rightarrow> string \<Rightarrow> err" where
  "ctxError st msg = NewError st (statusText st) msg"

definition ctxErrorWithDetail :: "int \<Rightarrow> string \<Rightarrow> string \<Rightarrow> err" where
  "ctxErrorWithDetail st msg d = WithDetail (NewError st (statusText st) msg) d"

section \<open>The request-scoped store\<close>

definition ctxSet :: "'w ctx \<Rightarrow> string \<Rightarrow> any \<Rightarrow> 'w ctx" where
  "ctxSet c key v =
     (let put = c\<lparr>cStore := Some (AList.update key v (case cStore c of None \<Rightarrow> [] | Some m \<Rightarrow> m))\<rparr>
      in case v of
           AStr s \<Rightarrow> if key = ''requestId'' then c\<lparr>cRequestID := s, cRequestIDSet := True\<rparr> else put
         | _ \<Rightarrow> put)"

definition storeLookup :: "'w ctx \<Rightarrow> string \<Rightarrow> any option" where
  "storeLookup c key = (case cStore c of None \<Rightarrow> None | Some m \<Rightarrow> map_of m key)"

definition ctxGet :: "'w ctx \<Rightarrow> string \<Rightarrow> any option" where
  "ctxGet c key =
     (if key = ''requestId'' \<and> cRequestIDSet c then Some (AStr (cRequestID c)) else storeLookup c key)"

definition ctxMustGet :: "'w ctx \<Rightarrow> string \<Rightarrow> any go" where
  "ctxMustGet c key =
     (case storeLookup c key of
        None \<Rightarrow> panic (''aarv: key '' @ [CHR 34] @ key @ [CHR 34] @ '' not found in context store'')
      | Some v \<Rightarrow> ret v)"

definition requestID :: "'w ctx \<Rightarrow> string" where
  "requestID c =
     (if cRequestIDSet c then cRequestID c
      else case cStore c of
             None \<Rightarrow> []
           | Some m \<Rightarrow> (case map_of m ''requestId'' of Some (AStr s) \<Rightarrow> s | _ \<Rightarrow> []))"

definition logger :: "'w ctx \<Rightarrow> 'w ctx \<times> string" where
  "logger c =
     (case cLogger c of
        Some l \<Rightarrow> (c, l)
      | None \<Rightarrow> (c\<lparr>cLogger := Some (requestID c)\<rparr>, requestID c))"

definition setLogger :: "'w ctx \<Rightarrow> string option \<Rightarrow> 'w ctx" where
  "setLogger c l = c\<lparr>cLogger := l\<rparr>"

definition routeIdempotencyTTL :: "(string \<Rightarrow> (string \<Rightarrow> int option) option) \<Rightarrow> 'w ctx \<Rightarrow> int \<times> bool" where
  "routeIdempotencyTTL ttls c =
     (if cRoutePattern c = [] then (0, False)
      else case ttls (rMethod (cReq c)) of
             None \<Rightarrow> (0, False)
           | Some m \<Rightarrow> (case m (cRoutePattern c) of None \<Rightarrow> (0, False) | Some d \<Rightarrow> (d, True)))"

section \<open>Programs over a context\<close>

datatype ctxOp =
  DoSet string any | DoGet string | DoMustGet string | DoRequestID | DoLogger | DoSetLogger "string option"
| DoSetParam string string | DoParam string | DoRequest | DoQuery string | DoBody
| DoSetBody string "err option" | DoSetContext nat goctx | DoSetContextValue nat any any
| DoBindRequest nat request | DoSetRoute string | DoRoute | DoStatus int | DoWritten
| DoHeader string string | DoJSON int string | DoText int string | DoBlob int string string | DoNoContent int

datatype ctxOut =
  OutNone | OutAny "any option" | OutGo "any go" | OutStr string | OutReq request
| OutBody "err + string" | OutErr "err option" | OutBool bool

definition textCodec :: "string codec" where
  \<comment> \<open>values that are already marshalled\<close>
  "textCodec = \<lparr>codecContentType = ''application/json'', codecMarshal = Inr\<rparr>"

fun ctxStep :: "'w responseWriter \<Rightarrow> 'w ctx \<Rightarrow> ctxOp \<Rightarrow> 'w ctx \<times> ctxOut" where
  "ctxStep ops c (DoSet k v) = (ctxSet c k v, OutNone)"
| "ctxStep ops c (DoGet k) = (c, OutAny (ctxGet c k))"
| "ctxStep ops c (DoMustGet k) = (c, OutGo (ctxMustGet c k))"
| "ctxStep ops c DoRequestID = (c, OutStr (requestID c))"
| "ctxStep ops c DoLogger = (case logger c of (c', l) \<Rightarrow> (c', OutStr l))"
| "ctxStep ops c (DoSetLogger l) = (setLogger c l, OutNone)"
| "ctxStep ops c (DoSetParam n v) = (setDirectPathParam c n v, OutNone)"
| "ctxStep ops c (DoParam n) = (c, OutStr (ctxParam c n))"
| "ctxStep ops c DoRequest = (case ctxRequest c of (c', r) \<Rightarrow> (c', OutReq r))"
| "ctxStep ops c (DoQuery n) = (fst (queryValues c), OutStr (ctxQuery c n))"
| "ctxStep ops c DoBody = (case ctxBody c of (c', b) \<Rightarrow> (c', OutBody b))"
| "ctxStep ops c (DoSetBody b e) = (setBody c b e, OutNone)"
| "ctxStep ops c (DoSetContext cid g) = (setContext c cid g, OutNone)"
| "ctxStep ops c (DoSetContextValue cid k v) = (setContextValue c cid k v, OutNone)"
| "ctxStep ops c (DoBindRequest cid r) = (bindRequest c cid r, OutNone)"
| "ctxStep ops c (DoSetRoute p) = (c\<lparr>cRoutePattern := p\<rparr>, OutNone)"
| "ctxStep ops c DoRoute = (c, OutStr (cRoutePattern c))"
| "ctxStep ops c (DoStatus st) = (ctxStatus c st, OutNone)"
| "ctxStep ops c DoWritten = (c, OutBool (cWritten c))"
| "ctxStep ops c (DoHeader n v) = (setHeader ops c n v, OutNone)"
| "ctxStep ops c (DoJSON st v) = (case ctxJSON ops textCodec c st v of (c', e) \<Rightarrow> (c', OutErr e))"
| "ctxStep ops c (DoText st t) = (case ctxText ops c st t of (c', e) \<Rightarrow> (c', OutErr e))"
| "ctxStep ops c (DoBlob st ct d) = (case ctxBlob ops c st ct d of (c', e) \<Rightarrow> (c', OutErr e))"
| "ctxStep ops c (DoNoContent st) = (case ctxNoContent ops c st of (c', e) \<Rightarrow> (c', OutErr e))"

fun ctxRun :: "'w responseWriter \<Rightarrow> 'w ctx \<Rightarrow> ctxOp list \<Rightarrow> 'w ctx \<times> ctxOut list" where
  "ctxRun ops c [] = (c, [])"
| "ctxRun ops c (p # ps) =
     (case ctxStep ops c p of (c', out) \<Rightarrow> case ctxRun ops c' ps of (c'', outs) \<Rightarrow> (c'', out # outs))"

definition newCtx :: "'w \<Rightarrow> request \<Rightarrow> 'w ctx" where
  \<comment> \<open>what the pool's \<^verbatim>\<open>New\<close> creates: a zero context (writer and request are set by \<^verbatim>\<open>reset\<close>)\<close>
  "newCtx w r =
     \<lparr>cReq = r, cRes = w, cStore = None, cRequestID = [], cRequestIDSet = False, cHookErr = None,
      cQuery = None, cBodyCache = None, cBodyRead = False, cWritten = False, cStatusCode = 0,
      cLogger = None, cRoutePattern = [], cParamNames = replicate maxPathParams [],
      cParamValues = replicate maxPathParams [], cParamCount = 0, cParamsApplied = False\<rparr>"

subsection \<open>Contexts that differ only in recycled storage\<close>

definition ctxWf :: "'w ctx \<Rightarrow> bool" where
  "ctxWf c \<longleftrightarrow> length (cParamNames c) = maxPathParams \<and> length (cParamValues c) = maxPathParams
     \<and> cParamCount c \<le> maxPathParams"

definition sliceData :: "byteSlice option \<Rightarrow> string" where
  "sliceData b = (case b of None \<Rightarrow> [] | Some s \<Rightarrow> bsData s)"

text \<open>What the operations can see of the three recycled fields.\<close>

definition paramView :: "'w ctx \<Rightarrow> (string \<times> string) list" where
  "paramView c = take (cParamCount c) (zip (cParamNames c) (cParamValues c))"

definition bodyView :: "'w ctx \<Rightarrow> string option" where
  "bodyView c = (if cBodyRead c then Some (sliceData (cBodyCache c)) else None)"

definition ctxEq :: "'w ctx \<Rightarrow> 'w ctx \<Rightarrow> bool" where
  "ctxEq c d \<longleftrightarrow>
     ctxWf c \<and> ctxWf d \<and> cReq c = cReq d \<and> cRes c = cRes d \<and> storeLookup c = storeLookup d
     \<and> cRequestID c = cRequestID d \<and> cRequestIDSet c = cRequestIDSet d \<and> cHookErr c = cHookErr d
     \<and> cQuery c = cQuery d \<and> bodyView c = bodyView d
     \<and> cWritten c = cWritten d \<and> cStatusCode c = cStatusCode d \<and> cLogger c = cLogger d
     \<and> cRoutePattern c = cRoutePattern d \<and> paramView c = paramView d
     \<and> cParamsApplied c = cParamsApplied d"

lemma view_frames [simp]:
  "paramView (c\<lparr>cReq := r\<rparr>) = paramView c" "storeLookup (c\<lparr>cReq := r\<rparr>) = storeLookup c"
  "bodyView (c\<lparr>cReq := r\<rparr>) = bodyView c" "ctxWf (c\<lparr>cReq := r\<rparr>) = ctxWf c"
  "paramView (c\<lparr>cRes := w\<rparr>) = paramView c" "storeLookup (c\<lparr>cRes := w\<rparr>) = storeLookup c"
  "bodyView (c\<lparr>cRes := w\<rparr>) = bodyView c" "ctxWf (c\<lparr>cRes := w\<rparr>) = ctxWf c"
  "paramView (c\<lparr>cParamsApplied := b\<rparr>) = paramView c" "storeLookup (c\<lparr>cParamsApplied := b\<rparr>) = storeLookup c"
  "bodyView (c\<lparr>cParamsApplied := b\<rparr>) = bodyView c" "ctxWf (c\<lparr>cParamsApplied := b\<rparr>) = ctxWf c"
  "paramView (c\<lparr>cWritten := b\<rparr>) = paramView c" "storeLookup (c\<lparr>cWritten := b\<rparr>) = storeLookup c"
  "bodyView (c\<lparr>cWritten := b\<rparr>) = bodyView c" "ctxWf (c\<lparr>cWritten := b\<rparr>) = ctxWf c"
  "paramView (c\<lparr>cStatusCode := st\<rparr>) = paramView c" "storeLookup (c\<lparr>cStatusCode := st\<rparr>) = storeLookup c"
  "bodyView (c\<lparr>cStatusCode := st\<rparr>) = bodyView c" "ctxWf (c\<lparr>cStatusCode := st\<rparr>) = ctxWf c"
  "paramView (c\<lparr>cLogger := l\<rparr>) = paramView c" "storeLookup (c\<lparr>cLogger := l\<rparr>) = storeLookup c"
  "bodyView (c\<lparr>cLogger := l\<rparr>) = bodyView c" "ctxWf (c\<lparr>cLogger := l\<rparr>) = ctxWf c"
  "paramView (c\<lparr>cRoutePattern := s\<rparr>) = paramView c" "storeLookup (c\<lparr>cRoutePattern := s\<rparr>) = storeLookup c"
  "bodyView (c\<lparr>cRoutePattern := s\<rparr>) = bodyView c" "ctxWf (c\<lparr>cRoutePattern := s\<rparr>) = ctxWf c"
  "paramView (c\<lparr>cQuery := q\<rparr>) = paramView c" "storeLookup (c\<lparr>cQuery := q\<rparr>) = storeLookup c"
  "bodyView (c\<lparr>cQuery := q\<rparr>) = bodyView c" "ctxWf (c\<lparr>cQuery := q\<rparr>) = ctxWf c"
  "paramView (c\<lparr>cRequestID := s\<rparr>) = paramView c" "storeLookup (c\<lparr>cRequestID := s\<rparr>) = storeLookup c"
  "bodyView (c\<lparr>cRequestID := s\<rparr>) = bodyView c" "ctxWf (c\<lparr>cRequestID := s\<rparr>) = ctxWf c"
  "paramView (c\<lparr>cRequestIDSet := b\<rparr>) = paramView c" "storeLookup (c\<lparr>cRequestIDSet := b\<rparr>) = storeLookup c"
  "bodyView (c\<lparr>cRequestIDSet := b\<rparr>) = bodyView c" "ctxWf (c\<lparr>cRequestIDSet := b\<rparr>) = ctxWf c"
  "paramView (c\<lparr>cStore := m\<rparr>) = paramView c" "bodyView (c\<lparr>cStore := m\<rparr>) = bodyView c" "ctxWf (c\<lparr>cStore := m\<rparr>) = ctxWf c"
  "paramView (c\<lparr>cBodyRead := b\<rparr>) = paramView c" "storeLookup (c\<lparr>cBodyRead := b\<rparr>) = storeLookup c" "ctxWf (c\<lparr>cBodyRead := b\<rparr>) = ctxWf c"
  "paramView (c\<lparr>cBodyCache := x\<rparr>) = paramView c" "storeLookup (c\<lparr>cBodyCache := x\<rparr>) = storeLookup c" "ctxWf (c\<lparr>cBodyCache := x\<rparr>) = ctxWf c"
  by (simp_all add: paramView_def storeLookup_def bodyView_def ctxWf_def fun_eq_iff)

lemma bodyView_simps [simp]:
  "bodyView (c\<lparr>cBodyRead := False\<rparr>) = None" "bodyView (c\<lparr>cBodyCache := x, cBodyRead := False\<rparr>) = None"
  "bodyView (c\<lparr>cBodyRead := False, cBodyCache := x\<rparr>) = None"
  "bodyView (c\<lparr>cBodyCache := x, cBodyRead := True\<rparr>) = Some (sliceData x)"
  by (simp_all add: bodyView_def)

lemma param_count: "ctxWf c \<Longrightarrow> cParamCount c = length (paramView c)"
  by (simp add: paramView_def ctxWf_def)

lemma param_nth:
  "ctxWf c \<Longrightarrow> i < cParamCount c \<Longrightarrow> paramView c ! i = (cParamNames c ! i, cParamValues c ! i)"
  by (simp add: paramView_def ctxWf_def)

lemma ctxEq_reset:
  fixes c d :: "'w ctx"
  assumes "ctxWf c" and "ctxWf d"
  shows "ctxEq (reset c w r) (reset d w r)"
proof -
  have "paramView (reset c w r) = []" "storeLookup (reset c w r) = Map.empty" "bodyView (reset c w r) = None"
    "ctxWf c \<Longrightarrow> ctxWf (reset c w r)" for c :: "'w ctx"
    by (auto simp: paramView_def storeLookup_def bodyView_def reset_def ctxWf_def fun_eq_iff split: option.splits)
  with assms show ?thesis unfolding ctxEq_def by (simp add: reset_def)
qed

lemma newCtx_wf: "ctxWf (newCtx w r)"
  by (simp add: ctxWf_def newCtx_def)

lemma reset_wf: "ctxWf c \<Longrightarrow> ctxWf (reset c w r)"
  by (simp add: ctxWf_def reset_def)

lemma materialize_foldl:
  assumes "ctxWf c"
  shows "foldl (\<lambda>r i. setPathValue r (cParamNames c ! i) (cParamValues c ! i)) r [0..<cParamCount c]
       = foldl (\<lambda>r (n, v). setPathValue r n v) r (paramView c)"
proof -
  have "foldl (\<lambda>r (n, v). setPathValue r n v) r (paramView c)
      = foldl (\<lambda>r (n, v). setPathValue r n v) r (map (nth (paramView c)) [0..<cParamCount c])"
    by (simp add: param_count [OF assms] map_nth)
  also have "\<dots> = foldl (\<lambda>r i. setPathValue r (cParamNames c ! i) (cParamValues c ! i)) r [0..<cParamCount c]"
    unfolding foldl_map by (intro foldl_cong) (auto simp: param_nth [OF assms])
  finally show ?thesis by simp
qed

lemma materialize_view:
  assumes "ctxWf c"
  shows "materializePathParams c =
     (if cParamsApplied c \<or> paramView c = [] then c
      else c\<lparr>cReq := foldl (\<lambda>r (n, v). setPathValue r n v) (cReq c) (paramView c), cParamsApplied := True\<rparr>)"
  unfolding materializePathParams_def materialize_foldl [OF assms] using param_count [OF assms] by simp

lemma materialize_eq: "ctxEq c d \<Longrightarrow> ctxEq (materializePathParams c) (materializePathParams d)"
  by (simp add: ctxEq_def materialize_view)

lemma setParam_view:
  assumes "ctxWf c" and "cParamCount c < maxPathParams"
  shows "paramView (setDirectPathParam c n v) = paramView c @ [(n, v)]" and "ctxWf (setDirectPathParam c n v)"
  using assms
  by (simp_all add: setDirectPathParam_def paramView_def ctxWf_def take_zip take_Suc_conv_app_nth)

lemma setParam_frame:
  assumes "cParamCount c < maxPathParams"
  shows "storeLookup (setDirectPathParam c n v) = storeLookup c" "bodyView (setDirectPathParam c n v) = bodyView c"
    "cReq (setDirectPathParam c n v) = cReq c" "cRes (setDirectPathParam c n v) = cRes c"
    "cRequestID (setDirectPathParam c n v) = cRequestID c" "cRequestIDSet (setDirectPathParam c n v) = cRequestIDSet c"
    "cHookErr (setDirectPathParam c n v) = cHookErr c" "cQuery (setDirectPathParam c n v) = cQuery c"
    "cWritten (setDirectPathParam c n v) = cWritten c" "cStatusCode (setDirectPathParam c n v) = cStatusCode c"
    "cLogger (setDirectPathParam c n v) = cLogger c" "cRoutePattern (setDirectPathParam c n v) = cRoutePattern c"
    "cParamsApplied (setDirectPathParam c n v) = cParamsApplied c"
  using assms by (simp_all add: setDirectPathParam_def storeLookup_def bodyView_def fun_eq_iff)

lemma setParam_eq:
  assumes "ctxEq c d"
  shows "ctxEq (setDirectPathParam c n v) (setDirectPathParam d n v)"
proof -
  have wf: "ctxWf c" "ctxWf d" using assms by (simp_all add: ctxEq_def)
  then have n: "cParamCount c = cParamCount d" using assms by (simp add: param_count ctxEq_def)
  show ?thesis
  proof (cases "cParamCount c < maxPathParams")
    case True
    with n have "cParamCount d < maxPathParams" by simp
    with True show ?thesis using assms wf by (simp add: ctxEq_def setParam_frame setParam_view)
  next
    case False
    with n have "setDirectPathParam x n v =
        (materializePathParams x)\<lparr>cReq := setPathValue (cReq (materializePathParams x)) n v\<rparr>" if "x \<in> {c, d}" for x
      using that by (auto simp: setDirectPathParam_def Let_def)
    then show ?thesis using materialize_eq [OF assms] by (simp add: ctxEq_def)
  qed
qed

lemma param_eq: "ctxEq c d \<Longrightarrow> ctxParam c n = ctxParam d n"
proof -
  assume "ctxEq c d"
  then have "findParam c n = findParam d n" "cReq c = cReq d" by (simp_all add: ctxEq_def findParam_def paramView_def)
  then show "ctxParam c n = ctxParam d n" by (simp add: ctxParam_def split: option.split)
qed

lemma set_eq:
  fixes c d :: "'w ctx"
  assumes "ctxEq c d"
  shows "ctxEq (ctxSet c k v) (ctxSet d k v)"
proof -
  have st: "storeLookup (c\<lparr>cStore := Some (AList.update k v (case cStore c of None \<Rightarrow> [] | Some m \<Rightarrow> m))\<rparr>)
      = (storeLookup c)(k \<mapsto> v)" for c :: "'w ctx"
    by (auto simp: storeLookup_def update_conv' fun_eq_iff split: option.splits)
  show ?thesis
  proof (cases "\<exists>s. k = ''requestId'' \<and> v = AStr s")
    case True
    with assms show ?thesis by (auto simp: ctxSet_def ctxEq_def)
  next
    case False
    then have "ctxSet c k v = c\<lparr>cStore := Some (AList.update k v (case cStore c of None \<Rightarrow> [] | Some m \<Rightarrow> m))\<rparr>"
      for c :: "'w ctx" by (auto simp: ctxSet_def Let_def split: any.splits)
    with assms show ?thesis by (simp add: ctxEq_def st)
  qed
qed

lemma requestID_eq: "ctxEq c d \<Longrightarrow> requestID c = requestID d"
proof -
  have r: "requestID c = (if cRequestIDSet c then cRequestID c
      else case storeLookup c ''requestId'' of Some (AStr s) \<Rightarrow> s | _ \<Rightarrow> [])" for c :: "'w ctx"
    by (auto simp: requestID_def storeLookup_def split: option.splits)
  show "ctxEq c d \<Longrightarrow> requestID c = requestID d" unfolding r by (simp add: ctxEq_def)
qed

lemma logger_eq:
  "ctxEq c d \<Longrightarrow> ctxEq (fst (logger c)) (fst (logger d)) \<and> snd (logger c) = snd (logger d)"
  using requestID_eq [of c d] by (auto simp: logger_def ctxEq_def split: option.splits)

lemma query_eq:
  "ctxEq c d \<Longrightarrow> ctxEq (fst (queryValues c)) (fst (queryValues d)) \<and> snd (queryValues c) = snd (queryValues d)"
  by (auto simp: queryValues_def ctxEq_def Let_def split: option.splits)

lemma readBodyInto_cache:
  "(\<exists>x. readBodyInto b e buf cl = Inl x \<and> readBodyInto b e buf' cl = Inl x)
   \<or> (\<exists>s s'. readBodyInto b e buf cl = Inr s \<and> readBodyInto b e buf' cl = Inr s' \<and> bsData s = bsData s')"
  by (auto simp: readBodyInto_def readFull_def Let_def split: option.splits sum.splits)

lemma body_eq:
  assumes "ctxEq c d"
  shows "ctxEq (fst (ctxBody c)) (fst (ctxBody d)) \<and> snd (ctxBody c) = snd (ctxBody d)"
proof (cases "cBodyRead c")
  case True
  then have "cBodyRead d" "sliceData (cBodyCache c) = sliceData (cBodyCache d)"
    using assms by (auto simp: ctxEq_def bodyView_def split: if_splits)
  with True assms show ?thesis by (simp add: ctxBody_def sliceData_def)
next
  case False
  then have nr: "\<not> cBodyRead d" and req: "cReq c = cReq d" using assms by (auto simp: ctxEq_def bodyView_def split: if_splits)
  from readBodyInto_cache [of "rBody (cReq d)" "rBodyErr (cReq d)" "cBodyCache c"
      "rContentLength (cReq d)" "cBodyCache d"]
  show ?thesis using False nr req assms
    by (elim disjE exE conjE) (simp_all add: ctxBody_def ctxEq_def sliceData_def)
qed

lemma res_eq: "ctxEq c d \<Longrightarrow> ctxEq (c\<lparr>cRes := w\<rparr>) (d\<lparr>cRes := w\<rparr>)"
  by (simp add: ctxEq_def)

lemma same_res: "ctxEq c d \<Longrightarrow> cRes c = cRes d"
  by (simp add: ctxEq_def)

lemma resWrite_eq:
  "ctxEq c d \<Longrightarrow> ctxEq (fst (resWrite ops c b)) (fst (resWrite ops d b)) \<and> snd (resWrite ops c b) = snd (resWrite ops d b)"
  by (simp add: resWrite_def same_res res_eq split: prod.splits)

lemma helper_eq:
  assumes "ctxEq c d"
  shows "ctxEq (c\<lparr>cWritten := True\<rparr>) (d\<lparr>cWritten := True\<rparr>)"
    and "ctxEq (setContentType ops c v) (setContentType ops d v)"
    and "ctxEq (setHeader ops c n v) (setHeader ops d n v)"
    and "ctxEq (writeHeaderUnless200 ops c st) (writeHeaderUnless200 ops d st)"
    and "ctxEq (c\<lparr>cRes := rwWriteHeader ops (cRes c) st\<rparr>) (d\<lparr>cRes := rwWriteHeader ops (cRes d) st\<rparr>)"
proof -
  show "ctxEq (c\<lparr>cWritten := True\<rparr>) (d\<lparr>cWritten := True\<rparr>)"
    using assms by (simp add: ctxEq_def)
qed (simp_all add: setContentType_def setHeader_def writeHeaderUnless200_def same_res [OF assms] res_eq [OF assms] assms)

lemma blob_eq:
  "ctxEq c d \<Longrightarrow> ctxEq (fst (ctxBlob ops c st ct b)) (fst (ctxBlob ops d st ct b))
     \<and> snd (ctxBlob ops c st ct b) = snd (ctxBlob ops d st ct b)"
  unfolding ctxBlob_def Let_def by (intro resWrite_eq helper_eq)

lemma text_eq:
  "ctxEq c d \<Longrightarrow> ctxEq (fst (ctxText ops c st b)) (fst (ctxText ops d st b))
     \<and> snd (ctxText ops c st b) = snd (ctxText ops d st b)"
  unfolding ctxText_def Let_def by (intro resWrite_eq helper_eq)

lemma json_eq:
  assumes "ctxEq c d"
  shows "ctxEq (fst (ctxJSON ops textCodec c st v)) (fst (ctxJSON ops textCodec d st v))
     \<and> snd (ctxJSON ops textCodec c st v) = snd (ctxJSON ops textCodec d st v)"
proof -
  have f: "cWritten c = cWritten d" "cStatusCode c = cStatusCode d" using assms by (simp_all add: ctxEq_def)
  show ?thesis
  proof (cases "cWritten c")
    case True
    with f assms show ?thesis by (simp add: ctxJSON_def)
  next
    case False
    have enc: "codecEncode ops textCodec c v = resWrite ops c v" for c by (simp add: codecEncode_def textCodec_def)
    show ?thesis
      using resWrite_eq [OF helper_eq(4) [OF helper_eq(2) [OF helper_eq(1) [OF assms]]]] f False
      by (simp add: ctxJSON_def Let_def enc)
  qed
qed

lemma noContent_eq:
  "ctxEq c d \<Longrightarrow> ctxEq (fst (ctxNoContent ops c st)) (fst (ctxNoContent ops d st))
     \<and> snd (ctxNoContent ops c st) = snd (ctxNoContent ops d st)"
  unfolding ctxNoContent_def Let_def fst_conv snd_conv by (intro conjI helper_eq refl)

lemma frame_eq:
  assumes "ctxEq c d"
  shows "ctxEq (setLogger c l) (setLogger d l)" "ctxEq (setBody c b e) (setBody d b e)"
    "ctxEq (setContext c cid g) (setContext d cid g)" "ctxEq (setContextValue c cid k v) (setContextValue d cid k v)"
    "ctxEq (bindRequest c cid r) (bindRequest d cid r)" "ctxEq (ctxStatus c st) (ctxStatus d st)"
    "ctxEq (c\<lparr>cRoutePattern := p\<rparr>) (d\<lparr>cRoutePattern := p\<rparr>)"
  using assms
  by (simp_all add: ctxEq_def setLogger_def setBody_def setContext_def setContextValue_def bindRequest_def ctxStatus_def)

lemma ctxStep_eq:
  assumes "ctxEq c d"
  shows "ctxEq (fst (ctxStep ops c p)) (fst (ctxStep ops d p)) \<and> snd (ctxStep ops c p) = snd (ctxStep ops d p)"
proof -
  have obs: "cRequestIDSet c = cRequestIDSet d" "cRequestID c = cRequestID d" "storeLookup c = storeLookup d"
    "cRoutePattern c = cRoutePattern d" "cWritten c = cWritten d"
    using assms by (simp_all add: ctxEq_def)
  show ?thesis
    using assms materialize_eq [OF assms]
    by (cases p)
       (simp_all add: case_prod_beta set_eq setParam_eq param_eq requestID_eq logger_eq query_eq body_eq
          json_eq text_eq blob_eq noContent_eq helper_eq frame_eq ctxRequest_def Let_def ctxQuery_def
          ctxGet_def ctxMustGet_def obs, simp_all add: ctxEq_def)
qed

lemma ctxRun_eq:
  "ctxEq c d \<Longrightarrow> ctxEq (fst (ctxRun ops c ps)) (fst (ctxRun ops d ps)) \<and> snd (ctxRun ops c ps) = snd (ctxRun ops d ps)"
proof (induction ps arbitrary: c d)
  case (Cons p ps)
  have s: "ctxEq (fst (ctxStep ops c p)) (fst (ctxStep ops d p))" "snd (ctxStep ops c p) = snd (ctxStep ops d p)"
    using ctxStep_eq [OF Cons.prems] by blast+
  show ?case using Cons.IH [OF s(1)] s(2) by (simp add: case_prod_beta)
qed simp

lemma ctxRun_wf: "ctxWf c \<Longrightarrow> ctxWf (fst (ctxRun ops c ps))"
proof -
  assume "ctxWf c"
  then have "ctxEq c c" by (simp add: ctxEq_def)
  then show "ctxWf (fst (ctxRun ops c ps))" using ctxRun_eq [of c c ops ps] by (simp add: ctxEq_def)
qed

section \<open>Facts about single operations\<close>

lemma readChunks_all:
  "readChunks b e buf = (case e of None \<Rightarrow> Inr (buf @ b) | Some x \<Rightarrow> Inl x)"
proof (induction b e buf rule: readChunks.induct)
  case (1 b e buf)
  show ?case
  proof (cases "b = []")
    case True
    then show ?thesis by (simp add: readChunks.simps [of "[]"] split: option.split)
  next
    case False
    have "buf @ take 512 b @ drop 512 b = buf @ b" by (simp only: append_take_drop_id)
    then show ?thesis using 1 [OF False] False by (simp add: readChunks.simps [of b] split: option.split)
  qed
qed

lemma readBodyInto_ok:
  "\<exists>s. readBodyInto b None buf cl = Inr s
     \<and> bsData s = (if 0 \<le> cl \<and> cl < 2 ^ 63 then take (nat cl) b else b)"
  by (auto simp: readBodyInto_def readFull_def readChunks_all Let_def min_def)

lemma ctxBody_first:
  assumes "rBodyErr (cReq c) = None" and "\<not> cBodyRead c"
  shows "\<exists>s. ctxBody c = (c\<lparr>cReq := consumed (cReq c), cBodyCache := Some s, cBodyRead := True\<rparr>, Inr (bsData s))
    \<and> bsData s = (if 0 \<le> rContentLength (cReq c) \<and> rContentLength (cReq c) < 2 ^ 63
                  then take (nat (rContentLength (cReq c))) (rBody (cReq c)) else rBody (cReq c))"
proof -
  obtain s where "readBodyInto (rBody (cReq c)) None (cBodyCache c) (rContentLength (cReq c)) = Inr s"
    "bsData s = (if 0 \<le> rContentLength (cReq c) \<and> rContentLength (cReq c) < 2 ^ 63
                 then take (nat (rContentLength (cReq c))) (rBody (cReq c)) else rBody (cReq c))"
    using readBodyInto_ok by blast
  with assms show ?thesis by (intro exI [of _ s]) (simp add: ctxBody_def)
qed

lemma uuidLoop_append: "uuidLoop i (xs @ ys) \<longleftrightarrow> uuidLoop i xs \<and> uuidLoop (i + length xs) ys"
  by (induction xs arbitrary: i) auto

lemma uuidLoop_hex:
  "(\<forall>k \<in> {8, 13, 18, 23}. k < i \<or> i + length xs \<le> k) \<Longrightarrow> uuidLoop i xs \<longleftrightarrow> list_all isHexByte xs"
  by (induction xs arbitrary: i) auto

definition hexRun :: "nat \<Rightarrow> string \<Rightarrow> bool" where
  "hexRun n s \<longleftrightarrow> length s = n \<and> list_all isHexByte s"

lemma uuid_split:
  assumes "length s = 36"
  obtains a x b y c z d w e where "s = a @ [x] @ b @ [y] @ c @ [z] @ d @ [w] @ e"
    "length a = 8" "length b = 4" "length c = 4" "length d = 4" "length e = 12"
proof -
  define t where "t k = drop k s" for k
  have step: "t k = take n (t k) @ [t k ! n] @ t (k + n + 1)" if "k + n < 36" for k n
    using that assms id_take_nth_drop [of n "drop k s"] by (simp add: t_def add.commute add.left_commute)
  have "s = t 0" by (simp add: t_def)
  also have "\<dots> = take 8 (t 0) @ [t 0 ! 8] @ take 4 (t 9) @ [t 9 ! 4] @ take 4 (t 14) @ [t 14 ! 4]
      @ take 4 (t 19) @ [t 19 ! 4] @ t 24"
    using step [of 0 8] step [of 9 4] step [of 14 4] step [of 19 4] by simp
  finally show ?thesis by (rule that) (use assms in \<open>simp_all add: t_def\<close>)
qed

lemma uuidLoop_groups:
  assumes "length a = 8" "length b = 4" "length c = 4" "length d = 4" "length e = 12"
  shows "uuidLoop 0 (a @ [x] @ b @ [y] @ c @ [z] @ d @ [w] @ e) \<longleftrightarrow>
    list_all isHexByte a \<and> x = CHR ''-'' \<and> list_all isHexByte b \<and> y = CHR ''-'' \<and> list_all isHexByte c
    \<and> z = CHR ''-'' \<and> list_all isHexByte d \<and> w = CHR ''-'' \<and> list_all isHexByte e"
  using assms by (auto simp: uuidLoop_append uuidLoop_hex)

section \<open>Properties\<close>

definition exampleRequest :: request where
  "exampleRequest =
     \<lparr>rMethod = ''GET'', rPath = ''/'', rRawQuery = [], rHost = ''example.com'', rProto = ''HTTP/1.1'',
      rHeader = [], rRemoteAddr = ''192.0.2.1:1234'', rTLS = False, rContentLength = 0, rBody = [],
      rBodyErr = None, rPathValues = [], rCtx = BaseCtx\<rparr>"

text \<open>
  C13. A recycled context is as good as a new one: whatever an earlier request did with a context,
  after the pool's reset every program of context operations has the same results and leaves the
  same response writer as on a context that was never used. In particular no parameter, stored
  value, request id, logger, cached query or body byte of an earlier request is visible.
\<close>

theorem pooled_context_isolated:
  "let used = fst (ctxRun ops (reset (newCtx w0 r0) w1 r1) earlier);
       old = ctxRun ops (reset used w r) prog;
       new = ctxRun ops (reset (newCtx w0 r0) w r) prog
   in snd old = snd new \<and> cRes (fst old) = cRes (fst new)"
proof -
  have "ctxWf (fst (ctxRun ops (reset (newCtx w0 r0) w1 r1) earlier))"
    by (intro ctxRun_wf reset_wf newCtx_wf)
  from ctxRun_eq [OF ctxEq_reset [OF this newCtx_wf]] show ?thesis
    unfolding Let_def by (metis same_res)
qed

text \<open>
  The request-scoped store: a value set under a key is read back by \<^verbatim>\<open>Get\<close>, and the other keys
  keep theirs, for every key but \<open>requestId\<close>; that key is kept apart, and setting it to a string
  makes both \<^verbatim>\<open>Get\<close> and \<^verbatim>\<open>RequestID\<close> return it, while \<^verbatim>\<open>MustGet\<close> ignores it and panics unless an
  earlier non-string value is in the store.
\<close>

theorem request_store_laws:
  "(key \<noteq> ''requestId'' \<longrightarrow>
      ctxGet (ctxSet c key v) key = Some v \<and> ctxMustGet (ctxSet c key v) key = ret v)
   \<and> (key' \<noteq> key \<longrightarrow> ctxGet (ctxSet c key v) key' = ctxGet c key')
   \<and> ctxGet (ctxSet c ''requestId'' (AStr s)) ''requestId'' = Some (AStr s)
   \<and> requestID (ctxSet c ''requestId'' (AStr s)) = s
   \<and> ctxMustGet (ctxSet c ''requestId'' (AStr s)) ''requestId'' = ctxMustGet c ''requestId''"
  by (auto simp: ctxSet_def ctxGet_def ctxMustGet_def storeLookup_def requestID_def Let_def update_conv'
      split: any.splits option.splits)

theorem request_store_laws_witness:
  "ctxGet (ctxSet (newCtx netFresh exampleRequest) ''user'' (AInt 7)) ''user'' = Some (AInt 7)
   \<and> ctxMustGet (ctxSet (newCtx netFresh exampleRequest) ''requestId'' (AStr ''abc'')) ''requestId'' =
       panic (''aarv: key '' @ [CHR 34] @ ''requestId'' @ [CHR 34] @ '' not found in context store'')"
proof -
  have "ctxMustGet (newCtx netFresh exampleRequest) ''requestId'' =
      panic (''aarv: key '' @ [CHR 34] @ ''requestId'' @ [CHR 34] @ '' not found in context store'')"
    by (simp add: ctxMustGet_def storeLookup_def newCtx_def)
  then show ?thesis
    using request_store_laws [of "''user''" "newCtx netFresh exampleRequest" "AInt 7" "''x''" "''abc''"] by simp
qed

text \<open>
  Reading the body: without a read error the first call returns the body, cut to a declared
  content length, every later call returns the same bytes without touching the request, and
  after \<^verbatim>\<open>SetBody\<close> the new body is read.
\<close>

theorem body_read_once:
  assumes "rBodyErr (cReq c) = None" and "\<not> cBodyRead c" and "ctxBody c = (c1, b)"
  shows "b = Inr (if 0 \<le> rContentLength (cReq c) \<and> rContentLength (cReq c) < 2 ^ 63
                  then take (nat (rContentLength (cReq c))) (rBody (cReq c)) else rBody (cReq c))
    \<and> ctxBody c1 = (c1, b)
    \<and> snd (ctxBody (setBody c1 b' None)) =
        Inr (if 0 \<le> rContentLength (cReq c) \<and> rContentLength (cReq c) < 2 ^ 63
             then take (nat (rContentLength (cReq c))) b' else b')"
proof -
  obtain s where s: "c1 = c\<lparr>cReq := consumed (cReq c), cBodyCache := Some s, cBodyRead := True\<rparr>" "b = Inr (bsData s)"
    "bsData s = (if 0 \<le> rContentLength (cReq c) \<and> rContentLength (cReq c) < 2 ^ 63
                 then take (nat (rContentLength (cReq c))) (rBody (cReq c)) else rBody (cReq c))"
    using ctxBody_first [OF assms(1,2)] assms(3) by auto
  moreover have "ctxBody c1 = (c1, b)" using s by (simp add: ctxBody_def)
  moreover have "rContentLength (cReq (setBody c1 b' None)) = rContentLength (cReq c)" "rBody (cReq (setBody c1 b' None)) = b'"
    "rBodyErr (cReq (setBody c1 b' None)) = None" "\<not> cBodyRead (setBody c1 b' None)"
    using s(1) by (simp_all add: setBody_def consumed_def)
  ultimately show ?thesis using ctxBody_first [of "setBody c1 b' None"] by force
qed

theorem body_read_once_witness:
  "\<exists>c1 b. ctxBody (newCtx netFresh (exampleRequest\<lparr>rBody := ''hello'', rContentLength := 3\<rparr>)) = (c1, b)
     \<and> b = Inr ''hel'' \<and> ctxBody c1 = (c1, Inr ''hel'')"
proof -
  let ?c = "newCtx netFresh (exampleRequest\<lparr>rBody := ''hello'', rContentLength := 3\<rparr>)"
  obtain c1 b where b: "ctxBody ?c = (c1, b)" by (cases "ctxBody ?c")
  have "rBodyErr (cReq ?c) = None" "\<not> cBodyRead ?c" by (simp_all add: newCtx_def exampleRequest_def)
  from body_read_once [OF this b, of "[]"] b show ?thesis by (simp add: newCtx_def)
qed

text \<open>
  \<^verbatim>\<open>isValidUUID\<close> accepts exactly the strings of five groups of 8, 4, 4, 4 and 12 hexadecimal
  digits joined by hyphens.
\<close>

theorem uuid_grammar:
  "isValidUUID s \<longleftrightarrow>
     (\<exists>a b c d e. s = a @ ''-'' @ b @ ''-'' @ c @ ''-'' @ d @ ''-'' @ e
        \<and> hexRun 8 a \<and> hexRun 4 b \<and> hexRun 4 c \<and> hexRun 4 d \<and> hexRun 12 e)"
proof
  assume v: "isValidUUID s"
  then have "length s = 36" by (simp add: isValidUUID_def split: if_splits)
  then obtain a x b y c z d w e where s: "s = a @ [x] @ b @ [y] @ c @ [z] @ d @ [w] @ e"
    and len: "length a = 8" "length b = 4" "length c = 4" "length d = 4" "length e = 12" by (rule uuid_split)
  from v have "uuidLoop 0 s" by (simp add: isValidUUID_def split: if_splits)
  with uuidLoop_groups [OF len] s len
  have "s = a @ ''-'' @ b @ ''-'' @ c @ ''-'' @ d @ ''-'' @ e
        \<and> hexRun 8 a \<and> hexRun 4 b \<and> hexRun 4 c \<and> hexRun 4 d \<and> hexRun 12 e"
    by (simp add: hexRun_def)
  then show "\<exists>a b c d e. s = a @ ''-'' @ b @ ''-'' @ c @ ''-'' @ d @ ''-'' @ e
        \<and> hexRun 8 a \<and> hexRun 4 b \<and> hexRun 4 c \<and> hexRun 4 d \<and> hexRun 12 e" by blast
next
  assume "\<exists>a b c d e. s = a @ ''-'' @ b @ ''-'' @ c @ ''-'' @ d @ ''-'' @ e
        \<and> hexRun 8 a \<and> hexRun 4 b \<and> hexRun 4 c \<and> hexRun 4 d \<and> hexRun 12 e"
  then obtain a b c d e where s: "s = a @ ''-'' @ b @ ''-'' @ c @ ''-'' @ d @ ''-'' @ e"
    and h: "hexRun 8 a" "hexRun 4 b" "hexRun 4 c" "hexRun 4 d" "hexRun 12 e" by blast
  then show "isValidUUID s"
    using uuidLoop_groups [of a b c d e "CHR ''-''" "CHR ''-''" "CHR ''-''" "CHR ''-''"]
    by (simp add: isValidUUID_def hexRun_def)
qed

text \<open>
  A client that does not come through a trusted proxy cannot choose its address: when trusted
  proxies are configured and the peer's address is not a valid trusted one, \<^verbatim>\<open>RealIP\<close> is the
  peer's own address whatever the forwarding headers say.
\<close>

theorem untrusted_peer_keeps_its_address:
  assumes "TrustedProxies px \<noteq> []" and "\<not> isTrustedProxy px (directIP (cReq c))"
  shows "realIP px (c\<lparr>cReq := (cReq c)\<lparr>rHeader := h\<rparr>\<rparr>) = directIP (cReq c)"
proof -
  have "directIP (cReq (c\<lparr>cReq := (cReq c)\<lparr>rHeader := h\<rparr>\<rparr>)) = directIP (cReq c)"
    by (simp add: directIP_def split: option.split prod.split)
  then show ?thesis using assms unfolding realIP_def Let_def by simp
qed

definition exampleProxies :: proxyConfig where
  "exampleProxies =
     \<lparr>TrustedProxies = [''10.0.0.1''], trustedProxyIPs = [''10.0.0.1''],
      trustedCIDRContains = (\<lambda>_. False), validIP = (\<lambda>_. True)\<rparr>"

theorem untrusted_peer_keeps_its_address_witness:
  "realIP exampleProxies (newCtx netFresh (exampleRequest\<lparr>rHeader := [(''X-Real-Ip'', [''10.0.0.9''])]\<rparr>)) = ''192.0.2.1''"
proof -
  have d: "directIP (cReq (newCtx netFresh exampleRequest)) = ''192.0.2.1''" by code_simp
  have "\<not> isTrustedProxy exampleProxies ''192.0.2.1''" by code_simp
  then show ?thesis
    using untrusted_peer_keeps_its_address [of exampleProxies "newCtx netFresh exampleRequest"
        "[(''X-Real-Ip'', [''10.0.0.9''])]"] d
    by (simp add: exampleProxies_def newCtx_def)
qed

text \<open>
  \<^verbatim>\<open>JSON\<close> answers once: on a context whose response was already written it returns
  \<^verbatim>\<open>ErrResponseAlreadyWritten\<close> and touches neither the context nor the writer; on a fresh one over
  the server's writer it sends the requested status, or the pending one for status zero, with the
  codec's content type and the encoded value, and marks the response as written.
\<close>

theorem json_answers_once:
  assumes "codecMarshal cdc v = Inr d" and "d \<noteq> []" and "cRes c = netFresh"
    and "st = (if status = 0 then cStatusCode c else status)" and "bodyAllowedForStatus st"
  shows "if cWritten c then ctxJSON netOps cdc c status v = (c, Some ErrResponseAlreadyWritten)
    else (\<exists>c'. ctxJSON netOps cdc c status v = (c', None) \<and> cWritten c'
           \<and> nSent (cRes c') = Some (st, [(''Content-Type'', [codecContentType cdc])]) \<and> nBody (cRes c') = d)"
proof -
  have ni: "\<not> informational st" using assms(5) by (auto simp: informational_def bodyAllowedForStatus_def)
  have run: "ctxJSON netOps cdc c status v =
      codecEncode netOps cdc (writeHeaderUnless200 netOps
        (setContentType netOps (c\<lparr>cWritten := True\<rparr>) (codecContentType cdc)) st) v" if "\<not> cWritten c"
    using that assms(4) by (simp add: ctxJSON_def Let_def)
  show ?thesis
  proof (cases "cWritten c")
    case True
    then show ?thesis by (simp add: ctxJSON_def)
  next
    case False
    then show ?thesis unfolding run [OF False] using assms(1-3,5) ni
      by (simp add: setContentType_def writeHeaderUnless200_def codecEncode_def resWrite_def Let_def
          netOps_def netFresh_def netWrite_def netWriteHeader_def)
  qed
qed

theorem json_answers_once_witness:
  "\<exists>c'. ctxJSON netOps textCodec (ctxStatus (newCtx netFresh exampleRequest) 201) 0 ''{}'' = (c', None)
     \<and> nSent (cRes c') = Some (201, [(''Content-Type'', [''application/json''])])"
  using json_answers_once [of textCodec "''{}''" "''{}''" "ctxStatus (newCtx netFresh exampleRequest) 201" 201 0]
  by (auto simp: textCodec_def ctxStatus_def newCtx_def bodyAllowedForStatus_def)

text \<open>
  \<^verbatim>\<open>Text\<close> issues exactly a content type, its own status unless that is 200, and the text, whatever
  status \<^verbatim>\<open>Status\<close> has set before; so \<^verbatim>\<open>Text(0, ...)\<close> passes the invalid status zero on to the writer.
\<close>

theorem text_ignores_pending_status:
  "cRes (fst (ctxText ops (ctxStatus c pending) status t)) =
     wRun ops (cRes c)
       (OpHeader (AList.update ''Content-Type'' [''text/plain; charset=utf-8''])
        # (if status \<noteq> 200 then [OpWriteHeader status] else []) @ [OpWrite t])"
  by (simp add: ctxText_def ctxStatus_def setContentType_def writeHeaderUnless200_def resWrite_def Let_def
      split: prod.splits)

end
