(* ===== verification/SlidingWindow.thy ===== *)
theory SlidingWindow
  imports Prelude
begin

text \<open>
  The sliding-window algorithm of the rate-limit plugin
  (\<^verbatim>\<open>plugins/ratelimit/algo_sliding_window.go\<close>): a ring of ten sub-counters indexed by the
  absolute sub-window number. It is refined from a log of the admitted requests: a request is
  admitted exactly when fewer than \<open>limit\<close> admitted ones lie in the last ten sub-windows.
  Times and durations are nanoseconds; they are unbounded integers here, as \<^verbatim>\<open>int64\<close> nanoseconds
  do not wrap before the year 2262.
\<close>

section \<open>The algorithm\<close>

definition slidingBuckets :: int where "slidingBuckets = 10"

record swEntry =
  lastAbsSub :: int
  buckets :: "int list"

definition swFresh :: swEntry where
  "swFresh = \<lparr>lastAbsSub = 0, buckets = replicate 10 0\<rparr>"

definition subWindowOf :: "int \<Rightarrow> int" where
  "subWindowOf window =
     (let subWindow = window sdiv slidingBuckets
      in if subWindow \<le> 0 then (if window \<le> 0 then 1 else window) else subWindow)"

definition setBucket :: "int list \<Rightarrow> int \<Rightarrow> int \<Rightarrow> int list go" where
  "setBucket bs idx v =
     (if 0 \<le> idx \<and> idx < int (length bs) then ret (bs[nat idx := v]) else Inl IndexOutOfRange)"

fun zeroGap :: "int list \<Rightarrow> int \<Rightarrow> int list \<Rightarrow> int list go" where
  "zeroGap bs l [] = ret bs"
| "zeroGap bs l (i # is) = go_bind (setBucket bs ((l + i) smod slidingBuckets) 0) (\<lambda>bs'. zeroGap bs' l is)"

definition swAdvance :: "swEntry \<Rightarrow> int \<Rightarrow> swEntry go" where
  \<comment> \<open>the gap branch: zero what has rolled out of the window and re-anchor\<close>
  "swAdvance e nowAbsSub =
     (let gap = nowAbsSub - lastAbsSub e
      in if 0 < gap
         then go_bind
                (if slidingBuckets \<le> gap then ret (map (\<lambda>_. 0) (buckets e))
                 else zeroGap (buckets e) (lastAbsSub e) (map int [1..<nat gap + 1]))
                (\<lambda>bs. ret (e\<lparr>buckets := bs, lastAbsSub := nowAbsSub\<rparr>))
         else ret e)"

definition slidingWindowDecide ::
  "swEntry \<Rightarrow> int \<Rightarrow> int \<Rightarrow> int \<Rightarrow> (swEntry \<times> bool \<times> int \<times> int) go" where
  \<comment> \<open>entry, now, limit, window; the result is the entry, admit, remaining and reset\<close>
  "slidingWindowDecide e now limit window =
     (let subWindow = subWindowOf window; nowAbsSub = now sdiv subWindow
      in go_bind (swAdvance e nowAbsSub) (\<lambda>e1.
           let idx = nowAbsSub smod slidingBuckets;
               total = sum_list (buckets e1);
               reset = (nowAbsSub + 1) * subWindow
           in if total < limit
              then (if 0 \<le> idx \<and> idx < int (length (buckets e1))
                    then let bs = (buckets e1)[nat idx := buckets e1 ! nat idx + 1]
                         in ret (e1\<lparr>buckets := bs\<rparr>, True, max 0 (limit - (total + 1)), reset)
                    else Inl IndexOutOfRange)
              else ret (e1, False, max 0 (limit - total), reset)))"

section \<open>The specification: a log of admissions\<close>

definition inWindow :: "int \<Rightarrow> int \<Rightarrow> bool" where
  "inWindow s x \<longleftrightarrow> s - slidingBuckets < x \<and> x \<le> s"

definition windowCount :: "int list \<Rightarrow> int \<Rightarrow> int" where
  "windowCount log s = int (length (filter (inWindow s) log))"

definition specDecide :: "int list \<Rightarrow> int \<Rightarrow> int \<Rightarrow> int list \<times> bool" where
  "specDecide log s limit =
     (if windowCount log s < limit then (log @ [s], True) else (log, False))"

text \<open>
  The refinement relation: slot \<open>j\<close> of the ring counts the logged admissions of the one
  sub-window congruent to \<open>j\<close> among the last ten.
\<close>

definition slotCount :: "int list \<Rightarrow> int \<Rightarrow> nat \<Rightarrow> int" where
  "slotCount log s j = int (length (filter (\<lambda>x. s - 10 < x \<and> x mod 10 = int j) log))"

definition swRel :: "swEntry \<Rightarrow> int list \<Rightarrow> bool" where
  "swRel e log \<longleftrightarrow>
     length (buckets e) = 10 \<and> 0 \<le> lastAbsSub e
     \<and> (\<forall>x \<in> set log. 0 \<le> x \<and> x \<le> lastAbsSub e)
     \<and> (\<forall>j < 10. buckets e ! j = slotCount log (lastAbsSub e) j)"

lemma swRel_fresh: "swRel swFresh []"
  by (simp add: swRel_def swFresh_def slotCount_def)

lemma subWindowOf_pos: "0 < subWindowOf w"
  by (auto simp: subWindowOf_def Let_def)

lemma zeroGap_ret:
  assumes "length bs = 10" and "0 \<le> l" and "\<forall>i \<in> set is. 0 < i"
  shows "\<exists>bs'. zeroGap bs l is = ret bs' \<and> length bs' = 10
     \<and> (\<forall>j < 10. bs' ! j = (if \<exists>i \<in> set is. (l + i) mod 10 = int j then 0 else bs ! j))"
  using assms
proof (induction "is" arbitrary: bs)
  case (Cons i "is")
  have nn: "(l + i) smod slidingBuckets = (l + i) mod 10"
    using Cons.prems by (simp add: slidingBuckets_def smod_nonneg)
  let ?bs = "bs[nat ((l + i) mod 10) := 0]"
  have "setBucket bs ((l + i) smod slidingBuckets) 0 = ret ?bs"
    using Cons.prems(1) by (simp add: setBucket_def nn)
  moreover obtain bs' where bs': "zeroGap ?bs l is = ret bs'" "length bs' = 10"
    "\<forall>j < 10. bs' ! j = (if \<exists>i \<in> set is. (l + i) mod 10 = int j then 0 else ?bs ! j)"
    using Cons.IH [of ?bs] Cons.prems by auto
  ultimately show ?case
    using Cons.prems(1) by (auto simp: nth_list_update)
qed simp

lemma slotCount_zero: "(\<And>x. x \<in> set log \<Longrightarrow> s - 10 < x \<Longrightarrow> x mod 10 \<noteq> int j) \<Longrightarrow> slotCount log s j = 0"
  by (auto simp: slotCount_def filter_empty_conv)

lemma mod10_unique: "(a::int) mod 10 = b mod 10 \<Longrightarrow> b < a + 10 \<Longrightarrow> a < b + 10 \<Longrightarrow> a = b"
  by presburger

lemma swAdvance_rel:
  assumes "swRel e log" and "lastAbsSub e \<le> s"
  shows "\<exists>e1. swAdvance e s = ret e1 \<and> swRel e1 log \<and> lastAbsSub e1 = s"
proof (cases "lastAbsSub e = s")
  case True
  with assms show ?thesis by (simp add: swAdvance_def)
next
  case False
  let ?l = "lastAbsSub e"
  from assms False have l: "?l < s" "0 \<le> ?l" "length (buckets e) = 10" by (auto simp: swRel_def)
  have old: "x \<le> ?l" if "x \<in> set log" for x using that assms(1) by (auto simp: swRel_def)
  show ?thesis
  proof (cases "10 \<le> s - ?l")
    case True
    have "slotCount log s j = 0" for j
      by (rule slotCount_zero) (use old True in fastforce)
    with assms True l show ?thesis
      by (fastforce simp: swAdvance_def swRel_def slidingBuckets_def Let_def)
  next
    case False
    let ?is = "map int [1..<nat (s - ?l) + 1]"
    have set_is: "i \<in> set ?is \<longleftrightarrow> 1 \<le> i \<and> i \<le> s - ?l" for i
    proof
      assume "1 \<le> i \<and> i \<le> s - ?l"
      then have "i = int (nat i)" "nat i \<in> set [1..<nat (s - ?l) + 1]" by auto
      then show "i \<in> set ?is" by (metis imageI set_map)
    qed auto
    have pos: "\<forall>i \<in> set ?is. 0 < i"
    proof
      fix i assume "i \<in> set ?is"
      then show "0 < i" using set_is [of i] by linarith
    qed
    obtain bs' where bs': "zeroGap (buckets e) ?l ?is = ret bs'" "length bs' = 10"
      and nth: "\<forall>j < 10. bs' ! j = (if \<exists>i \<in> set ?is. (?l + i) mod 10 = int j then 0 else buckets e ! j)"
      using zeroGap_ret [OF l(3,2) pos] by blast
    have "bs' ! j = slotCount log s j" if "j < 10" for j
    proof (cases "\<exists>i \<in> set ?is. (?l + i) mod 10 = int j")
      case True
      then obtain i where i: "1 \<le> i" "i \<le> s - ?l" "(?l + i) mod 10 = int j" using set_is by blast
      have "slotCount log s j = 0"
      proof (rule slotCount_zero)
        fix x assume x: "x \<in> set log" "s - 10 < x"
        show "x mod 10 \<noteq> int j"
        proof
          assume "x mod 10 = int j"
          then have "x mod 10 = (?l + i) mod 10" using i(3) by simp
          moreover have "x \<le> ?l" using old x(1) .
          ultimately have "x = ?l + i" using mod10_unique [of x "?l + i"] x(2) i(1,2) False by linarith
          with \<open>x \<le> ?l\<close> i(1) show False by simp
        qed
      qed
      with nth [rule_format, OF that] True show ?thesis by presburger
    next
      case False': False
      have "filter (\<lambda>x. s - 10 < x \<and> x mod 10 = int j) log = filter (\<lambda>x. ?l - 10 < x \<and> x mod 10 = int j) log"
      proof (rule filter_cong [OF refl])
        fix x assume x: "x \<in> set log"
        have False if "?l - 10 < x" "x \<le> s - 10" "x mod 10 = int j"
        proof -
          have "(?l + (x + 10 - ?l)) mod 10 = int j" using that(3) by simp
          moreover have "x + 10 - ?l \<in> set ?is" unfolding set_is using that by simp
          ultimately show False using False' by blast
        qed
        with l(1) show "(s - 10 < x \<and> x mod 10 = int j) = (?l - 10 < x \<and> x mod 10 = int j)" by fastforce
      qed
      moreover have "bs' ! j = buckets e ! j" using nth [rule_format, OF that] False' by presburger
      ultimately show ?thesis using that assms(1) by (simp add: slotCount_def swRel_def)
    qed
    with bs' False l old assms(1) show ?thesis
      by (fastforce simp: swAdvance_def swRel_def slidingBuckets_def Let_def)
  qed
qed

lemma sum_slots: "(\<Sum>j<10. slotCount log s j) = int (length (filter (\<lambda>x. s - 10 < x) log))"
proof (induction log)
  case (Cons x log)
  have "(if x mod 10 = int j then 1 else 0 :: int) = (if j = nat (x mod 10) then 1 else 0)" for j
    by auto
  then have "(\<Sum>j<10. if x mod 10 = int j then 1 else 0 :: int) = 1" by simp
  moreover have "slotCount (x # log) s j =
      (if s - 10 < x then (if x mod 10 = int j then 1 else 0) else 0) + slotCount log s j" for j
    by (simp add: slotCount_def)
  ultimately show ?case using Cons by (simp add: sum.distrib)
qed (simp add: slotCount_def)

lemma ring_total:
  assumes "swRel e log" and "lastAbsSub e = s"
  shows "sum_list (buckets e) = windowCount log s"
proof -
  have "sum_list (buckets e) = (\<Sum>j<10. buckets e ! j)"
    using assms by (simp add: sum_list_sum_nth swRel_def atLeast0LessThan)
  also have "\<dots> = (\<Sum>j<10. slotCount log s j)" using assms by (simp add: swRel_def)
  also have "\<dots> = windowCount log s" unfolding sum_slots windowCount_def
    using assms by (auto simp: swRel_def inWindow_def slidingBuckets_def intro!: arg_cong [where f = length] filter_cong)
  finally show ?thesis .
qed

lemma swRel_admit:
  assumes "swRel e log" and "lastAbsSub e = s" and "i = nat (s mod 10)"
  shows "swRel (e\<lparr>buckets := (buckets e)[i := buckets e ! i + 1]\<rparr>) (log @ [s])"
proof -
  have "0 \<le> s" using assms by (auto simp: swRel_def)
  then have "i < 10" "s mod 10 = int i" using assms(3) by auto
  with assms show ?thesis by (auto simp: swRel_def slotCount_def nth_list_update)
qed

lemma swDecide_refines:
  assumes rel: "swRel e log" and mono: "lastAbsSub e \<le> s" and now: "now sdiv subWindowOf window = s"
  shows "\<exists>e' rem reset. slidingWindowDecide e now limit window = ret (e', snd (specDecide log s limit), rem, reset)
     \<and> swRel e' (fst (specDecide log s limit)) \<and> lastAbsSub e' = s
     \<and> rem = max 0 (limit - windowCount (fst (specDecide log s limit)) s)"
proof -
  obtain e1 where e1: "swAdvance e s = ret e1" "swRel e1 log" "lastAbsSub e1 = s"
    using swAdvance_rel [OF rel mono] by blast
  have total: "sum_list (buckets e1) = windowCount log s" using ring_total e1 by blast
  have s: "0 \<le> s" using e1 by (auto simp: swRel_def)
  have idx: "s smod slidingBuckets = s mod 10" "0 \<le> s mod 10" "s mod 10 < 10"
    using s by (simp_all add: slidingBuckets_def smod_nonneg)
  have len: "length (buckets e1) = 10" using e1 by (simp add: swRel_def)
  show ?thesis
  proof (cases "windowCount log s < limit")
    case True
    have "windowCount (log @ [s]) s = windowCount log s + 1"
      by (simp add: windowCount_def inWindow_def slidingBuckets_def)
    with True show ?thesis
      using swRel_admit [OF e1(2,3) refl] e1 total idx len now
      by (simp add: slidingWindowDecide_def specDecide_def Let_def)
  next
    case False
    then show ?thesis using e1 total now by (simp add: slidingWindowDecide_def specDecide_def Let_def)
  qed
qed

section \<open>Runs\<close>

fun swRun :: "swEntry \<Rightarrow> int \<Rightarrow> int \<Rightarrow> int list \<Rightarrow> (swEntry \<times> bool list) go" where
  \<comment> \<open>the decisions for requests of one key at the given times\<close>
  "swRun e limit window [] = ret (e, [])"
| "swRun e limit window (t # ts) =
     go_bind (slidingWindowDecide e t limit window) (\<lambda>(e', a, _, _).
       go_bind (swRun e' limit window ts) (\<lambda>(e'', as). ret (e'', a # as)))"

definition admittedSubs :: "int \<Rightarrow> int list \<Rightarrow> bool list \<Rightarrow> int list" where
  "admittedSubs window reqs admits =
     map (\<lambda>(t, a). t sdiv subWindowOf window) (filter snd (zip reqs admits))"

lemma admittedSubs_simps [simp]:
  "admittedSubs window [] as = []"
  "admittedSubs window (t # ts) (a # as) =
     (if a then [t sdiv subWindowOf window] else []) @ admittedSubs window ts as"
  by (simp_all add: admittedSubs_def)

lemma swRun_spec:
  assumes "swRel e log" and "sorted ts" and "\<forall>t \<in> set ts. 0 \<le> t \<and> lastAbsSub e \<le> t sdiv subWindowOf window"
  shows "\<exists>e' as. swRun e limit window ts = ret (e', as) \<and> length as = length ts
    \<and> swRel e' (log @ admittedSubs window ts as)
    \<and> (\<forall>i < length ts. as ! i \<longleftrightarrow>
         windowCount (log @ admittedSubs window (take i ts) (take i as)) (ts ! i sdiv subWindowOf window) < limit)"
  using assms
proof (induction ts arbitrary: e log)
  case (Cons t ts)
  let ?s = "t sdiv subWindowOf window" and ?d = "specDecide log (t sdiv subWindowOf window) limit"
  obtain e1 rm rs where e1: "slidingWindowDecide e t limit window = ret (e1, snd ?d, rm, rs)"
    "swRel e1 (fst ?d)" "lastAbsSub e1 = ?s"
    using swDecide_refines [OF Cons.prems(1) _ refl, of t window limit] Cons.prems(3) by auto
  have "?s \<le> t' sdiv subWindowOf window \<and> 0 \<le> t'" if "t' \<in> set ts" for t'
    using that Cons.prems subWindowOf_pos [of window] by (auto simp: sdiv_nonneg intro: zdiv_mono1)
  then obtain e' as where r: "swRun e1 limit window ts = ret (e', as)" "length as = length ts"
    "swRel e' (fst ?d @ admittedSubs window ts as)"
    "\<forall>i < length ts. as ! i \<longleftrightarrow>
       windowCount (fst ?d @ admittedSubs window (take i ts) (take i as)) (ts ! i sdiv subWindowOf window) < limit"
    using Cons.IH [OF e1(2)] Cons.prems(2) e1(3) by fastforce
  have d: "fst ?d @ xs = log @ (if snd ?d then [?s] else []) @ xs" "snd ?d \<longleftrightarrow> windowCount log ?s < limit" for xs
    by (simp_all add: specDecide_def)
  show ?case
  proof (intro exI conjI allI impI)
    show "swRun e limit window (t # ts) = ret (e', snd ?d # as)" using e1 r by simp
    show "swRel e' (log @ admittedSubs window (t # ts) (snd ?d # as))" using r(3) d by simp
    fix i assume "i < length (t # ts)"
    then show "(snd ?d # as) ! i \<longleftrightarrow> windowCount (log @ admittedSubs window (take i (t # ts)) (take i (snd ?d # as)))
        ((t # ts) ! i sdiv subWindowOf window) < limit"
      using r(4) d by (cases i) auto
  qed (use r in simp)
qed simp

lemma windowCount_append: "windowCount (xs @ ys) k = windowCount xs k + windowCount ys k"
  by (simp add: windowCount_def)

text \<open>Admissions at the end of a sorted log keep every window within the limit.\<close>

lemma window_bound_snoc:
  assumes "\<forall>k. windowCount log k \<le> limit" and "\<forall>x \<in> set log. x \<le> s" and "windowCount log s < limit"
  shows "windowCount (log @ [s]) k \<le> limit"
proof (cases "inWindow k s")
  case True
  have "length (filter (inWindow k) log) \<le> length (filter (inWindow s) log)"
    using assms(2) True
    by (induction log) (auto simp: inWindow_def)
  with assms(3) True show ?thesis by (simp add: windowCount_def)
next
  case False
  with assms(1) show ?thesis by (simp add: windowCount_def)
qed

lemma swRun_bound:
  assumes "sorted ts" and "length as = length ts" and "\<forall>t \<in> set ts. 0 \<le> t" and "0 \<le> limit"
    and "\<forall>i < length ts. as ! i \<longleftrightarrow>
         windowCount (admittedSubs window (take i ts) (take i as)) (ts ! i sdiv subWindowOf window) < limit"
  shows "windowCount (admittedSubs window ts as) k \<le> limit"
  using assms
proof (induction ts arbitrary: as k rule: rev_induct)
  case (snoc t ts)
  obtain bs a where as: "as = bs @ [a]" "length bs = length ts"
    using snoc.prems(2) by (cases as rule: rev_exhaust) auto
  let ?log = "admittedSubs window ts bs" and ?s = "t sdiv subWindowOf window"
  have bound: "\<forall>k. windowCount ?log k \<le> limit"
  proof
    fix k
    have "bs ! i \<longleftrightarrow> windowCount (admittedSubs window (take i ts) (take i bs)) (ts ! i sdiv subWindowOf window) < limit"
      if "i < length ts" for i
      using snoc.prems(5) [rule_format, of i] that as by (simp add: nth_append)
    then show "windowCount ?log k \<le> limit"
      using snoc.IH [of bs k] snoc.prems(1,3,4) as by (simp add: sorted_append)
  qed
  have le: "\<forall>x \<in> set ?log. x \<le> ?s"
    using snoc.prems(1,3) subWindowOf_pos [of window]
    by (auto simp: admittedSubs_def sorted_append sdiv_nonneg dest!: set_zip_leftD intro!: zdiv_mono1)
  have a: "a \<longleftrightarrow> windowCount ?log ?s < limit"
    using snoc.prems(5) [rule_format, of "length ts"] as by (metis (no_types, lifting) append_eq_conv_conj length_append_singleton lessI nth_append_length take_all_iff le_refl)
  have "admittedSubs window (ts @ [t]) as = ?log @ (if a then [?s] else [])"
    using as by (simp add: admittedSubs_def)
  then show ?case using window_bound_snoc [OF bound le] bound a by simp
qed (simp add: windowCount_def)

section \<open>Properties\<close>

text \<open>
  The sliding window limits exactly: for requests of one key at non-decreasing times, the ring
  never panics, no window of ten consecutive sub-windows admits more than \<open>limit\<close> requests, and a
  request is denied only when its window already holds \<open>limit\<close> admitted requests.
\<close>

theorem sliding_window_exact:
  assumes "sorted reqs" and "\<forall>t \<in> set reqs. 0 \<le> t" and "0 \<le> limit"
  shows "\<exists>e' admits. swRun swFresh limit window reqs = ret (e', admits)
    \<and> length admits = length reqs
    \<and> (\<forall>k. windowCount (admittedSubs window reqs admits) k \<le> limit)
    \<and> (\<forall>i < length reqs. admits ! i \<longleftrightarrow>
         windowCount (admittedSubs window (take i reqs) (take i admits)) (reqs ! i sdiv subWindowOf window) < limit)"
proof -
  have "\<forall>t \<in> set reqs. 0 \<le> t \<and> lastAbsSub swFresh \<le> t sdiv subWindowOf window"
    using assms(2) subWindowOf_pos [of window] by (auto simp: swFresh_def sdiv_nonneg pos_imp_zdiv_nonneg_iff)
  from swRun_spec [OF swRel_fresh assms(1) this, of limit] show ?thesis
    using swRun_bound [OF assms(1) _ assms(2,3), of _ window] by fastforce
qed

theorem sliding_window_exact_witness:
  "\<exists>e' admits. swRun swFresh 2 1000 [5, 10, 20, 1100] = ret (e', admits)
    \<and> (\<forall>k. windowCount (admittedSubs 1000 [5, 10, 20, 1100] admits) k \<le> 2)"
  using sliding_window_exact [of "[5, 10, 20, 1100]" 2 1000] by auto

end
