(* ===== verification/TokenBucket.thy ===== *)
theory TokenBucket
  imports Prelude Complex_Main "HOL-Library.Log_Nat"
begin

text \<open>
  The token-bucket algorithm of the rate-limit plugin
  (\<^verbatim>\<open>plugins/ratelimit/algo_token_bucket.go\<close>). The bucket's level is a Go \<^verbatim>\<open>float64\<close>, so the first
  section models binary64 arithmetic: an operation is the exact rational result rounded to the
  nearest multiple of the unit in the last place, ties to even. Infinities and subnormals are left
  out (the magnitudes of this code stay between \<open>10 ^ -18\<close> and \<open>10 ^ 19\<close>).
\<close>

section \<open>Binary64 rounding\<close>

definition roundHalfEven :: "rat \<Rightarrow> int" where
  "roundHalfEven x =
     (let f = \<lfloor>x\<rfloor>; d = x - of_int f
      in if d < 1/2 then f else if 1/2 < d then f + 1 else if even f then f else f + 1)"

definition expo :: "rat \<Rightarrow> int" where
  \<comment> \<open>the binary exponent of a positive rational\<close>
  "expo x =
     (let pq = quotient_of x; k = int (floorlog 2 (nat (fst pq))) - int (floorlog 2 (nat (snd pq)))
      in if 2 powi k \<le> x then k else k - 1)"

definition ulp :: "rat \<Rightarrow> rat" where
  "ulp x = 2 powi (expo x - 52)"

definition fl64 :: "rat \<Rightarrow> rat" where
  "fl64 x =
     (if x = 0 then 0
      else if 0 < x then of_int (roundHalfEven (x / ulp x)) * ulp x
      else - (of_int (roundHalfEven (- x / ulp (- x))) * ulp (- x)))"

lemma roundHalfEven_bounds: "\<lfloor>x\<rfloor> \<le> roundHalfEven x" "roundHalfEven x \<le> \<lfloor>x\<rfloor> + 1"
  by (auto simp: roundHalfEven_def Let_def)

lemma roundHalfEven_mono: "x \<le> y \<Longrightarrow> roundHalfEven x \<le> roundHalfEven y"
proof (cases "\<lfloor>x\<rfloor> = \<lfloor>y\<rfloor>")
  case False
  assume "x \<le> y"
  with False have "\<lfloor>x\<rfloor> + 1 \<le> \<lfloor>y\<rfloor>" using floor_mono by fastforce
  then show ?thesis using roundHalfEven_bounds(2) [of x] roundHalfEven_bounds(1) [of y] by linarith
qed (auto simp: roundHalfEven_def Let_def)

lemma roundHalfEven_int [simp]: "roundHalfEven (of_int n) = n"
  by (simp add: roundHalfEven_def)

lemma expo_bounds:
  assumes "0 < x"
  shows "2 powi (expo x) \<le> x" and "x < 2 powi (expo x + 1)"
proof -
  obtain p q where pq: "quotient_of x = (p, q)" by (cases "quotient_of x")
  then have q: "0 < q" and x: "x = of_int p / of_int q"
    using quotient_of_denom_pos quotient_of_div by blast+
  with assms have p: "0 < p" by (simp add: zero_less_divide_iff)
  define a b where "a = floorlog 2 (nat p)" and "b = floorlog 2 (nat q)"
  have ab: "2 ^ (a - 1) \<le> nat p" "nat p < 2 ^ a" "2 ^ (b - 1) \<le> nat q" "nat q < 2 ^ b" "0 < a" "0 < b"
    using floorlog_bounds [of "nat p" 2] floorlog_bounds [of "nat q" 2] p q
      floorlog_eq_zero_iff [of 2 "nat p"] floorlog_eq_zero_iff [of 2 "nat q"]
    by (auto simp: a_def b_def simp flip: neq0_conv)
  have "of_nat (2 ^ (a - 1)) \<le> (of_nat (nat p) :: rat)" "(of_nat (nat p) :: rat) < of_nat (2 ^ a)"
    "of_nat (2 ^ (b - 1)) \<le> (of_nat (nat q) :: rat)" "(of_nat (nat q) :: rat) < of_nat (2 ^ b)"
    using ab(1-4) by (simp_all only: of_nat_le_iff of_nat_less_iff)
  then have r: "2 powi (int a - 1) \<le> (of_int p :: rat)" "(of_int p :: rat) < 2 powi int a"
    "2 powi (int b - 1) \<le> (of_int q :: rat)" "(of_int q :: rat) < 2 powi int b"
    using p q ab(5,6) by (simp_all add: power_int_def nat_diff_distrib)
  have up: "x < 2 powi (int a - int b + 1)"
  proof -
    have "x < 2 powi int a / 2 powi (int b - 1)" unfolding x
      using r p q by (intro frac_less) auto
    also have "\<dots> = 2 powi (int a - (int b - 1))" by (rule power_int_diff [symmetric]) simp
    also have "int a - (int b - 1) = int a - int b + 1" by simp
    finally show ?thesis .
  qed
  have lo: "2 powi (int a - int b - 1) \<le> x"
  proof -
    have eq: "int a - int b - 1 = int a - 1 - int b" by simp
    have "2 powi (int a - int b - 1) = (2 powi (int a - 1) / 2 powi int b :: rat)"
      unfolding eq by (rule power_int_diff) simp
    also have "\<dots> \<le> x" unfolding x using r p q by (intro frac_le) auto
    finally show ?thesis .
  qed
  from up lo show "2 powi (expo x) \<le> x" "x < 2 powi (expo x + 1)"
    by (auto simp: expo_def pq Let_def simp flip: a_def b_def)
qed

lemma ulp_pos [simp]: "0 < ulp x"
  by (simp add: ulp_def)

lemma scaled_bounds:
  assumes "0 < x"
  shows "2 ^ 52 \<le> x / ulp x" and "x / ulp x < 2 ^ 53"
proof -
  have e: "2 powi expo x = (2 ^ 52 * ulp x :: rat)" "2 powi (expo x + 1) = (2 ^ 53 * ulp x :: rat)"
    by (simp_all add: ulp_def power_int_diff power_int_add)
  then show "2 ^ 52 \<le> x / ulp x" "x / ulp x < 2 ^ 53"
    using expo_bounds [OF assms] by (simp_all add: field_simps)
qed

lemma fl64_pos: "0 < x \<Longrightarrow> fl64 x = of_int (roundHalfEven (x / ulp x)) * ulp x"
  by (simp add: fl64_def)

lemma rounded_bounds:
  assumes "0 < x"
  shows "2 powi expo x \<le> fl64 x" and "fl64 x \<le> 2 powi (expo x + 1)"
proof -
  have "roundHalfEven (of_int (2 ^ 52)) \<le> roundHalfEven (x / ulp x)"
    "roundHalfEven (x / ulp x) \<le> roundHalfEven (of_int (2 ^ 53))"
    using scaled_bounds [OF assms] by (intro roundHalfEven_mono; simp)+
  then have "2 ^ 52 \<le> roundHalfEven (x / ulp x)" "roundHalfEven (x / ulp x) \<le> 2 ^ 53"
    by (simp_all only: roundHalfEven_int)
  then have "(of_int (2 ^ 52) :: rat) \<le> of_int (roundHalfEven (x / ulp x))"
    "of_int (roundHalfEven (x / ulp x)) \<le> (of_int (2 ^ 53) :: rat)"
    by (simp_all only: of_int_le_iff)
  moreover have "2 powi expo x = (of_int (2 ^ 52) * ulp x :: rat)"
    "2 powi (expo x + 1) = (of_int (2 ^ 53) * ulp x :: rat)"
    by (simp_all add: ulp_def power_int_diff power_int_add)
  ultimately show "2 powi expo x \<le> fl64 x" "fl64 x \<le> 2 powi (expo x + 1)"
    using assms by (simp_all only: fl64_pos mult_right_mono ulp_pos less_imp_le)
qed

lemma fl64_nonneg: "0 \<le> x \<Longrightarrow> 0 \<le> fl64 x"
proof (cases "x = 0")
  case False
  assume "0 \<le> x"
  with False have "2 powi expo x \<le> fl64 x" using rounded_bounds(1) [of x] by simp
  moreover have "0 < (2 powi expo x :: rat)" by simp
  ultimately show ?thesis by linarith
qed (simp add: fl64_def)

lemma fl64_mono:
  assumes "0 \<le> x" and "x \<le> y"
  shows "fl64 x \<le> fl64 y"
proof (cases "x = 0")
  case True
  then show ?thesis using fl64_nonneg [of y] assms by (simp add: fl64_def)
next
  case False
  with assms have pos: "0 < x" "0 < y" by auto
  have "expo x \<le> expo y"
  proof (rule ccontr)
    assume "\<not> expo x \<le> expo y"
    then have "2 powi (expo y + 1) \<le> (2 powi expo x :: rat)" by (simp add: power_int_increasing)
    with expo_bounds(1) [OF pos(1)] expo_bounds(2) [OF pos(2)] assms(2) show False by linarith
  qed
  then consider "expo x = expo y" | "expo x + 1 \<le> expo y" by linarith
  then show ?thesis
  proof cases
    case 1
    then have u: "ulp x = ulp y" by (simp add: ulp_def)
    have "x / ulp y \<le> y / ulp y" using assms(2) by (simp add: divide_right_mono less_imp_le)
    then have "roundHalfEven (x / ulp y) \<le> roundHalfEven (y / ulp y)" by (rule roundHalfEven_mono)
    then show ?thesis using pos u by (simp add: fl64_pos mult_right_mono less_imp_le)
  next
    case 2
    then have "2 powi (expo x + 1) \<le> (2 powi expo y :: rat)" by (simp add: power_int_increasing)
    then show ?thesis using rounded_bounds(2) [OF pos(1)] rounded_bounds(1) [OF pos(2)] by linarith
  qed
qed

text \<open>Integers of at most 53 bits are representable.\<close>

lemma fl64_int:
  assumes "0 \<le> n" and "n \<le> 2 ^ 53"
  shows "fl64 (of_int n) = of_int n"
proof (cases "n = 0")
  case False
  with assms have pos: "0 < (of_int n :: rat)" by simp
  show ?thesis
  proof (cases "expo (of_int n) \<le> 52")
    case True
    then have "inverse (ulp (of_int n)) = (2 ^ nat (52 - expo (of_int n)) :: rat)"
      by (simp add: ulp_def power_int_def nat_diff_distrib power_one_over)
    then have "of_int n / ulp (of_int n) = of_int (n * 2 ^ nat (52 - expo (of_int n)))"
      by (simp add: divide_inverse)
    then show ?thesis using pos
      by (metis fl64_pos less_irrefl nonzero_eq_divide_eq roundHalfEven_int ulp_pos)
  next
    case False
    then have "(2 powi 53 :: rat) \<le> 2 powi expo (of_int n)" by (intro power_int_increasing) auto
    then have "(2 ^ 53 :: rat) \<le> of_int n" using expo_bounds(1) [OF pos] by simp
    then have "of_int (2 ^ 53) \<le> (of_int n :: rat)" by simp
    then have n: "n = 2 ^ 53" using assms(2) by (simp only: of_int_le_iff)
    have "\<not> 54 \<le> expo (of_int n)"
    proof
      assume "54 \<le> expo (of_int n)"
      then have "(2 powi 54 :: rat) \<le> 2 powi expo (of_int n)" by (intro power_int_increasing) auto
      then show False using expo_bounds(1) [OF pos] n by simp
    qed
    with False have e: "expo (of_int n) = 53" by simp
    have "of_int n / ulp (of_int n) = of_int (2 ^ 52)" by (simp only: ulp_def e) (simp add: n)
    then show ?thesis using pos
      by (metis fl64_pos less_irrefl nonzero_eq_divide_eq roundHalfEven_int ulp_pos)
  qed
qed (simp add: fl64_def)

section \<open>The algorithm\<close>

record tbEntry =
  tokens :: rat
  lastRefill :: "int option" \<comment> \<open>\<^verbatim>\<open>last\<close>; \<open>None\<close> is the zero time\<close>

definition tbFresh :: tbEntry where
  "tbFresh = \<lparr>tokens = 0, lastRefill = None\<rparr>"

definition Seconds :: "int \<Rightarrow> rat" where
  \<comment> \<open>\<^verbatim>\<open>time.Duration.Seconds\<close>: whole seconds plus the fraction, each in floating point\<close>
  "Seconds d = fl64 (of_int (d sdiv 1000000000) + fl64 (of_int (d smod 1000000000) / 1000000000))"

definition truncInt :: "rat \<Rightarrow> int" where
  \<comment> \<open>conversion of a float to an integer type discards the fraction\<close>
  "truncInt x = (if 0 \<le> x then \<lfloor>x\<rfloor> else \<lceil>x\<rceil>)"

definition tbRate :: "int \<Rightarrow> int \<Rightarrow> rat" where
  "tbRate limit window = fl64 (fl64 (of_int limit) / Seconds window)"

definition tbRefill :: "tbEntry \<Rightarrow> int \<Rightarrow> rat \<Rightarrow> rat \<Rightarrow> tbEntry" where
  "tbRefill e now capacity rate =
     (case lastRefill e of
        None \<Rightarrow> e\<lparr>tokens := capacity, lastRefill := Some now\<rparr>
      | Some l \<Rightarrow>
          (let elapsed = Seconds (now - l)
           in if 0 < elapsed
              then let t = fl64 (tokens e + fl64 (elapsed * rate))
                   in e\<lparr>tokens := (if capacity < t then capacity else t), lastRefill := Some now\<rparr>
              else e))"

definition tokenBucketDecide ::
  "tbEntry \<Rightarrow> int \<Rightarrow> int \<Rightarrow> int \<Rightarrow> int \<Rightarrow> tbEntry \<times> bool \<times> int \<times> int" where
  \<comment> \<open>entry, now, limit, burst, window; the result is the entry, admit, remaining and reset\<close>
  "tokenBucketDecide e now limit burst window =
     (let capacity = fl64 (of_int burst); rate = tbRate limit window;
          e1 = tbRefill e now capacity rate;
          admit = (1 \<le> tokens e1);
          e2 = (if admit then e1\<lparr>tokens := fl64 (tokens e1 - 1)\<rparr> else e1);
          remaining = (if truncInt (tokens e2) < 0 then 0 else truncInt (tokens e2));
          reset = (if 0 < rate
                   then now + truncInt (fl64 (fl64 (fl64 (capacity - tokens e2) / rate) * 1000000000))
                   else now)
      in (e2, admit, remaining, reset))"

section \<open>The level stays within the capacity\<close>

definition tbInv :: "int \<Rightarrow> tbEntry \<Rightarrow> bool" where
  "tbInv burst e \<longleftrightarrow> 0 \<le> tokens e \<and> tokens e \<le> of_int burst"

definition validBurst :: "int \<Rightarrow> bool" where
  "validBurst burst \<longleftrightarrow> 0 \<le> burst \<and> burst \<le> 2 ^ 53"

lemma Seconds_nonneg: "0 \<le> d \<Longrightarrow> 0 \<le> Seconds d"
  by (simp add: Seconds_def sdiv_nonneg smod_nonneg fl64_nonneg pos_imp_zdiv_nonneg_iff)

lemma tbRate_nonneg: "0 \<le> limit \<Longrightarrow> 0 \<le> window \<Longrightarrow> 0 \<le> tbRate limit window"
  by (simp add: tbRate_def fl64_nonneg Seconds_nonneg)

lemma tbRefill_inv:
  assumes "tbInv burst e" and "validBurst burst" and "0 \<le> rate"
  shows "tbInv burst (tbRefill e now (fl64 (of_int burst)) rate)"
proof -
  have cap: "fl64 (of_int burst) = of_int burst" using assms(2) by (simp add: fl64_int validBurst_def)
  have "0 \<le> fl64 (tokens e + fl64 (el * rate))" if "0 < el" for el
    using that assms by (simp add: tbInv_def fl64_nonneg)
  then show ?thesis using assms
    by (auto simp: tbInv_def tbRefill_def cap validBurst_def Let_def split: option.splits)
qed

lemma fl64_minus_one:
  assumes "1 \<le> x" and "x \<le> of_int n" and "n \<le> 2 ^ 53"
  shows "0 \<le> fl64 (x - 1)" and "fl64 (x - 1) \<le> of_int (n - 1)"
proof -
  have n: "1 \<le> n" using assms(1,2) by (metis of_int_1_le_iff order_trans)
  show "0 \<le> fl64 (x - 1)" using assms(1) by (simp add: fl64_nonneg)
  have "fl64 (x - 1) \<le> fl64 (of_int (n - 1))" using assms(1,2) by (intro fl64_mono) auto
  also have "\<dots> = of_int (n - 1)" using n assms(3) by (intro fl64_int) auto
  finally show "fl64 (x - 1) \<le> of_int (n - 1)" .
qed

lemma tokenBucketDecide_inv:
  assumes "tbInv burst e" and "validBurst burst" and "0 \<le> limit" and "0 \<le> window"
    and "tokenBucketDecide e now limit burst window = (e', admit, remaining, reset)"
  shows "tbInv burst e'" and "0 \<le> remaining" and "remaining \<le> burst"
    and "admit \<Longrightarrow> remaining < burst"
proof -
  let ?e1 = "tbRefill e now (fl64 (of_int burst)) (tbRate limit window)"
  have i1: "tbInv burst ?e1" using assms tbRefill_inv tbRate_nonneg by blast
  then have dec: "0 \<le> fl64 (tokens ?e1 - 1)" "fl64 (tokens ?e1 - 1) \<le> of_int (burst - 1)"
    if "1 \<le> tokens ?e1"
    using fl64_minus_one [OF that] assms(2) by (auto simp: tbInv_def validBurst_def)
  have e': "e' = (if 1 \<le> tokens ?e1 then ?e1\<lparr>tokens := fl64 (tokens ?e1 - 1)\<rparr> else ?e1)"
    "admit \<longleftrightarrow> 1 \<le> tokens ?e1"
    using assms(5) by (auto simp: tokenBucketDecide_def Let_def)
  show inv: "tbInv burst e'" using i1 dec e' by (fastforce simp: tbInv_def)
  then have r: "remaining = \<lfloor>tokens e'\<rfloor>"
    using assms(5) by (auto simp: tokenBucketDecide_def Let_def truncInt_def tbInv_def split: if_splits)
  show "0 \<le> remaining" using inv r by (simp add: tbInv_def)
  show "remaining \<le> burst" using inv r by (simp add: tbInv_def floor_le_iff)
  show "remaining < burst" if admit
    using dec e' r that by (simp add: floor_less_iff)
qed

section \<open>Runs\<close>

fun tbRun :: "tbEntry \<Rightarrow> int \<Rightarrow> int \<Rightarrow> int \<Rightarrow> int list \<Rightarrow> tbEntry \<times> (bool \<times> int) list" where
  \<comment> \<open>the decisions for requests of one key at the given times\<close>
  "tbRun e limit burst window [] = (e, [])"
| "tbRun e limit burst window (t # ts) =
     (let (e', a, rm, _) = tokenBucketDecide e t limit burst window;
          (e'', ds) = tbRun e' limit burst window ts
      in (e'', (a, rm) # ds))"

lemma tbRun_bounds:
  "tbInv burst e \<Longrightarrow> validBurst burst \<Longrightarrow> 0 \<le> limit \<Longrightarrow> 0 \<le> window \<Longrightarrow>
   tbInv burst (fst (tbRun e limit burst window ts))
   \<and> (\<forall>(a, rm) \<in> set (snd (tbRun e limit burst window ts)). 0 \<le> rm \<and> rm \<le> burst)"
proof (induction ts arbitrary: e)
  case (Cons t ts)
  obtain e' a rm rs where d: "tokenBucketDecide e t limit burst window = (e', a, rm, rs)"
    by (metis prod_cases4)
  note inv = tokenBucketDecide_inv [OF Cons.prems d]
  show ?case using Cons.IH [OF inv(1) Cons.prems(2-4)] inv(2,3) d by (simp add: case_prod_beta Let_def)
qed simp

text \<open>At one instant nothing is refilled, and the bucket counts down in whole tokens.\<close>

lemma Seconds_0 [simp]: "Seconds 0 = 0"
  by (simp add: Seconds_def fl64_def)

lemma decide_same_instant:
  assumes "lastRefill e = Some t" and "tokens e = of_int k" and "0 \<le> k" and "k \<le> 2 ^ 53"
  shows "\<exists>rs. tokenBucketDecide e t limit burst window =
           (e\<lparr>tokens := of_int (if 1 \<le> k then k - 1 else k)\<rparr>, 1 \<le> k, (if 1 \<le> k then k - 1 else k), rs)"
proof -
  have "fl64 (of_int k - 1) = of_int (k - 1)" if "1 \<le> k"
    using fl64_int [of "k - 1"] that assms(4) by simp
  moreover have "e\<lparr>tokens := of_int k\<rparr> = e" using assms(2) by simp
  ultimately show ?thesis using assms
    by (auto simp: tokenBucketDecide_def tbRefill_def truncInt_def Let_def)
qed

lemma tbRun_same_instant:
  assumes "lastRefill e = Some t" and "tokens e = of_int k" and "0 \<le> k" and "k \<le> 2 ^ 53"
  shows "map fst (snd (tbRun e limit burst window (replicate n t))) =
           replicate (min n (nat k)) True @ replicate (n - nat k) False"
  using assms
proof (induction n arbitrary: e k)
  case (Suc n)
  obtain rs where d: "tokenBucketDecide e t limit burst window =
      (e\<lparr>tokens := of_int (if 1 \<le> k then k - 1 else k)\<rparr>, 1 \<le> k, (if 1 \<le> k then k - 1 else k), rs)"
    using decide_same_instant [OF Suc.prems] by blast
  show ?case
  proof (cases "1 \<le> k")
    case True
    then have "nat k = Suc (nat (k - 1))" by simp
    with True d Suc.prems Suc.IH [of "e\<lparr>tokens := of_int (k - 1)\<rparr>" "k - 1"] show ?thesis
      by (simp add: case_prod_beta Let_def)
  next
    case False
    with Suc.prems have "k = 0" by simp
    with d Suc.prems Suc.IH [of "e\<lparr>tokens := 0\<rparr>" 0] show ?thesis
      by (simp add: case_prod_beta Let_def)
  qed
qed simp

section \<open>Properties\<close>

text \<open>
  C32. The token bucket, with its floating-point level, stays within its bounds: from a fresh entry
  and for requests at arbitrary times, the level and the reported remaining count never leave
  \<open>[0, burst]\<close>, and a fresh key that sends \<open>n\<close> requests at one instant is admitted exactly for
  the first \<open>burst\<close> of them, whatever the limit and the window are.
\<close>

theorem token_bucket_bounds_and_burst:
  assumes "validBurst burst" and "0 \<le> limit" and "0 \<le> window"
  shows "tbInv burst (fst (tbRun tbFresh limit burst window ts))
    \<and> (\<forall>(a, rm) \<in> set (snd (tbRun tbFresh limit burst window ts)). 0 \<le> rm \<and> rm \<le> burst)
    \<and> map fst (snd (tbRun tbFresh limit burst window (replicate n t))) =
        replicate (min n (nat burst)) True @ replicate (n - nat burst) False"
proof -
  have inv: "tbInv burst tbFresh" using assms(1) by (simp add: tbInv_def tbFresh_def validBurst_def)
  let ?full = "\<lparr>tokens = of_int burst, lastRefill = Some t\<rparr>"
  have cap: "fl64 (of_int burst) = of_int burst" using assms(1) by (simp add: fl64_int validBurst_def)
  have "tokenBucketDecide tbFresh t limit burst window = tokenBucketDecide ?full t limit burst window"
    by (simp add: tokenBucketDecide_def tbRefill_def tbFresh_def cap Let_def)
  then have "tbRun tbFresh limit burst window (replicate (Suc m) t) =
      tbRun ?full limit burst window (replicate (Suc m) t)" for m by simp
  then have "map fst (snd (tbRun tbFresh limit burst window (replicate n t))) =
      replicate (min n (nat burst)) True @ replicate (n - nat burst) False"
    using tbRun_same_instant [of ?full t burst limit burst window n] assms(1)
    by (cases n) (simp_all add: validBurst_def)
  with tbRun_bounds [OF inv assms] show ?thesis by blast
qed

theorem token_bucket_bounds_and_burst_witness:
  "map fst (snd (tbRun tbFresh 2 2 1000000000 (replicate 3 7))) = [True, True, False]"
proof -
  have "validBurst 2" by (simp add: validBurst_def)
  from token_bucket_bounds_and_burst [OF this, of 2 1000000000 "[]" 3 7]
  show ?thesis by (simp add: eval_nat_numeral)
qed

end
