(* ===== verification/RateLimit.thy ===== *)
theory RateLimit
  imports TokenBucket SlidingWindow Errors "HOL-Library.Word"
begin

unbundle bit_operations_syntax

text \<open>
  The keyed store and the limiter of the rate-limit plugin (\<^verbatim>\<open>plugins/ratelimit/store.go\<close> and
  \<^verbatim>\<open>plugins/ratelimit/ratelimit.go\<close>): 64 mutex-protected shards selected by the FNV-1a hash of the
  key, an in-line sweep of one shard on every 64th check, and the decision of the configured
  algorithm under the shard's lock. A critical section is one atomic step here. The interface
  between the limiter and the store is the locale \<open>entry_store\<close>: the limiter's refinement to
  per-key admission logs is proved in it and rests on the store through its interpretation.
\<close>

section \<open>The store\<close>

definition shardCount :: nat where "shardCount = 64"

record entry =
  lastAccess :: "int option" \<comment> \<open>\<open>None\<close> is the zero time\<close>
  tbPart :: tbEntry \<comment> \<open>the token-bucket fields\<close>
  swPart :: swEntry \<comment> \<open>the sliding-window fields\<close>

definition freshEntry :: entry where
  "freshEntry = \<lparr>lastAccess = None, tbPart = tbFresh, swPart = swFresh\<rparr>"

record rlStore =
  shards :: "(string \<Rightarrow> entry option) list"
  sweepCounter :: "64 word"
  entryTTL :: int

definition newStore :: "int \<Rightarrow> rlStore" where
  "newStore ttl = \<lparr>shards = replicate shardCount Map.empty, sweepCounter = 0, entryTTL = ttl\<rparr>"

definition fnvHash :: "string \<Rightarrow> 64 word" where
  "fnvHash s = foldl (\<lambda>h c. (h XOR of_char c) * 1099511628211) 14695981039346656037 s"

definition shardFor :: "string \<Rightarrow> nat" where
  "shardFor key = unat (fnvHash key mod of_nat shardCount)"

definition expiredBefore :: "int \<Rightarrow> entry \<Rightarrow> bool" where
  \<comment> \<open>\<^verbatim>\<open>e.lastAccess.Before(cutoff)\<close>; the zero time is before every cutoff\<close>
  "expiredBefore cutoff e \<longleftrightarrow> (case lastAccess e of None \<Rightarrow> True | Some a \<Rightarrow> a < cutoff)"

definition sweepShard :: "rlStore \<Rightarrow> nat \<Rightarrow> int \<Rightarrow> rlStore" where
  "sweepShard s idx now =
     (if entryTTL s \<le> 0 then s
      else let cutoff = now - entryTTL s; m = shards s ! idx
           in s\<lparr>shards := (shards s)[idx :=
                (\<lambda>k. case m k of None \<Rightarrow> None | Some e \<Rightarrow> if expiredBefore cutoff e then None else Some e)]\<rparr>)"

definition sweepAll :: "rlStore \<Rightarrow> int \<Rightarrow> rlStore" where
  "sweepAll s now = foldl (\<lambda>s' i. sweepShard s' i now) s [0..<shardCount]"

definition withEntry ::
  "rlStore \<Rightarrow> string \<Rightarrow> (entry \<Rightarrow> (entry \<times> 'r) go) \<Rightarrow> int \<Rightarrow> int \<Rightarrow> (rlStore \<times> 'r) go" where
  \<comment> \<open>the last two arguments are the clock readings for \<^verbatim>\<open>lastAccess\<close> and for the sweep's cutoff\<close>
  "withEntry s key fn tAccess tSweep =
     (let i = shardFor key; m = shards s ! i;
          e = (case m key of None \<Rightarrow> freshEntry | Some e \<Rightarrow> e)
      in go_bind (fn e) (\<lambda>(e', r).
           let s1 = s\<lparr>shards := (shards s)[i := m(key \<mapsto> e'\<lparr>lastAccess := Some tAccess\<rparr>)]\<rparr>;
               c = sweepCounter s1 + 1;
               s2 = s1\<lparr>sweepCounter := c\<rparr>
           in ret (if c mod of_nat shardCount = 0
                   then sweepShard s2 (unat ((c div of_nat shardCount) mod of_nat shardCount)) tSweep
                   else s2, r)))"

definition storeGet :: "rlStore \<Rightarrow> string \<Rightarrow> entry option" where
  "storeGet s key = (shards s ! shardFor key) key"

definition storeWf :: "rlStore \<Rightarrow> bool" where
  "storeWf s \<longleftrightarrow> length (shards s) = shardCount"

section \<open>The interface of the store\<close>

text \<open>
  What a client may rely on: the critical section runs on the entry of the key, or a fresh one; the
  other entries are kept; and an entry disappears only when it was not accessed for the time to live.
\<close>

definition afterAccess :: "(string \<Rightarrow> entry option) \<Rightarrow> string \<Rightarrow> entry \<Rightarrow> int \<Rightarrow> string \<Rightarrow> entry option" where
  "afterAccess get key e tAccess = get(key \<mapsto> e\<lparr>lastAccess := Some tAccess\<rparr>)"

definition mayEvict :: "int \<Rightarrow> int \<Rightarrow> entry option \<Rightarrow> entry option \<Rightarrow> bool" where
  "mayEvict ttl now old new \<longleftrightarrow>
     new = old \<or> new = None \<and> 0 < ttl \<and> (\<exists>e. old = Some e \<and> expiredBefore (now - ttl) e)"

section \<open>The limiter\<close>

datatype algorithm = TokenBucketAlg | SlidingWindowAlg

record snapshot =
  snapLimit :: int
  snapRemaining :: int
  snapReset :: int
  snapRetryAfter :: int

record 'c rlConfig =
  cfgAlgorithm :: algorithm
  cfgLimit :: int
  cfgWindow :: int
  cfgBurst :: int
  cfgKeyFunc :: "('c \<Rightarrow> string) option"
  cfgSkipPaths :: "string list"
  cfgSkipper :: "('c \<Rightarrow> bool) option"
  cfgStatusCode :: int
  cfgMessage :: string
  cfgHandler :: "('c \<Rightarrow> snapshot \<Rightarrow> 'c \<times> err option) option"
  cfgEntryTTL :: int

definition DefaultConfig :: "'c rlConfig" where
  "DefaultConfig =
     \<lparr>cfgAlgorithm = TokenBucketAlg, cfgLimit = 0, cfgWindow = 0, cfgBurst = 0, cfgKeyFunc = None,
      cfgSkipPaths = [], cfgSkipper = None, cfgStatusCode = 429,
      cfgMessage = ''rate limit exceeded'', cfgHandler = None, cfgEntryTTL = 0\<rparr>"

record 'c rateLimiter =
  rlCfg :: "'c rlConfig"
  rlKeyFunc :: "'c \<Rightarrow> string"
  rlBurst :: int
  rlStatusCode :: int
  rlMessage :: string
  rlSkipPaths :: "string set"

definition newLimiter :: "('c \<Rightarrow> string) \<Rightarrow> 'c rlConfig \<Rightarrow> ('c rateLimiter \<times> rlStore) go" where
  \<comment> \<open>the first argument is the default key function, the context's \<^verbatim>\<open>RealIP\<close>\<close>
  "newLimiter realIP cfg0 =
     (if cfgLimit cfg0 \<le> 0 then panic ''ratelimit: Limit must be > 0''
      else if cfgWindow cfg0 \<le> 0 then panic ''ratelimit: Window must be > 0''
      else let cfg1 = (if cfgBurst cfg0 \<le> 0 then cfg0\<lparr>cfgBurst := cfgLimit cfg0\<rparr> else cfg0);
               cfg2 = (if cfgEntryTTL cfg1 \<le> 0 then cfg1\<lparr>cfgEntryTTL := 2 * cfgWindow cfg1\<rparr> else cfg1);
               cfg3 = (if cfgStatusCode cfg2 = 0 then cfg2\<lparr>cfgStatusCode := 429\<rparr> else cfg2);
               cfg = (if cfgMessage cfg3 = [] then cfg3\<lparr>cfgMessage := ''rate limit exceeded''\<rparr> else cfg3)
           in ret (\<lparr>rlCfg = cfg,
                    rlKeyFunc = (case cfgKeyFunc cfg of None \<Rightarrow> realIP | Some f \<Rightarrow> f),
                    rlBurst = cfgBurst cfg, rlStatusCode = cfgStatusCode cfg,
                    rlMessage = cfgMessage cfg, rlSkipPaths = set (cfgSkipPaths cfg)\<rparr>,
                   newStore (cfgEntryTTL cfg)))"

record clock = \<comment> \<open>the readings of \<^verbatim>\<open>time.Now\<close> during one decision\<close>
  ckNow :: int
  ckUntil :: int
  ckAccess :: int
  ckSweep :: int

definition second :: int where "second = 1000000000"

definition decideEntry :: "'c rateLimiter \<Rightarrow> clock \<Rightarrow> entry \<Rightarrow> (entry \<times> bool \<times> snapshot) go" where
  \<comment> \<open>the closure that \<^verbatim>\<open>decide\<close> runs under the shard's lock\<close>
  "decideEntry rl ck e =
     go_bind
       (case cfgAlgorithm (rlCfg rl) of
          SlidingWindowAlg \<Rightarrow>
            go_bind (slidingWindowDecide (swPart e) (ckNow ck) (cfgLimit (rlCfg rl)) (cfgWindow (rlCfg rl)))
              (\<lambda>(sw, r). ret (e\<lparr>swPart := sw\<rparr>, r))
        | TokenBucketAlg \<Rightarrow>
            (let (tb, r) = tokenBucketDecide (tbPart e) (ckNow ck) (cfgLimit (rlCfg rl)) (rlBurst rl)
                             (cfgWindow (rlCfg rl))
             in ret (e\<lparr>tbPart := tb\<rparr>, r)))
       (\<lambda>(e', ok, remaining, reset).
          let ra = reset - ckUntil ck
          in ret (e', ok,
               \<lparr>snapLimit = cfgLimit (rlCfg rl), snapRemaining = remaining, snapReset = reset,
                snapRetryAfter = (if ok then 0 else if ra < second then second else ra)\<rparr>))"

definition decide :: "'c rateLimiter \<Rightarrow> rlStore \<Rightarrow> string \<Rightarrow> clock \<Rightarrow> (rlStore \<times> bool \<times> snapshot) go" where
  "decide rl s key ck = withEntry s key (decideEntry rl ck) (ckAccess ck) (ckSweep ck)"

locale entry_store =
  fixes get :: "'s \<Rightarrow> string \<Rightarrow> entry option"
    and wf :: "'s \<Rightarrow> bool"
    and ttl :: "'s \<Rightarrow> int"
    and access :: "'s \<Rightarrow> string \<Rightarrow> (entry \<Rightarrow> (entry \<times> bool \<times> snapshot) go) \<Rightarrow> int \<Rightarrow> int \<Rightarrow> ('s \<times> bool \<times> snapshot) go"
  assumes access_ret:
    "wf s \<Longrightarrow> fn (case get s key of None \<Rightarrow> freshEntry | Some e \<Rightarrow> e) = ret (e', r) \<Longrightarrow>
     \<exists>s'. access s key fn tAccess tSweep = ret (s', r) \<and> wf s' \<and> ttl s' = ttl s
       \<and> (\<forall>k. mayEvict (ttl s) tSweep (afterAccess (get s) key e' tAccess k) (get s' k))"

fun decideRun :: "('s \<Rightarrow> string \<Rightarrow> clock \<Rightarrow> ('s \<times> bool \<times> snapshot) go) \<Rightarrow>
    's \<Rightarrow> (string \<times> clock) list \<Rightarrow> ('s \<times> bool list) go" where
  \<comment> \<open>successive decisions, each for a key and with its clock readings\<close>
  "decideRun dec s [] = ret (s, [])"
| "decideRun dec s ((k, ck) # rs) =
     go_bind (dec s k ck) (\<lambda>(s', a, _). go_bind (decideRun dec s' rs) (\<lambda>(s'', as). ret (s'', a # as)))"

section \<open>Specification: one admission lg per key\<close>

fun specRun :: "(string \<Rightarrow> int list) \<Rightarrow> int \<Rightarrow> int \<Rightarrow> (string \<times> clock) list \<Rightarrow> bool list" where
  "specRun logs limit sub [] = []"
| "specRun logs limit sub ((k, ck) # rs) =
     (let (lg, a) = specDecide (logs k) (ckNow ck sdiv sub) limit
      in a # specRun (logs(k := lg)) limit sub rs)"

fun clocksFrom :: "int \<Rightarrow> clock list \<Rightarrow> bool" where
  \<comment> \<open>the readings never go back\<close>
  "clocksFrom t [] \<longleftrightarrow> True"
| "clocksFrom t (ck # cks) \<longleftrightarrow>
     t \<le> ckNow ck \<and> ckNow ck \<le> ckAccess ck \<and> ckAccess ck \<le> ckSweep ck \<and> clocksFrom (ckSweep ck) cks"

definition keyRel :: "int \<Rightarrow> int \<Rightarrow> entry option \<Rightarrow> int list \<Rightarrow> bool" where
  \<comment> \<open>an entry holds the part of the key's lg that can still matter at time \<open>t\<close>\<close>
  "keyRel sub t eo lg \<longleftrightarrow>
     (case eo of
        None \<Rightarrow> \<forall>x \<in> set lg. x + 10 \<le> t sdiv sub
      | Some e \<Rightarrow> \<exists>old new n a. lg = old @ new \<and> swRel (swPart e) new \<and> (\<forall>x \<in> set old. x + 10 \<le> t sdiv sub)
          \<and> lastAccess e = Some a \<and> 0 \<le> n \<and> n \<le> a \<and> a \<le> t \<and> lastAbsSub (swPart e) = n sdiv sub
          \<and> (\<forall>x \<in> set old. x \<le> n sdiv sub))"

lemma sdiv_mono: "0 \<le> a \<Longrightarrow> a \<le> b \<Longrightarrow> 0 < c \<Longrightarrow> a sdiv c \<le> (b sdiv c :: int)"
  by (simp add: sdiv_nonneg zdiv_mono1)

lemma keyRel_later:
  assumes "keyRel sub t eo lg" and "t \<le> t'" and "0 \<le> t" and "0 < sub"
  shows "keyRel sub t' eo lg"
proof -
  have "t sdiv sub \<le> t' sdiv sub" using assms by (simp add: sdiv_mono)
  then have up: "x + 10 \<le> t sdiv sub \<Longrightarrow> x + 10 \<le> t' sdiv sub" for x by linarith
  show ?thesis
  proof (cases eo)
    case None
    with assms(1) up show ?thesis by (simp add: keyRel_def)
  next
    case (Some e)
    with assms(1) obtain old new n a where "lg = old @ new" "swRel (swPart e) new"
      "\<forall>x \<in> set old. x + 10 \<le> t sdiv sub" "lastAccess e = Some a" "0 \<le> n" "n \<le> a" "a \<le> t"
      "lastAbsSub (swPart e) = n sdiv sub" "\<forall>x \<in> set old. x \<le> n sdiv sub"
      by (auto simp: keyRel_def)
    with up assms(2) show ?thesis unfolding Some keyRel_def option.case
      by (intro exI [of _ old] exI [of _ new] exI [of _ n] exI [of _ a]) auto
  qed
qed

lemma keyRel_evict:
  assumes "keyRel sub t (Some e) lg" and "expiredBefore (t - ttl) e" and "10 * sub \<le> ttl"
    and "0 \<le> t" and "0 < sub"
  shows "keyRel sub t None lg"
proof -
  obtain old new n a where r: "lg = old @ new" "swRel (swPart e) new" "lastAccess e = Some a" "0 \<le> n" "n \<le> a"
    "lastAbsSub (swPart e) = n sdiv sub" "\<forall>x \<in> set old. x \<le> n sdiv sub"
    using assms(1) by (auto simp: keyRel_def)
  have "n + 10 * sub \<le> t" using assms(2,3) r(3,5) by (simp add: expiredBefore_def)
  then have "(n + 10 * sub) sdiv sub \<le> t sdiv sub" using r(4) assms(5) by (intro sdiv_mono) auto
  then have "n sdiv sub + 10 \<le> t sdiv sub" using r(4) assms(5) by (simp add: sdiv_nonneg)
  moreover have "x \<le> n sdiv sub" if "x \<in> set lg" for x
    using that r(1,2,6,7) by (auto simp: swRel_def)
  ultimately show ?thesis by (fastforce simp: keyRel_def)
qed

lemma windowCount_expired:
  "(\<forall>x \<in> set old. x + 10 \<le> s) \<Longrightarrow> windowCount (old @ new) s = windowCount new s"
  by (auto simp: windowCount_append windowCount_def inWindow_def slidingBuckets_def filter_empty_conv)

text \<open>One decision on an entry that holds the relevant part of the lg.\<close>

lemma keyRel_decide:
  assumes rel: "keyRel sub t eo lg" and t: "0 \<le> t" "t \<le> ckNow ck" "ckNow ck \<le> ckAccess ck" "ckAccess ck \<le> t'"
    and rl: "cfgAlgorithm (rlCfg rl) = SlidingWindowAlg" "sub = subWindowOf (cfgWindow (rlCfg rl))"
  shows "\<exists>e' snap. decideEntry rl ck (case eo of None \<Rightarrow> freshEntry | Some e \<Rightarrow> e) =
           ret (e', snd (specDecide lg (ckNow ck sdiv sub) (cfgLimit (rlCfg rl))), snap)
         \<and> keyRel sub t' (Some (e'\<lparr>lastAccess := Some (ckAccess ck)\<rparr>))
             (fst (specDecide lg (ckNow ck sdiv sub) (cfgLimit (rlCfg rl))))"
proof -
  let ?e = "case eo of None \<Rightarrow> freshEntry | Some e \<Rightarrow> e" and ?s = "ckNow ck sdiv sub"
    and ?limit = "cfgLimit (rlCfg rl)"
  have sub: "0 < sub" using rl(2) subWindowOf_pos by simp
  have s: "t sdiv sub \<le> ?s" "?s \<le> t' sdiv sub" using sub t by (auto intro: sdiv_mono)
  obtain old new where on: "lg = old @ new" "swRel (swPart ?e) new" "\<forall>x \<in> set old. x + 10 \<le> ?s"
    "lastAbsSub (swPart ?e) \<le> ?s" "\<forall>x \<in> set old. x \<le> ?s"
  proof (cases eo)
    case None
    with rel s have "\<forall>x \<in> set lg. x + 10 \<le> ?s" by (fastforce simp: keyRel_def)
    moreover have "0 \<le> ?s" using t sub by (simp add: sdiv_nonneg pos_imp_zdiv_nonneg_iff)
    ultimately show ?thesis using that [of lg "[]"] None swRel_fresh
      by (fastforce simp: freshEntry_def swFresh_def)
  next
    case (Some e)
    then obtain old new n a where r: "lg = old @ new" "swRel (swPart e) new"
      "\<forall>x \<in> set old. x + 10 \<le> t sdiv sub" "0 \<le> n" "n \<le> a" "a \<le> t" "lastAbsSub (swPart e) = n sdiv sub"
      using rel by (auto simp: keyRel_def)
    have "n sdiv sub \<le> ?s" using r(4-6) t sub by (intro sdiv_mono) auto
    with that [of old new] r s Some show ?thesis by fastforce
  qed
  have wc: "windowCount lg ?s = windowCount new ?s" using on(1,3) windowCount_expired by simp
  obtain e' rm rs where d: "slidingWindowDecide (swPart ?e) (ckNow ck) ?limit (cfgWindow (rlCfg rl)) =
      ret (e', snd (specDecide new ?s ?limit), rm, rs)"
    "swRel e' (fst (specDecide new ?s ?limit))" "lastAbsSub e' = ?s"
    using swDecide_refines [OF on(2,4), of "ckNow ck" "cfgWindow (rlCfg rl)" ?limit] rl(2) by auto
  have sp: "snd (specDecide lg ?s ?limit) = snd (specDecide new ?s ?limit)"
    "fst (specDecide lg ?s ?limit) = old @ fst (specDecide new ?s ?limit)"
    using wc on(1) by (simp_all add: specDecide_def)
  have "\<exists>snap. decideEntry rl ck ?e = ret (?e\<lparr>swPart := e'\<rparr>, snd (specDecide new ?s ?limit), snap)"
    using d(1) rl(1) by (simp add: decideEntry_def Let_def)
  moreover have "keyRel sub t' (Some (?e\<lparr>swPart := e', lastAccess := Some (ckAccess ck)\<rparr>))
      (old @ fst (specDecide new ?s ?limit))"
    unfolding keyRel_def option.case
    by (intro exI [of _ old] exI [of _ "fst (specDecide new ?s ?limit)"] exI [of _ "ckNow ck"]
          exI [of _ "ckAccess ck"]) (use d(2,3) on(3,5) s t in auto)
  ultimately show ?thesis unfolding sp by auto
qed

context entry_store
begin

lemma sliding_refines:
  assumes "wf s" and "\<forall>k. keyRel sub t (get s k) (logs k)" and "0 \<le> t" and "clocksFrom t (map snd reqs)"
    and rl: "cfgAlgorithm (rlCfg rl) = SlidingWindowAlg" "sub = subWindowOf (cfgWindow (rlCfg rl))"
    and ttl: "0 < ttl s \<Longrightarrow> 10 * sub \<le> ttl s"
    and dec: "\<And>s k ck. dec s k ck = access s k (decideEntry rl ck) (ckAccess ck) (ckSweep ck)"
  shows "\<exists>s'. decideRun dec s reqs = ret (s', specRun logs (cfgLimit (rlCfg rl)) sub reqs)"
  using assms(1-4) ttl
proof (induction reqs arbitrary: s t logs)
  case (Cons r reqs)
  obtain k ck where r: "r = (k, ck)" by (cases r)
  let ?d = "specDecide (logs k) (ckNow ck sdiv sub) (cfgLimit (rlCfg rl))"
  have sub: "0 < sub" using rl(2) subWindowOf_pos by simp
  have t: "t \<le> ckNow ck" "ckNow ck \<le> ckAccess ck" "ckAccess ck \<le> ckSweep ck" "clocksFrom (ckSweep ck) (map snd reqs)"
    using Cons.prems(4) r by auto
  obtain e' snap where e': "decideEntry rl ck (case get s k of None \<Rightarrow> freshEntry | Some e \<Rightarrow> e) = ret (e', snd ?d, snap)"
    "keyRel sub (ckSweep ck) (Some (e'\<lparr>lastAccess := Some (ckAccess ck)\<rparr>)) (fst ?d)"
    using keyRel_decide [OF Cons.prems(2) [rule_format] Cons.prems(3) t(1-3) rl] by blast
  obtain s' where s': "access s k (decideEntry rl ck) (ckAccess ck) (ckSweep ck) = ret (s', snd ?d, snap)"
    "wf s'" "ttl s' = ttl s"
    "\<forall>j. mayEvict (ttl s) (ckSweep ck) (afterAccess (get s) k e' (ckAccess ck) j) (get s' j)"
    using access_ret [of s "decideEntry rl ck", OF Cons.prems(1) e'(1)] by blast
  have ts: "0 \<le> ckSweep ck" "t \<le> ckSweep ck" using t Cons.prems(3) by auto
  have kept: "keyRel sub (ckSweep ck) (afterAccess (get s) k e' (ckAccess ck) j) ((logs(k := fst ?d)) j)" for j
    using e'(2) keyRel_later [OF Cons.prems(2) [rule_format, of j] ts(2) Cons.prems(3) sub]
    by (simp add: afterAccess_def)
  have "keyRel sub (ckSweep ck) (get s' j) ((logs(k := fst ?d)) j)" for j
    using kept [of j] s'(4) [rule_format, of j] keyRel_evict Cons.prems(5) ts(1) sub
    unfolding mayEvict_def by metis
  then have "\<exists>s''. decideRun dec s' reqs = ret (s'', specRun (logs(k := fst ?d)) (cfgLimit (rlCfg rl)) sub reqs)"
    using Cons.IH [OF s'(2) _ ts(1) t(4)] Cons.prems(5) s'(3) by simp
  moreover have "dec s k ck = ret (s', snd ?d, snap)" unfolding dec by (rule s'(1))
  ultimately show ?case using r by (auto simp: case_prod_beta Let_def)
qed simp

end

section \<open>The sharded store provides the interface\<close>

lemma shardFor_less: "shardFor k < shardCount"
  by (simp add: shardFor_def shardCount_def unat_mod word_mod_less_divisor word_less_nat_alt)

lemma storeGet_sweepShard:
  assumes "storeWf s" and "i < shardCount"
  shows "mayEvict (entryTTL s) now (storeGet s k) (storeGet (sweepShard s i now) k)"
  using assms shardFor_less [of k]
  by (cases "shardFor k = i")
     (auto simp: mayEvict_def storeGet_def sweepShard_def storeWf_def Let_def split: option.splits)

lemma sweepShard_kept [simp]:
  "storeWf (sweepShard s i now) \<longleftrightarrow> storeWf s" "entryTTL (sweepShard s i now) = entryTTL s"
  by (simp_all add: sweepShard_def storeWf_def Let_def)

lemma storeGet_counter [simp]: "storeGet (s\<lparr>sweepCounter := c\<rparr>) = storeGet s"
  by (simp add: storeGet_def fun_eq_iff)

interpretation sharded: entry_store storeGet storeWf entryTTL withEntry
proof
  fix s key tAccess tSweep e' r and fn :: "entry \<Rightarrow> (entry \<times> bool \<times> snapshot) go"
  assume wf: "storeWf s" and fn: "fn (case storeGet s key of None \<Rightarrow> freshEntry | Some e \<Rightarrow> e) = ret (e', r)"
  let ?i = "shardFor key"
  let ?s1 = "s\<lparr>shards := (shards s)[?i := (shards s ! ?i)(key \<mapsto> e'\<lparr>lastAccess := Some tAccess\<rparr>)]\<rparr>"
  let ?c = "sweepCounter s + 1"
  let ?s2 = "?s1\<lparr>sweepCounter := ?c\<rparr>"
  let ?j = "unat ((?c div of_nat shardCount) mod of_nat shardCount)"
  let ?s3 = "if ?c mod of_nat shardCount = 0 then sweepShard ?s2 ?j tSweep else ?s2"
  have run: "withEntry s key fn tAccess tSweep = ret (?s3, r)"
    using fn by (simp add: withEntry_def storeGet_def Let_def)
  have wf2: "storeWf ?s2" using wf by (simp add: storeWf_def)
  have get2: "storeGet ?s2 k = afterAccess (storeGet s) key e' tAccess k" for k
    using wf shardFor_less [of key] by (auto simp: storeGet_def afterAccess_def storeWf_def nth_list_update)
  have "?j < shardCount"
    by (simp add: shardCount_def unat_mod word_mod_less_divisor)
  then have "mayEvict (entryTTL s) tSweep (afterAccess (storeGet s) key e' tAccess k) (storeGet ?s3 k)" for k
    using storeGet_sweepShard [OF wf2, of ?j tSweep k] get2 [of k] by (simp add: mayEvict_def)
  then show "\<exists>s'. withEntry s key fn tAccess tSweep = ret (s', r) \<and> storeWf s' \<and> entryTTL s' = entryTTL s
      \<and> (\<forall>k. mayEvict (entryTTL s) tSweep (afterAccess (storeGet s) key e' tAccess k) (storeGet s' k))"
    using run wf2 by (intro exI [of _ ?s3]) auto
qed

lemma newStore_rel: "storeWf (newStore ttl) \<and> keyRel sub 0 (storeGet (newStore ttl) k) []"
  using shardFor_less [of k] by (simp add: storeWf_def newStore_def storeGet_def keyRel_def)

lemma limiter_run:
  assumes "newLimiter realIP cfg = ret (rl, s)" and "cfgAlgorithm cfg = SlidingWindowAlg"
    and "cfgEntryTTL cfg \<le> 0" and "10 \<le> cfgWindow cfg" and "clocksFrom 0 (map snd reqs)"
  shows "\<exists>s'. decideRun (decide rl) s reqs =
           ret (s', specRun (\<lambda>_. []) (cfgLimit cfg) (cfgWindow cfg sdiv 10) reqs)"
proof -
  let ?sub = "subWindowOf (cfgWindow cfg)"
  have rl: "cfgAlgorithm (rlCfg rl) = SlidingWindowAlg" "cfgWindow (rlCfg rl) = cfgWindow cfg"
    "cfgLimit (rlCfg rl) = cfgLimit cfg" "s = newStore (2 * cfgWindow cfg)"
    using assms(1-3) by (auto simp: newLimiter_def Let_def split: if_splits)
  have sub: "?sub = cfgWindow cfg sdiv 10" "10 * ?sub \<le> 2 * cfgWindow cfg"
    using assms(4) by (auto simp: subWindowOf_def slidingBuckets_def sdiv_nonneg Let_def)
  have "\<exists>s'. decideRun (decide rl) s reqs = ret (s', specRun (\<lambda>_. []) (cfgLimit (rlCfg rl)) ?sub reqs)"
    by (rule sharded.sliding_refines [where t = 0])
       (use rl sub assms(5) newStore_rel in \<open>auto simp: decide_def newStore_def\<close>)
  then show ?thesis using rl(3) sub(1) by simp
qed

section \<open>Properties\<close>

text \<open>
  The sliding-window limiter keeps the keys apart and its evictions are invisible: with the
  default entry lifetime (\<^verbatim>\<open>EntryTTL\<close> unset) and a window of at least ten nanoseconds, every
  sequence of decisions on the sharded, swept store, for any keys (whether or not their hashes
  collide) and clock readings that do not go back, returns without a panic and gives the
  decisions of one unbounded admission log per key.
\<close>

theorem sliding_limiter_refines_logs:
  assumes "newLimiter realIP cfg = ret (rl, s)" and "cfgAlgorithm cfg = SlidingWindowAlg"
    and "cfgEntryTTL cfg \<le> 0" and "10 \<le> cfgWindow cfg" and "clocksFrom 0 (map snd reqs)"
  shows "\<exists>s'. decideRun (decide rl) s reqs =
           ret (s', specRun (\<lambda>_. []) (cfgLimit cfg) (cfgWindow cfg sdiv 10) reqs)"
  by (rule limiter_run [OF assms])

definition exampleConfig :: "unit rlConfig" where
  "exampleConfig = DefaultConfig\<lparr>cfgAlgorithm := SlidingWindowAlg, cfgLimit := 1, cfgWindow := 1000\<rparr>"

theorem sliding_limiter_refines_logs_witness:
  "\<exists>rl s s'. newLimiter (\<lambda>_. ''k'') exampleConfig = ret (rl, s) \<and>
     decideRun (decide rl) s
       [(''a'', \<lparr>ckNow = 5, ckUntil = 5, ckAccess = 6, ckSweep = 7\<rparr>),
        (''b'', \<lparr>ckNow = 8, ckUntil = 8, ckAccess = 8, ckSweep = 8\<rparr>),
        (''a'', \<lparr>ckNow = 20, ckUntil = 20, ckAccess = 21, ckSweep = 21\<rparr>)] = ret (s', [True, True, False])"
proof -
  obtain rl s where new: "newLimiter (\<lambda>_. ''k'') exampleConfig = ret (rl, s)"
    by (simp add: newLimiter_def exampleConfig_def DefaultConfig_def Let_def)
  have sp: "specRun (\<lambda>_. []) (cfgLimit exampleConfig) (cfgWindow exampleConfig sdiv 10)
      [(''a'', \<lparr>ckNow = 5, ckUntil = 5, ckAccess = 6, ckSweep = 7\<rparr>),
       (''b'', \<lparr>ckNow = 8, ckUntil = 8, ckAccess = 8, ckSweep = 8\<rparr>),
       (''a'', \<lparr>ckNow = 20, ckUntil = 20, ckAccess = 21, ckSweep = 21\<rparr>)] = [True, True, False]"
    by code_simp
  show ?thesis
    using sliding_limiter_refines_logs [OF new, of
        "[(''a'', \<lparr>ckNow = 5, ckUntil = 5, ckAccess = 6, ckSweep = 7\<rparr>),
          (''b'', \<lparr>ckNow = 8, ckUntil = 8, ckAccess = 8, ckSweep = 8\<rparr>),
          (''a'', \<lparr>ckNow = 20, ckUntil = 20, ckAccess = 21, ckSweep = 21\<rparr>)]"]
    using new unfolding sp by (auto simp: exampleConfig_def DefaultConfig_def)
qed

end
