(* ===== verification/Middleware.thy ===== *)
theory Middleware
  imports Errors
begin

text \<open>
  Middleware (\<^verbatim>\<open>middleware.go\<close>, \<^verbatim>\<open>skippaths.go\<close>). A handler transforms the state of a request (the
  framework context with its request and writer) and ends with an error or a panic; a stdlib
  handler has no error to return. Every middleware exists as a stdlib wrapper and possibly as a
  framework-native one; the chain builder composes either kind. The locale \<open>dual_middleware\<close>
  states when the two kinds agree, and the constructors of the framework are interpretations of it.
\<close>

section \<open>Handlers\<close>

datatype outcome = Returned "err option" | Panicked

type_synonym 's handlerFunc = "'s \<Rightarrow> 's \<times> outcome"
type_synonym 's httpHandler = "'s \<Rightarrow> 's \<times> bool" \<comment> \<open>whether it panicked\<close>
type_synonym 's middleware = "'s httpHandler \<Rightarrow> 's httpHandler"
type_synonym 's middlewareFunc = "'s handlerFunc \<Rightarrow> 's handlerFunc"

text \<open>
  What the framework provides to middleware: the request's path, its framework context if it has
  one, the error handler, and the log.
\<close>

record 's framework =
  fPath :: "'s \<Rightarrow> string"
  fHasCtx :: "'s \<Rightarrow> bool"
  fHandleError :: "'s \<Rightarrow> err \<Rightarrow> 's"
  fLog :: "string \<Rightarrow> 's \<Rightarrow> 's"
  fKeepWriter :: "'s \<Rightarrow> 's \<Rightarrow> 's" \<comment> \<open>the second state with the first one's writer\<close>

definition lift_handler :: "'s framework \<Rightarrow> 's handlerFunc \<Rightarrow> 's httpHandler" where
  \<comment> \<open>the adapter of a route's handler: a returned error goes to the error handler\<close>
  "lift_handler fw h s =
     (case h s of
        (s', Returned None) \<Rightarrow> (s', False)
      | (s', Returned (Some e)) \<Rightarrow> (fHandleError fw s' e, False)
      | (s', Panicked) \<Rightarrow> (s', True))"

section \<open>Slots and their coercion\<close>

record 's nativeMiddleware =
  Stdlib :: "'s middleware option"
  Native :: "'s middlewareFunc option"
  Name :: string

datatype 's mwArg =
  ArgNil
| ArgMiddleware "'s middleware option"
| ArgFunc "'s middleware option"
| ArgNative "'s nativeMiddleware"
| ArgOther string \<comment> \<open>a value of another type, with the type's name\<close>

record 's middlewareSlot =
  slStdlib :: "'s middleware"
  slNative :: "'s middlewareFunc option"
  slName :: string

definition argPrefix :: "string \<Rightarrow> nat \<Rightarrow> string" where
  "argPrefix call index = ''aarv: '' @ call @ '': argument '' @ itoa (int index)"

definition coerceSlot :: "'s mwArg \<Rightarrow> string \<Rightarrow> nat \<Rightarrow> 's middlewareSlot go" where
  "coerceSlot arg call index =
     (case arg of
        ArgNil \<Rightarrow> panic (argPrefix call index @ '' is nil'')
      | ArgMiddleware None \<Rightarrow> panic (argPrefix call index @ '' is a nil Middleware'')
      | ArgMiddleware (Some m) \<Rightarrow> ret \<lparr>slStdlib = m, slNative = None, slName = []\<rparr>
      | ArgFunc None \<Rightarrow> panic (argPrefix call index @ '' is a nil middleware function'')
      | ArgFunc (Some m) \<Rightarrow> ret \<lparr>slStdlib = m, slNative = None, slName = []\<rparr>
      | ArgNative n \<Rightarrow>
          (case Stdlib n of
             None \<Rightarrow> panic (argPrefix call index @ '' is NativeMiddleware with nil Stdlib'')
           | Some m \<Rightarrow> ret \<lparr>slStdlib = m, slNative = Native n, slName = Name n\<rparr>)
      | ArgOther t \<Rightarrow> panic (argPrefix call index @ '' has unsupported type '' @ t
          @ ''; want Middleware, NativeMiddleware, or func(http.Handler) http.Handler''))"

fun coerceSlotsFrom :: "nat \<Rightarrow> 's mwArg list \<Rightarrow> string \<Rightarrow> 's middlewareSlot list go" where
  "coerceSlotsFrom i [] call = ret []"
| "coerceSlotsFrom i (a # as) call =
     go_bind (coerceSlot a call i) (\<lambda>s. go_bind (coerceSlotsFrom (Suc i) as call) (\<lambda>ss. ret (s # ss)))"

definition coerceSlots :: "'s mwArg list \<Rightarrow> string \<Rightarrow> 's middlewareSlot list go" where
  "coerceSlots args call = coerceSlotsFrom 0 args call"

definition RegisterNativeMiddleware :: "'s middleware option \<Rightarrow> 's middlewareFunc option \<Rightarrow> 's nativeMiddleware" where
  "RegisterNativeMiddleware m fn = \<lparr>Stdlib = m, Native = fn, Name = []\<rparr>"

definition NamedMiddleware :: "string \<Rightarrow> 's mwArg \<Rightarrow> 's nativeMiddleware go" where
  "NamedMiddleware name mw =
     go_bind (coerceSlot mw ''NamedMiddleware'' 0) (\<lambda>slot.
       ret \<lparr>Stdlib = Some (slStdlib slot), Native = slNative slot, Name = name\<rparr>)"

definition middlewareNames :: "('s middleware \<Rightarrow> string) \<Rightarrow> 's middlewareSlot list \<Rightarrow> string list" where
  \<comment> \<open>the first argument is the run-time's symbol lookup behind \<^verbatim>\<open>middlewareLabel\<close>\<close>
  "middlewareNames label slots =
     map (\<lambda>s. if slName s \<noteq> [] then slName s else label (slStdlib s)) slots"

section \<open>Chains\<close>

fun buildChainLoop :: "'s httpHandler \<Rightarrow> 's middlewareSlot list \<Rightarrow> nat \<Rightarrow> 's httpHandler" where
  \<comment> \<open>the downward loop, with the number of slots still to wrap\<close>
  "buildChainLoop h slots 0 = h"
| "buildChainLoop h slots (Suc i) = buildChainLoop (slStdlib (slots ! i) h) slots i"

definition buildChain :: "'s httpHandler \<Rightarrow> 's middlewareSlot list \<Rightarrow> 's httpHandler" where
  "buildChain h slots = buildChainLoop h slots (length slots)"

fun buildNativeLoop :: "'s handlerFunc \<Rightarrow> 's middlewareSlot list \<Rightarrow> nat \<Rightarrow> 's handlerFunc option" where
  "buildNativeLoop h slots 0 = Some h"
| "buildNativeLoop h slots (Suc i) =
     (case slNative (slots ! i) of None \<Rightarrow> None | Some f \<Rightarrow> buildNativeLoop (f h) slots i)"

definition buildNativeChain :: "'s handlerFunc \<Rightarrow> 's middlewareSlot list \<Rightarrow> 's handlerFunc option" where
  \<comment> \<open>\<open>None\<close> is the source's \<^verbatim>\<open>(nil, false)\<close>\<close>
  "buildNativeChain h slots = buildNativeLoop h slots (length slots)"

definition allNative :: "'s middlewareSlot list \<Rightarrow> bool" where
  "allNative slots \<longleftrightarrow> list_all (\<lambda>s. slNative s \<noteq> None) slots"

section \<open>Constructors\<close>

definition WrapMiddleware :: "'s framework \<Rightarrow> 's middlewareFunc option \<Rightarrow> 's nativeMiddleware" where
  "WrapMiddleware fw fn =
     (case fn of
        None \<Rightarrow> \<lparr>Stdlib = Some (\<lambda>next. next), Native = None, Name = []\<rparr>
      | Some f \<Rightarrow>
          \<lparr>Stdlib = Some (\<lambda>next s.
             if \<not> fHasCtx fw s then next s
             else lift_handler fw
               (f (\<lambda>s'. case next s' of (s'', p) \<Rightarrow> (s'', if p then Panicked else Returned None))) s),
           Native = Some f, Name = []\<rparr>)"

definition ErrInternalPanic :: err where
  "ErrInternalPanic = WithDetail (ErrInternal None) ''panic recovered''"

definition Recovery :: "'s framework \<Rightarrow> ('s \<Rightarrow> 's) \<Rightarrow> 's nativeMiddleware" where
  \<comment> \<open>the second argument sends a bare 500, for requests without a framework context\<close>
  "Recovery fw bare500 =
     \<lparr>Stdlib = Some (\<lambda>next s.
        case next s of
          (s', False) \<Rightarrow> (s', False)
        | (s', True) \<Rightarrow>
            (if fHasCtx fw s'
             then (fHandleError fw (fKeepWriter fw s (fLog fw ''panic recovered'' s')) ErrInternalPanic, False)
             else (bare500 s', False))),
      Native = Some (\<lambda>next s.
        case next s of
          (s', Returned e) \<Rightarrow> (s', Returned e)
        | (s', Panicked) \<Rightarrow> (fHandleError fw (fLog fw ''panic recovered'' s') ErrInternalPanic, Returned None)),
      Name = []\<rparr>"

definition LoggerMw :: "'s framework \<Rightarrow> 's nativeMiddleware" where
  "LoggerMw fw =
     \<lparr>Stdlib = Some (\<lambda>next s. next (if fHasCtx fw s then fLog fw ''request'' s else s)),
      Native = Some (\<lambda>next s. next (fLog fw ''request'' s)), Name = []\<rparr>"

definition skipStdlib :: "'s framework \<Rightarrow> string set \<Rightarrow> 's middleware \<Rightarrow> 's middleware" where
  "skipStdlib fw skip inner next =
     (let wrapped = inner next in (\<lambda>s. if fPath fw s \<in> skip then next s else wrapped s))"

definition skipNative :: "'s framework \<Rightarrow> string set \<Rightarrow> 's middlewareFunc \<Rightarrow> 's middlewareFunc" where
  "skipNative fw skip inner next =
     (let wrapped = inner next in (\<lambda>s. if fPath fw s \<in> skip then next s else wrapped s))"

definition SkipPaths :: "'s framework \<Rightarrow> string list \<Rightarrow> 's mwArg \<Rightarrow> 's nativeMiddleware go" where
  "SkipPaths fw paths mw =
     (case mw of
        ArgNil \<Rightarrow> panic ''aarv.SkipPaths: mw must not be nil''
      | _ \<Rightarrow>
          go_bind (coerceSlot mw ''SkipPaths'' 0) (\<lambda>slot.
            if paths = [] then ret \<lparr>Stdlib = Some (slStdlib slot), Native = slNative slot, Name = slName slot\<rparr>
            else ret \<lparr>Stdlib = Some (skipStdlib fw (set paths) (slStdlib slot)),
                      Native = map_option (skipNative fw (set paths)) (slNative slot),
                      Name = slName slot\<rparr>))"

section \<open>Agreement of the two paths\<close>

text \<open>
  The two versions of a middleware agree when wrapping a lifted handler in the stdlib version is
  the lifted native version, for requests that carry their framework context.
\<close>

locale dual_middleware =
  fixes fw :: "'s framework"
    and std :: "'s middleware"
    and nat :: "'s middlewareFunc"
  assumes agree: "(\<And>s. g s = lift_handler fw h s) \<Longrightarrow> std g s = lift_handler fw (nat h) s"
begin

lemma agree_fun: "std (lift_handler fw h) = lift_handler fw (nat h)"
  by (rule ext, rule agree) simp

end

locale dual_skipping = dual_middleware

sublocale dual_skipping \<subseteq> skipping: dual_middleware fw "skipStdlib fw ps std" "skipNative fw ps nat" for ps
proof
  fix g h s assume eq: "\<And>s. g s = lift_handler fw h s"
  show "skipStdlib fw ps std g s = lift_handler fw (skipNative fw ps nat h) s"
    using agree [of g h s] eq by (simp add: skipStdlib_def skipNative_def lift_handler_def Let_def)
qed

context dual_skipping
begin

lemma skip_dual: "dual_middleware fw (skipStdlib fw ps std) (skipNative fw ps nat)"
  by unfold_locales

end

definition agreeingSlot :: "'s framework \<Rightarrow> 's middlewareSlot \<Rightarrow> bool" where
  "agreeingSlot fw slot \<longleftrightarrow> (\<exists>f. slNative slot = Some f \<and> dual_middleware fw (slStdlib slot) f)"

definition slotOf :: "'s nativeMiddleware \<Rightarrow> 's middlewareSlot go" where
  "slotOf n = coerceSlot (ArgNative n) ''Use'' 0"

lemma buildChainLoop_foldr:
  "n \<le> length slots \<Longrightarrow> buildChainLoop h slots n = foldr slStdlib (take n slots) h"
  by (induction n arbitrary: h) (simp_all add: take_Suc_conv_app_nth)

lemma buildChain_foldr: "buildChain h slots = foldr slStdlib slots h"
  by (simp add: buildChain_def buildChainLoop_foldr)

lemma buildNativeLoop_foldr:
  "n \<le> length slots \<Longrightarrow> list_all (\<lambda>s. slNative s \<noteq> None) (take n slots) \<Longrightarrow>
   buildNativeLoop h slots n = Some (foldr (\<lambda>s. the (slNative s)) (take n slots) h)"
  by (induction n arbitrary: h) (auto simp: take_Suc_conv_app_nth)

lemma buildNativeLoop_None:
  "n \<le> length slots \<Longrightarrow> \<not> list_all (\<lambda>s. slNative s \<noteq> None) (take n slots) \<Longrightarrow> buildNativeLoop h slots n = None"
  by (induction n arbitrary: h) (auto simp: take_Suc_conv_app_nth split: option.splits)

lemma buildNativeChain_foldr:
  "buildNativeChain h slots =
     (if allNative slots then Some (foldr (\<lambda>s. the (slNative s)) slots h) else None)"
  using buildNativeLoop_foldr [of "length slots" slots h] buildNativeLoop_None [of "length slots" slots h]
  by (simp add: buildNativeChain_def allNative_def)

lemma agreeing_chain:
  "list_all (agreeingSlot fw) slots \<Longrightarrow>
   foldr slStdlib slots (lift_handler fw h) = lift_handler fw (foldr (\<lambda>s. the (slNative s)) slots h)"
  by (induction slots) (auto simp: agreeingSlot_def dest: dual_middleware.agree_fun)

lemma agreeing_allNative: "list_all (agreeingSlot fw) slots \<Longrightarrow> allNative slots"
  by (auto simp: allNative_def agreeingSlot_def list_all_iff)

text \<open>
  A request that enters through the application carries its framework context; on such requests
  the framework's own middleware keep the contract.
\<close>

definition bridged :: "'s framework \<Rightarrow> 's framework" where
  "bridged fw = fw\<lparr>fHasCtx := (\<lambda>_. True)\<rparr>"

lemma bridged_ctx [simp]: "fHasCtx (bridged fw) s"
  by (simp add: bridged_def)

lemma lift_handler_pre: "lift_handler fw (\<lambda>s. h (f s)) s = lift_handler fw h (f s)"
  by (simp add: lift_handler_def)

interpretation logging: dual_skipping "bridged fw" "the (Stdlib (LoggerMw (bridged fw)))"
    "the (Native (LoggerMw (bridged fw)))" for fw
  by unfold_locales (simp add: LoggerMw_def lift_handler_pre)

text \<open>
  A wrapped framework middleware keeps the contract when it does not look at the error of the
  handlers below: when it handles it alike whether it arrives as an error or was already answered.
\<close>

definition errorTransparent :: "'s framework \<Rightarrow> 's middlewareFunc \<Rightarrow> bool" where
  "errorTransparent fw f \<longleftrightarrow>
     (\<forall>h s. lift_handler fw
        (f (\<lambda>s'. case lift_handler fw h s' of (s'', p) \<Rightarrow> (s'', if p then Panicked else Returned None))) s
      = lift_handler fw (f h) s)"

lemma wrapped_dual:
  assumes "errorTransparent fw f" and "\<And>s. fHasCtx fw s"
  shows "dual_middleware fw (the (Stdlib (WrapMiddleware fw (Some f)))) f"
proof
  fix g h s assume eq: "\<And>s. g s = lift_handler fw h s"
  then have "g = lift_handler fw h" by (simp add: fun_eq_iff)
  then show "the (Stdlib (WrapMiddleware fw (Some f))) g s = lift_handler fw (f h) s"
    using assms by (simp add: WrapMiddleware_def errorTransparent_def)
qed

lemma coerceSlotsFrom_ret:
  "(\<exists>ss. coerceSlotsFrom i args call = ret ss) \<longleftrightarrow> (\<forall>k < length args. \<exists>s. coerceSlot (args ! k) call (i + k) = ret s)"
proof (induction args arbitrary: i)
  case (Cons a args)
  have "(\<exists>ss. coerceSlotsFrom i (a # args) call = ret ss) \<longleftrightarrow>
      (\<exists>s. coerceSlot a call i = ret s) \<and> (\<exists>ss. coerceSlotsFrom (Suc i) args call = ret ss)"
    by (auto simp: go_bind_ret_iff)
  also have "\<dots> \<longleftrightarrow> (\<forall>k < length (a # args). \<exists>s. coerceSlot ((a # args) ! k) call (i + k) = ret s)"
    unfolding Cons.IH by (auto simp: less_Suc_eq_0_disj)
  finally show ?case .
qed simp

lemma coerceSlotsFrom_nth:
  "coerceSlotsFrom i args call = ret ss \<Longrightarrow>
   length ss = length args \<and> (\<forall>k < length args. coerceSlot (args ! k) call (i + k) = ret (ss ! k))"
proof (induction args arbitrary: i ss)
  case (Cons a args)
  then obtain s ss' where s: "coerceSlot a call i = ret s" "coerceSlotsFrom (Suc i) args call = ret ss'" "ss = s # ss'"
    by (auto simp: go_bind_ret_iff)
  with Cons.IH [OF s(2)] show ?case by (auto simp: less_Suc_eq_0_disj)
qed simp

lemma coerceSlotsFrom_first_panic:
  "k < length args \<Longrightarrow> \<forall>j < k. \<exists>s. coerceSlot (args ! j) call (i + j) = ret s \<Longrightarrow>
   coerceSlot (args ! k) call (i + k) = Inl p \<Longrightarrow> coerceSlotsFrom i args call = Inl p"
proof (induction args arbitrary: i k)
  case (Cons a args)
  show ?case
  proof (cases k)
    case 0
    with Cons.prems show ?thesis by simp
  next
    case (Suc k')
    with Cons.prems(2) obtain s where "coerceSlot a call i = ret s" by fastforce
    moreover have "coerceSlotsFrom (Suc i) args call = Inl p"
    proof (rule Cons.IH [of k'])
      show "\<forall>j < k'. \<exists>s. coerceSlot (args ! j) call (Suc i + j) = ret s"
        using Cons.prems(2) Suc by (metis Suc_mono add_Suc_shift nth_Cons_Suc)
    qed (use Cons.prems Suc in auto)
    ultimately show ?thesis by simp
  qed
qed simp

section \<open>Properties\<close>

text \<open>
  The native fast path is an optimisation: for slots whose two versions agree, the native chain
  is built, and serving through it is serving through the stdlib chain over the lifted handler,
  with the first registered middleware outermost in both. A slot without a native version makes
  the builder decline the fast path.
\<close>

theorem native_chain_agrees:
  assumes "list_all (agreeingSlot fw) slots"
  shows "\<exists>f. buildNativeChain h slots = Some f \<and> lift_handler fw f = buildChain (lift_handler fw h) slots
    \<and> f = foldr (\<lambda>s. the (slNative s)) slots h
    \<and> (slNative slot = None \<longrightarrow> buildNativeChain h (slots @ slot # rest) = None)"
  using agreeing_chain [OF assms, of h] agreeing_allNative [OF assms]
  by (auto simp: buildNativeChain_foldr buildChain_foldr allNative_def)

definition exampleFramework :: "(string \<times> string list) framework" where
  \<comment> \<open>a request state of a path and the lines logged or answered so far\<close>
  "exampleFramework =
     \<lparr>fPath = fst, fHasCtx = (\<lambda>_. True), fHandleError = (\<lambda>(p, l) e. (p, l @ [Error e])),
      fLog = (\<lambda>m (p, l). (p, l @ [m])), fKeepWriter = (\<lambda>_ s. s)\<rparr>"

theorem native_chain_agrees_witness:
  "let slot = \<lparr>slStdlib = the (Stdlib (LoggerMw (bridged exampleFramework))),
               slNative = Native (LoggerMw (bridged exampleFramework)), slName = []\<rparr>;
       h = (\<lambda>(p, l). ((p, l @ [''handled'']), Returned (Some (ErrNotFound ''x''))))
   in slotOf (LoggerMw (bridged exampleFramework)) = ret slot
      \<and> (\<exists>f. buildNativeChain h [slot, slot] = Some f
           \<and> lift_handler (bridged exampleFramework) f =
               buildChain (lift_handler (bridged exampleFramework) h) [slot, slot])"
proof -
  let ?fw = "bridged exampleFramework"
  let ?slot = "\<lparr>slStdlib = the (Stdlib (LoggerMw ?fw)), slNative = Native (LoggerMw ?fw), slName = []\<rparr>"
  let ?h = "\<lambda>(p, l). ((p, l @ [''handled'']), Returned (Some (ErrNotFound ''x'')))"
  have n: "Native (LoggerMw ?fw) = Some (the (Native (LoggerMw ?fw)))" by (simp add: LoggerMw_def)
  then have "agreeingSlot ?fw ?slot"
    unfolding agreeingSlot_def using logging.dual_middleware_axioms [of exampleFramework] by force
  then have "list_all (agreeingSlot ?fw) [?slot, ?slot]" by simp
  from native_chain_agrees [OF this, of ?h ?slot "[]"] show ?thesis
    by (auto simp: slotOf_def coerceSlot_def LoggerMw_def Let_def)
qed

text \<open>
  Registration checks every middleware argument: \<^verbatim>\<open>coerceSlots\<close> returns one slot per argument,
  in order, exactly when all arguments are acceptable, and otherwise panics with the message of
  the first unacceptable one, which names its index.
\<close>

theorem coerce_slots_exact:
  "((\<exists>ss. coerceSlots args call = ret ss) \<longleftrightarrow> (\<forall>k < length args. \<exists>s. coerceSlot (args ! k) call k = ret s))
   \<and> (coerceSlots args call = ret ss \<longrightarrow>
        length ss = length args \<and> (\<forall>k < length args. coerceSlot (args ! k) call k = ret (ss ! k)))
   \<and> (k < length args \<and> (\<forall>j < k. \<exists>s. coerceSlot (args ! j) call j = ret s) \<and> coerceSlot (args ! k) call k = Inl p \<longrightarrow>
        coerceSlots args call = Inl p)"
  using coerceSlotsFrom_ret [of 0 args call] coerceSlotsFrom_nth [of 0 args call ss]
    coerceSlotsFrom_first_panic [of k args call 0 p]
  by (simp add: coerceSlots_def)

theorem coerce_slots_exact_witness:
  "coerceSlots [ArgFunc (Some (\<lambda>h. h)), ArgNil, ArgNative (LoggerMw exampleFramework)] ''Use'' =
     panic ''aarv: Use: argument 1 is nil''"
proof -
  let ?args = "[ArgFunc (Some (\<lambda>h. h)), ArgNil, ArgNative (LoggerMw exampleFramework)]"
  have i: "itoa 1 = ''1''" by code_simp
  have "coerceSlot (?args ! 1) ''Use'' 1 = panic ''aarv: Use: argument 1 is nil''"
    by (simp add: coerceSlot_def argPrefix_def i)
  moreover have "\<forall>j < 1. \<exists>s. coerceSlot (?args ! j) ''Use'' j = ret s" by (simp add: coerceSlot_def)
  ultimately show ?thesis
    using coerce_slots_exact [of ?args "''Use''" "[]" 1 "PanicMsg ''aarv: Use: argument 1 is nil''"] by simp
qed

text \<open>
  \<^verbatim>\<open>SkipPaths\<close> is exact: on a listed path the wrapped middleware is absent from the chain, on
  every other path it runs unchanged, in both versions; the name is kept, and a middleware
  whose versions agree still has agreeing versions when wrapped.
\<close>

theorem skip_paths_exact:
  assumes "SkipPaths fw paths (ArgNative n) = ret m"
  shows "(\<forall>std nat next h s. Stdlib n = Some std \<longrightarrow> Native n = Some nat \<longrightarrow>
            the (Stdlib m) next s = (if fPath fw s \<in> set paths then next s else std next s)
            \<and> the (Native m) h s = (if fPath fw s \<in> set paths then h s else nat h s)
            \<and> (dual_middleware fw std nat \<longrightarrow> dual_middleware fw (the (Stdlib m)) (the (Native m))))
     \<and> Name m = Name n \<and> (Native m = None \<longleftrightarrow> Native n = None)"
proof -
  obtain std where std: "Stdlib n = Some std"
    using assms by (auto simp: SkipPaths_def coerceSlot_def split: option.splits)
  show ?thesis
  proof (cases "paths = []")
    case True
    with assms std have "m = \<lparr>Stdlib = Some std, Native = Native n, Name = Name n\<rparr>"
      by (simp add: SkipPaths_def coerceSlot_def)
    with std True show ?thesis by simp
  next
    case False
    with assms std have m: "m = \<lparr>Stdlib = Some (skipStdlib fw (set paths) std),
        Native = map_option (skipNative fw (set paths)) (Native n), Name = Name n\<rparr>"
      by (simp add: SkipPaths_def coerceSlot_def)
    have "dual_middleware fw (skipStdlib fw (set paths) std) (skipNative fw (set paths) nat)"
      if "dual_middleware fw std nat" for nat
    proof -
      have "dual_skipping fw std nat" using that by (rule dual_skipping.intro)
      then show ?thesis by (rule dual_skipping.skip_dual)
    qed
    with m std show ?thesis by (simp add: skipStdlib_def skipNative_def Let_def)
  qed
qed

theorem skip_paths_exact_witness:
  "\<exists>m. SkipPaths exampleFramework [''/health''] (ArgNative (LoggerMw exampleFramework)) = ret m
     \<and> the (Stdlib m) (\<lambda>s. (s, False)) (''/health'', []) = ((''/health'', []), False)
     \<and> the (Stdlib m) (\<lambda>s. (s, False)) (''/a'', []) = ((''/a'', [''request'']), False)"
proof -
  obtain m where m: "SkipPaths exampleFramework [''/health''] (ArgNative (LoggerMw exampleFramework)) = ret m"
    by (simp add: SkipPaths_def coerceSlot_def LoggerMw_def)
  obtain std nat where "Stdlib (LoggerMw exampleFramework) = Some std" "Native (LoggerMw exampleFramework) = Some nat"
    "std = (\<lambda>next s. next (fLog exampleFramework ''request'' s))"
    by (simp add: LoggerMw_def exampleFramework_def)
  with skip_paths_exact [OF m] m show ?thesis by (simp add: exampleFramework_def)
qed

end
