(* ===== verification/ErrorBody.thy ===== *)
theory ErrorBody
  imports Main
begin

text \<open>
  The JSON error body that the idempotency and rate-limit plugins write (\<^verbatim>\<open>errorBody\<close> in both), as
  \<^verbatim>\<open>encoding/json\<close> encodes it.
\<close>

definition hexDigit :: "nat \<Rightarrow> char" where "hexDigit d = ''0123456789abcdef'' ! d"

definition jsonChar :: "char \<Rightarrow> string" where
  \<comment> \<open>\<^verbatim>\<open>encoding/json\<close>'s escapes; bytes of multi-byte characters are copied\<close>
  "jsonChar c =
     (if c = CHR 0x22 then [CHR 0x5C, CHR 0x22]
      else if c = CHR 0x5C then [CHR 0x5C, CHR 0x5C]
      else if c = CHR 0x0A then [CHR 0x5C, CHR ''n'']
      else if c = CHR 0x0D then [CHR 0x5C, CHR ''r'']
      else if c = CHR 0x09 then [CHR 0x5C, CHR ''t'']
      else if c = CHR 0x08 then [CHR 0x5C, CHR ''b'']
      else if c = CHR 0x0C then [CHR 0x5C, CHR ''f'']
      else if c \<in> set ''<>&'' \<or> (of_char c :: nat) < 32
      then [CHR 0x5C] @ ''u00'' @ [hexDigit (of_char c div 16), hexDigit (of_char c mod 16)]
      else [c])"

definition jsonString :: "string \<Rightarrow> string" where
  "jsonString s = [CHR 0x22] @ concat (map jsonChar s) @ [CHR 0x22]"

definition errorBody :: "string \<Rightarrow> string \<Rightarrow> string \<Rightarrow> string" where
  \<comment> \<open>the encoded \<^verbatim>\<open>errorBody\<close> with the newline of \<^verbatim>\<open>Encode\<close>; an empty request id is left out\<close>
  "errorBody code message rid =
     ''{'' @ jsonString ''error'' @ '':'' @ jsonString code @ '','' @ jsonString ''message'' @ '':'' @ jsonString message
     @ (if rid = [] then [] else '','' @ jsonString ''request_id'' @ '':'' @ jsonString rid) @ ''}'' @ [CHR 0x0A]"

end
