(* ===== verification/RateLimitShell.thy ===== *)
theory RateLimitShell
  imports RateLimit Context Middleware ErrorBody
begin

text \<open>
  The middleware around the rate limiter (\<^verbatim>\<open>plugins/ratelimit/ratelimit.go\<close>): skipping, the key, the decision,
  the rate-limit headers and the answer to a denied request, in the native variant and in the one for
  the standard library. The limiter's context is the framework's; the rest of the chain is a function of
  the application's state and the context; the readings of the clock during a decision are an argument.
\<close>

section \<open>Headers and answers\<close>

definition formatInt :: "int \<Rightarrow> string" where
  \<comment> \<open>\<^verbatim>\<open>strconv\<close>'s decimal notation\<close>
  "formatInt i =
     (if i = 0 then ''0'' else if i < 0 then CHR ''-'' # itoaLoop (nat (- i)) [] else itoaLoop (nat i) [])"

definition setHeaders :: "header \<Rightarrow> snapshot \<Rightarrow> bool \<Rightarrow> header" where
  "setHeaders h snap denied =
     (let h1 = hSet h ''X-RateLimit-Limit'' (formatInt (snapLimit snap));
          h2 = hSet h1 ''X-RateLimit-Remaining'' (formatInt (snapRemaining snap));
          h3 = hSet h2 ''X-RateLimit-Reset'' (formatInt (snapReset snap div second));
          secs = snapRetryAfter snap div second
      in if denied then hSet h3 ''Retry-After'' (formatInt (if secs < 1 then 1 else secs)) else h3)"

definition remoteAddrKey :: "string \<Rightarrow> string" where
  "remoteAddrKey addr = (case splitHostPort addr of None \<Rightarrow> addr | Some (host, _) \<Rightarrow> host)"

definition limitCode :: "int \<Rightarrow> string" where
  \<comment> \<open>\<^verbatim>\<open>codeForStatus\<close>\<close>
  "limitCode status =
     (if status = 429 then ''too_many_requests'' else if status = 503 then ''service_unavailable'' else statusText status)"

definition writeLimitError :: "'w responseWriter \<Rightarrow> int \<Rightarrow> string \<Rightarrow> string \<Rightarrow> 'w \<Rightarrow> 'w" where
  \<comment> \<open>\<^verbatim>\<open>writeJSONError\<close>\<close>
  "writeLimitError ops status message rid w =
     (let w1 = rwPutHeader ops w (hSet (rwHeader ops w) ''Content-Type'' ''application/json; charset=utf-8'');
          w2 = rwWriteHeader ops w1 status
      in fst (rwWrite ops w2 (errorBody (limitCode status) message rid)))"

definition requestIDOf :: "'w ctx \<Rightarrow> bool \<Rightarrow> string" where
  "requestIDOf c hasCtx = (if hasCtx then requestID c else [])"

definition limitSkipNative :: "'w ctx rateLimiter \<Rightarrow> 'w ctx \<Rightarrow> bool" where
  \<comment> \<open>\<^verbatim>\<open>SSN\<close>\<close>
  "limitSkipNative rl c =
     (if rPath (cReq c) \<in> rlSkipPaths rl then True
      else case cfgSkipper (rlCfg rl) of Some f \<Rightarrow> f c | None \<Rightarrow> False)"

definition limitSkipStdlib :: "'w ctx rateLimiter \<Rightarrow> 'w ctx \<Rightarrow> bool \<Rightarrow> bool" where
  \<comment> \<open>\<^verbatim>\<open>shouldSkipStdlib\<close>\<close>
  "limitSkipStdlib rl c hasCtx =
     (if rPath (cReq c) \<in> rlSkipPaths rl then True
      else case cfgSkipper (rlCfg rl) of Some f \<Rightarrow> hasCtx \<and> f c | None \<Rightarrow> False)"

section \<open>The two variants\<close>

type_synonym ('e, 'w) chain = "'e \<Rightarrow> 'w ctx \<Rightarrow> ('e \<times> 'w ctx) \<times> outcome"

definition handOn :: "('e, 'w) chain \<Rightarrow> rlStore \<Rightarrow> 'e \<Rightarrow> 'w ctx \<Rightarrow> (rlStore \<times> 'e \<times> 'w ctx) \<times> outcome" where
  "handOn nxt s e c = (case nxt e c of ((e', c'), out) \<Rightarrow> ((s, e', c'), out))"

definition withHeaders :: "'w responseWriter \<Rightarrow> 'w ctx \<Rightarrow> snapshot \<Rightarrow> bool \<Rightarrow> 'w ctx" where
  "withHeaders ops c snap denied = c\<lparr>cRes := rwPutHeader ops (cRes c) (setHeaders (rwHeader ops (cRes c)) snap denied)\<rparr>"

definition limitNative ::
    "'w responseWriter \<Rightarrow> (string \<times> string \<times> string) codec \<Rightarrow> 'w ctx rateLimiter \<Rightarrow> clock \<Rightarrow> ('e, 'w) chain
     \<Rightarrow> rlStore \<Rightarrow> 'e \<Rightarrow> 'w ctx \<Rightarrow> (rlStore \<times> 'e \<times> 'w ctx) \<times> outcome" where
  \<comment> \<open>the codec encodes error code, message and request id\<close>
  "limitNative ops cdc rl ck nxt s e c =
     (if limitSkipNative rl c then handOn nxt s e c
      else case decide rl s (rlKeyFunc rl c) ck of
             Inl _ \<Rightarrow> ((s, e, c), Panicked)
           | Inr (s', admit, snap) \<Rightarrow>
               let c1 = withHeaders ops c snap (\<not> admit)
               in if \<not> admit
                  then (case cfgHandler (rlCfg rl) of
                          Some f \<Rightarrow> (case f c1 snap of (c2, er) \<Rightarrow> ((s', e, c2), Returned er))
                        | None \<Rightarrow>
                            (case ctxJSON ops cdc c1 (rlStatusCode rl) (limitCode (rlStatusCode rl), rlMessage rl, requestID c1) of
                               (c2, er) \<Rightarrow> ((s', e, c2), Returned er)))
                  else handOn nxt s' e c1)"

definition limitStdlib ::
    "'w responseWriter \<Rightarrow> 'w ctx rateLimiter \<Rightarrow> clock \<Rightarrow> bool \<Rightarrow> ('e, 'w) chain
     \<Rightarrow> rlStore \<Rightarrow> 'e \<Rightarrow> 'w ctx \<Rightarrow> (rlStore \<times> 'e \<times> 'w ctx) \<times> bool" where
  \<comment> \<open>without a framework context, \<open>c\<close> holds just the request and the writer\<close>
  "limitStdlib ops rl ck hasCtx nxt s e c =
     (let onward = (\<lambda>s c. case handOn nxt s e c of (x, out) \<Rightarrow> (x, out = Panicked));
          refuse = (\<lambda>c. c\<lparr>cRes := writeLimitError ops (rlStatusCode rl) (rlMessage rl) (requestIDOf c hasCtx) (cRes c)\<rparr>)
      in if limitSkipStdlib rl c hasCtx then onward s c
         else case decide rl s (if hasCtx then rlKeyFunc rl c else remoteAddrKey (rRemoteAddr (cReq c))) ck of
                Inl _ \<Rightarrow> ((s, e, c), True)
              | Inr (s', admit, snap) \<Rightarrow>
                  let c1 = withHeaders ops c snap (\<not> admit)
                  in if \<not> admit
                     then (case (cfgHandler (rlCfg rl), hasCtx) of
                             (Some f, True) \<Rightarrow>
                               (case f c1 snap of
                                  (c2, None) \<Rightarrow> ((s', e, c2), False)
                                | (c2, Some _) \<Rightarrow> ((s', e, refuse c2), False))
                           | _ \<Rightarrow> ((s', e, refuse c1), False))
                     else onward s' c1)"

fun limitRun ::
    "'w responseWriter \<Rightarrow> (string \<times> string \<times> string) codec \<Rightarrow> 'w ctx rateLimiter \<Rightarrow> ('e, 'w) chain
     \<Rightarrow> rlStore \<Rightarrow> 'e \<Rightarrow> ('w ctx \<times> clock) list \<Rightarrow> (rlStore \<times> 'e) \<times> 'w ctx list" where
  \<comment> \<open>successive requests, with what became of their contexts\<close>
  "limitRun ops cdc rl nxt s e [] = ((s, e), [])"
| "limitRun ops cdc rl nxt s e ((c, ck) # rs) =
     (case limitNative ops cdc rl ck nxt s e c of
        ((s', e', c'), _) \<Rightarrow> (case limitRun ops cdc rl nxt s' e' rs of (r, cs) \<Rightarrow> (r, c' # cs)))"

section \<open>What a denied client gets\<close>

lemma decide_denied: "decide rl s k ck = ret (s', False, snap) \<Longrightarrow> second \<le> snapRetryAfter snap"
  by (auto simp: decide_def withEntry_def decideEntry_def go_bind_ret_iff Let_def split: algorithm.splits prod.splits if_splits)

lemma header_names:
  "canonicalHeaderKey ''Retry-After'' = ''Retry-After''" "canonicalHeaderKey ''Content-Type'' = ''Content-Type''"
  by code_simp+

definition deniedAnswer :: "netWriter ctx \<Rightarrow> bool" where
  \<comment> \<open>a 429 that says when to come back\<close>
  "deniedAnswer c \<longleftrightarrow>
     (\<exists>h secs. nSent (cRes c) = Some (429, h) \<and> hGet h ''Retry-After'' = formatInt secs \<and> 1 \<le> secs)"

lemma denied_net:
  assumes "nSent (cRes c) = None" and "\<not> cWritten c"
  shows "deniedAnswer (fst (ctxJSON netOps cdc (withHeaders netOps c snap True) 429 v))"
proof -
  let ?h = "setHeaders (nHeader (cRes c)) snap True"
  have r: "\<exists>secs \<ge> 1. hGet ?h ''Retry-After'' = formatInt secs"
    by (rule exI [of _ "if snapRetryAfter snap div second < 1 then 1 else snapRetryAfter snap div second"])
       (simp add: setHeaders_def Let_def hGet_hSet)
  have "hGet (AList.update ''Content-Type'' [x] ?h) ''Retry-After'' = hGet ?h ''Retry-After''" for x
    by (simp add: hGet_def hValues_def header_names update_conv)
  then show ?thesis using assms r
    by (auto simp: deniedAnswer_def ctxJSON_def codecEncode_def setContentType_def writeHeaderUnless200_def resWrite_def withHeaders_def
        netOps_def netWriteHeader_def netWrite_def informational_def Let_def split: sum.splits)
qed

lemma limit_run:
  assumes "decideRun (decide rl) s (map (\<lambda>(c, ck). (rlKeyFunc rl c, ck)) reqs) = ret (s', adm)"
    and "\<forall>(c, ck) \<in> set reqs. \<not> limitSkipNative rl c \<and> \<not> cWritten c \<and> nSent (cRes c) = None"
    and "cfgHandler (rlCfg rl) = None" and "rlStatusCode rl = 429" and "\<forall>e c. fst (fst (nxt e c)) = e @ [cReq c]"
  shows "\<exists>cs. limitRun netOps cdc rl nxt s e reqs = ((s', e @ map (cReq \<circ> fst \<circ> fst) (filter snd (zip reqs adm))), cs)
    \<and> length cs = length reqs \<and> length adm = length reqs \<and> (\<forall>i < length reqs. \<not> adm ! i \<longrightarrow> deniedAnswer (cs ! i))"
  using assms(1, 2)
proof (induction reqs arbitrary: s e adm)
  case (Cons r reqs)
  obtain c ck where r: "r = (c, ck)" by (cases r)
  obtain s1 a snap as where d: "decide rl s (rlKeyFunc rl c) ck = ret (s1, a, snap)"
      "decideRun (decide rl) s1 (map (\<lambda>(c, ck). (rlKeyFunc rl c, ck)) reqs) = ret (s', as)" "adm = a # as"
    using Cons.prems(1) by (auto simp: r go_bind_ret_iff)
  have c: "\<not> limitSkipNative rl c" "\<not> cWritten c" "nSent (cRes c) = None" using Cons.prems(2) by (auto simp: r)
  show ?case
  proof (cases a)
    case True
    let ?c1 = "withHeaders netOps c snap False"
    obtain e1 c1 out where n: "nxt e ?c1 = ((e1, c1), out)" by (metis prod.exhaust)
    have "cReq ?c1 = cReq c" by (simp add: withHeaders_def)
    then have e1: "e1 = e @ [cReq c]" using assms(5) [rule_format, of e ?c1] n by simp
    have "limitNative netOps cdc rl ck nxt s e c = ((s1, e1, c1), out)"
      using c d(1) n True by (simp add: limitNative_def handOn_def)
    then show ?thesis using Cons.IH [OF d(2), of e1] Cons.prems(2) True d(3) e1
      by (auto simp: r nth_Cons' split: prod.splits)
  next
    case False
    obtain c2 er where j: "ctxJSON netOps cdc (withHeaders netOps c snap True) 429
        (limitCode 429, rlMessage rl, requestID (withHeaders netOps c snap True)) = (c2, er)" by fastforce
    then have a: "deniedAnswer c2" using denied_net [OF c(3, 2)] by (metis fst_conv)
    have "limitNative netOps cdc rl ck nxt s e c = ((s1, e, c2), Returned er)"
      using c d(1) j False assms(3, 4) by (simp add: limitNative_def)
    then show ?thesis using Cons.IH [OF d(2), of e] Cons.prems(2) False d(3) a
      by (auto simp: r nth_Cons' split: prod.splits)
  qed
qed simp

text \<open>
  C27. The rate limiter guards the application: on a sliding-window limiter with the default entry lifetime
  and answer, and clock readings that do not go back, any sequence of requests on fresh contexts that are
  not skipped reaches the application exactly when the unbounded admission log of its key admits it,
  in order and once; every other request leaves the application alone and is answered 429 with a
  Retry-After of at least one second.
\<close>
theorem limiter_guards_application:
  assumes "newLimiter keyOf cfg = ret (rl, s)" and "cfgAlgorithm cfg = SlidingWindowAlg"
    and "cfgEntryTTL cfg \<le> 0" and "10 \<le> cfgWindow cfg" and "clocksFrom 0 (map snd reqs)"
    and "cfgHandler cfg = None" and "cfgStatusCode cfg \<in> {0, 429}"
    and "\<forall>(c, ck) \<in> set reqs. \<not> limitSkipNative rl c \<and> \<not> cWritten c \<and> nSent (cRes c) = None"
    and "\<forall>e c. fst (fst (nxt e c)) = e @ [cReq c]"
  shows "(let adm = specRun (\<lambda>_. []) (cfgLimit cfg) (cfgWindow cfg sdiv 10) (map (\<lambda>(c, ck). (rlKeyFunc rl c, ck)) reqs)
    in \<exists>s' cs. limitRun netOps cdc rl nxt s [] reqs = ((s', map (cReq \<circ> fst \<circ> fst) (filter snd (zip reqs adm))), cs)
         \<and> (\<forall>i < length reqs. \<not> adm ! i \<longrightarrow> deniedAnswer (cs ! i)))"
proof -
  let ?ks = "map (\<lambda>(c, ck). (rlKeyFunc rl c, ck)) reqs"
  let ?adm = "specRun (\<lambda>_. []) (cfgLimit cfg) (cfgWindow cfg sdiv 10) ?ks"
  have "map snd ?ks = map snd reqs" by (simp add: case_prod_beta comp_def)
  then obtain s' where run: "decideRun (decide rl) s ?ks = ret (s', ?adm)"
    using limiter_run [OF assms(1-4), of ?ks] assms(5) by metis
  have "cfgHandler (rlCfg rl) = None" "rlStatusCode rl = 429"
    using assms(1, 6, 7) by (auto simp: newLimiter_def Let_def split: if_splits)
  from limit_run [OF run assms(8) this assms(9), where e = "[]" and cdc = cdc] show ?thesis unfolding Let_def by auto
qed

definition guardConfig :: "netWriter ctx rlConfig" where
  "guardConfig = DefaultConfig\<lparr>cfgAlgorithm := SlidingWindowAlg, cfgLimit := 1, cfgWindow := 1000\<rparr>"

definition guardCodec :: "(string \<times> string \<times> string) codec" where
  "guardCodec = \<lparr>codecContentType = ''application/json'', codecMarshal = (\<lambda>(c, m, r). Inr (errorBody c m r))\<rparr>"

definition guardRequest :: "int \<Rightarrow> netWriter ctx \<times> clock" where
  "guardRequest t = (newCtx netFresh exampleRequest, \<lparr>ckNow = t, ckUntil = t, ckAccess = t, ckSweep = t\<rparr>)"

theorem limiter_guards_application_witness:
  "\<exists>rl s s' cs. newLimiter (\<lambda>_. ''k'') guardConfig = ret (rl, s)
    \<and> limitRun netOps guardCodec rl (\<lambda>e c. ((e @ [cReq c], c), Returned None)) s [] [guardRequest 5, guardRequest 20] =
        ((s', [exampleRequest]), cs)
    \<and> deniedAnswer (cs ! 1)"
proof -
  obtain rl s where new: "newLimiter (\<lambda>_. ''k'') guardConfig = ret (rl, s)"
    by (simp add: newLimiter_def guardConfig_def DefaultConfig_def Let_def)
  then have k: "rlKeyFunc rl = (\<lambda>_. ''k'')" "\<not> limitSkipNative rl c" for c
    by (auto simp: newLimiter_def guardConfig_def DefaultConfig_def Let_def limitSkipNative_def)
  let ?rs = "[guardRequest 5, guardRequest 20]" and ?nxt = "\<lambda>e c. ((e @ [cReq c], c), Returned None)"
  have "specRun (\<lambda>_. []) 1 (1000 sdiv 10)
      [(''k'', \<lparr>ckNow = 5, ckUntil = 5, ckAccess = 5, ckSweep = 5\<rparr>),
       (''k'', \<lparr>ckNow = 20, ckUntil = 20, ckAccess = 20, ckSweep = 20\<rparr>)] = [True, False]"
    by code_simp
  then have adm: "specRun (\<lambda>_. []) (cfgLimit guardConfig) (cfgWindow guardConfig sdiv 10)
      (map (\<lambda>(c, ck). (rlKeyFunc rl c, ck)) ?rs) = [True, False]"
    by (simp add: guardRequest_def k guardConfig_def DefaultConfig_def del: specRun.simps)
  have c: "\<not> cWritten (newCtx netFresh exampleRequest)" "nSent (cRes (newCtx netFresh exampleRequest)) = None"
    "cReq (newCtx netFresh exampleRequest) = exampleRequest"
    by (simp_all add: newCtx_def netFresh_def)
  have p: "cfgAlgorithm guardConfig = SlidingWindowAlg" "cfgEntryTTL guardConfig \<le> 0" "10 \<le> cfgWindow guardConfig"
    "clocksFrom 0 (map snd ?rs)" "cfgHandler guardConfig = None" "cfgStatusCode guardConfig \<in> {0, 429}"
    "\<forall>(c, ck) \<in> set ?rs. \<not> limitSkipNative rl c \<and> \<not> cWritten c \<and> nSent (cRes c) = None"
    "\<forall>e c. fst (fst (?nxt e c)) = e @ [cReq c]"
    using k c by (simp_all add: guardConfig_def DefaultConfig_def guardRequest_def)
  obtain s' cs where r: "limitRun netOps guardCodec rl ?nxt s [] ?rs =
        ((s', map (cReq \<circ> fst \<circ> fst) (filter snd (zip ?rs [True, False]))), cs)"
      "\<forall>i < length ?rs. \<not> [True, False] ! i \<longrightarrow> deniedAnswer (cs ! i)"
    using limiter_guards_application [OF new p, of guardCodec] unfolding Let_def adm by blast
  have "deniedAnswer (cs ! 1)" using r(2) [rule_format, of 1] by simp
  moreover have "map (cReq \<circ> fst \<circ> fst) (filter snd (zip ?rs [True, False])) = [exampleRequest]"
    using c by (simp add: guardRequest_def)
  ultimately show ?thesis using new r(1) by auto
qed

section \<open>The variants agree\<close>

text \<open>
  The two variants take the same decision for a request with a framework context: they leave the same
  limiter state, and hand the request on, in the same context, in the same cases.
\<close>
theorem limiter_variants_agree:
  assumes "limitNative ops cdc rl ck nxt s e c = ((s1, e1, c1), out1)"
    and "limitStdlib ops rl ck True nxt s e c = ((s2, e2, c2), p)"
  shows "s2 = s1 \<and> e2 = e1"
  using assms
  by (auto simp: limitNative_def limitStdlib_def handOn_def limitSkipNative_def limitSkipStdlib_def Let_def
      split: if_splits option.splits prod.splits sum.splits)

end
