(* ===== verification/Routes.thy ===== *)
theory Routes
  imports Middleware Hooks Patterns
begin

text \<open>
  Route registration (\<^verbatim>\<open>app_routes.go\<close>, \<^verbatim>\<open>router.go\<close>, \<^verbatim>\<open>handler.go\<close>). The application's route tables
  are one record; registering a route on the application or on a group updates them as the source
  does. The request state is abstract: what handlers do to it goes through the operations of
  \<open>dispatchOps\<close>. The parts of the application that handlers read when they run (the finalized
  hooks, the error handler, the configuration) are the record \<open>appEnv\<close>, and the pattern matching and
  conflict check of \<^verbatim>\<open>http.ServeMux\<close> are functions in it.
\<close>

section \<open>The environment of handlers\<close>

record 's dispatchOps =
  dPath :: "'s \<Rightarrow> string"
  dMethod :: "'s \<Rightarrow> string"
  dRawQuery :: "'s \<Rightarrow> string"
  dHasCtx :: "'s \<Rightarrow> bool" \<comment> \<open>\<^verbatim>\<open>contextFromRequest\<close> succeeds\<close>
  dContentLength :: "'s \<Rightarrow> int"
  dHasBody :: "'s \<Rightarrow> bool"
  dLimitBody :: "int \<Rightarrow> 's \<Rightarrow> 's" \<comment> \<open>\<^verbatim>\<open>http.MaxBytesReader\<close>\<close>
  dSync :: "'s \<Rightarrow> 's" \<comment> \<open>the context takes over the current request and writer\<close>
  dUseCtx :: "'s \<Rightarrow> 's" \<comment> \<open>continue with the context's request and writer\<close>
  dMaterialize :: "'s \<Rightarrow> 's"
  dSetRoute :: "string \<Rightarrow> 's \<Rightarrow> 's"
  dSetParam :: "string \<Rightarrow> string \<Rightarrow> 's \<Rightarrow> 's"
  dMuxParams :: "string \<Rightarrow> 's \<Rightarrow> 's" \<comment> \<open>path values set by \<^verbatim>\<open>ServeMux.ServeHTTP\<close> for a pattern\<close>
  dGetHookErr :: "'s \<Rightarrow> err option"
  dSetHookErr :: "err option \<Rightarrow> 's \<Rightarrow> 's"
  dDefaultError :: "'s \<Rightarrow> err \<Rightarrow> 's"
  dStatusOnly :: "int \<Rightarrow> 's \<Rightarrow> 's" \<comment> \<open>a bare \<^verbatim>\<open>WriteHeader\<close>\<close>
  dRedirect :: "string \<Rightarrow> 's \<Rightarrow> 's" \<comment> \<open>\<^verbatim>\<open>http.Redirect\<close> with status 301\<close>
  dBridge :: "'s \<Rightarrow> 's" \<comment> \<open>attach the context to the request\<close>
  dUnregister :: "'s \<Rightarrow> 's" \<comment> \<open>\<^verbatim>\<open>deleteRequestContext\<close>, nothing for a request that is not registered\<close>
  dBuffer :: "'s \<Rightarrow> 's"
  dFlush :: "'s \<Rightarrow> 's"
  dWrote :: "'s \<Rightarrow> 's \<Rightarrow> bool" \<comment> \<open>something was written between the two states\<close>
  dLog :: "string \<Rightarrow> 's \<Rightarrow> 's"
  dKeepWriter :: "'s \<Rightarrow> 's \<Rightarrow> 's"

record 's appEnv =
  eOps :: "'s dispatchOps"
  eHooks :: "('s, err) hookRegistry"
  eErrorHandler :: "('s \<Rightarrow> err \<Rightarrow> 's) option"
  eNotFound :: "'s handlerFunc"
  eMethodNotAllowed :: "'s handlerFunc"
  eMaxBodySize :: int
  eRedirectTrailingSlash :: bool
  eRequestContextBridge :: bool
  eCodecContentType :: string
  eMuxRejects :: "string list \<Rightarrow> string \<Rightarrow> bool" \<comment> \<open>\<^verbatim>\<open>ServeMux.Handle\<close> panics on a conflict\<close>
  eMuxPick :: "string list \<Rightarrow> string \<Rightarrow> string \<Rightarrow> string" \<comment> \<open>the pattern \<^verbatim>\<open>ServeMux.Handler\<close> selects\<close>
  eMuxInternal :: "string \<Rightarrow> 's httpHandler" \<comment> \<open>its own redirect handlers\<close>

definition hasHook :: "'s appEnv \<Rightarrow> hookPhase \<Rightarrow> bool" where
  \<comment> \<open>the \<^verbatim>\<open>has...\<close> flags that \<^verbatim>\<open>ensureReady\<close> computes\<close>
  "hasHook env phase \<longleftrightarrow> eHooks env phase \<noteq> []"

definition handleError :: "'s appEnv \<Rightarrow> 's \<Rightarrow> err \<Rightarrow> 's" where
  "handleError env s e =
     (let ops = eOps env;
          s1 = (if hasHook env OnError
                then dSetHookErr ops (dGetHookErr ops s)
                       (fst (run (eHooks env) OnError (dSetHookErr ops (Some e) s)))
                else s)
      in case eErrorHandler env of Some f \<Rightarrow> f s1 e | None \<Rightarrow> dDefaultError ops s1 e)"

definition appFramework :: "'s appEnv \<Rightarrow> 's framework" where
  "appFramework env =
     \<lparr>fPath = dPath (eOps env), fHasCtx = dHasCtx (eOps env), fHandleError = handleError env,
      fLog = dLog (eOps env), fKeepWriter = dKeepWriter (eOps env)\<rparr>"

abbreviation lift_app :: "'s appEnv \<Rightarrow> 's handlerFunc \<Rightarrow> 's httpHandler" where
  "lift_app env \<equiv> lift_handler (appFramework env)"

section \<open>Handlers\<close>

datatype 's handlerArg =
  HHandlerFunc "'s handlerFunc" bool \<comment> \<open>with the pre-handled mark\<close>
| HStdHandler "'s httpHandler"
| HUnsupported string

record 's adaptedHandler =
  ahFn :: "'s handlerFunc"
  ahPreHandled :: bool

definition adaptHandler :: "'s appEnv \<Rightarrow> 's handlerArg \<Rightarrow> 's adaptedHandler go" where
  "adaptHandler env h =
     (case h of
        HHandlerFunc f pre \<Rightarrow> ret \<lparr>ahFn = f, ahPreHandled = pre\<rparr>
      | HStdHandler g \<Rightarrow>
          ret \<lparr>ahFn = (\<lambda>s. case g (dMaterialize (eOps env) s) of
                          (s', p) \<Rightarrow> (s', if p then Panicked else Returned None)),
               ahPreHandled = False\<rparr>
      | HUnsupported t \<Rightarrow> panic (''aarv: unsupported handler type '' @ t))"

definition limitBody :: "'s appEnv \<Rightarrow> int \<Rightarrow> 's \<Rightarrow> 's" where
  "limitBody env limit s =
     (let ops = eOps env
      in if 0 < limit \<and> dHasBody ops s \<and> (dContentLength ops s < 0 \<or> limit < dContentLength ops s)
         then dLimitBody ops limit s else s)"

definition baseNative :: "'s appEnv \<Rightarrow> 's adaptedHandler \<Rightarrow> int \<Rightarrow> 's handlerFunc" where
  \<comment> \<open>pre-handler hooks, body limit, handler\<close>
  "baseNative env ah limit s =
     (if hasHook env PreHandler \<and> \<not> ahPreHandled ah
      then (case run (eHooks env) PreHandler s of
              (s1, Some e) \<Rightarrow> (s1, Returned (Some e))
            | (s1, None) \<Rightarrow> ahFn ah (limitBody env limit s1))
      else ahFn ah (limitBody env limit s))"

definition internalHandler :: "'s appEnv \<Rightarrow> 's adaptedHandler \<Rightarrow> int \<Rightarrow> 's httpHandler" where
  "internalHandler env ah limit s = lift_app env (baseNative env ah limit) (dSync (eOps env) s)"

definition routeHTTPHandler :: "'s appEnv \<Rightarrow> 's adaptedHandler \<Rightarrow> int \<Rightarrow> 's httpHandler" where
  "routeHTTPHandler env ah limit s =
     (if \<not> dHasCtx (eOps env) s then (dStatusOnly (eOps env) 500 s, False)
      else internalHandler env ah limit s)"

section \<open>Route options\<close>

record 's routeConfig =
  rcName :: string
  rcTags :: "string list"
  rcDescription :: string
  rcDeprecated :: bool
  rcMaxBodySize :: int
  rcMiddleware :: "'s middlewareSlot list"
  rcSummary :: string
  rcOperationID :: string
  rcSchemaReq :: "string option"
  rcSchemaRes :: "string option"
  rcResponses :: "int \<Rightarrow> string option"
  rcRequestContentType :: string
  rcIdempotencyTTL :: "int option"

definition emptyConfig :: "'s routeConfig" where
  "emptyConfig =
     \<lparr>rcName = [], rcTags = [], rcDescription = [], rcDeprecated = False, rcMaxBodySize = 0,
      rcMiddleware = [], rcSummary = [], rcOperationID = [], rcSchemaReq = None, rcSchemaRes = None,
      rcResponses = Map.empty, rcRequestContentType = [], rcIdempotencyTTL = None\<rparr>"

type_synonym 's routeOption = "'s routeConfig \<Rightarrow> 's routeConfig"

definition WithName :: "string \<Rightarrow> 's routeOption" where "WithName n rc = rc\<lparr>rcName := n\<rparr>"
definition WithTags :: "string list \<Rightarrow> 's routeOption" where "WithTags ts rc = rc\<lparr>rcTags := ts\<rparr>"
definition WithDescription :: "string \<Rightarrow> 's routeOption" where "WithDescription d rc = rc\<lparr>rcDescription := d\<rparr>"
definition WithDeprecated :: "'s routeOption" where "WithDeprecated rc = rc\<lparr>rcDeprecated := True\<rparr>"
definition WithRouteMaxBodySize :: "int \<Rightarrow> 's routeOption" where
  "WithRouteMaxBodySize n rc = rc\<lparr>rcMaxBodySize := n\<rparr>"
definition WithOperationID :: "string \<Rightarrow> 's routeOption" where "WithOperationID i rc = rc\<lparr>rcOperationID := i\<rparr>"
definition WithSummary :: "string \<Rightarrow> 's routeOption" where "WithSummary t rc = rc\<lparr>rcSummary := t\<rparr>"
definition WithRequestContentType :: "string \<Rightarrow> 's routeOption" where
  "WithRequestContentType ct rc = rc\<lparr>rcRequestContentType := ct\<rparr>"

definition WithRouteMiddleware :: "'s mwArg list \<Rightarrow> 's routeOption go" where
  "WithRouteMiddleware mw =
     go_bind (coerceSlots mw ''WithRouteMiddleware'') (\<lambda>slots. ret (\<lambda>rc. rc\<lparr>rcMiddleware := slots\<rparr>))"

definition WithSchemaTypes :: "string option \<Rightarrow> string option \<Rightarrow> 's routeOption" where
  "WithSchemaTypes req res rc = rc\<lparr>rcSchemaReq := req, rcSchemaRes := res\<rparr>"

definition WithSchema :: "string option \<Rightarrow> string option \<Rightarrow> 's routeOption go" where
  \<comment> \<open>the arguments are the value types of the given values, already free of pointers\<close>
  "WithSchema req res =
     (if req = None \<and> res = None then panic ''aarv: WithSchema(nil, nil) is meaningless; omit the option''
      else ret (WithSchemaTypes req res))"

definition WithResponse :: "int \<Rightarrow> string \<Rightarrow> 's routeOption go" where
  "WithResponse st d =
     (if st < 100 \<or> 599 < st then panic ''aarv: WithResponse status must be in [100, 599]''
      else ret (\<lambda>rc. rc\<lparr>rcResponses := (rcResponses rc)(st \<mapsto> d)\<rparr>))"

definition WithRouteIdempotencyTTL :: "int \<Rightarrow> 's routeOption go" where
  "WithRouteIdempotencyTTL d =
     (if d < 0 then panic ''aarv: WithRouteIdempotencyTTL must not be negative''
      else ret (\<lambda>rc. rc\<lparr>rcIdempotencyTTL := Some d\<rparr>))"

definition applyOptions :: "'s routeOption list \<Rightarrow> 's routeConfig" where
  "applyOptions opts = foldl (\<lambda>rc opt. opt rc) emptyConfig opts"

record routeInfo =
  riMethod :: string
  riPattern :: string
  riName :: string
  riTags :: "string list"
  riSummary :: string
  riDescription :: string
  riOperationID :: string
  riDeprecated :: bool
  riRequestType :: "string option"
  riResponseType :: "string option"
  riResponses :: "int \<Rightarrow> string option"
  riRequestContentType :: string
  riIdempotencyTTL :: "int option"
  riMiddleware :: "string list"

definition routeInfoFromConfig ::
  "'s appEnv \<Rightarrow> ('s middleware \<Rightarrow> string) \<Rightarrow> string \<Rightarrow> string \<Rightarrow> 's routeConfig \<Rightarrow> 's middlewareSlot list \<Rightarrow> routeInfo" where
  "routeInfoFromConfig env label method pattern rc mwSlots =
     (let requestCT = (if rcRequestContentType rc = [] \<and> rcSchemaReq rc \<noteq> None
                       then eCodecContentType env else rcRequestContentType rc)
      in \<lparr>riMethod = method, riPattern = pattern, riName = rcName rc, riTags = rcTags rc,
          riSummary = rcSummary rc, riDescription = rcDescription rc, riOperationID = rcOperationID rc,
          riDeprecated = rcDeprecated rc, riRequestType = rcSchemaReq rc, riResponseType = rcSchemaRes rc,
          riResponses = rcResponses rc, riRequestContentType = requestCT,
          riIdempotencyTTL = rcIdempotencyTTL rc, riMiddleware = middlewareNames label mwSlots\<rparr>)"

section \<open>The route tables\<close>

record 's dynamicRoute =
  drHandler :: "'s httpHandler"
  drPattern :: directPattern
  drPatternStr :: string

record dynamicRouteMethods =
  dmPatternString :: string
  dmPattern :: directPattern
  dmMethods :: "string list"

record 's app =
  aMux :: "(string \<times> 's httpHandler) list"
  aRoutesByKey :: "string set"
  aRoutes :: "routeInfo list"
  aRouteHandlerFast :: "string \<Rightarrow> string \<Rightarrow> 's httpHandler option"
  aDirectDynamicRoutes :: "string \<Rightarrow> 's dynamicRoute list"
  aGroupRouteHandlers :: "string \<Rightarrow> string \<Rightarrow> 's httpHandler option"
  aGroupRouteNative :: "string \<Rightarrow> string \<Rightarrow> 's httpHandler option"
  aGroupDynamicHandlers :: "string \<Rightarrow> 's dynamicRoute list"
  aGroupDynamicNative :: "string \<Rightarrow> 's dynamicRoute list"
  aRouteMethodsExact :: "string \<Rightarrow> string set option"
  aRouteMethodsDynamic :: "dynamicRouteMethods list"
  aRedirectSlashExact :: "string set"
  aRedirectSlashDynamic :: "directPattern list"
  aRouteIdempotencyTTL :: "string \<Rightarrow> (string \<Rightarrow> int option) option"
  aGlobalMiddleware :: "'s middlewareSlot list"

definition emptyApp :: "'s app" where
  "emptyApp =
     \<lparr>aMux = [], aRoutesByKey = {}, aRoutes = [], aRouteHandlerFast = (\<lambda>_ _. None),
      aDirectDynamicRoutes = (\<lambda>_. []), aGroupRouteHandlers = (\<lambda>_ _. None), aGroupRouteNative = (\<lambda>_ _. None),
      aGroupDynamicHandlers = (\<lambda>_. []), aGroupDynamicNative = (\<lambda>_. []), aRouteMethodsExact = Map.empty,
      aRouteMethodsDynamic = [], aRedirectSlashExact = {}, aRedirectSlashDynamic = [],
      aRouteIdempotencyTTL = Map.empty, aGlobalMiddleware = []\<rparr>"

definition tset :: "(string \<Rightarrow> string \<Rightarrow> 'a option) \<Rightarrow> string \<Rightarrow> string \<Rightarrow> 'a \<Rightarrow> (string \<Rightarrow> string \<Rightarrow> 'a option)" where
  \<comment> \<open>an assignment to a map of maps, creating the inner map when it is missing\<close>
  "tset t m p x = t(m := (t m)(p \<mapsto> x))"

definition trackRedirectSlashPattern :: "'s app \<Rightarrow> string \<Rightarrow> bool \<Rightarrow> directPattern \<Rightarrow> 's app" where
  "trackRedirectSlashPattern a pattern isDynamic compiled =
     (if isDynamic then a\<lparr>aRedirectSlashDynamic := aRedirectSlashDynamic a @ [compiled]\<rparr>
      else a\<lparr>aRedirectSlashExact := insert pattern (aRedirectSlashExact a)\<rparr>)"

fun trackDynamic :: "dynamicRouteMethods list \<Rightarrow> string \<Rightarrow> string \<Rightarrow> directPattern \<Rightarrow> dynamicRouteMethods list" where
  "trackDynamic [] method pattern compiled =
     [\<lparr>dmPatternString = pattern, dmPattern = compiled, dmMethods = [method]\<rparr>]"
| "trackDynamic (d # ds) method pattern compiled =
     (if dmPatternString d = pattern then d\<lparr>dmMethods := List.insert method (dmMethods d)\<rparr> # ds
      else d # trackDynamic ds method pattern compiled)"

definition trackMethodPattern :: "'s app \<Rightarrow> string \<Rightarrow> string \<Rightarrow> bool \<Rightarrow> directPattern \<Rightarrow> 's app" where
  "trackMethodPattern a method pattern isDynamic compiled =
     (if isDynamic
      then a\<lparr>aRouteMethodsDynamic := trackDynamic (aRouteMethodsDynamic a) method pattern compiled\<rparr>
      else let ms = (case aRouteMethodsExact a pattern of None \<Rightarrow> {} | Some ms \<Rightarrow> ms)
           in a\<lparr>aRouteMethodsExact := (aRouteMethodsExact a)(pattern \<mapsto> insert method ms)\<rparr>)"

definition recordRouteIdempotencyTTL :: "'s app \<Rightarrow> string \<Rightarrow> string \<Rightarrow> 's routeConfig \<Rightarrow> 's app" where
  "recordRouteIdempotencyTTL a method pattern rc =
     (case rcIdempotencyTTL rc of
        None \<Rightarrow> a
      | Some d \<Rightarrow>
          (let m = (case aRouteIdempotencyTTL a method of None \<Rightarrow> Map.empty | Some m \<Rightarrow> m)
           in a\<lparr>aRouteIdempotencyTTL := (aRouteIdempotencyTTL a)(method \<mapsto> m(pattern \<mapsto> d))\<rparr>))"

definition muxHandle :: "'s appEnv \<Rightarrow> 's app \<Rightarrow> string \<Rightarrow> 's httpHandler \<Rightarrow> 's app go" where
  "muxHandle env a pattern h =
     (if eMuxRejects env (map fst (aMux a)) pattern then panic (''http: pattern conflict: '' @ pattern)
      else ret (a\<lparr>aMux := aMux a @ [(pattern, h)]\<rparr>))"

definition isDynamicPattern :: "string \<Rightarrow> bool" where
  "isDynamicPattern pattern \<longleftrightarrow> CHR ''{'' \<in> set pattern"

definition compiledOf :: "string \<Rightarrow> directPattern" where
  "compiledOf pattern = (if isDynamicPattern pattern then compileDirectPattern pattern else [])"

definition storeAppRoute ::
  "'s appEnv \<Rightarrow> ('s middleware \<Rightarrow> string) \<Rightarrow> 's routeConfig \<Rightarrow> string \<Rightarrow> string \<Rightarrow> 's httpHandler \<Rightarrow> 's app \<Rightarrow> 's app" where
  \<comment> \<open>what \<^verbatim>\<open>addRoute\<close> does after \<^verbatim>\<open>mux.Handle\<close>\<close>
  "storeAppRoute env label rc method pattern internal a2 =
     (let isDynamic = isDynamicPattern pattern;
          compiled = compiledOf pattern;
          a3 = (if rcMiddleware rc = []
                then (if isDynamic
                      then a2\<lparr>aDirectDynamicRoutes := (aDirectDynamicRoutes a2)(method :=
                             aDirectDynamicRoutes a2 method
                             @ [\<lparr>drHandler = internal, drPattern = compiled, drPatternStr = pattern\<rparr>])\<rparr>
                      else a2\<lparr>aRouteHandlerFast := tset (aRouteHandlerFast a2) method pattern internal\<rparr>)
                else a2);
          a4 = a3\<lparr>aRoutesByKey := insert (method @ '' '' @ pattern) (aRoutesByKey a3),
                  aRoutes := aRoutes a3 @ [routeInfoFromConfig env label method pattern rc (rcMiddleware rc)]\<rparr>;
          a5 = trackMethodPattern a4 method pattern isDynamic compiled
      in recordRouteIdempotencyTTL a5 method pattern rc)"

definition addRoute ::
  "'s appEnv \<Rightarrow> ('s middleware \<Rightarrow> string) \<Rightarrow> 's app \<Rightarrow> string \<Rightarrow> string \<Rightarrow> 's handlerArg \<Rightarrow> 's routeOption list \<Rightarrow> 's app go" where
  "addRoute env label a method pattern handler opts =
     (let rc = applyOptions opts in
      go_bind (adaptHandler env handler) (\<lambda>adapted.
      let limit = (if rcMaxBodySize rc = 0 then eMaxBodySize env else rcMaxBodySize rc);
          http0 = routeHTTPHandler env adapted limit;
          internal = internalHandler env adapted limit;
          http = (if rcMiddleware rc \<noteq> [] then buildChain http0 (rcMiddleware rc) else http0);
          a1 = trackRedirectSlashPattern a pattern (isDynamicPattern pattern) (compiledOf pattern)
      in go_bind (muxHandle env a1 (method @ '' '' @ pattern) http) (\<lambda>a2.
           ret (storeAppRoute env label rc method pattern internal a2))))"

definition appGet ::
  "'s appEnv \<Rightarrow> ('s middleware \<Rightarrow> string) \<Rightarrow> 's app \<Rightarrow> string \<Rightarrow> 's handlerArg \<Rightarrow> 's routeOption list \<Rightarrow> 's app go" where
  "appGet env label a = addRoute env label a ''GET''"

definition appPost ::
  "'s appEnv \<Rightarrow> ('s middleware \<Rightarrow> string) \<Rightarrow> 's app \<Rightarrow> string \<Rightarrow> 's handlerArg \<Rightarrow> 's routeOption list \<Rightarrow> 's app go" where
  "appPost env label a = addRoute env label a ''POST''"

definition appPut ::
  "'s appEnv \<Rightarrow> ('s middleware \<Rightarrow> string) \<Rightarrow> 's app \<Rightarrow> string \<Rightarrow> 's handlerArg \<Rightarrow> 's routeOption list \<Rightarrow> 's app go" where
  "appPut env label a = addRoute env label a ''PUT''"

definition appDelete ::
  "'s appEnv \<Rightarrow> ('s middleware \<Rightarrow> string) \<Rightarrow> 's app \<Rightarrow> string \<Rightarrow> 's handlerArg \<Rightarrow> 's routeOption list \<Rightarrow> 's app go" where
  "appDelete env label a = addRoute env label a ''DELETE''"

definition appPatch ::
  "'s appEnv \<Rightarrow> ('s middleware \<Rightarrow> string) \<Rightarrow> 's app \<Rightarrow> string \<Rightarrow> 's handlerArg \<Rightarrow> 's routeOption list \<Rightarrow> 's app go" where
  "appPatch env label a = addRoute env label a ''PATCH''"

definition appHead ::
  "'s appEnv \<Rightarrow> ('s middleware \<Rightarrow> string) \<Rightarrow> 's app \<Rightarrow> string \<Rightarrow> 's handlerArg \<Rightarrow> 's routeOption list \<Rightarrow> 's app go" where
  "appHead env label a = addRoute env label a ''HEAD''"

definition appOptions ::
  "'s appEnv \<Rightarrow> ('s middleware \<Rightarrow> string) \<Rightarrow> 's app \<Rightarrow> string \<Rightarrow> 's handlerArg \<Rightarrow> 's routeOption list \<Rightarrow> 's app go" where
  "appOptions env label a = addRoute env label a ''OPTIONS''"

definition appMethods :: "string list" where
  "appMethods = [''GET'', ''POST'', ''PUT'', ''DELETE'', ''PATCH'', ''HEAD'', ''OPTIONS'']"

fun addRoutes :: "('a \<Rightarrow> string \<Rightarrow> 'a go) \<Rightarrow> 'a \<Rightarrow> string list \<Rightarrow> 'a go" where
  "addRoutes f a [] = ret a"
| "addRoutes f a (m # ms) = go_bind (f a m) (\<lambda>a'. addRoutes f a' ms)"

definition addAny ::
  "'s appEnv \<Rightarrow> ('s middleware \<Rightarrow> string) \<Rightarrow> 's app \<Rightarrow> string \<Rightarrow> 's handlerArg \<Rightarrow> 's routeOption list \<Rightarrow> 's app go" where
  "addAny env label a pattern handler opts =
     addRoutes (\<lambda>a' m. addRoute env label a' m pattern handler opts) a appMethods"

definition appUse :: "'s app \<Rightarrow> 's mwArg list \<Rightarrow> 's app go" where
  "appUse a mws =
     go_bind (coerceSlots mws ''App.Use'') (\<lambda>slots. ret (a\<lparr>aGlobalMiddleware := aGlobalMiddleware a @ slots\<rparr>))"

section \<open>Groups\<close>

record 's routeGroup =
  gPrefix :: string
  gMiddleware :: "'s middlewareSlot list"

definition groupHandlers ::
  "'s appEnv \<Rightarrow> 's adaptedHandler \<Rightarrow> int \<Rightarrow> 's middlewareSlot list \<Rightarrow> 's httpHandler \<times> 's httpHandler option" where
  \<comment> \<open>the stdlib handler of a group route and, if the chain has one, its native handler\<close>
  "groupHandlers env adapted limit combined =
     (let base = baseNative env adapted limit;
          native = (if combined = [] then Some (lift_app env base)
                    else map_option (lift_app env) (buildNativeChain base combined));
          http0 = routeHTTPHandler env adapted limit
      in (if combined = [] then http0 else buildChain http0 combined, native))"

definition storeGroupRoute ::
  "'s appEnv \<Rightarrow> ('s middleware \<Rightarrow> string) \<Rightarrow> 's routeConfig \<Rightarrow> string \<Rightarrow> string \<Rightarrow> 's middlewareSlot list
     \<Rightarrow> 's httpHandler \<Rightarrow> 's httpHandler option \<Rightarrow> 's app \<Rightarrow> 's app" where
  \<comment> \<open>what the group's \<^verbatim>\<open>addRoute\<close> does after \<^verbatim>\<open>mux.Handle\<close>\<close>
  "storeGroupRoute env label rc method fullPattern combined http native a2 =
     (let isDynamic = isDynamicPattern fullPattern;
          compiled = compiledOf fullPattern;
          a3 = a2\<lparr>aRoutesByKey := insert (method @ '' '' @ fullPattern) (aRoutesByKey a2),
                  aRoutes := aRoutes a2 @ [routeInfoFromConfig env label method fullPattern rc combined]\<rparr>;
          a4 = trackMethodPattern a3 method fullPattern isDynamic compiled;
          a5 = recordRouteIdempotencyTTL a4 method fullPattern rc;
          dyn = (\<lambda>h. \<lparr>drHandler = h, drPattern = compiled, drPatternStr = fullPattern\<rparr>)
      in if \<not> isDynamic
         then let a6 = a5\<lparr>aGroupRouteHandlers := tset (aGroupRouteHandlers a5) method fullPattern http\<rparr>
              in (case native of
                    None \<Rightarrow> a6
                  | Some n \<Rightarrow> a6\<lparr>aGroupRouteNative := tset (aGroupRouteNative a6) method fullPattern n\<rparr>)
         else let a6 = a5\<lparr>aGroupDynamicHandlers := (aGroupDynamicHandlers a5)(method :=
                           aGroupDynamicHandlers a5 method @ [dyn http])\<rparr>
              in (case native of
                    None \<Rightarrow> a6
                  | Some n \<Rightarrow> a6\<lparr>aGroupDynamicNative := (aGroupDynamicNative a6)(method :=
                                 aGroupDynamicNative a6 method @ [dyn n])\<rparr>))"

definition groupAddRoute ::
  "'s appEnv \<Rightarrow> ('s middleware \<Rightarrow> string) \<Rightarrow> 's routeGroup \<Rightarrow> 's app \<Rightarrow> string \<Rightarrow> string \<Rightarrow> 's handlerArg
     \<Rightarrow> 's routeOption list \<Rightarrow> 's app go" where
  "groupAddRoute env label g a method pattern handler opts =
     (let rc = applyOptions opts in
      go_bind (adaptHandler env handler) (\<lambda>adapted.
      let fullPattern = gPrefix g @ pattern;
          limit = (if rcMaxBodySize rc = 0 then eMaxBodySize env else rcMaxBodySize rc);
          combined = gMiddleware g @ rcMiddleware rc;
          (http, native) = groupHandlers env adapted limit combined;
          a1 = trackRedirectSlashPattern a fullPattern (isDynamicPattern fullPattern) (compiledOf fullPattern)
      in go_bind (muxHandle env a1 (method @ '' '' @ fullPattern) http) (\<lambda>a2.
           ret (storeGroupRoute env label rc method fullPattern combined http native a2))))"

definition groupGet ::
  "'s appEnv \<Rightarrow> ('s middleware \<Rightarrow> string) \<Rightarrow> 's routeGroup \<Rightarrow> 's app \<Rightarrow> string \<Rightarrow> 's handlerArg \<Rightarrow> 's routeOption list \<Rightarrow> 's app go" where
  "groupGet env label g a = groupAddRoute env label g a ''GET''"

definition groupPost ::
  "'s appEnv \<Rightarrow> ('s middleware \<Rightarrow> string) \<Rightarrow> 's routeGroup \<Rightarrow> 's app \<Rightarrow> string \<Rightarrow> 's handlerArg \<Rightarrow> 's routeOption list \<Rightarrow> 's app go" where
  "groupPost env label g a = groupAddRoute env label g a ''POST''"

definition groupPut ::
  "'s appEnv \<Rightarrow> ('s middleware \<Rightarrow> string) \<Rightarrow> 's routeGroup \<Rightarrow> 's app \<Rightarrow> string \<Rightarrow> 's handlerArg \<Rightarrow> 's routeOption list \<Rightarrow> 's app go" where
  "groupPut env label g a = groupAddRoute env label g a ''PUT''"

definition groupDelete ::
  "'s appEnv \<Rightarrow> ('s middleware \<Rightarrow> string) \<Rightarrow> 's routeGroup \<Rightarrow> 's app \<Rightarrow> string \<Rightarrow> 's handlerArg \<Rightarrow> 's routeOption list \<Rightarrow> 's app go" where
  "groupDelete env label g a = groupAddRoute env label g a ''DELETE''"

definition groupPatch ::
  "'s appEnv \<Rightarrow> ('s middleware \<Rightarrow> string) \<Rightarrow> 's routeGroup \<Rightarrow> 's app \<Rightarrow> string \<Rightarrow> 's handlerArg \<Rightarrow> 's routeOption list \<Rightarrow> 's app go" where
  "groupPatch env label g a = groupAddRoute env label g a ''PATCH''"

definition groupHead ::
  "'s appEnv \<Rightarrow> ('s middleware \<Rightarrow> string) \<Rightarrow> 's routeGroup \<Rightarrow> 's app \<Rightarrow> string \<Rightarrow> 's handlerArg \<Rightarrow> 's routeOption list \<Rightarrow> 's app go" where
  "groupHead env label g a = groupAddRoute env label g a ''HEAD''"

definition groupOptions ::
  "'s appEnv \<Rightarrow> ('s middleware \<Rightarrow> string) \<Rightarrow> 's routeGroup \<Rightarrow> 's app \<Rightarrow> string \<Rightarrow> 's handlerArg \<Rightarrow> 's routeOption list \<Rightarrow> 's app go" where
  "groupOptions env label g a = groupAddRoute env label g a ''OPTIONS''"

definition groupAny ::
  "'s appEnv \<Rightarrow> ('s middleware \<Rightarrow> string) \<Rightarrow> 's routeGroup \<Rightarrow> 's app \<Rightarrow> string \<Rightarrow> 's handlerArg \<Rightarrow> 's routeOption list \<Rightarrow> 's app go" where
  "groupAny env label g a pattern handler opts =
     addRoutes (\<lambda>a' m. groupAddRoute env label g a' m pattern handler opts) a appMethods"

definition groupUse :: "'s routeGroup \<Rightarrow> 's mwArg list \<Rightarrow> 's routeGroup go" where
  "groupUse g mws =
     go_bind (coerceSlots mws ''RouteGroup.Use'') (\<lambda>slots. ret (g\<lparr>gMiddleware := gMiddleware g @ slots\<rparr>))"

definition appGroup :: "string \<Rightarrow> 's routeGroup" where
  "appGroup prefix = \<lparr>gPrefix = prefix, gMiddleware = []\<rparr>"

definition subGroup :: "'s routeGroup \<Rightarrow> string \<Rightarrow> 's routeGroup" where
  \<comment> \<open>a nested group starts with a snapshot of its parent's middleware\<close>
  "subGroup g prefix = \<lparr>gPrefix = gPrefix g @ prefix, gMiddleware = gMiddleware g\<rparr>"

definition stripPrefixPreserveContext :: "('s \<Rightarrow> string \<Rightarrow> 's) \<Rightarrow> ('s \<Rightarrow> 's) \<Rightarrow> 's appEnv \<Rightarrow> string \<Rightarrow> 's httpHandler \<Rightarrow> 's httpHandler" where
  \<comment> \<open>the first two arguments rewrite the path of the request copy and answer \<^verbatim>\<open>http.NotFound\<close>\<close>
  "stripPrefixPreserveContext setPath notFound env prefix h s =
     (let path = dPath (eOps env) s
      in if \<not> hasPrefix path prefix then (notFound s, False)
         else let trimmed = trimPrefix path prefix;
                  trimmed' = (case trimmed of c # _ \<Rightarrow> (if c \<noteq> CHR ''/'' then CHR ''/'' # trimmed else trimmed)
                              | [] \<Rightarrow> ''/'')
              in h (setPath s trimmed'))"

definition appMount :: "('s \<Rightarrow> string \<Rightarrow> 's) \<Rightarrow> ('s \<Rightarrow> 's) \<Rightarrow> 's appEnv \<Rightarrow> 's app \<Rightarrow> string \<Rightarrow> 's httpHandler \<Rightarrow> 's app go" where
  "appMount setPath notFound env a prefix h =
     (let p = (if prefix \<noteq> [] \<and> last prefix \<noteq> CHR ''/'' then prefix @ ''/'' else prefix)
      in muxHandle env a p (stripPrefixPreserveContext setPath notFound env prefix h))"

end
