(* ===== verification/Dispatch.thy ===== *)
theory Dispatch
  imports Routes
begin

text \<open>
  Dispatch (\<^verbatim>\<open>dispatch.go\<close>): the chains prebuilt from the route tables, the routing multiplexer with
  its 404 and 405 answers, the direct path without middleware and hooks, and \<^verbatim>\<open>ServeHTTP\<close> with the
  hook phases around them. A served request ends in a state and whether the handler panicked.
\<close>

section \<open>Prebuilt chains\<close>

record 's chains =
  bRouteChainFast :: "string \<Rightarrow> string \<Rightarrow> 's httpHandler option"
  bRouteChainFastNative :: "string \<Rightarrow> string \<Rightarrow> 's httpHandler option"
  bGroupRouteChainFast :: "string \<Rightarrow> string \<Rightarrow> 's httpHandler option"
  bGroupRouteChainNative :: "string \<Rightarrow> string \<Rightarrow> 's httpHandler option"
  bGroupDynamicChainFast :: "string \<Rightarrow> 's dynamicRoute list"
  bGroupDynamicChainNative :: "string \<Rightarrow> 's dynamicRoute list"

definition asHandlerFunc :: "'s appEnv \<Rightarrow> 's httpHandler \<Rightarrow> 's handlerFunc" where
  \<comment> \<open>\<^verbatim>\<open>func(ctx) error { rh(ctx, ctx.res, ctx.req); return nil }\<close>\<close>
  "asHandlerFunc env rh s =
     (case rh (dUseCtx (eOps env) s) of (s', p) \<Rightarrow> (s', if p then Panicked else Returned None))"

definition nativeOver :: "'s appEnv \<Rightarrow> 's app \<Rightarrow> 's httpHandler \<Rightarrow> 's httpHandler option" where
  \<comment> \<open>the global native chain over a runtime handler, with its error sent to the error handler\<close>
  "nativeOver env a rh =
     map_option (lift_app env) (buildNativeChain (asHandlerFunc env rh) (aGlobalMiddleware a))"

definition guardCtx :: "'s appEnv \<Rightarrow> 's httpHandler \<Rightarrow> 's httpHandler" where
  "guardCtx env rh s = (if \<not> dHasCtx (eOps env) s then (dStatusOnly (eOps env) 500 s, False) else rh s)"

definition nilHandler :: "'s httpHandler" where
  \<comment> \<open>calling a nil function panics\<close>
  "nilHandler s = (s, True)"

definition buildRouteChainFast :: "'s appEnv \<Rightarrow> 's app \<Rightarrow> 's chains" where
  "buildRouteChainFast env a =
     (let global = aGlobalMiddleware a; globalNative = allNative global
      in \<lparr>bRouteChainFast = (\<lambda>m p.
             if global = [] then None
             else case aRouteHandlerFast a m p of
                    None \<Rightarrow> None
                  | Some rh \<Rightarrow> (if globalNative \<and> nativeOver env a rh \<noteq> None then None
                                else Some (buildChain (guardCtx env rh) global))),
          bRouteChainFastNative = (\<lambda>m p.
             if global = [] then None
             else case aRouteHandlerFast a m p of
                    None \<Rightarrow> None
                  | Some rh \<Rightarrow> (if globalNative then nativeOver env a rh else None)),
          bGroupRouteChainFast = (\<lambda>m p.
             map_option (\<lambda>h. if global = [] then h else buildChain h global) (aGroupRouteHandlers a m p)),
          bGroupRouteChainNative = (\<lambda>m p.
             case aGroupRouteNative a m p of
               None \<Rightarrow> None
             | Some rh \<Rightarrow> (if global = [] then Some rh
                           else if \<not> globalNative then None else nativeOver env a rh)),
          bGroupDynamicChainFast = (\<lambda>m.
             if global = [] then aGroupDynamicHandlers a m
             else map (\<lambda>r. r\<lparr>drHandler := buildChain (drHandler r) global\<rparr>) (aGroupDynamicHandlers a m)),
          bGroupDynamicChainNative = (\<lambda>m.
             if global = [] then aGroupDynamicNative a m
             else if \<not> globalNative then []
             else map (\<lambda>r. r\<lparr>drHandler := (case nativeOver env a (drHandler r) of None \<Rightarrow> nilHandler | Some h \<Rightarrow> h)\<rparr>)
                    (aGroupDynamicNative a m))\<rparr>)"

section \<open>Routing\<close>

fun findDynamic :: "'s dynamicRoute list \<Rightarrow> string \<Rightarrow> ('s dynamicRoute \<times> (string \<times> string) list) option go" where
  \<comment> \<open>the loops over dynamic routes: the first whose pattern matches\<close>
  "findDynamic [] path = ret None"
| "findDynamic (r # rs) path =
     go_bind (match_path (drPattern r) path) (\<lambda>m.
       case m of Some ps \<Rightarrow> ret (Some (r, ps)) | None \<Rightarrow> findDynamic rs path)"

definition setParams :: "'s appEnv \<Rightarrow> (string \<times> string) list \<Rightarrow> 's \<Rightarrow> 's" where
  "setParams env ps s = foldl (\<lambda>s (n, v). dSetParam (eOps env) n v s) s ps"

definition serveDynamic :: "'s appEnv \<Rightarrow> 's dynamicRoute \<times> (string \<times> string) list \<Rightarrow> 's httpHandler" where
  "serveDynamic env rp s =
     (case rp of (r, ps) \<Rightarrow> drHandler r (dSetRoute (eOps env) (drPatternStr r) (setParams env ps s)))"

fun methodMismatch :: "dynamicRouteMethods list \<Rightarrow> string \<Rightarrow> string \<Rightarrow> bool go" where
  \<comment> \<open>the first dynamic pattern that matches the path does not have the method\<close>
  "methodMismatch [] method path = ret False"
| "methodMismatch (d # ds) method path =
     go_bind (match_path (dmPattern d) path) (\<lambda>m.
       if m \<noteq> None then ret (method \<notin> set (dmMethods d)) else methodMismatch ds method path)"

definition muxEntry :: "'s appEnv \<Rightarrow> 's app \<Rightarrow> string \<Rightarrow> 's httpHandler" where
  \<comment> \<open>the handler the mux runs for a pattern it selected\<close>
  "muxEntry env a pattern = (case map_of (aMux a) pattern of Some h \<Rightarrow> h | None \<Rightarrow> eMuxInternal env pattern)"

definition muxServe :: "'s appEnv \<Rightarrow> 's app \<Rightarrow> string \<Rightarrow> 's httpHandler" where
  \<comment> \<open>\<^verbatim>\<open>mux.ServeHTTP\<close> for a request it resolves to the pattern\<close>
  "muxServe env a pattern s = muxEntry env a pattern (dMuxParams (eOps env) pattern s)"

definition unmatched :: "'s appEnv \<Rightarrow> 's app \<Rightarrow> 's httpHandler" where
  \<comment> \<open>the end of \<^verbatim>\<open>routingMux.ServeHTTP\<close>: 405 for a known path, 404 otherwise\<close>
  "unmatched env a s =
     (let ops = eOps env; m = dMethod ops s; p = dPath ops s
      in if (case aRouteMethodsExact a p of Some ms \<Rightarrow> m \<notin> ms | None \<Rightarrow> False) \<and> dHasCtx ops s
         then lift_app env (eMethodNotAllowed env) s
         else case methodMismatch (aRouteMethodsDynamic a) m p of
                Inl _ \<Rightarrow> (s, True)
              | Inr b \<Rightarrow>
                  (if b \<and> dHasCtx ops s then lift_app env (eMethodNotAllowed env) s
                   else if \<not> dHasCtx ops s then eMuxInternal env [] s
                   else lift_app env (eNotFound env) s))"

definition muxFallback :: "'s appEnv \<Rightarrow> 's app \<Rightarrow> 's httpHandler" where
  "muxFallback env a s =
     (let ops = eOps env; pattern = eMuxPick env (map fst (aMux a)) (dMethod ops s) (dPath ops s)
      in if pattern \<noteq> [] then
           (if pattern \<in> aRoutesByKey a then
              (let s1 = (if dHasCtx ops s then dSetRoute ops (stripMethodPattern pattern) s else s)
               in if CHR ''{'' \<notin> set pattern then muxEntry env a pattern s1 else muxServe env a pattern s1)
            else (case muxServe env a pattern s of
                    (s', True) \<Rightarrow> (s', True)
                  | (s', False) \<Rightarrow>
                      (if \<not> dWrote ops s s' \<and> dHasCtx ops s' then lift_app env (eNotFound env) s' else (s', False))))
         else unmatched env a s)"

definition routingMux :: "'s appEnv \<Rightarrow> 's app \<Rightarrow> 's httpHandler" where
  "routingMux env a s =
     (let ops = eOps env; m = dMethod ops s; p = dPath ops s
      in if dHasCtx ops s then
           (case aRouteHandlerFast a m p of
              Some rh \<Rightarrow> rh (dSetRoute ops p s)
            | None \<Rightarrow>
                (case findDynamic (aDirectDynamicRoutes a m) p of
                   Inl _ \<Rightarrow> (s, True)
                 | Inr (Some rp) \<Rightarrow> serveDynamic env rp s
                 | Inr None \<Rightarrow> muxFallback env a s))
         else muxFallback env a s)"

definition buildHandler :: "'s appEnv \<Rightarrow> 's app \<Rightarrow> 's httpHandler" where
  "buildHandler env a = buildChain (routingMux env a) (aGlobalMiddleware a)"

section \<open>Serving\<close>

definition serveDirect :: "'s appEnv \<Rightarrow> 's app \<Rightarrow> 's chains \<Rightarrow> 's \<Rightarrow> ('s \<times> bool) option" where
  \<comment> \<open>\<open>None\<close> is the source's \<^verbatim>\<open>false\<close>: not served\<close>
  "serveDirect env a b s =
     (let ops = eOps env; m = dMethod ops s; p = dPath ops s
      in case aRouteHandlerFast a m p of
           Some rt \<Rightarrow> Some (rt (dSetRoute ops p s))
         | None \<Rightarrow>
        (case bGroupRouteChainNative b m p of
           Some rt \<Rightarrow> Some (rt (dSetRoute ops p s))
         | None \<Rightarrow>
        (case findDynamic (bGroupDynamicChainNative b m) p of
           Inl _ \<Rightarrow> Some (s, True)
         | Inr (Some rp) \<Rightarrow> Some (serveDynamic env rp s)
         | Inr None \<Rightarrow>
        (case findDynamic (aDirectDynamicRoutes a m) p of
           Inl _ \<Rightarrow> Some (s, True)
         | Inr (Some rp) \<Rightarrow> Some (serveDynamic env rp s)
         | Inr None \<Rightarrow>
        (let pattern = eMuxPick env (map fst (aMux a)) m p
         in if pattern = [] \<or> pattern \<notin> aRoutesByKey a then None
            else let s1 = dBridge ops (dSetRoute ops (stripMethodPattern pattern) s)
                 in if CHR ''{'' \<notin> set pattern then Some (muxEntry env a pattern s1)
                    else (case muxServe env a pattern s1 of (s', q) \<Rightarrow> Some (dUnregister ops s', q)))))))"

definition onResponse :: "'s appEnv \<Rightarrow> 's \<times> bool \<Rightarrow> 's \<times> bool" where
  "onResponse env r =
     (case r of
        (s, True) \<Rightarrow> (s, True)
      | (s, False) \<Rightarrow> (if hasHook env OnResponse then fst (run (eHooks env) OnResponse s) else s, False))"

definition serveRoutes :: "'s appEnv \<Rightarrow> 's app \<Rightarrow> 's chains \<Rightarrow> 's \<Rightarrow> 's \<times> bool" where
  \<comment> \<open>from the native chains to the general handler\<close>
  "serveRoutes env a b s =
     (let ops = eOps env; m = dMethod ops s; p = dPath ops s
      in case bRouteChainFastNative b m p of
           Some rh \<Rightarrow> onResponse env (rh (dSetRoute ops p s))
         | None \<Rightarrow>
        (case bGroupRouteChainNative b m p of
           Some rh \<Rightarrow> onResponse env (rh (dSetRoute ops p s))
         | None \<Rightarrow>
        (case findDynamic (bGroupDynamicChainNative b m) p of
           Inl _ \<Rightarrow> (s, True)
         | Inr (Some rp) \<Rightarrow> onResponse env (serveDynamic env rp s)
         | Inr None \<Rightarrow>
        (let s1 = dBridge ops s
         in case bRouteChainFast b m p of
              Some h \<Rightarrow> onResponse env (h (dSetRoute ops p s1))
            | None \<Rightarrow>
           (case bGroupRouteChainFast b m p of
              Some h \<Rightarrow> onResponse env (h (dSetRoute ops p s1))
            | None \<Rightarrow>
           (case findDynamic (bGroupDynamicChainFast b m) p of
              Inl _ \<Rightarrow> (s1, True)
            | Inr (Some rp) \<Rightarrow> onResponse env (serveDynamic env rp s1)
            | Inr None \<Rightarrow> onResponse env (buildHandler env a s1)))))))"

definition runPhase :: "'s appEnv \<Rightarrow> hookPhase \<Rightarrow> 's \<Rightarrow> 's \<times> err option" where
  "runPhase env phase s = (if hasHook env phase then run (eHooks env) phase s else (s, None))"

definition gatedRoutes :: "'s appEnv \<Rightarrow> 's app \<Rightarrow> 's chains \<Rightarrow> 's \<Rightarrow> 's \<times> bool" where
  "gatedRoutes env a b s =
     (case runPhase env OnRequest s of
        (s1, Some e) \<Rightarrow> (handleError env s1 e, False)
      | (s1, None) \<Rightarrow>
          (case runPhase env PreRouting s1 of
             (s2, Some e) \<Rightarrow> (handleError env s2 e, False)
           | (s2, None) \<Rightarrow> serveRoutes env a b s2))"

definition deferred :: "'s appEnv \<Rightarrow> 's \<times> bool \<Rightarrow> 's \<times> bool" where
  \<comment> \<open>the deferred function: OnSend hooks and the flush of the buffered writer, then the registry\<close>
  "deferred env r =
     (let s = fst r;
          s1 = (if hasHook env OnSend then dFlush (eOps env) (fst (run (eHooks env) OnSend s)) else s)
      in (if eRequestContextBridge env then s1 else dUnregister (eOps env) s1, snd r))"

definition noHooksNoMiddleware :: "'s appEnv \<Rightarrow> 's app \<Rightarrow> bool" where
  "noHooksNoMiddleware env a \<longleftrightarrow>
     aGlobalMiddleware a = [] \<and> \<not> hasHook env OnRequest \<and> \<not> hasHook env PreRouting
     \<and> \<not> hasHook env OnResponse \<and> \<not> hasHook env OnSend"

definition serveHTTP :: "'s appEnv \<Rightarrow> 's app \<Rightarrow> 's \<Rightarrow> 's \<times> bool" where
  "serveHTTP env a s =
     (let ops = eOps env; b = buildRouteChainFast env a
      in case trailingSlashRedirect (eRedirectTrailingSlash env) (aRedirectSlashExact a) (aRedirectSlashDynamic a)
                (dPath ops s) (dRawQuery ops s) of
           Inl _ \<Rightarrow> (s, True)
         | Inr (Some target) \<Rightarrow> (dRedirect ops target s, False)
         | Inr None \<Rightarrow>
             (case (if noHooksNoMiddleware env a then serveDirect env a b s else None) of
                Some r \<Rightarrow> r
              | None \<Rightarrow> deferred env (gatedRoutes env a b (if hasHook env OnSend then dBuffer ops s else s))))"

section \<open>The prebuilt chains\<close>

lemma lift_asHandlerFunc: "lift_app env (asHandlerFunc env rh) = (\<lambda>s. rh (dUseCtx (eOps env) s))"
  by (rule ext) (simp add: lift_handler_def asHandlerFunc_def split: prod.splits)

lemma nativeOver_agreeing:
  assumes "list_all (agreeingSlot (appFramework env)) (aGlobalMiddleware a)"
  shows "nativeOver env a rh = Some (buildChain (\<lambda>s. rh (dUseCtx (eOps env) s)) (aGlobalMiddleware a))"
  using agreeing_chain [OF assms, of "asHandlerFunc env rh"] agreeing_allNative [OF assms]
  by (simp add: nativeOver_def buildNativeChain_foldr buildChain_foldr lift_asHandlerFunc)

lemma buildChain_append: "buildChain (buildChain h ms) gs = buildChain h (gs @ ms)"
  by (simp add: buildChain_foldr)

lemma groupHandlers_chain:
  assumes "list_all (agreeingSlot (appFramework env)) combined"
  shows "groupHandlers env ah limit combined =
    (buildChain (routeHTTPHandler env ah limit) combined,
     Some (buildChain (lift_app env (baseNative env ah limit)) combined))"
  using agreeing_chain [OF assms, of "baseNative env ah limit"] agreeing_allNative [OF assms]
  by (simp add: groupHandlers_def buildNativeChain_foldr buildChain_foldr Let_def)

section \<open>Registration sequences\<close>

datatype 's registration =
  RegRoute string string "'s handlerArg" "'s routeOption list"
| RegGroupRoute "'s routeGroup" string string "'s handlerArg" "'s routeOption list"
| RegUse "'s mwArg list"
| RegMount string "'s httpHandler"

fun register :: "'s appEnv \<Rightarrow> ('s middleware \<Rightarrow> string) \<Rightarrow> 's app \<Rightarrow> 's registration \<Rightarrow> 's app go" where
  "register env label a (RegRoute m p h opts) = addRoute env label a m p h opts"
| "register env label a (RegGroupRoute g m p h opts) = groupAddRoute env label g a m p h opts"
| "register env label a (RegUse mws) = appUse a mws"
| "register env label a (RegMount prefix h) = muxHandle env a prefix h"

fun registerAll :: "'s appEnv \<Rightarrow> ('s middleware \<Rightarrow> string) \<Rightarrow> 's app \<Rightarrow> 's registration list \<Rightarrow> 's app go" where
  "registerAll env label a [] = ret a"
| "registerAll env label a (r # rs) = go_bind (register env label a r) (\<lambda>a'. registerAll env label a' rs)"

definition registered :: "'s app \<Rightarrow> string \<Rightarrow> string \<Rightarrow> bool" where
  "registered a m p \<longleftrightarrow> (\<exists>ri \<in> set (aRoutes a). riMethod ri = m \<and> riPattern ri = p)"

definition methodsOf :: "'s app \<Rightarrow> string \<Rightarrow> string set" where
  "methodsOf a p = {m. registered a m p}"

definition dynEntry :: "(string \<Rightarrow> string set) \<Rightarrow> dynamicRouteMethods \<Rightarrow> bool" where
  "dynEntry ms d \<longleftrightarrow>
     isDynamicPattern (dmPatternString d) \<and> dmPattern d = compileDirectPattern (dmPatternString d)
     \<and> set (dmMethods d) = ms (dmPatternString d) \<and> ms (dmPatternString d) \<noteq> {}"

text \<open>What the tables say of the registered routes.\<close>

definition staticEntry :: "'s app \<Rightarrow> string \<Rightarrow> string \<Rightarrow> bool" where
  "staticEntry a m p \<longleftrightarrow>
     aRouteHandlerFast a m p \<noteq> None \<or> aGroupRouteHandlers a m p \<noteq> None \<or> aGroupRouteNative a m p \<noteq> None"

definition dynRoutes :: "'s app \<Rightarrow> string \<Rightarrow> 's dynamicRoute set" where
  "dynRoutes a m = set (aDirectDynamicRoutes a m) \<union> set (aGroupDynamicHandlers a m) \<union> set (aGroupDynamicNative a m)"

definition tablesInv :: "'s app \<Rightarrow> bool" where
  "tablesInv a \<longleftrightarrow>
     (\<forall>m p. staticEntry a m p \<longrightarrow> registered a m p \<and> \<not> isDynamicPattern p)
     \<and> (\<forall>m r. r \<in> dynRoutes a m \<longrightarrow> registered a m (drPatternStr r) \<and> drPattern r = compileDirectPattern (drPatternStr r))
     \<and> (\<forall>p. \<not> isDynamicPattern p \<longrightarrow>
          aRouteMethodsExact a p = (if methodsOf a p = {} then None else Some (methodsOf a p)))
     \<and> (\<forall>p. isDynamicPattern p \<longrightarrow> aRouteMethodsExact a p = None)
     \<and> (\<forall>d \<in> set (aRouteMethodsDynamic a). dynEntry (methodsOf a) d)
     \<and> distinct (map dmPatternString (aRouteMethodsDynamic a))
     \<and> (\<forall>p. isDynamicPattern p \<longrightarrow> methodsOf a p \<noteq> {} \<longrightarrow> p \<in> dmPatternString ` set (aRouteMethodsDynamic a))
     \<and> aRoutesByKey a = {riMethod ri @ '' '' @ riPattern ri | ri. ri \<in> set (aRoutes a)}"

definition plainExtension :: "'s app \<Rightarrow> 's app \<Rightarrow> string \<Rightarrow> string \<Rightarrow> bool" where
  \<comment> \<open>\<open>a'\<close> has one more route, of the method and pattern, and the bookkeeping tables updated for it\<close>
  "plainExtension a a' m p \<longleftrightarrow>
     (\<exists>ri. aRoutes a' = aRoutes a @ [ri] \<and> riMethod ri = m \<and> riPattern ri = p)
     \<and> aRoutesByKey a' = insert (m @ '' '' @ p) (aRoutesByKey a)
     \<and> aRouteMethodsExact a' = aRouteMethodsExact (trackMethodPattern a m p (isDynamicPattern p) (compiledOf p))
     \<and> aRouteMethodsDynamic a' = aRouteMethodsDynamic (trackMethodPattern a m p (isDynamicPattern p) (compiledOf p))
     \<and> (\<forall>m' p'. staticEntry a' m' p' \<longrightarrow> staticEntry a m' p' \<or> (m' = m \<and> p' = p \<and> \<not> isDynamicPattern p))
     \<and> (\<forall>m' r. r \<in> dynRoutes a' m' \<longrightarrow> r \<in> dynRoutes a m'
          \<or> (m' = m \<and> isDynamicPattern p \<and> drPatternStr r = p \<and> drPattern r = compileDirectPattern p))"

lemma registered_snoc:
  "aRoutes a' = aRoutes a @ [ri] \<Longrightarrow> registered a' m p \<longleftrightarrow> registered a m p \<or> (riMethod ri = m \<and> riPattern ri = p)"
  by (auto simp: registered_def)

lemma methodsOf_snoc:
  "aRoutes a' = aRoutes a @ [ri] \<Longrightarrow>
   methodsOf a' p = (if riPattern ri = p then insert (riMethod ri) (methodsOf a p) else methodsOf a p)"
  by (auto simp: methodsOf_def registered_snoc)

lemma trackDynamic_strings:
  "dmPatternString ` set (trackDynamic ds m p c) = insert p (dmPatternString ` set ds)"
  by (induction ds) auto

text \<open>
  After tracking a method for a dynamic pattern, the entry of the pattern has the method in
  addition; the others are unchanged. It needs the entries to have distinct patterns.
\<close>

lemma trackDynamic_entries:
  assumes "distinct (map dmPatternString ds)" and "\<forall>d \<in> set ds. dynEntry ms d"
    and "p \<notin> dmPatternString ` set ds \<Longrightarrow> ms p = {}" and "isDynamicPattern p" and "c = compileDirectPattern p"
  shows "\<forall>d \<in> set (trackDynamic ds m p c). dynEntry (ms(p := insert m (ms p))) d"
  using assms
proof (induction ds)
  case (Cons d ds)
  show ?case
  proof (cases "dmPatternString d = p")
    case True
    then have "\<forall>d' \<in> set ds. dmPatternString d' \<noteq> p" using Cons.prems(1) by (auto simp: image_iff)
    with True Cons.prems(2) show ?thesis by (auto simp: dynEntry_def)
  next
    case False
    have "\<forall>d \<in> set (trackDynamic ds m p c). dynEntry (ms(p := insert m (ms p))) d"
    proof (rule Cons.IH)
      show "p \<notin> dmPatternString ` set ds \<Longrightarrow> ms p = {}" using Cons.prems(3) False by simp
    qed (use Cons.prems in simp_all)
    moreover have "dynEntry (ms(p := insert m (ms p))) d" using Cons.prems(2) False by (simp add: dynEntry_def)
    ultimately show ?thesis using False by (simp del: fun_upd_apply)
  qed
qed (simp add: dynEntry_def)

lemma trackDynamic_distinct:
  "distinct (map dmPatternString ds) \<Longrightarrow> distinct (map dmPatternString (trackDynamic ds m p c))"
proof (induction ds)
  case (Cons d ds)
  have "dmPatternString d \<notin> dmPatternString ` set ds" using Cons.prems by auto
  then show ?case using Cons trackDynamic_strings [of ds m p c] by auto
qed simp


lemma plainExtension_inv:
  assumes ext: "plainExtension a a' m p" and inv: "tablesInv a"
  shows "tablesInv a'"
proof -
  obtain ri where ri: "aRoutes a' = aRoutes a @ [ri]" "riMethod ri = m" "riPattern ri = p"
    using ext by (auto simp: plainExtension_def)
  have reg: "registered a' m' p' \<longleftrightarrow> registered a m' p' \<or> (m' = m \<and> p' = p)" for m' p'
    using registered_snoc [OF ri(1)] ri(2,3) by auto
  have ms: "methodsOf a' = (methodsOf a)(p := insert m (methodsOf a p))"
    using methodsOf_snoc [OF ri(1)] ri(2,3) by (auto simp: fun_eq_iff)
  have i1: "\<forall>m p. staticEntry a m p \<longrightarrow> registered a m p \<and> \<not> isDynamicPattern p"
    and i2: "\<forall>m r. r \<in> dynRoutes a m \<longrightarrow> registered a m (drPatternStr r) \<and> drPattern r = compileDirectPattern (drPatternStr r)"
    using inv unfolding tablesInv_def by simp_all
  have e1: "\<forall>m' p'. staticEntry a' m' p' \<longrightarrow> staticEntry a m' p' \<or> (m' = m \<and> p' = p \<and> \<not> isDynamicPattern p)"
    and e2: "\<forall>m' r. r \<in> dynRoutes a' m' \<longrightarrow> r \<in> dynRoutes a m'
          \<or> (m' = m \<and> isDynamicPattern p \<and> drPatternStr r = p \<and> drPattern r = compileDirectPattern p)"
    using ext unfolding plainExtension_def by simp_all
  have static: "\<forall>m p. staticEntry a' m p \<longrightarrow> registered a' m p \<and> \<not> isDynamicPattern p"
    unfolding reg using i1 e1 by blast
  have dyn: "\<forall>m r. r \<in> dynRoutes a' m \<longrightarrow> registered a' m (drPatternStr r) \<and> drPattern r = compileDirectPattern (drPatternStr r)"
    unfolding reg using i2 e2 by metis
  have exact: "(\<forall>q. \<not> isDynamicPattern q \<longrightarrow>
          aRouteMethodsExact a' q = (if methodsOf a' q = {} then None else Some (methodsOf a' q)))
      \<and> (\<forall>q. isDynamicPattern q \<longrightarrow> aRouteMethodsExact a' q = None)"
    using ext inv by (auto simp: plainExtension_def tablesInv_def ms trackMethodPattern_def Let_def)
  have dynamic: "(\<forall>d \<in> set (aRouteMethodsDynamic a'). dynEntry (methodsOf a') d)
      \<and> distinct (map dmPatternString (aRouteMethodsDynamic a'))
      \<and> (\<forall>q. isDynamicPattern q \<longrightarrow> methodsOf a' q \<noteq> {} \<longrightarrow> q \<in> dmPatternString ` set (aRouteMethodsDynamic a'))"
  proof (cases "isDynamicPattern p")
    case True
    then have d: "aRouteMethodsDynamic a' = trackDynamic (aRouteMethodsDynamic a) m p (compileDirectPattern p)"
      using ext by (simp add: plainExtension_def trackMethodPattern_def compiledOf_def)
    have old: "distinct (map dmPatternString (aRouteMethodsDynamic a))" "\<forall>d \<in> set (aRouteMethodsDynamic a). dynEntry (methodsOf a) d"
      "\<forall>q. isDynamicPattern q \<longrightarrow> methodsOf a q \<noteq> {} \<longrightarrow> q \<in> dmPatternString ` set (aRouteMethodsDynamic a)"
      using inv by (simp_all add: tablesInv_def)
    have "p \<notin> dmPatternString ` set (aRouteMethodsDynamic a) \<Longrightarrow> methodsOf a p = {}" using old(3) True by blast
    from trackDynamic_entries [OF old(1,2) this True refl] show ?thesis
      using trackDynamic_distinct [OF old(1)] trackDynamic_strings old(3) unfolding d ms by fastforce
  next
    case False
    then have d: "aRouteMethodsDynamic a' = aRouteMethodsDynamic a"
      using ext by (simp add: plainExtension_def trackMethodPattern_def Let_def)
    have "dynEntry (methodsOf a') e" if "e \<in> set (aRouteMethodsDynamic a)" for e
      using that inv False unfolding ms tablesInv_def dynEntry_def by auto
    then show ?thesis using inv False unfolding d ms tablesInv_def by auto
  qed
  have "aRoutesByKey a' = {riMethod ri @ '' '' @ riPattern ri | ri. ri \<in> set (aRoutes a')}"
    using ext inv ri unfolding plainExtension_def tablesInv_def by auto
  with static dyn exact dynamic show ?thesis unfolding tablesInv_def by blast
qed

lemma emptyApp_inv: "tablesInv emptyApp"
  by (simp add: tablesInv_def emptyApp_def registered_def methodsOf_def staticEntry_def dynRoutes_def)


text \<open>
  The registration steps as plain record updates, so that the other fields are kept by
  simplification.
\<close>

lemma trackRedirect_upd:
  "trackRedirectSlashPattern a p dyn c =
     a\<lparr>aRedirectSlashExact := (if dyn then aRedirectSlashExact a else insert p (aRedirectSlashExact a)),
       aRedirectSlashDynamic := (if dyn then aRedirectSlashDynamic a @ [c] else aRedirectSlashDynamic a)\<rparr>"
  by (simp add: trackRedirectSlashPattern_def)

lemma trackMethod_upd:
  "trackMethodPattern a m p dyn c =
     a\<lparr>aRouteMethodsExact := (if dyn then aRouteMethodsExact a
         else (aRouteMethodsExact a)(p \<mapsto> insert m (case aRouteMethodsExact a p of None \<Rightarrow> {} | Some ms \<Rightarrow> ms))),
       aRouteMethodsDynamic := (if dyn then trackDynamic (aRouteMethodsDynamic a) m p c else aRouteMethodsDynamic a)\<rparr>"
  by (simp add: trackMethodPattern_def Let_def)

lemma recordTTL_upd:
  "recordRouteIdempotencyTTL a m p rc =
     a\<lparr>aRouteIdempotencyTTL := (case rcIdempotencyTTL rc of None \<Rightarrow> aRouteIdempotencyTTL a
        | Some d \<Rightarrow> (aRouteIdempotencyTTL a)(m \<mapsto>
            (case aRouteIdempotencyTTL a m of None \<Rightarrow> Map.empty | Some t \<Rightarrow> t)(p \<mapsto> d)))\<rparr>"
  by (simp add: recordRouteIdempotencyTTL_def Let_def split: option.split)

lemma trackRedirect_upd_mux: "aMux (trackRedirectSlashPattern a p dyn c) = aMux a"
  by (simp add: trackRedirect_upd)

lemma methodsOf_frame:
  "methodsOf (a\<lparr>aGlobalMiddleware := g\<rparr>) = methodsOf a" "methodsOf (a\<lparr>aMux := x\<rparr>) = methodsOf a"
  "registered (a\<lparr>aGlobalMiddleware := g\<rparr>) = registered a" "registered (a\<lparr>aMux := x\<rparr>) = registered a"
  by (simp_all add: methodsOf_def registered_def fun_eq_iff)

lemma muxHandle_ret: "muxHandle env a pat h = ret a' \<Longrightarrow> a' = a\<lparr>aMux := aMux a @ [(pat, h)]\<rparr>"
  by (simp add: muxHandle_def split: if_splits)

lemma storeAppRoute_fields [simp]:
  "aMux (storeAppRoute env label rc m p rh a) = aMux a"
  "aGlobalMiddleware (storeAppRoute env label rc m p rh a) = aGlobalMiddleware a"
  "aRoutesByKey (storeAppRoute env label rc m p rh a) = insert (m @ '' '' @ p) (aRoutesByKey a)"
  "aRoutes (storeAppRoute env label rc m p rh a) = aRoutes a @ [routeInfoFromConfig env label m p rc (rcMiddleware rc)]"
  "aRouteHandlerFast (storeAppRoute env label rc m p rh a) =
     (if rcMiddleware rc = [] \<and> \<not> isDynamicPattern p then tset (aRouteHandlerFast a) m p rh else aRouteHandlerFast a)"
  "aDirectDynamicRoutes (storeAppRoute env label rc m p rh a) =
     (if rcMiddleware rc = [] \<and> isDynamicPattern p
      then (aDirectDynamicRoutes a)(m := aDirectDynamicRoutes a m @ [\<lparr>drHandler = rh, drPattern = compiledOf p, drPatternStr = p\<rparr>])
      else aDirectDynamicRoutes a)"
  "aGroupRouteHandlers (storeAppRoute env label rc m p rh a) = aGroupRouteHandlers a"
  "aGroupRouteNative (storeAppRoute env label rc m p rh a) = aGroupRouteNative a"
  "aGroupDynamicHandlers (storeAppRoute env label rc m p rh a) = aGroupDynamicHandlers a"
  "aGroupDynamicNative (storeAppRoute env label rc m p rh a) = aGroupDynamicNative a"
  "aRouteMethodsExact (storeAppRoute env label rc m p rh a) =
     aRouteMethodsExact (trackMethodPattern a m p (isDynamicPattern p) (compiledOf p))"
  "aRouteMethodsDynamic (storeAppRoute env label rc m p rh a) =
     aRouteMethodsDynamic (trackMethodPattern a m p (isDynamicPattern p) (compiledOf p))"
  by (simp_all add: storeAppRoute_def trackMethod_upd recordTTL_upd Let_def)

lemma storeGroupRoute_fields [simp]:
  "aMux (storeGroupRoute env label rc m p ms h n a) = aMux a"
  "aGlobalMiddleware (storeGroupRoute env label rc m p ms h n a) = aGlobalMiddleware a"
  "aRoutesByKey (storeGroupRoute env label rc m p ms h n a) = insert (m @ '' '' @ p) (aRoutesByKey a)"
  "aRoutes (storeGroupRoute env label rc m p ms h n a) = aRoutes a @ [routeInfoFromConfig env label m p rc ms]"
  "aRouteHandlerFast (storeGroupRoute env label rc m p ms h n a) = aRouteHandlerFast a"
  "aDirectDynamicRoutes (storeGroupRoute env label rc m p ms h n a) = aDirectDynamicRoutes a"
  "aGroupRouteHandlers (storeGroupRoute env label rc m p ms h n a) =
     (if isDynamicPattern p then aGroupRouteHandlers a else tset (aGroupRouteHandlers a) m p h)"
  "aGroupRouteNative (storeGroupRoute env label rc m p ms h n a) =
     (case n of Some x \<Rightarrow> if isDynamicPattern p then aGroupRouteNative a else tset (aGroupRouteNative a) m p x
      | None \<Rightarrow> aGroupRouteNative a)"
  "aGroupDynamicHandlers (storeGroupRoute env label rc m p ms h n a) =
     (if isDynamicPattern p
      then (aGroupDynamicHandlers a)(m := aGroupDynamicHandlers a m @ [\<lparr>drHandler = h, drPattern = compiledOf p, drPatternStr = p\<rparr>])
      else aGroupDynamicHandlers a)"
  "aGroupDynamicNative (storeGroupRoute env label rc m p ms h n a) =
     (case n of Some x \<Rightarrow> if isDynamicPattern p
        then (aGroupDynamicNative a)(m := aGroupDynamicNative a m @ [\<lparr>drHandler = x, drPattern = compiledOf p, drPatternStr = p\<rparr>])
        else aGroupDynamicNative a
      | None \<Rightarrow> aGroupDynamicNative a)"
  "aRouteMethodsExact (storeGroupRoute env label rc m p ms h n a) =
     aRouteMethodsExact (trackMethodPattern a m p (isDynamicPattern p) (compiledOf p))"
  "aRouteMethodsDynamic (storeGroupRoute env label rc m p ms h n a) =
     aRouteMethodsDynamic (trackMethodPattern a m p (isDynamicPattern p) (compiledOf p))"
  by (simp_all add: storeGroupRoute_def trackMethod_upd recordTTL_upd Let_def split: option.split)

lemma routeInfo_fields [simp]:
  "riMethod (routeInfoFromConfig env label m p rc ms) = m" "riPattern (routeInfoFromConfig env label m p rc ms) = p"
  by (simp_all add: routeInfoFromConfig_def Let_def)

lemma addRoute_ret:
  assumes "addRoute env label a m p h opts = ret a'"
  shows "\<exists>http rh a2. a2 = (trackRedirectSlashPattern a p (isDynamicPattern p) (compiledOf p))\<lparr>aMux := aMux a @ [(m @ '' '' @ p, http)]\<rparr>
     \<and> a' = storeAppRoute env label (applyOptions opts) m p rh a2"
proof -
  obtain ah where ah: "adaptHandler env h = ret ah" using assms by (auto simp: addRoute_def Let_def go_bind_ret_iff)
  obtain rh http a2 where a2: "muxHandle env (trackRedirectSlashPattern a p (isDynamicPattern p) (compiledOf p))
      (m @ '' '' @ p) http = ret a2" "a' = storeAppRoute env label (applyOptions opts) m p rh a2"
    using assms unfolding addRoute_def Let_def ah go_bind.simps go_bind_ret_iff by blast
  from muxHandle_ret [OF a2(1)] a2(2) show ?thesis by (metis trackRedirect_upd_mux)
qed

lemma groupAddRoute_ret:
  assumes "groupAddRoute env label g a m p h opts = ret a'"
  shows "\<exists>ah http native a2. adaptHandler env h = ret ah
     \<and> groupHandlers env ah (if rcMaxBodySize (applyOptions opts) = 0 then eMaxBodySize env else rcMaxBodySize (applyOptions opts))
         (gMiddleware g @ rcMiddleware (applyOptions opts)) = (http, native)
     \<and> a2 = (trackRedirectSlashPattern a (gPrefix g @ p) (isDynamicPattern (gPrefix g @ p)) (compiledOf (gPrefix g @ p)))
              \<lparr>aMux := aMux a @ [(m @ '' '' @ gPrefix g @ p, http)]\<rparr>
     \<and> a' = storeGroupRoute env label (applyOptions opts) m (gPrefix g @ p)
              (gMiddleware g @ rcMiddleware (applyOptions opts)) http native a2"
proof -
  obtain ah where ah: "adaptHandler env h = ret ah" using assms by (auto simp: groupAddRoute_def Let_def go_bind_ret_iff)
  obtain http native where gh: "groupHandlers env ah (if rcMaxBodySize (applyOptions opts) = 0 then eMaxBodySize env
      else rcMaxBodySize (applyOptions opts)) (gMiddleware g @ rcMiddleware (applyOptions opts)) = (http, native)"
    by fastforce
  obtain a2 where a2: "muxHandle env (trackRedirectSlashPattern a (gPrefix g @ p) (isDynamicPattern (gPrefix g @ p))
        (compiledOf (gPrefix g @ p))) (m @ '' '' @ gPrefix g @ p) http = ret a2"
    "a' = storeGroupRoute env label (applyOptions opts) m (gPrefix g @ p)
              (gMiddleware g @ rcMiddleware (applyOptions opts)) http native a2"
    using assms unfolding groupAddRoute_def Let_def ah go_bind.simps gh by (auto simp: go_bind_ret_iff)
  show ?thesis using ah gh a2(2) muxHandle_ret [OF a2(1)] by (simp add: trackRedirect_upd)
qed

lemma storeApp_extension:
  "plainExtension a (storeAppRoute env label rc m p rh
     ((trackRedirectSlashPattern a p dyn c)\<lparr>aMux := x\<rparr>)) m p"
  unfolding plainExtension_def
  by (auto simp: trackRedirect_upd trackMethod_upd staticEntry_def dynRoutes_def tset_def compiledOf_def split: if_splits)

lemma storeGroup_extension:
  "plainExtension a (storeGroupRoute env label rc m p ms h n
     ((trackRedirectSlashPattern a p dyn c)\<lparr>aMux := x\<rparr>)) m p"
  unfolding plainExtension_def
  by (cases n) (auto simp: trackRedirect_upd trackMethod_upd staticEntry_def dynRoutes_def tset_def compiledOf_def split: if_splits)

lemma register_inv:
  assumes "register env label a r = ret a'" and "tablesInv a"
  shows "tablesInv a'"
proof (cases r)
  case (RegRoute m p h opts)
  then have "plainExtension a a' m p" using assms(1) addRoute_ret storeApp_extension by fastforce
  then show ?thesis using assms(2) plainExtension_inv by blast
next
  case (RegGroupRoute g m p h opts)
  then have "plainExtension a a' m (gPrefix g @ p)" using assms(1) groupAddRoute_ret storeGroup_extension by fastforce
  then show ?thesis using assms(2) plainExtension_inv by blast
next
  case (RegUse mws)
  then obtain slots where "a' = a\<lparr>aGlobalMiddleware := aGlobalMiddleware a @ slots\<rparr>"
    using assms(1) by (auto simp: appUse_def go_bind_ret_iff)
  then show ?thesis using assms(2)
    by (simp add: tablesInv_def staticEntry_def dynRoutes_def methodsOf_frame)
next
  case (RegMount prefix h)
  then have "a' = a\<lparr>aMux := aMux a @ [(prefix, h)]\<rparr>" using assms(1) muxHandle_ret by fastforce
  then show ?thesis using assms(2)
    by (simp add: tablesInv_def staticEntry_def dynRoutes_def methodsOf_frame)
qed

lemma registerAll_inv:
  "registerAll env label a rs = ret a' \<Longrightarrow> tablesInv a \<Longrightarrow> tablesInv a'"
  by (induction rs arbitrary: a) (auto simp: go_bind_ret_iff intro: register_inv)


section \<open>Unmatched requests\<close>

lemma methodMismatch_none:
  "\<forall>d \<in> set ds. match_path (dmPattern d) p = ret None \<Longrightarrow> methodMismatch ds m p = ret False"
  by (induction ds) auto

lemma methodMismatch_hit:
  "\<forall>d \<in> set ds. \<exists>r. match_path (dmPattern d) p = ret r \<and> (r \<noteq> None \<longrightarrow> m \<notin> set (dmMethods d)) \<Longrightarrow>
   \<exists>d \<in> set ds. match_path (dmPattern d) p \<noteq> ret None \<Longrightarrow> methodMismatch ds m p = ret True"
  by (induction ds) (auto, blast+)

section \<open>A small application\<close>

text \<open>A request state for examples: method, path, and the events of serving it.\<close>

type_synonym traced = "string \<times> string \<times> string list"

definition event :: "string \<Rightarrow> traced \<Rightarrow> traced" where
  "event e s = (fst s, fst (snd s), snd (snd s) @ [e])"

definition tracedOps :: "traced dispatchOps" where
  "tracedOps =
     \<lparr>dPath = (\<lambda>s. fst (snd s)), dMethod = fst, dRawQuery = (\<lambda>_. []), dHasCtx = (\<lambda>_. True),
      dContentLength = (\<lambda>_. 0), dHasBody = (\<lambda>_. False), dLimitBody = (\<lambda>_ s. s), dSync = (\<lambda>s. s),
      dUseCtx = (\<lambda>s. s), dMaterialize = (\<lambda>s. s), dSetRoute = (\<lambda>r. event (''route '' @ r)),
      dSetParam = (\<lambda>n v. event (''param '' @ n @ '' '' @ v)), dMuxParams = (\<lambda>_ s. s),
      dGetHookErr = (\<lambda>_. None), dSetHookErr = (\<lambda>_ s. s), dDefaultError = (\<lambda>s e. event (Error e) s),
      dStatusOnly = (\<lambda>_ s. s), dRedirect = (\<lambda>t. event (''redirect '' @ t)), dBridge = (\<lambda>s. s),
      dUnregister = (\<lambda>s. s), dBuffer = event ''buffer'', dFlush = event ''flush'', dWrote = (\<lambda>_ _. True),
      dLog = event, dKeepWriter = (\<lambda>_ s. s)\<rparr>"

definition tracedEnv :: "traced appEnv" where
  "tracedEnv =
     \<lparr>eOps = tracedOps, eHooks = (\<lambda>_. []), eErrorHandler = None,
      eNotFound = (\<lambda>s. (event ''404'' s, Returned None)),
      eMethodNotAllowed = (\<lambda>s. (event ''405'' s, Returned None)),
      eMaxBodySize = 0, eRedirectTrailingSlash = False, eRequestContextBridge = True,
      eCodecContentType = ''application/json'', eMuxRejects = (\<lambda>ps p. p \<in> set ps),
      eMuxPick = (\<lambda>_ _ _. []), eMuxInternal = (\<lambda>_ s. (s, False))\<rparr>"

definition tracedHandler :: "string \<Rightarrow> traced handlerArg" where
  "tracedHandler n = HHandlerFunc (\<lambda>s. (event n s, Returned None)) False"

definition tracedMiddleware :: "string \<Rightarrow> traced middlewareSlot" where
  "tracedMiddleware n =
     \<lparr>slStdlib = (\<lambda>nxt s. nxt (event n s)), slNative = Some (\<lambda>nxt s. nxt (event n s)), slName = n\<rparr>"

lemma tracedMiddleware_agrees: "agreeingSlot (appFramework env) (tracedMiddleware n)"
  unfolding agreeingSlot_def
  by (rule exI, rule conjI, simp add: tracedMiddleware_def)
     (unfold_locales, simp add: tracedMiddleware_def lift_handler_pre)

section \<open>Properties\<close>


text \<open>
  C6. Requests no route serves are answered 405 exactly for known paths: when the multiplexer
  selects nothing, a path registered as a static pattern for other methods only is answered by
  the 405 handler, as is a path that only dynamic patterns without the method match, and a path
  that no registered pattern matches by the 404 handler.
\<close>

theorem unmatched_answers:
  assumes reg: "registerAll env label emptyApp regs = ret a"
    and ctx: "dHasCtx (eOps env) s" and none: "eMuxPick env (map fst (aMux a)) (dMethod (eOps env) s) (dPath (eOps env) s) = []"
    and m: "m = dMethod (eOps env) s" and p: "p = dPath (eOps env) s"
  shows "(\<not> isDynamicPattern p \<and> methodsOf a p \<noteq> {} \<and> \<not> registered a m p \<longrightarrow>
            muxFallback env a s = lift_app env (eMethodNotAllowed env) s)
    \<and> ((isDynamicPattern p \<or> methodsOf a p = {})
         \<and> (\<forall>q. isDynamicPattern q \<and> methodsOf a q \<noteq> {} \<longrightarrow> match_path (compileDirectPattern q) p = ret None) \<longrightarrow>
            muxFallback env a s = lift_app env (eNotFound env) s)
    \<and> ((isDynamicPattern p \<or> methodsOf a p = {})
         \<and> (\<forall>q. isDynamicPattern q \<and> methodsOf a q \<noteq> {} \<longrightarrow>
              (\<exists>r. match_path (compileDirectPattern q) p = ret r \<and> (r \<noteq> None \<longrightarrow> \<not> registered a m q)))
         \<and> (\<exists>q. isDynamicPattern q \<and> methodsOf a q \<noteq> {} \<and> match_path (compileDirectPattern q) p \<noteq> ret None) \<longrightarrow>
            muxFallback env a s = lift_app env (eMethodNotAllowed env) s)"
proof -
  have inv: "tablesInv a" using reg emptyApp_inv by (rule registerAll_inv)
  have fb: "muxFallback env a s = unmatched env a s" using none by (simp add: muxFallback_def Let_def)
  have exact: "\<not> isDynamicPattern p \<Longrightarrow> aRouteMethodsExact a p = (if methodsOf a p = {} then None else Some (methodsOf a p))"
    "isDynamicPattern p \<Longrightarrow> aRouteMethodsExact a p = None"
    using inv by (simp_all add: tablesInv_def)
  have mm: "m \<in> methodsOf a q \<longleftrightarrow> registered a m q" for q by (simp add: methodsOf_def)
  have entry: "isDynamicPattern (dmPatternString d) \<and> dmPattern d = compileDirectPattern (dmPatternString d)
      \<and> set (dmMethods d) = methodsOf a (dmPatternString d)" if "d \<in> set (aRouteMethodsDynamic a)" for d
    using that inv by (simp add: tablesInv_def dynEntry_def)
  have covered: "q \<in> dmPatternString ` set (aRouteMethodsDynamic a)" if "isDynamicPattern q" "methodsOf a q \<noteq> {}" for q
    using that inv by (simp add: tablesInv_def)
  have nonempty: "methodsOf a (dmPatternString d) \<noteq> {}" if "d \<in> set (aRouteMethodsDynamic a)" for d
    using that inv by (simp add: tablesInv_def dynEntry_def)
  show ?thesis
  proof (intro conjI impI)
    assume "\<not> isDynamicPattern p \<and> methodsOf a p \<noteq> {} \<and> \<not> registered a m p"
    then show "muxFallback env a s = lift_app env (eMethodNotAllowed env) s"
      unfolding fb unmatched_def Let_def using exact(1) ctx m p mm by simp
  next
    assume a: "(isDynamicPattern p \<or> methodsOf a p = {})
         \<and> (\<forall>q. isDynamicPattern q \<and> methodsOf a q \<noteq> {} \<longrightarrow> match_path (compileDirectPattern q) p = ret None)"
    then have "methodMismatch (aRouteMethodsDynamic a) m p = ret False"
      using entry nonempty by (intro methodMismatch_none) metis
    moreover have "aRouteMethodsExact a p = None" using a exact by metis
    ultimately show "muxFallback env a s = lift_app env (eNotFound env) s"
      unfolding fb unmatched_def Let_def using ctx m p by simp
  next
    assume a: "(isDynamicPattern p \<or> methodsOf a p = {})
         \<and> (\<forall>q. isDynamicPattern q \<and> methodsOf a q \<noteq> {} \<longrightarrow>
              (\<exists>r. match_path (compileDirectPattern q) p = ret r \<and> (r \<noteq> None \<longrightarrow> \<not> registered a m q)))
         \<and> (\<exists>q. isDynamicPattern q \<and> methodsOf a q \<noteq> {} \<and> match_path (compileDirectPattern q) p \<noteq> ret None)"
    have "methodMismatch (aRouteMethodsDynamic a) m p = ret True"
    proof (rule methodMismatch_hit)
      show "\<forall>d \<in> set (aRouteMethodsDynamic a). \<exists>r. match_path (dmPattern d) p = ret r \<and> (r \<noteq> None \<longrightarrow> m \<notin> set (dmMethods d))"
        using a entry nonempty mm by metis
      show "\<exists>d \<in> set (aRouteMethodsDynamic a). match_path (dmPattern d) p \<noteq> ret None"
        using a covered entry by (metis imageE)
    qed
    moreover have "aRouteMethodsExact a p = None" using a exact by metis
    ultimately show "muxFallback env a s = lift_app env (eMethodNotAllowed env) s"
      unfolding fb unmatched_def Let_def using ctx m p by simp
  qed
qed



lemma traced_addRoute:
  "\<not> eMuxRejects tracedEnv (map fst (aMux a)) (m @ '' '' @ p) \<Longrightarrow>
   \<exists>a' rh http. addRoute tracedEnv label a m p (tracedHandler n) opts = ret a'
     \<and> a' = storeAppRoute tracedEnv label (applyOptions opts) m p rh
          ((trackRedirectSlashPattern a p (isDynamicPattern p) (compiledOf p))\<lparr>aMux := aMux a @ [(m @ '' '' @ p, http)]\<rparr>)
     \<and> rh = (\<lambda>s. (event n s, False))"
  by (auto simp: addRoute_def tracedHandler_def adaptHandler_def muxHandle_def Let_def trackRedirect_upd
      internalHandler_def baseNative_def limitBody_def hasHook_def lift_handler_def tracedEnv_def tracedOps_def fun_eq_iff
      intro!: exI)

theorem unmatched_answers_witness:
  "\<exists>a. registerAll tracedEnv (\<lambda>_. []) emptyApp [RegRoute ''POST'' ''/a'' (tracedHandler ''h'') []] = ret a
     \<and> muxFallback tracedEnv a (''GET'', ''/a'', []) = ((''GET'', ''/a'', [''405'']), False)"
proof -
  let ?s = "(''GET'', ''/a'', []) :: traced"
  have "\<not> eMuxRejects tracedEnv (map fst (aMux emptyApp)) (''POST'' @ '' '' @ ''/a'')"
    by (simp add: tracedEnv_def emptyApp_def)
  from traced_addRoute [OF this, of "\<lambda>_. []" "''h''" "[]"] obtain a rh http where
    a: "registerAll tracedEnv (\<lambda>_. []) emptyApp [RegRoute ''POST'' ''/a'' (tracedHandler ''h'') []] = ret a"
    "a = storeAppRoute tracedEnv (\<lambda>_. []) (applyOptions []) ''POST'' ''/a'' rh
       ((trackRedirectSlashPattern emptyApp ''/a'' (isDynamicPattern ''/a'') (compiledOf ''/a''))
          \<lparr>aMux := aMux emptyApp @ [(''POST'' @ '' '' @ ''/a'', http)]\<rparr>)"
    by auto
  have reg: "registered a m q \<longleftrightarrow> m = ''POST'' \<and> q = ''/a''" for m q
    by (auto simp: a(2) registered_def trackRedirect_upd emptyApp_def)
  have "muxFallback tracedEnv a ?s = lift_app tracedEnv (eMethodNotAllowed tracedEnv) ?s"
    using unmatched_answers [OF a(1), of ?s "''GET''" "''/a''"]
    by (simp add: reg methodsOf_def isDynamicPattern_def tracedEnv_def tracedOps_def)
  then show ?thesis using a(1) by (simp add: lift_handler_def tracedEnv_def event_def)
qed



text \<open>
  A dynamic route shadows a later static one that has its own middleware: without global
  middleware and hooks, a request for the static path is served by the dynamic route, because a
  route with middleware is only in the multiplexer, which is asked last. The static route's
  handler and its middleware (an authentication check, say) never run.
\<close>

theorem middleware_route_shadowed:
  assumes add: "addRoute env label a m p h opts = ret a'" and mw: "rcMiddleware (applyOptions opts) \<noteq> []"
    and req: "dMethod (eOps env) s = m" "dPath (eOps env) s = p"
    and miss: "aRouteHandlerFast a m p = None" "bGroupRouteChainNative (buildRouteChainFast env a) m p = None"
      "findDynamic (bGroupDynamicChainNative (buildRouteChainFast env a) m) p = ret None"
    and hit: "findDynamic (aDirectDynamicRoutes a m) p = ret (Some rp)"
  shows "serveDirect env a' (buildRouteChainFast env a') s = Some (serveDynamic env rp s)"
proof -
  obtain http rh a2 where a2: "a2 = (trackRedirectSlashPattern a p (isDynamicPattern p) (compiledOf p))
      \<lparr>aMux := aMux a @ [(m @ '' '' @ p, http)]\<rparr>" "a' = storeAppRoute env label (applyOptions opts) m p rh a2"
    using addRoute_ret [OF add] by blast
  then have same: "aRouteHandlerFast a' = aRouteHandlerFast a" "aDirectDynamicRoutes a' = aDirectDynamicRoutes a"
    "aGlobalMiddleware a' = aGlobalMiddleware a" "aGroupRouteNative a' = aGroupRouteNative a"
    "aGroupDynamicNative a' = aGroupDynamicNative a"
    using mw by (simp_all add: trackRedirect_upd)
  then have nat: "nativeOver env a' = nativeOver env a" by (simp add: nativeOver_def fun_eq_iff)
  have "bGroupRouteChainNative (buildRouteChainFast env a') = bGroupRouteChainNative (buildRouteChainFast env a)"
    "bGroupDynamicChainNative (buildRouteChainFast env a') = bGroupDynamicChainNative (buildRouteChainFast env a)"
    by (simp_all only: buildRouteChainFast_def Let_def same nat chains.select_convs)
  then show ?thesis using same miss hit req by (simp add: serveDirect_def Let_def)
qed

theorem middleware_route_shadowed_witness:
  "\<exists>a a'. addRoute tracedEnv (\<lambda>_. []) emptyApp ''GET'' ''/users/{id}'' (tracedHandler ''by id'') [] = ret a
     \<and> addRoute tracedEnv (\<lambda>_. []) a ''GET'' ''/users/me'' (tracedHandler ''me'')
          [\<lambda>rc. rc\<lparr>rcMiddleware := [tracedMiddleware ''auth'']\<rparr>] = ret a'
     \<and> serveDirect tracedEnv a' (buildRouteChainFast tracedEnv a') (''GET'', ''/users/me'', []) =
         Some ((''GET'', ''/users/me'', [''param id me'', ''route /users/{id}'', ''by id'']), False)"
proof -
  let ?opts = "[\<lambda>rc. rc\<lparr>rcMiddleware := [tracedMiddleware ''auth'']\<rparr>]"
  have dyn: "isDynamicPattern ''/users/{id}''" "\<not> isDynamicPattern ''/users/me''"
    by (simp_all add: isDynamicPattern_def)
  have "\<not> eMuxRejects tracedEnv (map fst (aMux emptyApp)) (''GET'' @ '' '' @ ''/users/{id}'')"
    by (simp add: tracedEnv_def emptyApp_def)
  from traced_addRoute [OF this, of "\<lambda>_. []" "''by id''" "[]"] obtain a rh http where
    a: "addRoute tracedEnv (\<lambda>_. []) emptyApp ''GET'' ''/users/{id}'' (tracedHandler ''by id'') [] = ret a"
    "a = storeAppRoute tracedEnv (\<lambda>_. []) (applyOptions []) ''GET'' ''/users/{id}'' rh
       ((trackRedirectSlashPattern emptyApp ''/users/{id}'' True (compiledOf ''/users/{id}''))
          \<lparr>aMux := aMux emptyApp @ [(''GET'' @ '' '' @ ''/users/{id}'', http)]\<rparr>)"
    "rh = (\<lambda>s. (event ''by id'' s, False))"
    using dyn by auto
  have opts: "rcMiddleware (applyOptions []) = []" "rcMiddleware (applyOptions ?opts) \<noteq> []"
    by (simp_all add: applyOptions_def emptyConfig_def)
  have tabs: "aMux a = [(''GET'' @ '' '' @ ''/users/{id}'', http)]" "aRouteHandlerFast a = (\<lambda>_ _. None)"
    "aDirectDynamicRoutes a ''GET'' = [\<lparr>drHandler = rh, drPattern = compiledOf ''/users/{id}'', drPatternStr = ''/users/{id}''\<rparr>]"
    "aGlobalMiddleware a = []" "aGroupRouteNative a = (\<lambda>_ _. None)" "aGroupDynamicNative a = (\<lambda>_. [])"
    using opts(1) dyn(1) by (simp_all add: a(2) trackRedirect_upd emptyApp_def)
  have "\<not> eMuxRejects tracedEnv (map fst (aMux a)) (''GET'' @ '' '' @ ''/users/me'')"
    by (simp add: tracedEnv_def tabs)
  from traced_addRoute [OF this, of "\<lambda>_. []" "''me''" ?opts] obtain a' where
    a': "addRoute tracedEnv (\<lambda>_. []) a ''GET'' ''/users/me'' (tracedHandler ''me'') ?opts = ret a'" by auto
  have "match_path (compiledOf ''/users/{id}'') ''/users/me'' = ret (Some [(''id'', ''me'')])" by code_simp
  then have hit: "findDynamic (aDirectDynamicRoutes a ''GET'') ''/users/me'' =
      ret (Some (\<lparr>drHandler = rh, drPattern = compiledOf ''/users/{id}'', drPatternStr = ''/users/{id}''\<rparr>, [(''id'', ''me'')]))"
    by (simp add: tabs)
  have "serveDirect tracedEnv a' (buildRouteChainFast tracedEnv a') (''GET'', ''/users/me'', []) =
      Some (serveDynamic tracedEnv (\<lparr>drHandler = rh, drPattern = compiledOf ''/users/{id}'', drPatternStr = ''/users/{id}''\<rparr>,
        [(''id'', ''me'')]) (''GET'', ''/users/me'', []))"
    by (rule middleware_route_shadowed [OF a' opts(2) _ _ _ _ _ hit])
       (simp_all add: tabs tracedEnv_def tracedOps_def buildRouteChainFast_def Let_def)
  then show ?thesis using a(1,3) a'
    by (auto simp: serveDynamic_def setParams_def event_def tracedEnv_def tracedOps_def)
qed


definition hookedEnv :: "traced appEnv" where
  "hookedEnv = tracedEnv\<lparr>eHooks := (\<lambda>ph. if ph = OnRequest
     then [\<lparr>priority = 0, fn = (\<lambda>s. (event ''hook'' s, Some (ErrForbidden ''no'')))\<rparr>] else [])\<rparr>"


end
