(* ===== verification/IdempotencyStore.thy ===== *)
theory IdempotencyStore
  imports Writers
begin

text \<open>
  The in-memory response store of the idempotency plugin (\<^verbatim>\<open>plugins/idempotency/store.go\<close>). Entries are
  heap objects, because a waiting goroutine keeps a pointer to the entry it found: the map takes a key
  to the position of its entry in the list of all entries ever allocated. Every method runs under the
  store's mutex and is one function here; \<open>Wait\<close> is a loop around a condition variable, so it is split
  at the points where it sleeps. The middleware's goroutines are the threads of a step relation over
  the store and a clock.
\<close>

section \<open>The store\<close>

record response =
  StatusCode :: int
  Headers :: header
  Body :: string
  PayloadHash :: string

record memEntry =
  meResp :: "response option"
  meExpiry :: "int option" \<comment> \<open>\<open>None\<close> is the zero time\<close>
  meHolder :: bool
  meReleased :: bool

record memStore =
  msEntries :: "string \<Rightarrow> nat option"
  msHeap :: "memEntry list"

definition NewMemoryStore :: memStore where
  "NewMemoryStore = \<lparr>msEntries = (\<lambda>_. None), msHeap = []\<rparr>"

definition meExpired :: "memEntry \<Rightarrow> int \<Rightarrow> bool" where
  "meExpired e now \<longleftrightarrow> (case meExpiry e of None \<Rightarrow> False | Some t \<Rightarrow> t < now)"

definition newEntry :: "memStore \<Rightarrow> string \<Rightarrow> memEntry \<Rightarrow> memStore" where
  "newEntry s key e = s\<lparr>msEntries := (msEntries s)(key \<mapsto> length (msHeap s)), msHeap := msHeap s @ [e]\<rparr>"

definition heldShell :: memEntry where
  "heldShell = \<lparr>meResp = None, meExpiry = None, meHolder = True, meReleased = False\<rparr>"

definition memLock :: "int \<Rightarrow> memStore \<Rightarrow> string \<Rightarrow> memStore \<times> bool" where
  "memLock now s key =
     (case msEntries s key of
        Some p \<Rightarrow>
          (if meExpired (msHeap s ! p) now
           then (newEntry (s\<lparr>msEntries := (msEntries s)(key := None)\<rparr>) key heldShell, True)
           else (s, False))
      | None \<Rightarrow> (newEntry s key heldShell, True))"

definition memUnlock :: "memStore \<Rightarrow> string \<Rightarrow> memStore \<times> nat option" where
  \<comment> \<open>the second component is the entry whose waiters are woken\<close>
  "memUnlock s key =
     (case msEntries s key of
        None \<Rightarrow> (s, None)
      | Some p \<Rightarrow>
          (let e = (msHeap s ! p)\<lparr>meHolder := False\<rparr>
           in if meResp e = None
              then (s\<lparr>msHeap := (msHeap s)[p := e], msEntries := (msEntries s)(key := None)\<rparr>, Some p)
              else (s\<lparr>msHeap := (msHeap s)[p := e\<lparr>meReleased := True\<rparr>]\<rparr>, Some p)))"

definition memGet :: "int \<Rightarrow> memStore \<Rightarrow> string \<Rightarrow> memStore \<times> response option" where
  "memGet now s key =
     (case msEntries s key of
        None \<Rightarrow> (s, None)
      | Some p \<Rightarrow>
          (if meExpired (msHeap s ! p) now
           then (s\<lparr>msEntries := (msEntries s)(key := None)\<rparr>, None)
           else (s, meResp (msHeap s ! p))))"

definition memSave :: "int \<Rightarrow> memStore \<Rightarrow> string \<Rightarrow> response \<Rightarrow> int \<Rightarrow> memStore" where
  "memSave now s key resp ttl =
     (let s1 = (case msEntries s key of
                  Some _ \<Rightarrow> s
                | None \<Rightarrow> newEntry s key \<lparr>meResp = None, meExpiry = None, meHolder = False, meReleased = False\<rparr>);
          p = (case msEntries s1 key of Some p \<Rightarrow> p | None \<Rightarrow> 0);
          e1 = (msHeap s1 ! p)\<lparr>meResp := Some resp\<rparr>;
          e2 = (if 0 < ttl then e1\<lparr>meExpiry := Some (now + ttl)\<rparr> else e1)
      in s1\<lparr>msHeap := (msHeap s1)[p := e2]\<rparr>)"

definition sweepExpired :: "int \<Rightarrow> memStore \<Rightarrow> memStore" where
  "sweepExpired now s =
     s\<lparr>msEntries := (\<lambda>k. case msEntries s k of
                        None \<Rightarrow> None
                      | Some p \<Rightarrow> (if meHolder (msHeap s ! p) then Some p
                                   else if meExpired (msHeap s ! p) now then None else Some p))\<rparr>"

datatype waitResult = WaitSleeps | WaitReturns "response option" | WaitCancelled

definition waitCheck :: "memEntry \<Rightarrow> bool \<Rightarrow> waitResult" where
  \<comment> \<open>one pass of the loop in \<^verbatim>\<open>Wait\<close>, up to the next sleep or the return\<close>
  "waitCheck e cancelled =
     (if \<not> meReleased e \<and> \<not> cancelled
      then (if \<not> meHolder e \<and> meResp e = None then WaitReturns None else WaitSleeps)
      else if cancelled \<and> \<not> meReleased e then WaitCancelled
      else WaitReturns (meResp e))"

section \<open>Goroutines\<close>

datatype goresult =
  Replayed string response
| Ran string "response option"
| Rejected string

datatype phase =
  Idle
| Missed string \<comment> \<open>\<^verbatim>\<open>Get\<close> found nothing\<close>
| Running string \<comment> \<open>holds the key, in the handler\<close>
| Finishing string "response option" \<comment> \<open>past \<^verbatim>\<open>Save\<close>, or saving nothing; the deferred \<^verbatim>\<open>Unlock\<close> is due\<close>
| Contending string \<comment> \<open>\<^verbatim>\<open>Lock\<close> failed, about to call \<^verbatim>\<open>Wait\<close>\<close>
| Waiting string nat bool bool \<comment> \<open>key, entry, asleep, cancelled\<close>
| Done goresult

record sys =
  sysStore :: memStore
  sysNow :: int
  sysThreads :: "nat \<Rightarrow> phase"
  sysLog :: "(string \<times> response \<times> int) list" \<comment> \<open>what was saved, with the deadline\<close>

definition sysInit :: sys where
  "sysInit = \<lparr>sysStore = NewMemoryStore, sysNow = 0, sysThreads = (\<lambda>_. Idle), sysLog = []\<rparr>"

definition wakeUp :: "nat option \<Rightarrow> (nat \<Rightarrow> phase) \<Rightarrow> nat \<Rightarrow> phase" where
  \<comment> \<open>\<^verbatim>\<open>cond.Broadcast\<close>\<close>
  "wakeUp po ths t =
     (case ths t of
        Waiting k p asleep c \<Rightarrow> Waiting k p (asleep \<and> po \<noteq> Some p) c
      | ph \<Rightarrow> ph)"

definition goPhase :: "sys \<Rightarrow> nat \<Rightarrow> phase \<Rightarrow> sys" where
  "goPhase s t ph = s\<lparr>sysThreads := (sysThreads s)(t := ph)\<rparr>"

inductive goStep :: "bool \<Rightarrow> sys \<Rightarrow> sys \<Rightarrow> bool" for conflictWait :: bool where
  lookup: "\<lbrakk>sysThreads s t = Idle; memGet (sysNow s) (sysStore s) k = (st, r)\<rbrakk> \<Longrightarrow>
     goStep conflictWait s
       (goPhase (s\<lparr>sysStore := st\<rparr>) t (case r of Some x \<Rightarrow> Done (Replayed k x) | None \<Rightarrow> Missed k))"
| lock: "\<lbrakk>sysThreads s t = Missed k; memLock (sysNow s) (sysStore s) k = (st, acquired)\<rbrakk> \<Longrightarrow>
     goStep conflictWait s
       (goPhase (s\<lparr>sysStore := st\<rparr>) t
          (if acquired then Running k else if conflictWait then Contending k else Done (Rejected k)))"
| save: "\<lbrakk>sysThreads s t = Running k; 0 < ttl; st = memSave (sysNow s) (sysStore s) k resp ttl\<rbrakk> \<Longrightarrow>
     goStep conflictWait s
       (goPhase (s\<lparr>sysStore := st, sysLog := (k, resp, sysNow s + ttl) # sysLog s\<rparr>) t (Finishing k (Some resp)))"
| nosave: "sysThreads s t = Running k \<Longrightarrow> goStep conflictWait s (goPhase s t (Finishing k None))"
| unlock: "\<lbrakk>sysThreads s t = Finishing k r; memUnlock (sysStore s) k = (st, po)\<rbrakk> \<Longrightarrow>
     goStep conflictWait s
       (goPhase (s\<lparr>sysStore := st, sysThreads := wakeUp po (sysThreads s)\<rparr>) t (Done (Ran k r)))"
| wait: "sysThreads s t = Contending k \<Longrightarrow>
     goStep conflictWait s
       (goPhase s t (case msEntries (sysStore s) k of
                       None \<Rightarrow> Done (Rejected k) | Some p \<Rightarrow> Waiting k p False False))"
| check: "sysThreads s t = Waiting k p False c \<Longrightarrow>
     goStep conflictWait s
       (goPhase s t (case waitCheck (msHeap (sysStore s) ! p) c of
                       WaitSleeps \<Rightarrow> Waiting k p True c
                     | WaitReturns (Some r) \<Rightarrow> Done (Replayed k r)
                     | WaitReturns None \<Rightarrow> Done (Rejected k)
                     | WaitCancelled \<Rightarrow> Done (Rejected k)))"
| cancel: "sysThreads s t = Waiting k p a c \<Longrightarrow>
     goStep conflictWait s
       (goPhase (s\<lparr>sysThreads := wakeUp (Some p) (sysThreads s)\<rparr>) t (Waiting k p False True))"
| sweep: "goStep conflictWait s (s\<lparr>sysStore := sweepExpired (sysNow s) (sysStore s)\<rparr>)"
| tick: "sysNow s \<le> now \<Longrightarrow> goStep conflictWait s (s\<lparr>sysNow := now\<rparr>)"

inductive_cases goStepE: "goStep w s s'"

definition timely :: "sys \<Rightarrow> bool" where
  \<comment> \<open>no response expires between its \<^verbatim>\<open>Save\<close> and the deferred \<^verbatim>\<open>Unlock\<close>\<close>
  "timely s \<longleftrightarrow>
     (\<forall>t k r p. sysThreads s t = Finishing k r \<longrightarrow> msEntries (sysStore s) k = Some p \<longrightarrow>
        \<not> meExpired (msHeap (sysStore s) ! p) (sysNow s))"

inductive goReach :: "bool \<Rightarrow> sys \<Rightarrow> bool" for w :: bool where
  init: "goReach w sysInit"
| step: "goReach w s \<Longrightarrow> goStep w s s' \<Longrightarrow> goReach w s'"

inductive timelyReach :: "bool \<Rightarrow> sys \<Rightarrow> bool" for w :: bool where
  init: "timelyReach w sysInit"
| step: "timelyReach w s \<Longrightarrow> goStep w s s' \<Longrightarrow> timely s' \<Longrightarrow> timelyReach w s'"

definition critical :: "sys \<Rightarrow> nat \<Rightarrow> string \<Rightarrow> bool" where
  "critical s t k \<longleftrightarrow> (case sysThreads s t of Running k' \<Rightarrow> k' = k | Finishing k' _ \<Rightarrow> k' = k | _ \<Rightarrow> False)"

section \<open>The invariant\<close>

abbreviation entryAt :: "sys \<Rightarrow> string \<Rightarrow> nat option" where
  "entryAt s \<equiv> msEntries (sysStore s)"

abbreviation heapAt :: "sys \<Rightarrow> nat \<Rightarrow> memEntry" where
  "heapAt s p \<equiv> msHeap (sysStore s) ! p"

definition pointersOk :: "sys \<Rightarrow> bool" where
  "pointersOk s \<longleftrightarrow>
     (\<forall>k p. entryAt s k = Some p \<longrightarrow> p < length (msHeap (sysStore s)))
     \<and> (\<forall>k k' p. entryAt s k = Some p \<longrightarrow> entryAt s k' = Some p \<longrightarrow> k = k')"

definition holdersOk :: "sys \<Rightarrow> bool" where
  "holdersOk s \<longleftrightarrow>
     (\<forall>t k. sysThreads s t = Running k \<longrightarrow> (\<exists>p. entryAt s k = Some p \<and> heapAt s p = heldShell))
     \<and> (\<forall>t k r. sysThreads s t = Finishing k r \<longrightarrow>
          (\<exists>p. entryAt s k = Some p \<and> meHolder (heapAt s p) \<and> \<not> meReleased (heapAt s p)
               \<and> meResp (heapAt s p) = r \<and> (r = None \<longrightarrow> heapAt s p = heldShell)))
     \<and> (\<forall>t t' k. critical s t k \<longrightarrow> critical s t' k \<longrightarrow> t = t')
     \<and> (\<forall>k p. entryAt s k = Some p \<longrightarrow> meHolder (heapAt s p) \<longrightarrow> (\<exists>t. critical s t k))
     \<and> (\<forall>k p. entryAt s k = Some p \<longrightarrow> \<not> meHolder (heapAt s p) \<longrightarrow>
          meReleased (heapAt s p) \<and> meResp (heapAt s p) \<noteq> None)"

definition waitersOk :: "sys \<Rightarrow> bool" where
  "waitersOk s \<longleftrightarrow>
     (\<forall>t k p a c. sysThreads s t = Waiting k p a c \<longrightarrow>
        p < length (msHeap (sysStore s))
        \<and> (entryAt s k = Some p \<and> meHolder (heapAt s p)
           \<or> \<not> a \<and> (meReleased (heapAt s p) \<or> \<not> meHolder (heapAt s p) \<and> meResp (heapAt s p) = None))
        \<and> (\<forall>r. meResp (heapAt s p) = Some r \<longrightarrow> (\<exists>d. (k, r, d) \<in> set (sysLog s))))"

definition logOk :: "sys \<Rightarrow> bool" where
  "logOk s \<longleftrightarrow>
     (\<forall>k r d. (k, r, d) \<in> set (sysLog s) \<longrightarrow> sysNow s \<le> d \<longrightarrow>
        (\<exists>p. entryAt s k = Some p \<and> meResp (heapAt s p) = Some r \<and> meExpiry (heapAt s p) = Some d))
     \<and> (\<forall>k p r. entryAt s k = Some p \<longrightarrow> meResp (heapAt s p) = Some r \<longrightarrow>
          (\<exists>d. (k, r, d) \<in> set (sysLog s) \<and> meExpiry (heapAt s p) = Some d))
     \<and> (\<forall>t k r. sysThreads s t = Done (Replayed k r) \<longrightarrow> (\<exists>d. (k, r, d) \<in> set (sysLog s)))"

definition sysInv :: "sys \<Rightarrow> bool" where
  "sysInv s \<longleftrightarrow> pointersOk s \<and> holdersOk s \<and> waitersOk s \<and> logOk s"

lemmas sysInv_defs = sysInv_def pointersOk_def holdersOk_def waitersOk_def logOk_def

lemma sysInvD: "sysInv s \<Longrightarrow> pointersOk s" "sysInv s \<Longrightarrow> holdersOk s" "sysInv s \<Longrightarrow> waitersOk s" "sysInv s \<Longrightarrow> logOk s"
  by (simp_all add: sysInv_def)

lemma pointersOkD:
  assumes "sysInv s"
  shows "entryAt s k = Some p \<Longrightarrow> p < length (msHeap (sysStore s))"
    and "entryAt s k = Some p \<Longrightarrow> entryAt s k' = Some p \<Longrightarrow> k = k'"
  using sysInvD(1) [OF assms] unfolding pointersOk_def by blast+

lemma holdersOkD:
  assumes "sysInv s"
  shows "sysThreads s t = Running k \<Longrightarrow> \<exists>p. entryAt s k = Some p \<and> heapAt s p = heldShell"
    and "sysThreads s t = Finishing k r \<Longrightarrow>
          \<exists>p. entryAt s k = Some p \<and> meHolder (heapAt s p) \<and> \<not> meReleased (heapAt s p)
               \<and> meResp (heapAt s p) = r \<and> (r = None \<longrightarrow> heapAt s p = heldShell)"
    and "critical s t k \<Longrightarrow> critical s t' k \<Longrightarrow> t = t'"
    and "entryAt s k = Some p \<Longrightarrow> meHolder (heapAt s p) \<Longrightarrow> \<exists>t. critical s t k"
    and "entryAt s k = Some p \<Longrightarrow> \<not> meHolder (heapAt s p) \<Longrightarrow>
          meReleased (heapAt s p) \<and> meResp (heapAt s p) \<noteq> None"
  using sysInvD(2) [OF assms] unfolding holdersOk_def by blast+

lemma holdersOkI:
  assumes "\<And>t k. sysThreads s t = Running k \<Longrightarrow> \<exists>p. entryAt s k = Some p \<and> heapAt s p = heldShell"
    and "\<And>t k r. sysThreads s t = Finishing k r \<Longrightarrow>
          \<exists>p. entryAt s k = Some p \<and> meHolder (heapAt s p) \<and> \<not> meReleased (heapAt s p)
               \<and> meResp (heapAt s p) = r \<and> (r = None \<longrightarrow> heapAt s p = heldShell)"
    and "\<And>t t' k. critical s t k \<Longrightarrow> critical s t' k \<Longrightarrow> t = t'"
    and "\<And>k p. entryAt s k = Some p \<Longrightarrow> meHolder (heapAt s p) \<Longrightarrow> \<exists>t. critical s t k"
    and "\<And>k p. entryAt s k = Some p \<Longrightarrow> \<not> meHolder (heapAt s p) \<Longrightarrow>
          meReleased (heapAt s p) \<and> meResp (heapAt s p) \<noteq> None"
  shows "holdersOk s"
  unfolding holdersOk_def using assms by blast

definition waiterOk :: "sys \<Rightarrow> string \<Rightarrow> nat \<Rightarrow> bool \<Rightarrow> bool" where
  "waiterOk s k p a \<longleftrightarrow> p < length (msHeap (sysStore s))
     \<and> (entryAt s k = Some p \<and> meHolder (heapAt s p)
        \<or> \<not> a \<and> (meReleased (heapAt s p) \<or> \<not> meHolder (heapAt s p) \<and> meResp (heapAt s p) = None))
     \<and> (\<forall>r. meResp (heapAt s p) = Some r \<longrightarrow> (\<exists>d. (k, r, d) \<in> set (sysLog s)))"

lemma waitersOk_iff: "waitersOk s \<longleftrightarrow> (\<forall>t k p a c. sysThreads s t = Waiting k p a c \<longrightarrow> waiterOk s k p a)"
  unfolding waitersOk_def waiterOk_def by blast

lemma waitersOkD: "sysInv s \<Longrightarrow> sysThreads s t = Waiting k p a c \<Longrightarrow> waiterOk s k p a"
  using sysInvD(3) waitersOk_iff by blast

lemma logOkD:
  assumes "sysInv s"
  shows "(k, r, d) \<in> set (sysLog s) \<Longrightarrow> sysNow s \<le> d \<Longrightarrow>
          \<exists>p. entryAt s k = Some p \<and> meResp (heapAt s p) = Some r \<and> meExpiry (heapAt s p) = Some d"
    and "entryAt s k = Some p \<Longrightarrow> meResp (heapAt s p) = Some r \<Longrightarrow>
          \<exists>d. (k, r, d) \<in> set (sysLog s) \<and> meExpiry (heapAt s p) = Some d"
    and "sysThreads s t = Done (Replayed k r) \<Longrightarrow> \<exists>d. (k, r, d) \<in> set (sysLog s)"
  using sysInvD(4) [OF assms] unfolding logOk_def by blast+

lemma logOkI:
  assumes "\<And>k r d. (k, r, d) \<in> set (sysLog s) \<Longrightarrow> sysNow s \<le> d \<Longrightarrow>
          \<exists>p. entryAt s k = Some p \<and> meResp (heapAt s p) = Some r \<and> meExpiry (heapAt s p) = Some d"
    and "\<And>k p r. entryAt s k = Some p \<Longrightarrow> meResp (heapAt s p) = Some r \<Longrightarrow>
          \<exists>d. (k, r, d) \<in> set (sysLog s) \<and> meExpiry (heapAt s p) = Some d"
    and "\<And>t k r. sysThreads s t = Done (Replayed k r) \<Longrightarrow> \<exists>d. (k, r, d) \<in> set (sysLog s)"
  shows "logOk s"
  unfolding logOk_def using assms by blast

lemma sysInv_init: "sysInv sysInit"
  by (simp add: sysInv_defs sysInit_def NewMemoryStore_def critical_def)

subsection \<open>Changes of one thread's phase\<close>

definition statusQuo :: "phase \<Rightarrow> bool" where
  \<comment> \<open>phases that hold no key, wait for none and carry no replayed response\<close>
  "statusQuo ph \<longleftrightarrow> (case ph of Idle \<Rightarrow> True | Missed _ \<Rightarrow> True | Contending _ \<Rightarrow> True
      | Done (Rejected _) \<Rightarrow> True | Done (Ran _ _) \<Rightarrow> True | _ \<Rightarrow> False)"

definition replaying :: "sys \<Rightarrow> phase \<Rightarrow> bool" where
  "replaying s ph \<longleftrightarrow> (\<exists>k r d. ph = Done (Replayed k r) \<and> (k, r, d) \<in> set (sysLog s))"

definition holdsKey :: "phase \<Rightarrow> bool" where
  "holdsKey ph \<longleftrightarrow> (\<exists>k. ph = Running k) \<or> (\<exists>k r. ph = Finishing k r)"

lemma goPhase_simps [simp]:
  "sysStore (goPhase s t ph) = sysStore s" "sysNow (goPhase s t ph) = sysNow s"
  "sysLog (goPhase s t ph) = sysLog s" "sysThreads (goPhase s t ph) = (sysThreads s)(t := ph)"
  by (simp_all add: goPhase_def)

lemma critical_goPhase:
  "critical (goPhase s t ph) t' k =
     (if t' = t then (ph = Running k \<or> (\<exists>r. ph = Finishing k r)) else critical s t' k)"
  by (auto simp: critical_def split: phase.splits)

lemma critical_iff: "critical s t k \<longleftrightarrow> sysThreads s t = Running k \<or> (\<exists>r. sysThreads s t = Finishing k r)"
  by (auto simp: critical_def split: phase.splits)

lemma passive_goPhase:
  assumes inv: "sysInv s" and old: "\<not> holdsKey (sysThreads s t)" and new: "statusQuo ph \<or> replaying s ph"
  shows "sysInv (goPhase s t ph)"
proof -
  have ph: "\<And>k. ph \<noteq> Running k" "\<And>k r. ph \<noteq> Finishing k r" "\<And>k p a c. ph \<noteq> Waiting k p a c"
    using new by (auto simp: statusQuo_def replaying_def split: phase.splits)
  have rep: "\<And>k r. ph = Done (Replayed k r) \<Longrightarrow> \<exists>d. (k, r, d) \<in> set (sysLog s)"
    using new by (auto simp: statusQuo_def replaying_def)
  have crit: "critical (goPhase s t ph) t' k = critical s t' k" for t' k
    using old ph by (auto simp: critical_goPhase critical_iff holdsKey_def)
  show ?thesis
    using inv ph rep unfolding sysInv_defs crit by (simp add: all_conj_distrib)
qed

lemma waiting_goPhase:
  assumes inv: "sysInv s" and old: "\<not> holdsKey (sysThreads s t)"
    and p: "p < length (msHeap (sysStore s))"
    and w: "entryAt s k = Some p \<and> meHolder (heapAt s p)
      \<or> \<not> a \<and> (meReleased (heapAt s p) \<or> \<not> meHolder (heapAt s p) \<and> meResp (heapAt s p) = None)"
    and r: "\<forall>r. meResp (heapAt s p) = Some r \<longrightarrow> (\<exists>d. (k, r, d) \<in> set (sysLog s))"
  shows "sysInv (goPhase s t (Waiting k p a c))"
proof -
  have crit: "critical (goPhase s t (Waiting k p a c)) t' k' = critical s t' k'" for t' k'
    using old by (auto simp: critical_goPhase critical_iff holdsKey_def)
  show ?thesis
    using inv p w r unfolding sysInv_defs crit by (simp add: all_conj_distrib)
qed

subsection \<open>Changes of the store\<close>

lemma dropEntries_inv:
  assumes inv: "sysInv s"
    and sub: "\<And>k. m k = entryAt s k \<or> m k = None \<and> (\<exists>p. entryAt s k = Some p \<and> \<not> meHolder (heapAt s p)
        \<and> meExpired (heapAt s p) (sysNow s))"
  shows "sysInv (s\<lparr>sysStore := (sysStore s)\<lparr>msEntries := m\<rparr>\<rparr>)"
proof -
  let ?s = "s\<lparr>sysStore := (sysStore s)\<lparr>msEntries := m\<rparr>\<rparr>"
  have crit: "critical ?s t k = critical s t k" for t k by (simp add: critical_iff)
  have le: "m k = Some p \<Longrightarrow> entryAt s k = Some p" for k p using sub [of k] by auto
  have held: "entryAt s k = Some p \<Longrightarrow> meHolder (heapAt s p) \<Longrightarrow> m k = Some p" for k p
    using sub [of k] by auto
  have live: "entryAt s k = Some p \<Longrightarrow> meExpiry (heapAt s p) = Some d \<Longrightarrow> sysNow s \<le> d \<Longrightarrow> m k = Some p" for k p d
    using sub [of k] by (auto simp: meExpired_def)
  have shell: "meHolder heldShell" by (simp add: heldShell_def)
  have "pointersOk ?s" using sysInvD(1) [OF inv] le unfolding pointersOk_def by simp blast
  moreover have "holdersOk ?s"
  proof (rule holdersOkI, goal_cases)
    case (1 t k)
    then show ?case using holdersOkD(1) [OF inv, of t k] held shell by auto
  next
    case (2 t k r)
    then show ?case using holdersOkD(2) [OF inv, of t k r] held by auto
  next
    case (3 t t' k)
    then show ?case using holdersOkD(3) [OF inv] unfolding crit by blast
  next
    case (4 k p)
    then show ?case using holdersOkD(4) [OF inv] le unfolding crit by auto
  next
    case (5 k p)
    then show ?case using holdersOkD(5) [OF inv le] by simp
  qed
  moreover have "waitersOk ?s"
    using waitersOkD [OF inv] held unfolding waitersOk_iff waiterOk_def by simp blast
  moreover have "logOk ?s"
  proof (rule logOkI, goal_cases)
    case (1 k r d)
    then show ?case using logOkD(1) [OF inv, of k r d] live by auto
  next
    case (2 k p r)
    then show ?case using logOkD(2) [OF inv le] by simp
  next
    case (3 t k r)
    then show ?case using logOkD(3) [OF inv] by simp
  qed
  ultimately show ?thesis by (simp add: sysInv_def)
qed

lemma expired_not_held:
  assumes "sysInv s" and "timely s" and "entryAt s k = Some p" and "meExpired (heapAt s p) (sysNow s)"
  shows "\<not> meHolder (heapAt s p)"
proof
  assume "meHolder (heapAt s p)"
  then obtain t where "critical s t k" using holdersOkD(4) [OF assms(1, 3)] by blast
  then consider "sysThreads s t = Running k" | r where "sysThreads s t = Finishing k r"
    unfolding critical_iff by blast
  then show False
  proof cases
    case 1
    then show False using holdersOkD(1) [OF assms(1) 1] assms(3, 4) by (auto simp: heldShell_def meExpired_def)
  next
    case 2
    then show False using assms(2-4) unfolding timely_def by blast
  qed
qed

lemma memGet_inv:
  assumes "sysInv s" and "timely s"
  shows "sysInv (s\<lparr>sysStore := fst (memGet (sysNow s) (sysStore s) k)\<rparr>)"
proof (cases "\<exists>p. entryAt s k = Some p \<and> meExpired (heapAt s p) (sysNow s)")
  case True
  then obtain p where p: "entryAt s k = Some p" "meExpired (heapAt s p) (sysNow s)" by blast
  then show ?thesis
    using dropEntries_inv [OF assms(1), of "(entryAt s)(k := None)"] expired_not_held [OF assms p]
    by (simp add: memGet_def)
next
  case False
  then show ?thesis using assms(1) by (auto simp: memGet_def split: option.split)
qed

lemma sweep_inv:
  assumes "sysInv s"
  shows "sysInv (s\<lparr>sysStore := sweepExpired (sysNow s) (sysStore s)\<rparr>)"
  unfolding sweepExpired_def
  by (rule dropEntries_inv [OF assms]) (auto split: option.split)

lemma newEntry_simps [simp]:
  "msEntries (newEntry st k e) = (msEntries st)(k \<mapsto> length (msHeap st))"
  "msHeap (newEntry st k e) = msHeap st @ [e]"
  by (simp_all add: newEntry_def)

lemma acquire_inv:
  assumes inv: "sysInv s" and old: "\<not> holdsKey (sysThreads s t)" and free: "entryAt s k = None"
  shows "sysInv (goPhase (s\<lparr>sysStore := newEntry (sysStore s) k heldShell\<rparr>) t (Running k))"
proof -
  let ?s = "goPhase (s\<lparr>sysStore := newEntry (sysStore s) k heldShell\<rparr>) t (Running k)"
  let ?n = "length (msHeap (sysStore s))"
  have crit: "critical ?s t' k' = (if t' = t then k' = k else critical s t' k')" for t' k'
    by (auto simp: critical_goPhase critical_iff)
  have ptr: "entryAt s k' = Some p \<Longrightarrow> p < ?n" for k' p using inv by (auto simp: sysInv_defs)
  have no: "\<not> critical s t' k" for t'
    using holdersOkD(1, 2) [OF inv] free unfolding critical_iff by fastforce
  have noT: "\<not> critical s t k'" for k' using old by (auto simp: critical_iff holdsKey_def)
  have at: "p < ?n \<Longrightarrow> (msHeap (sysStore s) @ [heldShell]) ! p = heapAt s p" for p by (simp add: nth_append)
  have last: "(msHeap (sysStore s) @ [heldShell]) ! ?n = heldShell" by simp
  have shell: "meHolder heldShell" "meResp heldShell = None" by (simp_all add: heldShell_def)
  have "pointersOk ?s"
    using ptr pointersOkD(2) [OF inv] unfolding pointersOk_def
    by (auto simp: less_SucI dest: less_irrefl_nat)
  moreover have "holdersOk ?s"
  proof (rule holdersOkI, goal_cases)
    case (1 t' k')
    show ?case
    proof (cases "t' = t")
      case True
      then show ?thesis using 1 last by simp
    next
      case False
      then have "sysThreads s t' = Running k'" using 1 by simp
      moreover have "k' \<noteq> k" using no calculation by (auto simp: critical_iff)
      ultimately show ?thesis using holdersOkD(1) [OF inv, of t' k'] ptr at by auto
    qed
  next
    case (2 t' k' r)
    then have th: "sysThreads s t' = Finishing k' r" by (simp split: if_splits)
    moreover have "k' \<noteq> k" using no th by (auto simp: critical_iff)
    ultimately show ?case using holdersOkD(2) [OF inv, of t' k' r] ptr at by auto
  next
    case (3 t1 t2 k')
    then show ?case using holdersOkD(3) [OF inv] no unfolding crit by (metis (full_types))
  next
    case (4 k' p)
    show ?case
    proof (cases "k' = k")
      case False
      then have "entryAt s k' = Some p" "meHolder (heapAt s p)" using 4 ptr at by (auto split: if_splits)
      then show ?thesis using holdersOkD(4) [OF inv] noT unfolding crit by metis
    qed (auto simp: crit)
  next
    case (5 k' p)
    then show ?case using holdersOkD(5) [OF inv] ptr at last shell by (auto split: if_splits)
  qed
  moreover have "waitersOk ?s"
    unfolding waitersOk_iff
  proof (intro allI impI)
    fix t' k' p a c assume "sysThreads ?s t' = Waiting k' p a c"
    then have "waiterOk s k' p a" using waitersOkD [OF inv] by (simp split: if_splits)
    then show "waiterOk ?s k' p a"
      using free at [of p] unfolding waiterOk_def by (cases "k' = k") auto
  qed
  moreover have "logOk ?s"
  proof (rule logOkI, goal_cases)
    case (1 k' r d)
    then obtain p where "entryAt s k' = Some p" "meResp (heapAt s p) = Some r" "meExpiry (heapAt s p) = Some d"
      using logOkD(1) [OF inv, of k' r d] by auto
    then show ?case using free ptr [of k' p] at [of p] by (cases "k' = k") auto
  next
    case (2 k' p r)
    show ?case
    proof (cases "k' = k")
      case True
      then show ?thesis using 2 last shell by simp
    next
      case False
      then show ?thesis using 2 logOkD(2) [OF inv, of k' p r] ptr [of k' p] at [of p] by simp
    qed
  next
    case (3 t' k' r)
    then show ?case using logOkD(3) [OF inv, of t' k' r] by (simp split: if_splits)
  qed
  ultimately show ?thesis by (simp add: sysInv_def)
qed

lemma held_waiter:
  \<comment> \<open>a waiter on an entry that is still held waits for that entry's key\<close>
  assumes inv: "sysInv s" and k: "entryAt s k = Some p" "meHolder (heapAt s p)" "\<not> meReleased (heapAt s p)"
    and w: "waiterOk s k' p a"
  shows "k' = k"
  using w k pointersOkD(2) [OF inv] unfolding waiterOk_def by blast

lemma save_inv:
  assumes inv: "sysInv s" and th: "sysThreads s t = Running k" and ttl: "0 < ttl"
  shows "sysInv (goPhase (s\<lparr>sysStore := memSave (sysNow s) (sysStore s) k resp ttl,
      sysLog := (k, resp, sysNow s + ttl) # sysLog s\<rparr>) t (Finishing k (Some resp)))"
proof -
  define s' where "s' = goPhase (s\<lparr>sysStore := memSave (sysNow s) (sysStore s) k resp ttl,
      sysLog := (k, resp, sysNow s + ttl) # sysLog s\<rparr>) t (Finishing k (Some resp))"
  obtain p where p: "entryAt s k = Some p" and h: "heapAt s p = heldShell" using holdersOkD(1) [OF inv th] by blast
  let ?e = "heldShell\<lparr>meResp := Some resp, meExpiry := Some (sysNow s + ttl)\<rparr>"
  have st: "sysStore s' = (sysStore s)\<lparr>msHeap := (msHeap (sysStore s))[p := ?e]\<rparr>"
    using p h ttl by (simp add: s'_def memSave_def Let_def)
  have ths: "sysThreads s' = (sysThreads s)(t := Finishing k (Some resp))"
    and now: "sysNow s' = sysNow s" and lg: "sysLog s' = (k, resp, sysNow s + ttl) # sysLog s" by (simp_all add: s'_def)
  have crit: "critical s' t' k' = critical s t' k'" for t' k' using th by (auto simp: critical_iff ths)
  have len: "p < length (msHeap (sysStore s))" using pointersOkD(1) [OF inv p] .
  have other: "entryAt s k' = Some q \<Longrightarrow> k' \<noteq> k \<Longrightarrow> q \<noteq> p" for k' q using pointersOkD(2) [OF inv p] by blast
  have shell: "meHolder heldShell" "\<not> meReleased heldShell" "meResp heldShell = None" "meExpiry heldShell = None"
    by (simp_all add: heldShell_def)
  have mine: "critical s t' k \<Longrightarrow> t' = t" for t' using holdersOkD(3) [OF inv, of t' k t] th by (auto simp: critical_iff)
  have at: "heapAt s' q = (if q = p then ?e else heapAt s q)" for q using len by (simp add: st)
  have en: "entryAt s' = entryAt s" by (simp add: st)
  have "pointersOk s'" using sysInvD(1) [OF inv] by (simp add: pointersOk_def st)
  moreover have "holdersOk s'"
  proof (rule holdersOkI, goal_cases)
    case (1 t' k')
    then have r: "sysThreads s t' = Running k'" "t' \<noteq> t" by (auto simp: ths split: if_splits)
    then have "k' \<noteq> k" using mine by (auto simp: critical_iff)
    then show ?case using holdersOkD(1) [OF inv r(1)] other by (auto simp: en at)
  next
    case (2 t' k' r)
    show ?case
    proof (cases "t' = t")
      case True
      then show ?thesis using 2 p shell by (auto simp: ths en at)
    next
      case False
      then have r: "sysThreads s t' = Finishing k' r" using 2 by (simp add: ths)
      then have "k' \<noteq> k" using mine False by (auto simp: critical_iff)
      then obtain q where q: "entryAt s k' = Some q" "meHolder (heapAt s q)" "\<not> meReleased (heapAt s q)"
          "meResp (heapAt s q) = r" "r = None \<longrightarrow> heapAt s q = heldShell"
        using holdersOkD(2) [OF inv r] by (elim exE conjE)
      moreover have "q \<noteq> p" using other q(1) \<open>k' \<noteq> k\<close> by blast
      ultimately show ?thesis by (simp add: en at)
    qed
  next
    case (3 t1 t2 k')
    then show ?case using holdersOkD(3) [OF inv] unfolding crit by blast
  next
    case (4 k' q)
    then show ?case using holdersOkD(4) [OF inv, of k' q] h shell unfolding crit en at by (auto split: if_splits)
  next
    case (5 k' q)
    then show ?case using holdersOkD(5) [OF inv, of k' q] shell unfolding en at by (auto split: if_splits)
  qed
  moreover have "waitersOk s'"
    unfolding waitersOk_iff
  proof (intro allI impI)
    fix t' k' q a c assume "sysThreads s' t' = Waiting k' q a c"
    then have w: "waiterOk s k' q a" using waitersOkD [OF inv] by (simp add: ths split: if_splits)
    show "waiterOk s' k' q a"
    proof (cases "q = p")
      case True
      then have "k' = k" using held_waiter [OF inv p] w h shell by simp
      then show ?thesis using True p len shell by (auto simp: waiterOk_def at en lg st)
    next
      case False
      then show ?thesis using w by (auto simp: waiterOk_def at en lg st)
    qed
  qed
  moreover have "logOk s'"
  proof (rule logOkI, goal_cases)
    case (1 k' r d)
    show ?case
    proof (cases "(k', r, d) \<in> set (sysLog s)")
      case True
      then obtain q where q: "entryAt s k' = Some q" "meResp (heapAt s q) = Some r" "meExpiry (heapAt s q) = Some d"
        using logOkD(1) [OF inv, of k' r d] 1 by (auto simp: now)
      then have "q \<noteq> p" using h shell by auto
      then show ?thesis using q by (auto simp: en at)
    next
      case False
      then show ?thesis using 1 p by (auto simp: en at lg)
    qed
  next
    case (2 k' q r)
    then show ?case using logOkD(2) [OF inv, of k' q r] pointersOkD(2) [OF inv p, of k'] by (auto simp: en at lg split: if_splits)
  next
    case (3 t' k' r)
    then show ?case using logOkD(3) [OF inv, of t' k' r] by (auto simp: ths lg split: if_splits)
  qed
  ultimately have "sysInv s'" by (simp add: sysInv_def)
  then show ?thesis by (simp add: s'_def)
qed

lemma nosave_inv:
  assumes inv: "sysInv s" and th: "sysThreads s t = Running k"
  shows "sysInv (goPhase s t (Finishing k None))" (is "sysInv ?s")
proof -
  have crit: "critical ?s t' k' = critical s t' k'" for t' k' using th by (auto simp: critical_iff)
  obtain p where p: "entryAt s k = Some p" "heapAt s p = heldShell" using holdersOkD(1) [OF inv th] by blast
  have "pointersOk ?s" using sysInvD(1) [OF inv] by (simp add: pointersOk_def)
  moreover have "holdersOk ?s"
    by (rule holdersOkI)
      (use holdersOkD [OF inv] p in \<open>auto simp: crit heldShell_def split: if_splits\<close>)
  moreover have "waitersOk ?s"
    using waitersOkD [OF inv] by (simp add: waitersOk_iff waiterOk_def split: if_splits) blast
  moreover have "logOk ?s"
    by (rule logOkI) (use logOkD [OF inv] in \<open>auto split: if_splits\<close>)
  ultimately show ?thesis by (simp add: sysInv_def)
qed

lemma wakeUp_iff:
  "(wakeUp po ths t = Running k) = (ths t = Running k)"
  "(wakeUp po ths t = Finishing k r) = (ths t = Finishing k r)"
  "(wakeUp po ths t = Done g) = (ths t = Done g)"
  "(wakeUp po ths t = Waiting k p a c) = (\<exists>a'. ths t = Waiting k p a' c \<and> a = (a' \<and> po \<noteq> Some p))"
  by (auto simp: wakeUp_def split: phase.splits)

lemma wakeUp_inv:
  assumes inv: "sysInv s"
  shows "sysInv (s\<lparr>sysThreads := wakeUp po (sysThreads s)\<rparr>)" (is "sysInv ?s")
proof -
  have crit: "critical ?s t k = critical s t k" for t k by (simp add: critical_iff wakeUp_iff)
  have "pointersOk ?s" using sysInvD(1) [OF inv] by (simp add: pointersOk_def)
  moreover have "holdersOk ?s"
    by (rule holdersOkI) (use holdersOkD [OF inv] in \<open>auto simp: crit wakeUp_iff\<close>)
  moreover have "waitersOk ?s"
    unfolding waitersOk_iff
  proof (intro allI impI)
    fix t k p a c assume "sysThreads ?s t = Waiting k p a c"
    then obtain a' where a': "sysThreads s t = Waiting k p a' c" "a \<longrightarrow> a'" by (auto simp: wakeUp_iff)
    show "waiterOk ?s k p a" using waitersOkD [OF inv a'(1)] a'(2) by (auto simp: waiterOk_def)
  qed
  moreover have "logOk ?s" by (rule logOkI) (use logOkD [OF inv] in \<open>auto simp: wakeUp_iff\<close>)
  ultimately show ?thesis by (simp add: sysInv_def)
qed

lemma memUnlock_held:
  assumes p: "msEntries st k = Some p"
  shows "memUnlock st k =
    (if meResp (msHeap st ! p) = None
     then (st\<lparr>msHeap := (msHeap st)[p := (msHeap st ! p)\<lparr>meHolder := False\<rparr>], msEntries := (msEntries st)(k := None)\<rparr>, Some p)
     else (st\<lparr>msHeap := (msHeap st)[p := (msHeap st ! p)\<lparr>meHolder := False, meReleased := True\<rparr>]\<rparr>, Some p))"
  using p by (simp add: memUnlock_def Let_def)

lemma unlock_inv:
  assumes inv: "sysInv s" and th: "sysThreads s t = Finishing k r" and un: "memUnlock (sysStore s) k = (st, po)"
  shows "sysInv (goPhase (s\<lparr>sysStore := st, sysThreads := wakeUp po (sysThreads s)\<rparr>) t (Done (Ran k r)))"
proof -
  define s' where "s' = goPhase (s\<lparr>sysStore := st, sysThreads := wakeUp po (sysThreads s)\<rparr>) t (Done (Ran k r))"
  obtain p where p: "entryAt s k = Some p" and h: "meHolder (heapAt s p)" "\<not> meReleased (heapAt s p)"
      and r: "meResp (heapAt s p) = r" using holdersOkD(2) [OF inv th] by blast
  have len: "p < length (msHeap (sysStore s))" using pointersOkD(1) [OF inv p] .
  have po: "po = Some p" using un memUnlock_held [OF p] by (simp split: if_splits)
  have en: "entryAt s' = (if r = None then (entryAt s)(k := None) else entryAt s)"
    and ln: "length (msHeap (sysStore s')) = length (msHeap (sysStore s))"
    and at: "\<And>q. q \<noteq> p \<Longrightarrow> heapAt s' q = heapAt s q"
    and atp: "\<not> meHolder (heapAt s' p)" "meResp (heapAt s' p) = r" "meExpiry (heapAt s' p) = meExpiry (heapAt s p)"
      "meReleased (heapAt s' p) = (r \<noteq> None)"
    using un memUnlock_held [OF p] r h len by (auto simp: s'_def split: if_splits)
  have ths: "sysThreads s' = (wakeUp po (sysThreads s))(t := Done (Ran k r))"
    and now: "sysNow s' = sysNow s" and lg: "sysLog s' = sysLog s" by (simp_all add: s'_def)
  have mine: "critical s t' k \<Longrightarrow> t' = t" for t' using holdersOkD(3) [OF inv, of t' k t] th by (auto simp: critical_iff)
  have crit: "critical s' t' k' = (t' \<noteq> t \<and> critical s t' k')" for t' k'
    by (auto simp: critical_iff ths wakeUp_iff)
  have mineT: "critical s t k' \<Longrightarrow> k' = k" for k' using th by (simp add: critical_iff)
  have other: "entryAt s k' = Some q \<Longrightarrow> k' \<noteq> k \<Longrightarrow> q \<noteq> p" for k' q using pointersOkD(2) [OF inv p] by blast
  have le: "entryAt s' k' = Some q \<Longrightarrow> entryAt s k' = Some q" for k' q by (auto simp: en split: if_splits)
  have ge: "entryAt s k' = Some q \<Longrightarrow> k' \<noteq> k \<or> r \<noteq> None \<Longrightarrow> entryAt s' k' = Some q" for k' q by (auto simp: en)
  have "pointersOk s'" using pointersOkD [OF inv] le unfolding pointersOk_def ln by blast
  moreover have "holdersOk s'"
  proof (rule holdersOkI, goal_cases)
    case (1 t' k')
    then have t': "sysThreads s t' = Running k'" "t' \<noteq> t" by (auto simp: ths wakeUp_iff split: if_splits)
    then have "k' \<noteq> k" using mine by (auto simp: critical_iff)
    then show ?case using holdersOkD(1) [OF inv t'(1)] other ge at by metis
  next
    case (2 t' k' r')
    then have t': "sysThreads s t' = Finishing k' r'" "t' \<noteq> t" by (auto simp: ths wakeUp_iff split: if_splits)
    then have "k' \<noteq> k" using mine by (auto simp: critical_iff)
    then show ?case using holdersOkD(2) [OF inv t'(1)] other ge at by metis
  next
    case (3 t1 t2 k')
    then show ?case using holdersOkD(3) [OF inv] unfolding crit by blast
  next
    case (4 k' q)
    then have "q \<noteq> p" using atp by auto
    then obtain t' where t': "critical s t' k'" using holdersOkD(4) [OF inv le [OF 4(1)]] 4(2) at by auto
    have "k' \<noteq> k" using le [OF 4(1)] \<open>q \<noteq> p\<close> p by auto
    then have "t' \<noteq> t" using t' mineT by blast
    then show ?case using t' unfolding crit by blast
  next
    case (5 k' q)
    show ?case
    proof (cases "q = p")
      case True
      then have "k' = k" using le [OF 5(1)] other by blast
      then have "r \<noteq> None" using 5(1) by (auto simp: en split: if_splits)
      then show ?thesis using True atp by simp
    next
      case False
      then show ?thesis using holdersOkD(5) [OF inv le [OF 5(1)]] 5(2) at by simp
    qed
  qed
  moreover have "waitersOk s'"
    unfolding waitersOk_iff
  proof (intro allI impI)
    fix t' k' q a c assume "sysThreads s' t' = Waiting k' q a c"
    then obtain a' where w': "sysThreads s t' = Waiting k' q a' c" "a = (a' \<and> po \<noteq> Some q)"
      by (auto simp: ths wakeUp_iff split: if_splits)
    have w: "waiterOk s k' q a'" using waitersOkD [OF inv w'(1)] .
    show "waiterOk s' k' q a"
    proof (cases "q = p")
      case True
      then have "k' = k" using held_waiter [OF inv p h] w by simp
      then show ?thesis using True w w'(2) po atp len logOkD(2) [OF inv p] r
        unfolding waiterOk_def ln lg by auto
    next
      case False
      then have "entryAt s k' = Some q \<Longrightarrow> k' \<noteq> k" using p by auto
      then show ?thesis using False w w'(2) po at ge unfolding waiterOk_def ln lg by auto
    qed
  qed
  moreover have "logOk s'"
  proof (rule logOkI, goal_cases)
    case (1 k' x d)
    then obtain q where q: "entryAt s k' = Some q" "meResp (heapAt s q) = Some x" "meExpiry (heapAt s q) = Some d"
      using logOkD(1) [OF inv, of k' x d] by (auto simp: now lg)
    then have "k' \<noteq> k \<or> r \<noteq> None" using p r by auto
    then show ?case using q ge at atp r by (cases "q = p") auto
  next
    case (2 k' q x)
    then show ?case using logOkD(2) [OF inv le [OF 2(1)], of x] at atp r by (cases "q = p") (auto simp: lg)
  next
    case (3 t' k' x)
    then show ?case using logOkD(3) [OF inv, of t' k' x] by (auto simp: ths lg wakeUp_iff split: if_splits)
  qed
  ultimately have "sysInv s'" by (simp add: sysInv_def)
  then show ?thesis by (simp add: s'_def)
qed

lemma tick_inv:
  assumes inv: "sysInv s" and le: "sysNow s \<le> now"
  shows "sysInv (s\<lparr>sysNow := now\<rparr>)" (is "sysInv ?s")
proof -
  have crit: "critical ?s t k = critical s t k" for t k by (simp add: critical_iff)
  have "pointersOk ?s" "waitersOk ?s" using sysInvD [OF inv] by (simp_all add: pointersOk_def waitersOk_def)
  moreover have "holdersOk ?s" using sysInvD(2) [OF inv] unfolding holdersOk_def crit by simp
  moreover have "logOk ?s" by (rule logOkI) (use logOkD [OF inv] le in auto)
  ultimately show ?thesis by (simp add: sysInv_def)
qed

lemma lock_inv:
  assumes inv: "sysInv s" and tm: "timely s" and th: "\<not> holdsKey (sysThreads s t)"
    and lk: "memLock (sysNow s) (sysStore s) k = (st, True)"
  shows "sysInv (goPhase (s\<lparr>sysStore := st\<rparr>) t (Running k))"
proof (cases "entryAt s k")
  case None
  then have "st = newEntry (sysStore s) k heldShell" using lk by (simp add: memLock_def)
  then show ?thesis using acquire_inv [OF inv th None] by simp
next
  case (Some p)
  let ?s = "s\<lparr>sysStore := (sysStore s)\<lparr>msEntries := (entryAt s)(k := None)\<rparr>\<rparr>"
  have ex: "meExpired (heapAt s p) (sysNow s)" and st: "st = newEntry (sysStore ?s) k heldShell"
    using lk Some by (auto simp: memLock_def split: if_splits)
  have "sysInv ?s"
    by (rule dropEntries_inv [OF inv]) (use expired_not_held [OF inv tm Some ex] Some ex in auto)
  from acquire_inv [OF this, of t k] show ?thesis using th by (simp add: st)
qed

lemma check_inv:
  assumes inv: "sysInv s" and th: "sysThreads s t = Waiting k p False c"
  shows "sysInv (goPhase s t (case waitCheck (heapAt s p) c of
      WaitSleeps \<Rightarrow> Waiting k p True c
    | WaitReturns (Some r) \<Rightarrow> Done (Replayed k r)
    | WaitReturns None \<Rightarrow> Done (Rejected k)
    | WaitCancelled \<Rightarrow> Done (Rejected k)))"
proof -
  have w: "waiterOk s k p False" using waitersOkD [OF inv th] .
  have nk: "\<not> holdsKey (sysThreads s t)" using th by (simp add: holdsKey_def)
  show ?thesis
  proof (cases "waitCheck (heapAt s p) c")
    case WaitSleeps
    then have "\<not> meReleased (heapAt s p)" "meHolder (heapAt s p) \<or> meResp (heapAt s p) \<noteq> None"
      by (auto simp: waitCheck_def split: if_splits)
    then have held: "entryAt s k = Some p \<and> meHolder (heapAt s p)" using w by (auto simp: waiterOk_def)
    have "sysInv (goPhase s t (Waiting k p True c))"
      by (rule waiting_goPhase [OF inv nk]) (use held w in \<open>simp_all add: waiterOk_def\<close>)
    then show ?thesis using WaitSleeps by simp
  next
    case (WaitReturns ro)
    show ?thesis
    proof (cases ro)
      case None
      then show ?thesis using passive_goPhase [OF inv nk, of "Done (Rejected k)"] WaitReturns by (simp add: statusQuo_def)
    next
      case (Some r)
      then have "meResp (heapAt s p) = Some r" using WaitReturns by (auto simp: waitCheck_def split: if_splits)
      then have "replaying s (Done (Replayed k r))" using w unfolding waiterOk_def replaying_def by blast
      then show ?thesis using passive_goPhase [OF inv nk] WaitReturns Some by simp
    qed
  next
    case WaitCancelled
    then show ?thesis using passive_goPhase [OF inv nk, of "Done (Rejected k)"] by (simp add: statusQuo_def)
  qed
qed

lemma lookup_inv:
  assumes inv: "sysInv s" and tm: "timely s" and th: "sysThreads s t = Idle"
    and g: "memGet (sysNow s) (sysStore s) k = (st, r)"
  shows "sysInv (goPhase (s\<lparr>sysStore := st\<rparr>) t (case r of Some x \<Rightarrow> Done (Replayed k x) | None \<Rightarrow> Missed k))"
proof -
  have inv': "sysInv (s\<lparr>sysStore := st\<rparr>)" using memGet_inv [OF inv tm, of k] g by simp
  have nk: "\<not> holdsKey (sysThreads (s\<lparr>sysStore := st\<rparr>) t)" using th by (simp add: holdsKey_def)
  show ?thesis
  proof (cases r)
    case None
    then show ?thesis using passive_goPhase [OF inv' nk, of "Missed k"] by (simp add: statusQuo_def)
  next
    case (Some x)
    then obtain p where "entryAt s k = Some p" "meResp (heapAt s p) = Some x"
      using g by (auto simp: memGet_def split: option.splits if_splits)
    then have "replaying (s\<lparr>sysStore := st\<rparr>) (Done (Replayed k x))"
      using logOkD(2) [OF inv, of k p x] by (auto simp: replaying_def)
    then show ?thesis using passive_goPhase [OF inv' nk] Some by simp
  qed
qed

lemma wait_inv:
  assumes inv: "sysInv s" and th: "sysThreads s t = Contending k"
  shows "sysInv (goPhase s t (case entryAt s k of None \<Rightarrow> Done (Rejected k) | Some p \<Rightarrow> Waiting k p False False))"
proof -
  have nk: "\<not> holdsKey (sysThreads s t)" using th by (simp add: holdsKey_def)
  show ?thesis
  proof (cases "entryAt s k")
    case None
    then show ?thesis using passive_goPhase [OF inv nk, of "Done (Rejected k)"] by (simp add: statusQuo_def)
  next
    case (Some p)
    have "sysInv (goPhase s t (Waiting k p False False))"
      by (rule waiting_goPhase [OF inv nk pointersOkD(1) [OF inv Some]])
        (use Some holdersOkD(5) [OF inv Some] logOkD(2) [OF inv Some] in blast)+
    then show ?thesis using Some by simp
  qed
qed

lemma goStep_inv:
  assumes "goStep w s s'" and "sysInv s" and "timely s"
  shows "sysInv s'"
  using assms(1)
proof cases
  case (lookup t k st r)
  then show ?thesis using lookup_inv [OF assms(2, 3)] by simp
next
  case (lock t k st acquired)
  have nk: "\<not> holdsKey (sysThreads s t)" using lock by (simp add: holdsKey_def)
  show ?thesis
  proof (cases acquired)
    case True
    then show ?thesis using lock lock_inv [OF assms(2, 3) nk] by simp
  next
    case False
    then have "st = sysStore s" using lock by (auto simp: memLock_def split: option.splits if_splits)
    then show ?thesis using lock False passive_goPhase [OF assms(2) nk] by (simp add: statusQuo_def)
  qed
next
  case (save t k ttl st resp)
  then show ?thesis using save_inv [OF assms(2)] by simp
next
  case (nosave t k)
  then show ?thesis using nosave_inv [OF assms(2)] by simp
next
  case (unlock t k r st po)
  then show ?thesis using unlock_inv [OF assms(2)] by simp
next
  case (wait t k)
  then show ?thesis using wait_inv [OF assms(2)] by simp
next
  case (check t k p c)
  then show ?thesis using check_inv [OF assms(2)] by simp
next
  case (cancel t k p a c)
  let ?s = "s\<lparr>sysThreads := wakeUp (Some p) (sysThreads s)\<rparr>"
  have "sysThreads ?s t = Waiting k p False c" using cancel by (simp add: wakeUp_iff)
  then have "waiterOk ?s k p False" "\<not> holdsKey (sysThreads ?s t)"
    using waitersOkD [OF wakeUp_inv [OF assms(2)]] by (auto simp: holdsKey_def)
  then show ?thesis
    using cancel waiting_goPhase [OF wakeUp_inv [OF assms(2)], where t = t and p = p and k = k and a = False and c = True]
    by (auto simp: waiterOk_def)
next
  case sweep
  then show ?thesis using sweep_inv [OF assms(2)] by simp
next
  case (tick now)
  then show ?thesis using tick_inv [OF assms(2)] by simp
qed

lemma timelyReach_inv: "timelyReach w s \<Longrightarrow> sysInv s \<and> timely s"
proof (induction rule: timelyReach.induct)
  case init
  then show ?case using sysInv_init by (simp add: timely_def sysInit_def)
next
  case (step s s')
  then show ?case using goStep_inv by blast
qed

section \<open>What the store guarantees\<close>

text \<open>
  C20. While responses outlive the moment between their Save and the deferred Unlock, the handler of a
  key runs in at most one goroutine at a time, and from the Save of a response to its deadline every
  lookup of the key finds exactly that response, the key cannot be locked and no handler runs for it;
  every replayed response was saved under the request's own key.
\<close>
theorem one_handler_per_key:
  assumes "timelyReach w s"
  shows "(\<forall>t t' k. critical s t k \<and> critical s t' k \<longrightarrow> t = t')
    \<and> (\<forall>k r d. (k, r, d) \<in> set (sysLog s) \<and> sysNow s \<le> d \<longrightarrow>
         memGet (sysNow s) (sysStore s) k = (sysStore s, Some r)
         \<and> memLock (sysNow s) (sysStore s) k = (sysStore s, False)
         \<and> (\<forall>t. sysThreads s t \<noteq> Running k))
    \<and> (\<forall>t k r. sysThreads s t = Done (Replayed k r) \<longrightarrow> (\<exists>d. (k, r, d) \<in> set (sysLog s)))"
proof -
  have inv: "sysInv s" using timelyReach_inv [OF assms] by simp
  have "memGet (sysNow s) (sysStore s) k = (sysStore s, Some r)
         \<and> memLock (sysNow s) (sysStore s) k = (sysStore s, False) \<and> (\<forall>t. sysThreads s t \<noteq> Running k)"
    if log: "(k, r, d) \<in> set (sysLog s)" and now: "sysNow s \<le> d" for k r d
  proof -
    obtain p where p: "entryAt s k = Some p" "meResp (heapAt s p) = Some r" "meExpiry (heapAt s p) = Some d"
      using logOkD(1) [OF inv log now] by blast
    then have "\<not> meExpired (heapAt s p) (sysNow s)" using now by (simp add: meExpired_def)
    moreover have "sysThreads s t \<noteq> Running k" for t
      using holdersOkD(1) [OF inv, of t k] p by (auto simp: heldShell_def)
    ultimately show ?thesis using p by (simp add: memGet_def memLock_def)
  qed
  then show ?thesis using holdersOkD(3) [OF inv] logOkD(3) [OF inv] by blast
qed

lemma step_lookup:
  "sysThreads s t = Idle \<Longrightarrow> goStep w s (goPhase (s\<lparr>sysStore := fst (memGet (sysNow s) (sysStore s) k)\<rparr>) t
     (case snd (memGet (sysNow s) (sysStore s) k) of Some x \<Rightarrow> Done (Replayed k x) | None \<Rightarrow> Missed k))"
  using goStep.lookup [of s t k "fst (memGet (sysNow s) (sysStore s) k)" "snd (memGet (sysNow s) (sysStore s) k)" w]
  by simp

definition sampleResponse :: response where
  "sampleResponse = \<lparr>StatusCode = 201, Headers = [], Body = ''ok'', PayloadHash = []\<rparr>"

definition missedBy :: "nat \<Rightarrow> sys \<Rightarrow> sys" where
  "missedBy t s = goPhase s t (Missed ''k'')"

definition startedBy :: "nat \<Rightarrow> sys \<Rightarrow> sys" where
  "startedBy t s = goPhase (s\<lparr>sysStore := fst (memLock (sysNow s) (sysStore s) ''k'')\<rparr>) t (Running ''k'')"

definition savedBy :: "nat \<Rightarrow> sys \<Rightarrow> sys" where
  "savedBy t s = goPhase (s\<lparr>sysStore := memSave (sysNow s) (sysStore s) ''k'' sampleResponse 60,
     sysLog := (''k'', sampleResponse, sysNow s + 60) # sysLog s\<rparr>) t (Finishing ''k'' (Some sampleResponse))"

definition savedSys :: sys where
  "savedSys = savedBy 0 (startedBy 0 (missedBy 0 sysInit))"

lemmas run_defs = missedBy_def startedBy_def savedBy_def goPhase_def sysInit_def NewMemoryStore_def
  memGet_def memLock_def memSave_def memUnlock_def newEntry_def heldShell_def meExpired_def

lemma step_missed:
  "sysThreads s t = Idle \<Longrightarrow> memGet (sysNow s) (sysStore s) ''k'' = (sysStore s, None) \<Longrightarrow> goStep w s (missedBy t s)"
  using goStep.lookup [of s t "''k''" "sysStore s" None w] by (simp add: missedBy_def)

lemma step_started:
  "sysThreads s t = Missed ''k'' \<Longrightarrow> snd (memLock (sysNow s) (sysStore s) ''k'') \<Longrightarrow> goStep w s (startedBy t s)"
  using goStep.lock [of s t "''k''" "fst (memLock (sysNow s) (sysStore s) ''k'')" True w]
  by (simp add: startedBy_def prod_eq_iff)

lemma step_saved: "sysThreads s t = Running ''k'' \<Longrightarrow> goStep w s (savedBy t s)"
  using goStep.save [of s t "''k''" 60] by (simp add: savedBy_def)

lemma savedSys_reached: "timelyReach w savedSys"
proof -
  have "timelyReach w (missedBy 0 sysInit)"
    by (rule timelyReach.step [OF timelyReach.init step_missed]) (auto simp: timely_def run_defs)
  then have "timelyReach w (startedBy 0 (missedBy 0 sysInit))"
    by (rule timelyReach.step [OF _ step_started]) (auto simp: timely_def run_defs)
  then show ?thesis unfolding savedSys_def
    by (rule timelyReach.step [OF _ step_saved]) (auto simp: timely_def run_defs)
qed

theorem one_handler_per_key_witness:
  "timelyReach True savedSys \<and> memGet 30 (sysStore savedSys) ''k'' = (sysStore savedSys, Some sampleResponse)"
proof -
  have r: "timelyReach True (savedSys\<lparr>sysNow := 30\<rparr>)"
    by (rule timelyReach.step [OF savedSys_reached goStep.tick]) (auto simp: timely_def savedSys_def run_defs)
  have "(''k'', sampleResponse, 60) \<in> set (sysLog (savedSys\<lparr>sysNow := 30\<rparr>))" by (simp add: savedSys_def run_defs)
  then have "memGet 30 (sysStore savedSys) ''k'' = (sysStore savedSys, Some sampleResponse)"
    using one_handler_per_key [OF r, THEN conjunct2, THEN conjunct1, rule_format, of "''k''" sampleResponse 60] by simp
  then show ?thesis using savedSys_reached by simp
qed


definition sleepingSys :: sys where
  \<comment> \<open>goroutine 0 runs the handler, goroutine 1 found the key taken and sleeps\<close>
  "sleepingSys = goPhase (startedBy 0 (missedBy 1 (missedBy 0 sysInit))) 1 (Waiting ''k'' 0 True False)"

lemma sleepingSys_reached: "timelyReach True sleepingSys"
proof -
  let ?s = "startedBy 0 (missedBy 1 (missedBy 0 sysInit))"
  have "timelyReach True (missedBy 0 sysInit)"
    by (rule timelyReach.step [OF timelyReach.init step_missed]) (auto simp: timely_def run_defs)
  then have "timelyReach True (missedBy 1 (missedBy 0 sysInit))"
    by (rule timelyReach.step [OF _ step_missed]) (auto simp: timely_def run_defs)
  then have "timelyReach True ?s"
    by (rule timelyReach.step [OF _ step_started]) (auto simp: timely_def run_defs)
  moreover have "goStep True ?s (goPhase ?s 1 (Contending ''k''))"
    using goStep.lock [of ?s 1 "''k''" "sysStore ?s" False True] by (simp add: run_defs)
  ultimately have "timelyReach True (goPhase ?s 1 (Contending ''k''))"
    by (rule timelyReach.step) (auto simp: timely_def run_defs)
  moreover have "goStep True (goPhase ?s 1 (Contending ''k'')) (goPhase ?s 1 (Waiting ''k'' 0 False False))"
    using goStep.wait [of "goPhase ?s 1 (Contending ''k'')" 1 "''k''" True] by (simp add: run_defs)
  ultimately have "timelyReach True (goPhase ?s 1 (Waiting ''k'' 0 False False))"
    by (rule timelyReach.step) (auto simp: timely_def run_defs)
  moreover have "goStep True (goPhase ?s 1 (Waiting ''k'' 0 False False)) sleepingSys"
    using goStep.check [of "goPhase ?s 1 (Waiting ''k'' 0 False False)" 1 "''k''" 0 False True]
    by (simp add: sleepingSys_def run_defs waitCheck_def)
  ultimately show ?thesis
    by (rule timelyReach.step) (auto simp: timely_def sleepingSys_def run_defs)
qed


text \<open>
  C36. The guarantee needs that assumption: when a response expires before its writer has unlocked, the
  next request takes the key over, the late Unlock removes that request's entry, and a third request
  runs the handler for the same key at the same time as the second.
\<close>
theorem late_unlock_breaks_exclusion:
  "\<exists>s. goReach w s \<and> sysThreads s 1 = Running ''k'' \<and> sysThreads s 2 = Running ''k''"
proof -
  define s1 where "s1 = savedSys\<lparr>sysNow := 61\<rparr>"
  define s2 where "s2 = goPhase (s1\<lparr>sysStore := fst (memGet 61 (sysStore s1) ''k'')\<rparr>) 1 (Missed ''k'')"
  define s3 where "s3 = startedBy 1 s2"
  define s4 where "s4 = goPhase (s3\<lparr>sysStore := fst (memUnlock (sysStore s3) ''k''),
      sysThreads := wakeUp (snd (memUnlock (sysStore s3) ''k'')) (sysThreads s3)\<rparr>) 0 (Done (Ran ''k'' (Some sampleResponse)))"
  define s5 where "s5 = missedBy 2 s4"
  define s6 where "s6 = startedBy 2 s5"
  note ds = s6_def s5_def s4_def s3_def s2_def s1_def savedSys_def run_defs
  have timely_go: "timelyReach w s \<Longrightarrow> goReach w s" for s
    by (induction rule: timelyReach.induct) (auto intro: goReach.intros)
  have "goReach w savedSys" by (rule timely_go [OF savedSys_reached])
  then have "goReach w s1" unfolding s1_def
    by (rule goReach.step [OF _ goStep.tick]) (simp add: savedSys_def run_defs)
  moreover have "goStep w s1 s2"
    using step_lookup [of s1 1 w "''k''"] by (simp add: ds)
  moreover have "goStep w s2 s3" unfolding s3_def by (rule step_started) (simp_all add: ds)
  moreover have "goStep w s3 s4"
    using goStep.unlock [of s3 0 "''k''" "Some sampleResponse" "fst (memUnlock (sysStore s3) ''k'')"
        "snd (memUnlock (sysStore s3) ''k'')" w] by (simp add: ds wakeUp_def)
  moreover have "goStep w s4 s5" unfolding s5_def by (rule step_missed) (simp_all add: ds wakeUp_def)
  moreover have "goStep w s5 s6" unfolding s6_def by (rule step_started) (simp_all add: ds wakeUp_def)
  ultimately have "goReach w s6" by (meson goReach.step)
  then show ?thesis by (intro exI [of _ s6]) (simp add: ds wakeUp_def)
qed

end
