(* ===== verification/CaptureWriter.thy ===== *)
theory CaptureWriter
  imports IdempotencyStore
begin

text \<open>
  The response-capturing writer of the idempotency plugin (\<^verbatim>\<open>plugins/idempotency/writer.go\<close>): it buffers
  the response up to a cap so that it can be stored before it is sent, and passes everything through
  once the cap is exceeded. It wraps an arbitrary response writer.
\<close>

section \<open>The writer\<close>

record 'w captureWriter =
  cwInner :: 'w
  cwCap :: int
  cwWritten :: int
  cwBody :: string
  cwHeaders :: header
  cwStatusCode :: int
  cwOverflowed :: bool
  cwHeaderSent :: bool
  cwCommitted :: bool

definition acquireCaptureWriter :: "'w \<Rightarrow> int \<Rightarrow> 'w captureWriter" where
  \<comment> \<open>every field of the pooled writer is set\<close>
  "acquireCaptureWriter w cap =
     \<lparr>cwInner = w, cwCap = cap, cwWritten = 0, cwBody = [], cwHeaders = [], cwStatusCode = 0,
      cwOverflowed = False, cwHeaderSent = False, cwCommitted = False\<rparr>"

definition cw_Header :: "'w responseWriter \<Rightarrow> 'w captureWriter \<Rightarrow> header" where
  "cw_Header ops cw = (if cwHeaderSent cw then rwHeader ops (cwInner cw) else cwHeaders cw)"

definition cw_PutHeader :: "'w responseWriter \<Rightarrow> 'w captureWriter \<Rightarrow> header \<Rightarrow> 'w captureWriter" where
  \<comment> \<open>mutation of the map that \<^verbatim>\<open>Header\<close> returned\<close>
  "cw_PutHeader ops cw h =
     (if cwHeaderSent cw then cw\<lparr>cwInner := rwPutHeader ops (cwInner cw) h\<rparr> else cw\<lparr>cwHeaders := h\<rparr>)"

definition cw_WriteHeader :: "'w captureWriter \<Rightarrow> int \<Rightarrow> 'w captureWriter" where
  "cw_WriteHeader cw code =
     (if cwHeaderSent cw then cw
      else if cwStatusCode cw = 0 then cw\<lparr>cwStatusCode := code\<rparr> else cw)"

definition cw_Status :: "'w captureWriter \<Rightarrow> int" where
  "cw_Status cw = (if cwStatusCode cw = 0 then 200 else cwStatusCode cw)"

definition flushOverflow :: "'w responseWriter \<Rightarrow> 'w captureWriter \<Rightarrow> 'w captureWriter" where
  "flushOverflow ops cw =
     (if cwOverflowed cw then cw
      else
        let cw1 = cw\<lparr>cwOverflowed := True\<rparr>;
            w1 = rwPutHeader ops (cwInner cw1)
                   (hSet (hAddAll (rwHeader ops (cwInner cw1)) (cwHeaders cw1)) ''Idempotency-Cached'' ''false; reason=size'');
            w2 = rwWriteHeader ops w1 (cw_Status cw1);
            cw2 = cw1\<lparr>cwInner := w2, cwHeaderSent := True\<rparr>
        in if cwBody cw2 \<noteq> []
           then cw2\<lparr>cwInner := fst (rwWrite ops w2 (cwBody cw2)), cwBody := []\<rparr>
           else cw2)"

definition cw_Write :: "'w responseWriter \<Rightarrow> 'w captureWriter \<Rightarrow> string \<Rightarrow> 'w captureWriter \<times> int \<times> err option" where
  "cw_Write ops cw p =
     (let through = (\<lambda>c. case rwWrite ops (cwInner c) p of (w, n, e) \<Rightarrow> (c\<lparr>cwInner := w\<rparr>, n, e))
      in if cwOverflowed cw then through cw
         else if 0 < cwCap cw \<and> cwCap cw < cwWritten cw + int (length p) then through (flushOverflow ops cw)
         else (cw\<lparr>cwBody := cwBody cw @ p, cwWritten := cwWritten cw + int (length p)\<rparr>, int (length p), None))"

definition FlushUnderCap :: "'w responseWriter \<Rightarrow> 'w captureWriter \<Rightarrow> 'w captureWriter" where
  "FlushUnderCap ops cw =
     (if cwOverflowed cw \<or> cwCommitted cw then cw
      else
        let w1 = rwPutHeader ops (cwInner cw) (hAddAll (rwHeader ops (cwInner cw)) (cwHeaders cw));
            w2 = rwWriteHeader ops w1 (cw_Status cw);
            cw2 = cw\<lparr>cwCommitted := True, cwInner := w2, cwHeaderSent := True\<rparr>
        in if cwBody cw2 \<noteq> [] then cw2\<lparr>cwInner := fst (rwWrite ops w2 (cwBody cw2))\<rparr> else cw2)"

definition hardStrippedHeaders :: "string set" where
  "hardStrippedHeaders =
     {''Set-Cookie'', ''Authorization'', ''Www-Authenticate'', ''X-Request-Id'', ''Connection'', ''Keep-Alive'',
      ''Proxy-Authenticate'', ''Proxy-Authorization'', ''Te'', ''Trailer'', ''Transfer-Encoding'', ''Upgrade''}"

definition keepHeader :: "string set option \<Rightarrow> string \<Rightarrow> bool" where
  \<comment> \<open>the filter on the canonical name: never a stripped one, and listed if there is a list\<close>
  "keepHeader allow canon \<longleftrightarrow>
     canon \<notin> hardStrippedHeaders \<and> (case allow of None \<Rightarrow> True | Some a \<Rightarrow> canon \<in> a)"

definition snapshotHeaders :: "string set option \<Rightarrow> header \<Rightarrow> header" where
  "snapshotHeaders allow h =
     foldl (\<lambda>acc (k, vs). if keepHeader allow (canonicalHeaderKey k)
                          then AList.update (canonicalHeaderKey k) vs acc else acc) [] h"

definition Snapshot :: "string set option \<Rightarrow> 'w captureWriter \<Rightarrow> response option" where
  "Snapshot allow cw =
     (if cwOverflowed cw then None
      else Some \<lparr>StatusCode = cw_Status cw, Headers = snapshotHeaders allow (cwHeaders cw), Body = cwBody cw,
                 PayloadHash = []\<rparr>)"

definition captureOps :: "'w responseWriter \<Rightarrow> 'w captureWriter responseWriter" where
  "captureOps ops =
     \<lparr>rwHeader = cw_Header ops, rwPutHeader = cw_PutHeader ops, rwWriteHeader = cw_WriteHeader,
      rwWrite = cw_Write ops\<rparr>"

lemma captureOps_simps [simp]:
  "rwHeader (captureOps ops) = cw_Header ops" "rwPutHeader (captureOps ops) = cw_PutHeader ops"
  "rwWriteHeader (captureOps ops) = cw_WriteHeader" "rwWrite (captureOps ops) = cw_Write ops"
  by (simp_all add: captureOps_def)

section \<open>Running a handler on it\<close>

fun statusFirst :: "wOp list \<Rightarrow> bool" where
  \<comment> \<open>the status is issued, if at all, before the first body byte\<close>
  "statusFirst [] \<longleftrightarrow> True"
| "statusFirst (OpWriteHeader c # ps) \<longleftrightarrow> c \<noteq> 0"
| "statusFirst (OpWrite b # ps) \<longleftrightarrow> list_all (\<lambda>p. case p of OpWriteHeader _ \<Rightarrow> False | _ \<Rightarrow> True) ps"
| "statusFirst (OpHeader f # ps) \<longleftrightarrow> statusFirst ps"

definition endStatus :: "'w captureWriter \<Rightarrow> wOp list \<Rightarrow> int" where
  "endStatus cw ps = (if cwStatusCode cw \<noteq> 0 then cwStatusCode cw else statusOr200 (progStatus ps))"

lemma no_status_prog:
  assumes "list_all (\<lambda>p. case p of OpWriteHeader _ \<Rightarrow> False | _ \<Rightarrow> True) ps"
  shows "statusFirst ps \<and> statusOr200 (progStatus ps) = 200"
  using assms
proof (induction ps)
  case (Cons p ps)
  then show ?case by (cases p) auto
qed simp

lemma passthrough_run:
  assumes "cwOverflowed cw" and "cwHeaderSent cw" and "nSent (cwInner cw) = Some (st, h)"
  shows "(let cw' = wRun (captureOps netOps) cw ps in
      cwOverflowed cw' \<and> cwHeaderSent cw' \<and> nSent (cwInner cw') = Some (st, h) \<and> cwBody cw' = cwBody cw
      \<and> nBody (cwInner cw') = nBody (cwInner cw) @ (if bodyAllowedForStatus st then progBody ps else []))"
  using assms
proof (induction ps arbitrary: cw)
  case (Cons p ps)
  let ?c = "wStep (captureOps netOps) cw p"
  have "cwOverflowed ?c \<and> cwHeaderSent ?c \<and> nSent (cwInner ?c) = Some (st, h) \<and> cwBody ?c = cwBody cw
      \<and> nBody (cwInner ?c) = nBody (cwInner cw) @ (if bodyAllowedForStatus st then progBody [p] else [])"
    using Cons.prems
    by (cases p) (auto simp: cw_WriteHeader_def cw_Write_def cw_PutHeader_def netOps_def netWrite_def netWriteHeader_def
        Let_def split: prod.splits)
  moreover have "progBody (p # ps) = progBody [p] @ progBody ps" by (cases p) simp_all
  ultimately show ?case using Cons.IH [of ?c] by (auto simp: Let_def)
qed simp

definition buffering :: "netWriter captureWriter \<Rightarrow> wOp list \<Rightarrow> bool" where
  "buffering cw ps \<longleftrightarrow>
     \<not> cwOverflowed cw \<and> \<not> cwHeaderSent cw \<and> \<not> cwCommitted cw
     \<and> (cwStatusCode cw \<noteq> 0 \<or> statusFirst ps) \<and> list_all finalOp ps \<and> \<not> informational (cwStatusCode cw)
     \<and> nSent (cwInner cw) = None \<and> nBody (cwInner cw) = [] \<and> cwWritten cw = int (length (cwBody cw))
     \<and> (cwCap cw \<le> 0 \<or> cwWritten cw \<le> cwCap cw)"

definition fits :: "'w captureWriter \<Rightarrow> wOp list \<Rightarrow> bool" where
  "fits cw ps \<longleftrightarrow> cwCap cw \<le> 0 \<or> cwWritten cw + int (length (progBody ps)) \<le> cwCap cw"

definition captured :: "netWriter captureWriter \<Rightarrow> wOp list \<Rightarrow> netWriter captureWriter \<Rightarrow> bool" where
  "captured cw ps cw' \<longleftrightarrow>
     \<not> cwOverflowed cw' \<and> \<not> cwCommitted cw' \<and> cwInner cw' = cwInner cw \<and> cwBody cw' = cwBody cw @ progBody ps
     \<and> cw_Status cw' = endStatus cw ps"

definition streamed :: "netWriter captureWriter \<Rightarrow> wOp list \<Rightarrow> netWriter captureWriter \<Rightarrow> bool" where
  "streamed cw ps cw' \<longleftrightarrow>
     cwOverflowed cw' \<and> cwBody cw' = []
     \<and> (\<exists>h. nSent (cwInner cw') = Some (endStatus cw ps, h) \<and> hGet h ''Idempotency-Cached'' = ''false; reason=size'')
     \<and> nBody (cwInner cw') = (if bodyAllowedForStatus (endStatus cw ps) then cwBody cw @ progBody ps else [])"

lemma flushOverflow_net:
  assumes "buffering cw ps"
  shows "cwOverflowed (flushOverflow netOps cw) \<and> cwHeaderSent (flushOverflow netOps cw)
    \<and> cwBody (flushOverflow netOps cw) = []
    \<and> (\<exists>h. nSent (cwInner (flushOverflow netOps cw)) = Some (cw_Status cw, h)
           \<and> hGet h ''Idempotency-Cached'' = ''false; reason=size'')
    \<and> nBody (cwInner (flushOverflow netOps cw)) = (if bodyAllowedForStatus (cw_Status cw) then cwBody cw else [])"
  using assms
  by (auto simp: buffering_def flushOverflow_def netOps_def netWriteHeader_def netWrite_def cw_Status_def hGet_hSet
      informational_def Let_def)

lemma overflow_step:
  assumes b: "buffering cw (OpWrite x # ps)" and over: "0 < cwCap cw" "cwCap cw < cwWritten cw + int (length x)"
  shows "streamed cw (OpWrite x # ps) (wRun (captureOps netOps) cw (OpWrite x # ps))"
proof -
  let ?f = "flushOverflow netOps cw"
  let ?st = "endStatus cw (OpWrite x # ps)"
  have st: "?st = cw_Status cw" by (simp add: endStatus_def cw_Status_def)
  obtain h where f: "cwOverflowed ?f" "cwHeaderSent ?f" "cwBody ?f = []" "nSent (cwInner ?f) = Some (?st, h)"
      "hGet h ''Idempotency-Cached'' = ''false; reason=size''"
      "nBody (cwInner ?f) = (if bodyAllowedForStatus ?st then cwBody cw else [])"
    using flushOverflow_net [OF b] unfolding st by blast
  have "wStep (captureOps netOps) cw (OpWrite x) = wStep (captureOps netOps) ?f (OpWrite x)"
    using b over f(1) by (simp add: cw_Write_def buffering_def split: prod.splits)
  then have run: "wRun (captureOps netOps) cw (OpWrite x # ps) = wRun (captureOps netOps) ?f (OpWrite x # ps)"
    by simp
  show ?thesis
    unfolding streamed_def run using passthrough_run [OF f(1, 2, 4), of "OpWrite x # ps"] f by (auto simp: Let_def)
qed

lemma buffer_step:
  assumes b: "buffering cw (p # ps)" and one: "fits cw [p]"
  shows "\<exists>cw1. wStep (captureOps netOps) cw p = cw1 \<and> buffering cw1 ps \<and> cwCap cw1 = cwCap cw
    \<and> cwInner cw1 = cwInner cw \<and> cwBody cw1 = cwBody cw @ progBody [p] \<and> endStatus cw1 ps = endStatus cw (p # ps)"
proof (cases p)
  case (OpWriteHeader c)
  then show ?thesis using b
    by (auto simp: buffering_def cw_WriteHeader_def endStatus_def)
next
  case (OpWrite x)
  then show ?thesis using b one no_status_prog [of ps]
    by (auto simp: buffering_def fits_def cw_Write_def endStatus_def)
next
  case (OpHeader f)
  then show ?thesis using b
    by (auto simp: buffering_def cw_PutHeader_def cw_Header_def endStatus_def)
qed

lemma capture_run:
  assumes "buffering cw ps"
  shows "if fits cw ps then captured cw ps (wRun (captureOps netOps) cw ps)
         else streamed cw ps (wRun (captureOps netOps) cw ps)"
  using assms
proof (induction ps arbitrary: cw)
  case Nil
  then show ?case by (auto simp: captured_def buffering_def fits_def endStatus_def cw_Status_def)
next
  case (Cons p ps)
  show ?case
  proof (cases "fits cw [p]")
    case True
    obtain cw1 where c: "wStep (captureOps netOps) cw p = cw1" "buffering cw1 ps" "cwCap cw1 = cwCap cw"
        "cwInner cw1 = cwInner cw" "cwBody cw1 = cwBody cw @ progBody [p]" "endStatus cw1 ps = endStatus cw (p # ps)"
      using buffer_step [OF Cons.prems True] by blast
    have body: "progBody (p # ps) = progBody [p] @ progBody ps" by (cases p) simp_all
    have fit: "fits cw1 ps = fits cw (p # ps)"
      using c(2, 3, 5) Cons.prems by (auto simp: fits_def buffering_def body)
    have "captured cw1 ps x = captured cw (p # ps) x" "streamed cw1 ps x = streamed cw (p # ps) x" for x
      using c by (simp_all add: captured_def streamed_def body)
    then show ?thesis using Cons.IH [OF c(2)] c(1) by (simp add: fit split: if_splits)
  next
    case False
    then obtain x where p: "p = OpWrite x" using Cons.prems
      by (cases p) (auto simp: fits_def buffering_def)
    have "0 < cwCap cw" "cwCap cw < cwWritten cw + int (length x)" using False by (auto simp: fits_def p)
    moreover have "\<not> fits cw (p # ps)" using False by (auto simp: fits_def p)
    ultimately show ?thesis using overflow_step Cons.prems p by auto
  qed
qed

lemma acquire_buffering:
  assumes "nSent w = None" and "nBody w = []" and "list_all finalOp ps" and "statusFirst ps"
  shows "buffering (acquireCaptureWriter w cap) ps"
  using assms by (auto simp: buffering_def acquireCaptureWriter_def informational_def)

lemma FlushUnderCap_net:
  assumes "\<not> cwOverflowed cw" and "\<not> cwCommitted cw" and "nSent (cwInner cw) = None" and "nBody (cwInner cw) = []"
    and "\<not> informational (cw_Status cw)"
  shows "nSent (cwInner (FlushUnderCap netOps cw)) =
      Some (cw_Status cw, hAddAll (nHeader (cwInner cw)) (cwHeaders cw))
    \<and> nBody (cwInner (FlushUnderCap netOps cw)) = (if bodyAllowedForStatus (cw_Status cw) then cwBody cw else [])"
  using assms by (auto simp: FlushUnderCap_def netOps_def netWriteHeader_def netWrite_def Let_def)

lemma finalOp_endStatus:
  "list_all finalOp ps \<Longrightarrow> \<not> informational (statusOr200 (progStatus ps))"
proof (induction ps)
  case (Cons p ps)
  then show ?case by (cases p) auto
qed simp



text \<open>
  A status issued after body bytes is captured although it is too late: a handler that writes and
  then calls WriteHeader(500), of which the client of a direct response sees 200, is stored and sent
  with status 500 when its response fits the cap.
\<close>
theorem late_status_captured:
  assumes "nSent w = None" and "nBody w = []" and "cap \<le> 0 \<or> int (length b) \<le> cap"
  shows "(let ps = [OpWrite b, OpWriteHeader 500]; cw = wRun (captureOps netOps) (acquireCaptureWriter w cap) ps
    in netStatus (wRun netOps w ps) = Some 200
       \<and> netStatus (cwInner (FlushUnderCap netOps cw)) = Some 500
       \<and> map_option StatusCode (Snapshot allow cw) = Some 500)"
proof -
  let ?c = "wRun (captureOps netOps) (acquireCaptureWriter w cap) [OpWrite b, OpWriteHeader 500]"
  have c: "?c = (acquireCaptureWriter w cap)\<lparr>cwBody := b, cwWritten := int (length b), cwStatusCode := 500\<rparr>"
    using assms(3) by (auto simp: cw_Write_def cw_WriteHeader_def acquireCaptureWriter_def)
  have "netStatus (wRun netOps w [OpWrite b, OpWriteHeader 500]) = Some 200"
    using net_run_fresh [OF assms(1, 2), of "[OpWrite b, OpWriteHeader 500]"] by (simp add: informational_def)
  moreover have "netStatus (cwInner (FlushUnderCap netOps ?c)) = Some 500"
    unfolding c using FlushUnderCap_net
        [of "(acquireCaptureWriter w cap)\<lparr>cwBody := b, cwWritten := int (length b), cwStatusCode := 500\<rparr>"] assms(1, 2)
    by (simp add: acquireCaptureWriter_def netStatus_def cw_Status_def informational_def)
  moreover have "map_option StatusCode (Snapshot allow ?c) = Some 500"
    unfolding c by (simp add: Snapshot_def acquireCaptureWriter_def cw_Status_def)
  ultimately show ?thesis unfolding Let_def by blast
qed

theorem late_status_captured_witness:
  "netStatus (wRun netOps netFresh [OpWrite ''x'', OpWriteHeader 500]) = Some 200
   \<and> netStatus (cwInner (FlushUnderCap netOps (wRun (captureOps netOps) (acquireCaptureWriter netFresh 100)
        [OpWrite ''x'', OpWriteHeader 500]))) = Some 500"
  using late_status_captured [of netFresh 100 "''x''"] by (simp add: netFresh_def Let_def)

end
