(* ===== verification/Idempotency.thy ===== *)
theory Idempotency
  imports Context CaptureWriter Middleware ErrorBody
begin

text \<open>
  The idempotency middleware (\<^verbatim>\<open>plugins/idempotency/idempotency.go\<close>) over an arbitrary store. The store is
  a dictionary of operations on its state; the locale \<open>response_store\<close> states what the middleware
  relies on, and the memory store of \<^verbatim>\<open>store.go\<close>, with the clock it reads, satisfies it. The rest of the
  chain is a function of the store, the application's state and the request that yields the calls it
  makes on its response writer; the writer of a request's context is the one the handler is given. The blocking \<^verbatim>\<open>Wait\<close> is the subject of the step relation of theory
  \<open>IdempotencyStore\<close>; here its result is one of the store's operations. SHA-256 is an argument, with the
  empty string for the array of zeros.
\<close>

section \<open>Stores\<close>

datatype waitErr = DeadlineExceeded | Canceled | WaitFailure err

record 's storeOps =
  sGet :: "'s \<Rightarrow> string \<Rightarrow> 's \<times> (err + response option)"
  sLock :: "'s \<Rightarrow> string \<Rightarrow> 's \<times> (err + bool)"
  sUnlock :: "'s \<Rightarrow> string \<Rightarrow> 's"
  sSave :: "'s \<Rightarrow> string \<Rightarrow> response \<Rightarrow> int \<Rightarrow> 's \<times> err option"
  sWait :: "('s \<Rightarrow> string \<Rightarrow> int option \<Rightarrow> 's \<times> (waitErr + response option)) option"
    \<comment> \<open>of a \<^verbatim>\<open>WaitableStore\<close>, with the timeout of the context it waits under\<close>

section \<open>Configuration\<close>

datatype conflictBehavior = ConflictReject | ConflictWait

record call =
  icReq :: request
  icHasCtx :: bool
  icRouteTTL :: "int option" \<comment> \<open>\<^verbatim>\<open>c.RouteIdempotencyTTL()\<close>\<close>
  icRequestID :: string

type_synonym errorHandler = "call \<Rightarrow> int \<Rightarrow> string \<Rightarrow> wOp list \<times> err option"

record idemConfig =
  HeaderName :: string
  TTL :: int
  SafeMethods :: "string list option"
  RequireKey :: bool
  HashRequestBody :: bool
  MaxRequestBodyBytes :: int
  Conflict :: conflictBehavior
  WaitTimeout :: int
  CacheStatuses :: "int list option"
  CacheStatusFunc :: "(int \<Rightarrow> bool) option"
  CachedHeaders :: "string list option"
  MaxResponseBytes :: int
  Skipper :: "(call \<Rightarrow> bool) option"
  SkipPaths :: "string list"
  ErrorHandler :: "errorHandler option"

record normalized =
  headerName :: string
  ttl :: int
  safeMethods :: "string set"
  requireKey :: bool
  hashRequestBody :: bool
  maxRequestBodyBytes :: int
  conflict :: conflictBehavior
  waitTimeout :: int
  cacheStatuses :: "int set option"
  cacheNothing :: bool
  cacheStatusFunc :: "(int \<Rightarrow> bool) option"
  cachedHeaders :: "string set option"
  maxResponseBytes :: int
  skipper :: "(call \<Rightarrow> bool) option"
  skipPaths :: "string set"
  errFn :: "errorHandler option"

definition hour :: int where "hour = 60 * 60 * 1000000000"

definition defaultCachedHeaders :: "string set" where
  "defaultCachedHeaders = {''Content-Type'', ''Content-Encoding'', ''Cache-Control'', ''Location'', ''Etag''}"

definition idemDefaultConfig :: idemConfig where
  "idemDefaultConfig =
     \<lparr>HeaderName = ''Idempotency-Key'', TTL = 24 * hour, SafeMethods = None, RequireKey = False, HashRequestBody = False,
      MaxRequestBodyBytes = 2 ^ 20, Conflict = ConflictReject, WaitTimeout = 0, CacheStatuses = None, CacheStatusFunc = None,
      CachedHeaders = None, MaxResponseBytes = 4 * 2 ^ 20, Skipper = None, SkipPaths = [], ErrorHandler = None\<rparr>"

definition normalize :: "idemConfig \<Rightarrow> normalized" where
  \<comment> \<open>the store and its being waitable are the operations passed along\<close>
  "normalize cfg =
     \<lparr>headerName = (if HeaderName cfg = [] then ''Idempotency-Key'' else HeaderName cfg),
      ttl = (if TTL cfg \<le> 0 then 24 * hour else TTL cfg),
      safeMethods = (case SafeMethods cfg of None \<Rightarrow> {''GET'', ''HEAD'', ''OPTIONS''} | Some ms \<Rightarrow> set ms),
      requireKey = RequireKey cfg,
      hashRequestBody = HashRequestBody cfg,
      maxRequestBodyBytes =
        (let m = (if MaxRequestBodyBytes cfg < 0 then 0 else MaxRequestBodyBytes cfg)
         in if HashRequestBody cfg \<and> m = 0 then 2 ^ 20 else m),
      conflict = Conflict cfg,
      waitTimeout = WaitTimeout cfg,
      cacheStatuses = (case CacheStatuses cfg of None \<Rightarrow> None | Some [] \<Rightarrow> None | Some ss \<Rightarrow> Some (set ss)),
      cacheNothing = (CacheStatuses cfg = Some []),
      cacheStatusFunc = CacheStatusFunc cfg,
      cachedHeaders =
        Some (case CachedHeaders cfg of None \<Rightarrow> defaultCachedHeaders | Some hs \<Rightarrow> canonicalHeaderKey ` set hs),
      maxResponseBytes = (if MaxResponseBytes cfg \<le> 0 then 4 * 2 ^ 20 else MaxResponseBytes cfg),
      skipper = Skipper cfg,
      skipPaths = set (SkipPaths cfg),
      errFn = ErrorHandler cfg\<rparr>"

section \<open>Caching policy\<close>

definition shouldCache :: "normalized \<Rightarrow> int \<Rightarrow> bool" where
  "shouldCache n status =
     (case cacheStatusFunc n of
        Some f \<Rightarrow> f status
      | None \<Rightarrow>
          (if cacheNothing n then False
           else case cacheStatuses n of None \<Rightarrow> 200 \<le> status \<and> status < 400 | Some ss \<Rightarrow> status \<in> ss))"

definition routeTTL :: "call \<Rightarrow> int option" where
  \<comment> \<open>no override without a framework context (\<^verbatim>\<open>c == nil\<close>)\<close>
  "routeTTL q = (if icHasCtx q then icRouteTTL q else None)"

definition resolveTTL :: "normalized \<Rightarrow> call \<Rightarrow> int" where
  "resolveTTL n q = (case routeTTL q of Some d \<Rightarrow> d | None \<Rightarrow> ttl n)"

definition shouldCacheForRequest :: "normalized \<Rightarrow> call \<Rightarrow> int \<Rightarrow> bool" where
  "shouldCacheForRequest n q status = (if routeTTL q = Some 0 then False else shouldCache n status)"

definition shouldSkipNative :: "normalized \<Rightarrow> call \<Rightarrow> bool" where
  "shouldSkipNative n q =
     (if rPath (icReq q) \<in> skipPaths n then True else case skipper n of Some f \<Rightarrow> f q | None \<Rightarrow> False)"

section \<open>Request bodies\<close>

definition readAll :: "string \<Rightarrow> err option \<Rightarrow> err + string" where
  "readAll b e = (case e of None \<Rightarrow> Inr b | Some x \<Rightarrow> Inl x)"

definition readCapped :: "request \<Rightarrow> int \<Rightarrow> err + string option" where
  \<comment> \<open>\<open>Inr None\<close> is a body that is too large; a limited reader ends without error at its limit\<close>
  "readCapped r maxBytes =
     (if maxBytes \<le> 0 then map_sum id Some (readAll (rBody r) (rBodyErr r))
      else
        let limited = (if int (length (rBody r)) < maxBytes + 1 then readAll (rBody r) (rBodyErr r)
                       else Inr (take (nat (maxBytes + 1)) (rBody r)))
        in case limited of
             Inl e \<Rightarrow> Inl e
           | Inr body \<Rightarrow> (if maxBytes < int (length body) then Inr None else Inr (Some body)))"

datatype bodyResult = BodyUnread err | BodyTooLarge | BodyHashed request "string option"

definition hashBody :: "(string \<Rightarrow> string) \<Rightarrow> normalized \<Rightarrow> request \<Rightarrow> bodyResult" where
  \<comment> \<open>the request with its body put back, and the hash if hashing is on\<close>
  "hashBody sha n r =
     (if \<not> hashRequestBody n then BodyHashed r None
      else case readCapped r (maxRequestBodyBytes n) of
             Inl e \<Rightarrow> BodyUnread e
           | Inr None \<Rightarrow> BodyTooLarge
           | Inr (Some b) \<Rightarrow> BodyHashed (r\<lparr>rBody := b, rBodyErr := None\<rparr>) (Some (sha b)))"

definition payloadMismatch :: "string option \<Rightarrow> response \<Rightarrow> bool" where
  "payloadMismatch h cached =
     (case h of None \<Rightarrow> False | Some x \<Rightarrow> PayloadHash cached \<noteq> [] \<and> PayloadHash cached \<noteq> x)"

section \<open>Answers\<close>

definition PayloadMismatchErrorCode :: string where
  "PayloadMismatchErrorCode = ''idempotency_key_reused_with_different_payload''"

definition payloadMismatchMessage :: string where
  "payloadMismatchMessage = ''Idempotency-Key reused with a different request payload''"

definition codeForStatus :: "int \<Rightarrow> string" where
  "codeForStatus status =
     (if status = 400 then ''bad_request'' else if status = 409 then ''conflict''
      else if status = 422 then ''unprocessable_entity'' else if status = 500 then ''internal_error''
      else statusText status)"

definition writeError :: "'w responseWriter \<Rightarrow> int \<Rightarrow> string \<Rightarrow> string \<Rightarrow> string \<Rightarrow> 'w \<Rightarrow> 'w" where
  "writeError ops status code message rid w =
     (let w1 = rwPutHeader ops w (hSet (rwHeader ops w) ''Content-Type'' ''application/json; charset=utf-8'');
          w2 = rwWriteHeader ops w1 status
      in fst (rwWrite ops w2 (errorBody code message rid)))"

definition contextID :: "call \<Rightarrow> string" where
  "contextID q = (if icHasCtx q then icRequestID q else [])"

definition writeJSONError :: "'w responseWriter \<Rightarrow> int \<Rightarrow> string \<Rightarrow> string \<Rightarrow> 'w \<Rightarrow> 'w" where
  "writeJSONError ops status message rid w = writeError ops status (codeForStatus status) message rid w"

definition writePayloadMismatch :: "'w responseWriter \<Rightarrow> call \<Rightarrow> 'w \<Rightarrow> 'w" where
  "writePayloadMismatch ops q w = writeError ops 422 PayloadMismatchErrorCode payloadMismatchMessage (contextID q) w"

definition errNative :: "'w responseWriter \<Rightarrow> normalized \<Rightarrow> call \<Rightarrow> int \<Rightarrow> string \<Rightarrow> 'w \<Rightarrow> 'w \<times> outcome" where
  "errNative ops n q status message w =
     (case errFn n of
        Some f \<Rightarrow> (case f q status message of (prog, e) \<Rightarrow> (wRun ops w prog, Returned e))
      | None \<Rightarrow> (w, Returned (Some (NewError status (codeForStatus status) message))))"

definition errPayloadMismatchNative :: "'w responseWriter \<Rightarrow> normalized \<Rightarrow> call \<Rightarrow> 'w \<Rightarrow> 'w \<times> outcome" where
  "errPayloadMismatchNative ops n q w =
     (case errFn n of
        Some f \<Rightarrow> (case f q 422 payloadMismatchMessage of (prog, e) \<Rightarrow> (wRun ops w prog, Returned e))
      | None \<Rightarrow> (w, Returned (Some (NewError 422 PayloadMismatchErrorCode payloadMismatchMessage))))"

definition errStdlib :: "'w responseWriter \<Rightarrow> normalized \<Rightarrow> call \<Rightarrow> int \<Rightarrow> string \<Rightarrow> 'w \<Rightarrow> 'w" where
  "errStdlib ops n q status message w =
     (case (icHasCtx q, errFn n) of
        (True, Some f) \<Rightarrow>
          (case f q status message of
             (prog, None) \<Rightarrow> wRun ops w prog
           | (prog, Some _) \<Rightarrow> writeJSONError ops status message (icRequestID q) (wRun ops w prog))
      | _ \<Rightarrow> writeJSONError ops status message (contextID q) w)"

definition errPayloadMismatchStdlib :: "'w responseWriter \<Rightarrow> normalized \<Rightarrow> call \<Rightarrow> 'w \<Rightarrow> 'w" where
  "errPayloadMismatchStdlib ops n q w =
     (case (icHasCtx q, errFn n) of
        (True, Some f) \<Rightarrow>
          (case f q 422 payloadMismatchMessage of
             (prog, None) \<Rightarrow> wRun ops w prog
           | (prog, Some _) \<Rightarrow> writePayloadMismatch ops q (wRun ops w prog))
      | _ \<Rightarrow> writePayloadMismatch ops q w)"

section \<open>Replay\<close>

definition replayHeadersTo :: "normalized \<Rightarrow> header \<Rightarrow> header \<Rightarrow> header" where
  "replayHeadersTo n dst src =
     foldl (\<lambda>d (k, vs). if keepHeader (cachedHeaders n) (canonicalHeaderKey k)
                        then foldl (\<lambda>d v. hAdd d (canonicalHeaderKey k) v) d vs else d) dst src"

definition replay :: "'w responseWriter \<Rightarrow> normalized \<Rightarrow> response \<Rightarrow> 'w \<Rightarrow> 'w" where
  \<comment> \<open>\<^verbatim>\<open>replayNative\<close> and \<^verbatim>\<open>replayStdlib\<close>\<close>
  "replay ops n resp w =
     (let h = hSet (replayHeadersTo n (rwHeader ops w) (Headers resp)) ''Idempotency-Replayed'' ''true'';
          w1 = rwWriteHeader ops (rwPutHeader ops w h) (if StatusCode resp = 0 then 200 else StatusCode resp)
      in if Body resp \<noteq> [] then fst (rwWrite ops w1 (Body resp)) else w1)"

section \<open>The native handler\<close>

type_synonym ('s, 'e) rest = "'s \<Rightarrow> 'e \<Rightarrow> request \<Rightarrow> ('s \<times> 'e) \<times> wOp list \<times> outcome"
  \<comment> \<open>the rest of the chain: store and application after it, the calls on the writer, and its end\<close>

definition passOn ::
    "'w responseWriter \<Rightarrow> ('s, 'e) rest \<Rightarrow> request \<Rightarrow> 's \<Rightarrow> 'e \<Rightarrow> 'w \<Rightarrow> ('s \<times> 'e \<times> 'w) \<times> outcome" where
  "passOn ops nxt r s e w = (case nxt s e r of ((s', e'), prog, out) \<Rightarrow> ((s', e', wRun ops w prog), out))"

definition finishCapture ::
    "'w responseWriter \<Rightarrow> 's storeOps \<Rightarrow> normalized \<Rightarrow> call \<Rightarrow> string option \<Rightarrow> string \<Rightarrow> 's \<Rightarrow> 'w captureWriter \<Rightarrow> 's \<times> 'w" where
  \<comment> \<open>after the handler: a failing \<^verbatim>\<open>Save\<close> is ignored, and a response that overflowed has no snapshot\<close>
  "finishCapture ops st n q h key s cw =
     (if cwOverflowed cw then (s, cwInner cw)
      else if shouldCacheForRequest n q (cw_Status cw)
      then (case Snapshot (cachedHeaders n) cw of
              None \<Rightarrow> (s, cwInner (FlushUnderCap ops cw))
            | Some snap \<Rightarrow>
                let snap' = (case h of Some x \<Rightarrow> snap\<lparr>PayloadHash := x\<rparr> | None \<Rightarrow> snap)
                in (fst (sSave st s key snap' (resolveTTL n q)), cwInner (FlushUnderCap ops cw)))
      else (s, cwInner (FlushUnderCap ops cw)))"

definition firstRequest ::
    "'w responseWriter \<Rightarrow> 's storeOps \<Rightarrow> normalized \<Rightarrow> ('s, 'e) rest \<Rightarrow> call \<Rightarrow> string option \<Rightarrow> string
     \<Rightarrow> 's \<Rightarrow> 'e \<Rightarrow> 'w \<Rightarrow> ('s \<times> 'e \<times> 'w) \<times> outcome" where
  \<comment> \<open>under the lock, with the deferred \<^verbatim>\<open>Unlock\<close>, also of a panic\<close>
  "firstRequest ops st n nxt q h key s e w =
     (case nxt s e (icReq q) of
        ((s1, e1), prog, out) \<Rightarrow>
          let cw = wRun (captureOps ops) (acquireCaptureWriter w (maxResponseBytes n)) prog
          in case out of
               Panicked \<Rightarrow> ((sUnlock st s1 key, e1, cwInner cw), Panicked)
             | Returned herr \<Rightarrow>
                 (case finishCapture ops st n q h key s1 cw of
                    (s2, w2) \<Rightarrow> ((sUnlock st s2 key, e1, w2), Returned herr)))"

definition waitContext :: "normalized \<Rightarrow> int option" where
  \<comment> \<open>the timeout added to the request's context\<close>
  "waitContext n = (if 0 < waitTimeout n then Some (waitTimeout n) else None)"

definition inFlight :: string where "inFlight = ''idempotency: concurrent request in flight''"

definition handleConflictNative ::
    "'w responseWriter \<Rightarrow> 's storeOps \<Rightarrow> normalized \<Rightarrow> call \<Rightarrow> string option \<Rightarrow> string \<Rightarrow> 's \<Rightarrow> 'w \<Rightarrow> ('s \<times> 'w) \<times> outcome" where
  "handleConflictNative ops st n q h key s w =
     (let answer = (\<lambda>s (w', out). ((s, w'), out))
      in case (conflict n, sWait st) of
           (ConflictWait, Some wait) \<Rightarrow>
             (case wait s key (waitContext n) of
                (s', Inl (WaitFailure x)) \<Rightarrow>
                  ((s', w), Returned (Some (WithDetail (ErrInternal (Some x)) ''idempotency: store Wait failed'')))
              | (s', Inl _) \<Rightarrow> answer s' (errNative ops n q 409 inFlight w)
              | (s', Inr None) \<Rightarrow> answer s' (errNative ops n q 409 inFlight w)
              | (s', Inr (Some resp)) \<Rightarrow>
                  (if payloadMismatch h resp then answer s' (errPayloadMismatchNative ops n q w)
                   else ((s', replay ops n resp w), Returned None)))
         | _ \<Rightarrow> answer s (errNative ops n q 409 inFlight w))"

definition keyedNative ::
    "'w responseWriter \<Rightarrow> 's storeOps \<Rightarrow> normalized \<Rightarrow> ('s, 'e) rest \<Rightarrow> call \<Rightarrow> string option \<Rightarrow> string
     \<Rightarrow> 's \<Rightarrow> 'e \<Rightarrow> 'w \<Rightarrow> ('s \<times> 'e \<times> 'w) \<times> outcome" where
  \<comment> \<open>from the cache lookup on\<close>
  "keyedNative ops st n nxt q h key s e w =
     (case sGet st s key of
        (s1, Inl x) \<Rightarrow>
          ((s1, e, w), Returned (Some (WithDetail (ErrInternal (Some x)) ''idempotency: store Get failed'')))
      | (s1, Inr (Some cached)) \<Rightarrow>
          (if payloadMismatch h cached
           then (case errPayloadMismatchNative ops n q w of (w', out) \<Rightarrow> ((s1, e, w'), out))
           else ((s1, e, replay ops n cached w), Returned None))
      | (s1, Inr None) \<Rightarrow>
          (case sLock st s1 key of
             (s2, Inl x) \<Rightarrow>
               ((s2, e, w), Returned (Some (WithDetail (ErrInternal (Some x)) ''idempotency: store Lock failed'')))
           | (s2, Inr False) \<Rightarrow>
               (case handleConflictNative ops st n q h key s2 w of ((s3, w'), out) \<Rightarrow> ((s3, e, w'), out))
           | (s2, Inr True) \<Rightarrow> firstRequest ops st n nxt q h key s2 e w))"

definition handleNative ::
    "'w responseWriter \<Rightarrow> 's storeOps \<Rightarrow> (string \<Rightarrow> string) \<Rightarrow> normalized \<Rightarrow> ('s, 'e) rest \<Rightarrow> call
     \<Rightarrow> 's \<Rightarrow> 'e \<Rightarrow> 'w \<Rightarrow> ('s \<times> 'e \<times> 'w) \<times> outcome" where
  "handleNative ops st sha n nxt q s e w =
     (if shouldSkipNative n q then passOn ops nxt (icReq q) s e w
      else if rMethod (icReq q) \<in> safeMethods n then passOn ops nxt (icReq q) s e w
      else
        let key = hGet (rHeader (icReq q)) (headerName n)
        in if key = []
           then (if requireKey n
                 then (case errNative ops n q 400 (''missing '' @ headerName n @ '' header'') w of (w', out) \<Rightarrow> ((s, e, w'), out))
                 else passOn ops nxt (icReq q) s e w)
           else case hashBody sha n (icReq q) of
                  BodyUnread x \<Rightarrow>
                    ((s, e, w), Returned (Some (WithInternal (ErrBadRequest ''failed to read request body'') (Some x))))
                | BodyTooLarge \<Rightarrow>
                    ((s, e, w), Returned (Some (ErrPayloadTooLarge ''request body exceeds idempotency hash cap'')))
                | BodyHashed r h \<Rightarrow> keyedNative ops st n nxt (q\<lparr>icReq := r\<rparr>) h key s e w)"

section \<open>The handler for the standard library\<close>

definition handleConflictStdlib ::
    "'w responseWriter \<Rightarrow> 's storeOps \<Rightarrow> normalized \<Rightarrow> call \<Rightarrow> string option \<Rightarrow> string \<Rightarrow> 's \<Rightarrow> 'w \<Rightarrow> 's \<times> 'w" where
  "handleConflictStdlib ops st n q h key s w =
     (case (conflict n, sWait st) of
        (ConflictWait, Some wait) \<Rightarrow>
          (case wait s key (waitContext n) of
             (s', Inl (WaitFailure x)) \<Rightarrow> (s', errStdlib ops n q 500 ''idempotency: store Wait failed'' w)
           | (s', Inl _) \<Rightarrow> (s', errStdlib ops n q 409 inFlight w)
           | (s', Inr None) \<Rightarrow> (s', errStdlib ops n q 409 inFlight w)
           | (s', Inr (Some resp)) \<Rightarrow>
               (s', if payloadMismatch h resp then errPayloadMismatchStdlib ops n q w else replay ops n resp w))
      | _ \<Rightarrow> (s, errStdlib ops n q 409 inFlight w))"

definition panickedOf :: "'a \<times> outcome \<Rightarrow> 'a \<times> bool" where
  \<comment> \<open>a handler of the standard library has no error to return\<close>
  "panickedOf x = (fst x, snd x = Panicked)"

definition keyedStdlib ::
    "'w responseWriter \<Rightarrow> 's storeOps \<Rightarrow> normalized \<Rightarrow> ('s, 'e) rest \<Rightarrow> call \<Rightarrow> string option \<Rightarrow> string
     \<Rightarrow> 's \<Rightarrow> 'e \<Rightarrow> 'w \<Rightarrow> ('s \<times> 'e \<times> 'w) \<times> bool" where
  "keyedStdlib ops st n nxt q h key s e w =
     (case sGet st s key of
        (s1, Inl x) \<Rightarrow> ((s1, e, errStdlib ops n q 500 ''idempotency: store Get failed'' w), False)
      | (s1, Inr (Some cached)) \<Rightarrow>
          ((s1, e, if payloadMismatch h cached then errPayloadMismatchStdlib ops n q w else replay ops n cached w), False)
      | (s1, Inr None) \<Rightarrow>
          (case sLock st s1 key of
             (s2, Inl x) \<Rightarrow> ((s2, e, errStdlib ops n q 500 ''idempotency: store Lock failed'' w), False)
           | (s2, Inr False) \<Rightarrow>
               (case handleConflictStdlib ops st n q h key s2 w of (s3, w') \<Rightarrow> ((s3, e, w'), False))
           | (s2, Inr True) \<Rightarrow> panickedOf (firstRequest ops st n nxt q h key s2 e w)))"

definition handleStdlib ::
    "'w responseWriter \<Rightarrow> 's storeOps \<Rightarrow> (string \<Rightarrow> string) \<Rightarrow> normalized \<Rightarrow> ('s, 'e) rest \<Rightarrow> call
     \<Rightarrow> 's \<Rightarrow> 'e \<Rightarrow> 'w \<Rightarrow> ('s \<times> 'e \<times> 'w) \<times> bool" where
  "handleStdlib ops st sha n nxt q s e w =
     (if icHasCtx q \<and> shouldSkipNative n q then panickedOf (passOn ops nxt (icReq q) s e w)
      else if \<not> icHasCtx q \<and> rPath (icReq q) \<in> skipPaths n then panickedOf (passOn ops nxt (icReq q) s e w)
      else if rMethod (icReq q) \<in> safeMethods n then panickedOf (passOn ops nxt (icReq q) s e w)
      else
        let key = hGet (rHeader (icReq q)) (headerName n)
        in if key = []
           then (if requireKey n
                 then ((s, e, errStdlib ops n q 400 (''missing '' @ headerName n @ '' header'') w), False)
                 else panickedOf (passOn ops nxt (icReq q) s e w))
           else case hashBody sha n (icReq q) of
                  BodyUnread x \<Rightarrow> ((s, e, errStdlib ops n q 400 ''failed to read request body'' w), False)
                | BodyTooLarge \<Rightarrow> ((s, e, errStdlib ops n q 413 ''request body exceeds idempotency hash cap'' w), False)
                | BodyHashed r h \<Rightarrow> keyedStdlib ops st n nxt (q\<lparr>icReq := r\<rparr>) h key s e w)"

section \<open>What the middleware relies on\<close>

locale response_store =
  fixes st :: "'s storeOps"
    and free :: "'s \<Rightarrow> string \<Rightarrow> bool" \<comment> \<open>no response and no holder\<close>
    and held :: "'s \<Rightarrow> string \<Rightarrow> bool" \<comment> \<open>locked, nothing saved\<close>
    and saved :: "'s \<Rightarrow> string \<Rightarrow> response \<Rightarrow> int \<Rightarrow> bool" \<comment> \<open>until a deadline\<close>
    and now :: "'s \<Rightarrow> int"
  assumes get_free: "free s k \<Longrightarrow> \<exists>s'. sGet st s k = (s', Inr None) \<and> free s' k"
    and get_held: "held s k \<Longrightarrow> \<exists>s'. sGet st s k = (s', Inr None) \<and> held s' k"
    and get_saved: "saved s k r t \<Longrightarrow> now s \<le> t \<Longrightarrow> \<exists>s'. sGet st s k = (s', Inr (Some r)) \<and> saved s' k r t"
    and lock_free: "free s k \<Longrightarrow> \<exists>s'. sLock st s k = (s', Inr True) \<and> held s' k"
    and lock_held: "held s k \<Longrightarrow> \<exists>s'. sLock st s k = (s', Inr False) \<and> held s' k"
    and save_held: "held s k \<Longrightarrow> 0 < d \<Longrightarrow> saved (fst (sSave st s k r d)) k r (now s + d)"
    and unlock_held: "held s k \<Longrightarrow> free (sUnlock st s k) k"
    and unlock_saved: "saved s k r t \<Longrightarrow> saved (sUnlock st s k) k r t"
    and save_now: "now (fst (sSave st s k r d)) = now s"
    and unlock_now: "now (sUnlock st s k) = now s"

definition keyed :: "normalized \<Rightarrow> call \<Rightarrow> string \<Rightarrow> bool" where
  \<comment> \<open>a request the middleware takes on, with its key\<close>
  "keyed n q k \<longleftrightarrow>
     \<not> shouldSkipNative n q \<and> rMethod (icReq q) \<notin> safeMethods n
     \<and> hGet (rHeader (icReq q)) (headerName n) = k \<and> k \<noteq> []"

lemma handleNative_keyed:
  assumes "keyed n q k" and "hashBody sha n (icReq q) = BodyHashed r h"
  shows "handleNative ops st sha n nxt q s e w = keyedNative ops st n nxt (q\<lparr>icReq := r\<rparr>) h k s e w"
  using assms by (auto simp: handleNative_def keyed_def Let_def)

context response_store
begin

definition lockedBy :: "'s \<Rightarrow> string \<Rightarrow> 's" where
  "lockedBy s k = fst (sLock st (fst (sGet st s k)) k)"

lemma free_runs:
  assumes "free s k"
  shows "keyedNative ops st n nxt q h k s e w = firstRequest ops st n nxt q h k (lockedBy s k) e w \<and> held (lockedBy s k) k"
proof -
  obtain s1 where g: "sGet st s k = (s1, Inr None)" "free s1 k" using get_free [OF assms] by blast
  obtain s2 where "sLock st s1 k = (s2, Inr True)" "held s2 k" using lock_free [OF g(2)] by blast
  with g show ?thesis by (simp add: keyedNative_def lockedBy_def)
qed

lemma held_conflicts:
  assumes "held s k"
  shows "\<exists>s'. held s' k \<and> keyedNative ops st n nxt q h k s e w =
    (case handleConflictNative ops st n q h k s' w of ((s3, w'), out) \<Rightarrow> ((s3, e, w'), out))"
proof -
  obtain s1 where g: "sGet st s k = (s1, Inr None)" "held s1 k" using get_held [OF assms] by blast
  obtain s2 where "sLock st s1 k = (s2, Inr False)" "held s2 k" using lock_held [OF g(2)] by blast
  with g show ?thesis by (auto simp: keyedNative_def)
qed

lemma saved_answers:
  assumes "saved s k r t" and "now s \<le> t"
  shows "\<exists>s'. saved s' k r t \<and> keyedNative ops st n nxt q h k s e w =
    (if payloadMismatch h r
     then (case errPayloadMismatchNative ops n q w of (w', out) \<Rightarrow> ((s', e, w'), out))
     else ((s', e, replay ops n r w), Returned None))"
  using get_saved [OF assms] by (auto simp: keyedNative_def)

lemma first_outcome:
  assumes "held s k" and n: "nxt s e (icReq q) = ((s1, e1), prog, out)" and "held s1 k"
    and c: "cw = wRun (captureOps ops) (acquireCaptureWriter w (maxResponseBytes n)) prog"
    and "0 < resolveTTL n q"
  shows "\<exists>s2. firstRequest ops st n nxt q h k s e w =
      ((s2, e1, if out = Panicked \<or> cwOverflowed cw then cwInner cw else cwInner (FlushUnderCap ops cw)), out)
    \<and> (if out \<noteq> Panicked \<and> \<not> cwOverflowed cw \<and> shouldCacheForRequest n q (cw_Status cw)
       then saved s2 k \<lparr>StatusCode = cw_Status cw, Headers = snapshotHeaders (cachedHeaders n) (cwHeaders cw), Body = cwBody cw,
                        PayloadHash = (case h of Some x \<Rightarrow> x | None \<Rightarrow> [])\<rparr> (now s2 + resolveTTL n q)
       else free s2 k)"
proof (cases out)
  case Panicked
  then show ?thesis using assms by (simp add: firstRequest_def unlock_held)
next
  case (Returned herr)
  show ?thesis
  proof (cases "\<not> cwOverflowed cw \<and> shouldCacheForRequest n q (cw_Status cw)")
    case True
    let ?r = "\<lparr>StatusCode = cw_Status cw, Headers = snapshotHeaders (cachedHeaders n) (cwHeaders cw), Body = cwBody cw,
               PayloadHash = (case h of Some x \<Rightarrow> x | None \<Rightarrow> [])\<rparr>"
    have "finishCapture ops st n q h k s1 cw = (fst (sSave st s1 k ?r (resolveTTL n q)), cwInner (FlushUnderCap ops cw))"
      using True by (cases h) (simp_all add: finishCapture_def Snapshot_def Let_def)
    then show ?thesis using Returned True n c unlock_saved [OF save_held [OF assms(3, 5), of ?r]]
      by (simp add: firstRequest_def Let_def unlock_now save_now)
  next
    case False
    then have "finishCapture ops st n q h k s1 cw =
        (s1, if cwOverflowed cw then cwInner cw else cwInner (FlushUnderCap ops cw))"
      by (auto simp: finishCapture_def)
    then show ?thesis using Returned False n c unlock_held [OF assms(3)] by (auto simp: firstRequest_def Let_def)
  qed
qed

end

section \<open>The memory store\<close>

record timedStore =
  tsNow :: int
  tsStore :: memStore

definition memOps :: "(timedStore \<Rightarrow> string \<Rightarrow> int option \<Rightarrow> timedStore \<times> (waitErr + response option)) \<Rightarrow> timedStore storeOps" where
  \<comment> \<open>the methods of \<^verbatim>\<open>MemoryStore\<close>, none of which fails, at the time they are called\<close>
  "memOps wait =
     \<lparr>sGet = (\<lambda>s k. case memGet (tsNow s) (tsStore s) k of (m, r) \<Rightarrow> (s\<lparr>tsStore := m\<rparr>, Inr r)),
      sLock = (\<lambda>s k. case memLock (tsNow s) (tsStore s) k of (m, b) \<Rightarrow> (s\<lparr>tsStore := m\<rparr>, Inr b)),
      sUnlock = (\<lambda>s k. s\<lparr>tsStore := fst (memUnlock (tsStore s) k)\<rparr>),
      sSave = (\<lambda>s k r d. (s\<lparr>tsStore := memSave (tsNow s) (tsStore s) k r d\<rparr>, None)),
      sWait = Some wait\<rparr>"

definition memEntryOf :: "timedStore \<Rightarrow> string \<Rightarrow> memEntry option" where
  "memEntryOf s k =
     (case msEntries (tsStore s) k of
        Some p \<Rightarrow> if p < length (msHeap (tsStore s)) then Some (msHeap (tsStore s) ! p) else None
      | None \<Rightarrow> None)"

definition memFree :: "timedStore \<Rightarrow> string \<Rightarrow> bool" where
  "memFree s k \<longleftrightarrow>
     msEntries (tsStore s) k = None \<or> (\<exists>e. memEntryOf s k = Some e \<and> meExpired e (tsNow s))"

definition memHeld :: "timedStore \<Rightarrow> string \<Rightarrow> bool" where
  "memHeld s k \<longleftrightarrow> (\<exists>e. memEntryOf s k = Some e \<and> meHolder e \<and> meResp e = None \<and> meExpiry e = None)"

definition memSaved :: "timedStore \<Rightarrow> string \<Rightarrow> response \<Rightarrow> int \<Rightarrow> bool" where
  "memSaved s k r t \<longleftrightarrow> (\<exists>e. memEntryOf s k = Some e \<and> meResp e = Some r \<and> meExpiry e = Some t)"

lemmas mem_defs = memOps_def memEntryOf_def memFree_def memHeld_def memSaved_def memGet_def memLock_def memUnlock_def
  memSave_def newEntry_def heldShell_def meExpired_def

interpretation mem: response_store "memOps wait" memFree memHeld memSaved tsNow for wait
proof unfold_locales
  show "memFree s k \<Longrightarrow> \<exists>s'. sGet (memOps wait) s k = (s', Inr None) \<and> memFree s' k" for s k
    by (auto simp: mem_defs split: option.splits if_splits)
  show "memHeld s k \<Longrightarrow> \<exists>s'. sGet (memOps wait) s k = (s', Inr None) \<and> memHeld s' k" for s k
    by (auto simp: mem_defs split: option.splits if_splits)
  show "memSaved s k r t \<Longrightarrow> tsNow s \<le> t \<Longrightarrow> \<exists>s'. sGet (memOps wait) s k = (s', Inr (Some r)) \<and> memSaved s' k r t" for s k r t
    by (auto simp: mem_defs split: option.splits if_splits)
  show "memFree s k \<Longrightarrow> \<exists>s'. sLock (memOps wait) s k = (s', Inr True) \<and> memHeld s' k" for s k
    by (auto simp: mem_defs split: option.splits if_splits)
  show "memHeld s k \<Longrightarrow> \<exists>s'. sLock (memOps wait) s k = (s', Inr False) \<and> memHeld s' k" for s k
    by (auto simp: mem_defs split: option.splits if_splits)
  show "memHeld s k \<Longrightarrow> 0 < d \<Longrightarrow> memSaved (fst (sSave (memOps wait) s k r d)) k r (tsNow s + d)" for s k r d
    by (auto simp: mem_defs Let_def split: option.splits if_splits)
  show "memHeld s k \<Longrightarrow> memFree (sUnlock (memOps wait) s k) k" for s k
    by (auto simp: mem_defs Let_def split: option.splits if_splits)
  show "memSaved s k r t \<Longrightarrow> memSaved (sUnlock (memOps wait) s k) k r t" for s k r t
    by (auto simp: mem_defs Let_def split: option.splits if_splits)
  show "tsNow (fst (sSave (memOps wait) s k r d)) = tsNow s" "tsNow (sUnlock (memOps wait) s k) = tsNow s" for s k r d
    by (simp_all add: memOps_def)
qed

lemma memSaved_later: "memSaved s k r t \<Longrightarrow> memEntryOf s' k = memEntryOf s k \<Longrightarrow> memSaved s' k r t"
  by (simp add: memSaved_def)

section \<open>Retries\<close>

definition orderly :: "normalized \<Rightarrow> ('s, 'e) rest \<Rightarrow> bool" where
  \<comment> \<open>every response sets its status first, has no informational status and fits the cap\<close>
  "orderly n nxt \<longleftrightarrow>
     (\<forall>s e r. case nxt s e r of (_, prog, _) \<Rightarrow>
        list_all finalOp prog \<and> statusFirst prog \<and> int (length (progBody prog)) \<le> maxResponseBytes n)"

definition keepsLock :: "('s \<Rightarrow> string \<Rightarrow> bool) \<Rightarrow> string \<Rightarrow> ('s, 'e) rest \<Rightarrow> bool" where
  \<comment> \<open>while the handler runs, nobody else releases the key\<close>
  "keepsLock held k nxt \<longleftrightarrow> (\<forall>s e r. held s k \<longrightarrow> held (fst (fst (nxt s e r))) k)"

lemma captured_run:
  assumes "list_all finalOp prog" and "statusFirst prog" and "int (length (progBody prog)) \<le> cap"
  shows "(let cw = wRun (captureOps netOps) (acquireCaptureWriter netFresh cap) prog; out = cwInner (FlushUnderCap netOps cw)
    in \<not> cwOverflowed cw \<and> cwBody cw = progBody prog \<and> netStatus out = Some (cw_Status cw)
       \<and> cw_Status cw = statusOr200 (progStatus prog)
       \<and> nBody out = (if bodyAllowedForStatus (cw_Status cw) then progBody prog else [])
       \<and> nSent out = Some (cw_Status cw, hAddAll [] (cwHeaders cw)))"
proof -
  let ?a = "acquireCaptureWriter netFresh cap" and ?cw = "wRun (captureOps netOps) (acquireCaptureWriter netFresh cap) prog"
  have fresh: "nSent netFresh = None" "nBody netFresh = []" by (simp_all add: netFresh_def)
  have "fits ?a prog" using assms(3) by (simp add: fits_def acquireCaptureWriter_def)
  then have "captured ?a prog ?cw" using capture_run [OF acquire_buffering [OF fresh assms(1, 2)]] by simp
  then have c: "\<not> cwOverflowed ?cw" "\<not> cwCommitted ?cw" "cwInner ?cw = netFresh" "cwBody ?cw = progBody prog"
      "cw_Status ?cw = statusOr200 (progStatus prog)"
    by (simp_all add: captured_def endStatus_def acquireCaptureWriter_def)
  then show ?thesis using FlushUnderCap_net [OF c(1, 2)] fresh finalOp_endStatus [OF assms(1)]
    by (simp add: Let_def netStatus_def netFresh_def)
qed

lemma replay_net:
  assumes "\<not> informational (StatusCode r)" and "StatusCode r \<noteq> 0"
  shows "netStatus (replay netOps n r netFresh) = Some (StatusCode r)
    \<and> nBody (replay netOps n r netFresh) = (if bodyAllowedForStatus (StatusCode r) then Body r else [])
    \<and> nSent (replay netOps n r netFresh) =
        Some (StatusCode r, hSet (replayHeadersTo n [] (Headers r)) ''Idempotency-Replayed'' ''true'')"
  using assms
  by (auto simp: replay_def netOps_def netWriteHeader_def netWrite_def netStatus_def netFresh_def Let_def)

lemma resolve_request [simp]:
  "resolveTTL n (q\<lparr>icReq := r\<rparr>) = resolveTTL n q" "shouldCacheForRequest n (q\<lparr>icReq := r\<rparr>) = shouldCacheForRequest n q"
  by (simp_all add: resolveTTL_def shouldCacheForRequest_def routeTTL_def fun_eq_iff)

lemma cw_Status_nonzero [simp]: "cw_Status cw \<noteq> 0"
  by (simp add: cw_Status_def)

text \<open>What a request on a free key does, and what it leaves in the store.\<close>

lemma free_request:
  assumes k: "keyed n q k" and b: "hashBody sha n (icReq q) = BodyHashed r h" and f: "memFree s k" and o: "orderly n nxt"
    and l: "keepsLock memHeld k nxt" and d: "0 < resolveTTL n q"
  shows "\<exists>sl s1 e1 prog out s2 w2.
      memHeld sl k \<and> nxt sl e r = ((s1, e1), prog, out)
      \<and> handleNative netOps (memOps wait) sha n nxt q s e netFresh = ((s2, e1, w2), out)
      \<and> (let st = statusOr200 (progStatus prog)
         in (out \<noteq> Panicked \<longrightarrow> netStatus w2 = Some st \<and> nBody w2 = (if bodyAllowedForStatus st then progBody prog else []))
            \<and> (if out \<noteq> Panicked \<and> shouldCacheForRequest n q st
               then \<exists>hs. memSaved s2 k \<lparr>StatusCode = st, Headers = hs, Body = progBody prog,
                           PayloadHash = (case h of Some x \<Rightarrow> x | None \<Rightarrow> [])\<rparr> (tsNow s2 + resolveTTL n q)
               else memFree s2 k)
            \<and> \<not> informational st \<and> st \<noteq> 0)"
proof -
  let ?q = "q\<lparr>icReq := r\<rparr>" and ?sl = "mem.lockedBy wait s k"
  note run = mem.free_runs [OF f, where wait = wait and ops = netOps and n = n and nxt = nxt and q = ?q and h = h and e = e and w = netFresh]
  obtain s1 e1 prog out where n: "nxt ?sl e r = ((s1, e1), prog, out)" by (metis prod.exhaust)
  have held: "memHeld ?sl k" "memHeld s1 k" using run l n unfolding keepsLock_def by (blast, metis fst_conv)
  have p: "list_all finalOp prog" "statusFirst prog" "int (length (progBody prog)) \<le> maxResponseBytes n"
    using o n unfolding orderly_def by (metis (mono_tags, lifting) case_prod_conv)+
  define cw where "cw = wRun (captureOps netOps) (acquireCaptureWriter netFresh (maxResponseBytes n)) prog"
  note c = captured_run [OF p, unfolded Let_def, folded cw_def]
  have n': "nxt ?sl e (icReq ?q) = ((s1, e1), prog, out)" using n by simp
  obtain s2 where s2: "firstRequest netOps (memOps wait) n nxt ?q h k ?sl e netFresh =
        ((s2, e1, if out = Panicked then cwInner cw else cwInner (FlushUnderCap netOps cw)), out)"
      "if out \<noteq> Panicked \<and> shouldCacheForRequest n q (cw_Status cw)
       then memSaved s2 k \<lparr>StatusCode = cw_Status cw, Headers = snapshotHeaders (cachedHeaders n) (cwHeaders cw), Body = cwBody cw,
              PayloadHash = (case h of Some x \<Rightarrow> x | None \<Rightarrow> [])\<rparr> (tsNow s2 + resolveTTL n q)
       else memFree s2 k"
    using mem.first_outcome [where n = n and h = h and wait = wait and q = ?q and nxt = nxt, OF held(1) n' held(2) cw_def, unfolded resolve_request, OF d] c
    by auto
  have h: "handleNative netOps (memOps wait) sha n nxt q s e netFresh =
      ((s2, e1, if out = Panicked then cwInner cw else cwInner (FlushUnderCap netOps cw)), out)"
    unfolding handleNative_keyed [OF k b] using run s2(1) by simp
  have st: "cw_Status cw = statusOr200 (progStatus prog)" using c by simp
  show ?thesis
    using held(1) n h s2(2) c finalOp_endStatus [OF p(1)] cw_Status_nonzero [of cw]
    unfolding Let_def by (auto simp: st split: if_splits)
qed

lemma saved_request:
  assumes "memSaved s k resp t" and "tsNow s \<le> t" and "keyed n q k" and "hashBody sha n (icReq q) = BodyHashed r h"
  shows "\<exists>s'. memSaved s' k resp t \<and> handleNative netOps (memOps wait) sha n nxt q s e netFresh =
    (if payloadMismatch h resp
     then (case errPayloadMismatchNative netOps n (q\<lparr>icReq := r\<rparr>) netFresh of (w', out) \<Rightarrow> ((s', e, w'), out))
     else ((s', e, replay netOps n resp netFresh), Returned None))"
  unfolding handleNative_keyed [OF assms(3, 4)] by (rule mem.saved_answers [OF assms(1, 2)])

text \<open>A configuration that hashes bodies, a creating request and a handler that counts its runs.\<close>

definition sampleConfig :: normalized where
  "sampleConfig = normalize (idemDefaultConfig\<lparr>HashRequestBody := True\<rparr>)"

definition sampleCall :: "string \<Rightarrow> call" where
  "sampleCall b =
     \<lparr>icReq = exampleRequest\<lparr>rMethod := ''POST'', rHeader := [(''Idempotency-Key'', [''k''])], rBody := b, rBodyErr := None\<rparr>,
      icHasCtx = True, icRouteTTL = None, icRequestID = []\<rparr>"

definition sampleRest :: "(timedStore, nat) rest" where
  "sampleRest = (\<lambda>s e r. ((s, Suc e), [OpWriteHeader 201, OpWrite ''made''], Returned None))"

definition silentRest :: "err \<Rightarrow> (timedStore, nat) rest" where
  "silentRest x = (\<lambda>s e r. ((s, Suc e), [], Returned (Some x)))"

definition sampleStore :: timedStore where "sampleStore = \<lparr>tsNow = 0, tsStore = NewMemoryStore\<rparr>"

definition noWait :: "timedStore \<Rightarrow> string \<Rightarrow> int option \<Rightarrow> timedStore \<times> (waitErr + response option)" where
  "noWait s k t = (s, Inr None)"

lemma sample_keyed: "keyed sampleConfig (sampleCall b) ''k''"
proof -
  have "canonicalHeaderKey ''Idempotency-Key'' = ''Idempotency-Key''" by code_simp
  then show ?thesis
    by (simp add: keyed_def sampleConfig_def sampleCall_def normalize_def idemDefaultConfig_def shouldSkipNative_def hGet_def hValues_def)
qed

lemma sample_hash:
  "length b \<le> 1000 \<Longrightarrow> hashBody (Cons CHR ''#'') sampleConfig (icReq (sampleCall b)) = BodyHashed (icReq (sampleCall b)) (Some (CHR ''#'' # b))"
  by (simp add: hashBody_def sampleConfig_def sampleCall_def normalize_def idemDefaultConfig_def readCapped_def readAll_def Let_def)

lemma sample_policy:
  "0 < resolveTTL sampleConfig (sampleCall b)" "shouldCacheForRequest sampleConfig (sampleCall b) 201"
  "shouldCacheForRequest sampleConfig (sampleCall b) 200" "errFn sampleConfig = None" "0 \<le> maxResponseBytes sampleConfig"
  by (simp_all add: resolveTTL_def shouldCacheForRequest_def shouldCache_def routeTTL_def sampleConfig_def sampleCall_def
      normalize_def idemDefaultConfig_def hour_def)

lemma sample_rest:
  "orderly sampleConfig sampleRest" "keepsLock memHeld k sampleRest" "keepsLock memHeld k (silentRest x)" "memFree sampleStore k"
  by (simp_all add: orderly_def keepsLock_def sampleRest_def silentRest_def sampleStore_def memFree_def NewMemoryStore_def
      sampleConfig_def normalize_def idemDefaultConfig_def informational_def)

lemmas sample_facts = sample_keyed sample_policy sample_rest

lemma sample_run:
  "\<exists>s1 w1. handleNative netOps (memOps noWait) (Cons CHR ''#'') sampleConfig sampleRest (sampleCall ''a'') sampleStore 0 netFresh =
      ((s1, 1, w1), Returned None) \<and> netStatus w1 = Some 201 \<and> nBody w1 = ''made''
    \<and> (\<exists>hs. memSaved s1 ''k'' \<lparr>StatusCode = 201, Headers = hs, Body = ''made'', PayloadHash = ''#a''\<rparr>
             (tsNow s1 + resolveTTL sampleConfig (sampleCall ''a'')))"
  using free_request [OF sample_keyed sample_hash sample_rest(4) sample_rest(1, 2) sample_policy(1), of "''a''" 0 noWait]
    sample_policy(2) [of "''a''"]
  by (auto simp: Let_def sampleRest_def bodyAllowedForStatus_def)

text \<open>
  C22. A keyed request on a free key runs the rest of the chain once, while it holds the lock, and answers
  with its status and body. Afterwards the key is either taken by the saved response, when the chain
  returned with a status to be cached, or free again, so that a retry runs the handler again after a
  panic or an answer that is not cached.
\<close>
theorem first_request_runs_once:
  assumes "keyed n q k" and "hashBody sha n (icReq q) = BodyHashed r h" and "memFree s k" and "orderly n nxt"
    and "keepsLock memHeld k nxt" and "0 < resolveTTL n q"
  shows "\<exists>sl s1 e1 prog out s2 w2.
      memHeld sl k \<and> nxt sl e r = ((s1, e1), prog, out)
      \<and> handleNative netOps (memOps wait) sha n nxt q s e netFresh = ((s2, e1, w2), out)
      \<and> (let st = statusOr200 (progStatus prog)
         in (out \<noteq> Panicked \<longrightarrow> netStatus w2 = Some st \<and> nBody w2 = (if bodyAllowedForStatus st then progBody prog else []))
            \<and> (if out \<noteq> Panicked \<and> shouldCacheForRequest n q st
               then \<exists>resp. memSaved s2 k resp (tsNow s2 + resolveTTL n q) \<and> StatusCode resp = st \<and> Body resp = progBody prog
               else memFree s2 k))"
  using free_request [OF assms, of e wait] unfolding Let_def
  by (elim ex_forward conj_forward) (auto split: if_splits)

theorem first_request_runs_once_witness:
  "\<exists>s2 w2. handleNative netOps (memOps noWait) (Cons CHR ''#'') sampleConfig sampleRest (sampleCall ''a'') sampleStore 0 netFresh =
     ((s2, 1, w2), Returned None) \<and> netStatus w2 = Some 201 \<and> nBody w2 = ''made''"
  using first_request_runs_once [OF sample_keyed sample_hash sample_rest(4) sample_rest(1, 2) sample_policy(1), of "''a''" 0 noWait]
  by (auto simp: Let_def sampleRest_def bodyAllowedForStatus_def)



text \<open>
  A key that is reused for a different payload is refused: with hashing on, a request whose body has
  another hash than the saved one gets the 422 error with the documented code, before anything is
  written or run, and the saved response stays.
\<close>
theorem reused_key_refused:
  assumes "memSaved s k resp t" and "tsNow s \<le> t" and "keyed n q k"
    and "hashBody sha n (icReq q) = BodyHashed r (Some x)" and "PayloadHash resp \<noteq> []" and "PayloadHash resp \<noteq> x"
    and "errFn n = None"
  shows "\<exists>s'. handleNative netOps (memOps wait) sha n nxt q s e netFresh =
      ((s', e, netFresh), Returned (Some (NewError 422 PayloadMismatchErrorCode payloadMismatchMessage)))
    \<and> memSaved s' k resp t"
  using saved_request [OF assms(1-4), of wait nxt e] assms(5-7)
  by (auto simp: payloadMismatch_def errPayloadMismatchNative_def)

theorem reused_key_refused_witness:
  "\<exists>s1 w1 s2. handleNative netOps (memOps noWait) (Cons CHR ''#'') sampleConfig sampleRest (sampleCall ''a'') sampleStore 0 netFresh =
       ((s1, 1, w1), Returned None)
     \<and> handleNative netOps (memOps noWait) (Cons CHR ''#'') sampleConfig sampleRest (sampleCall ''b'') s1 1 netFresh =
       ((s2, 1, netFresh), Returned (Some (NewError 422 PayloadMismatchErrorCode payloadMismatchMessage)))"
proof -
  obtain s1 w1 hs where r: "handleNative netOps (memOps noWait) (Cons CHR ''#'') sampleConfig sampleRest (sampleCall ''a'')
      sampleStore 0 netFresh = ((s1, 1, w1), Returned None)"
      "memSaved s1 ''k'' \<lparr>StatusCode = 201, Headers = hs, Body = ''made'', PayloadHash = ''#a''\<rparr>
         (tsNow s1 + resolveTTL sampleConfig (sampleCall ''a''))"
    using sample_run by blast
  have h: "hashBody (Cons CHR ''#'') sampleConfig (icReq (sampleCall ''b'')) =
      BodyHashed (icReq (sampleCall ''b'')) (Some (CHR ''#'' # ''b''))"
    by (rule sample_hash) simp
  have "tsNow s1 \<le> tsNow s1 + resolveTTL sampleConfig (sampleCall ''a'')" using sample_policy by (simp add: less_imp_le)
  from reused_key_refused [OF r(2) this sample_keyed h _ _ sample_policy(4), where nxt = sampleRest and e = 1 and wait = noWait]
  show ?thesis using r(1) by auto
qed

section \<open>Errors of the chain\<close>

lemma later_status: "nSent w = Some (st, hs) \<Longrightarrow> netStatus (wRun netOps w prog) = Some st"
proof (induction prog arbitrary: w hs)
  case (Cons p ps)
  have "nSent (wStep netOps w p) = Some (st, hs)"
    using Cons.prems by (cases p) (auto simp: netOps_def netWriteHeader_def netWrite_def Let_def)
  then show ?case using Cons.IH by simp
qed (simp add: netStatus_def)

text \<open>
  C39. When the rest of the chain returns an error without having written a response, as a middleware
  that refuses a request does, the native variant sends and saves an empty 200 before the error
  handler runs: whatever the error handler writes, the client gets status 200, and a retry is answered
  with an empty 200 and no error.
\<close>
theorem chain_error_saved_as_ok:
  assumes "keyed n q k" and "hashBody sha n (icReq q) = BodyHashed r h" and "memFree s k"
    and silent: "\<forall>s e r. snd (nxt s e r) = ([], Returned (Some x))" and "keepsLock memHeld k nxt"
    and "0 < resolveTTL n q" and "0 \<le> maxResponseBytes n" and "shouldCacheForRequest n q 200"
  shows "\<exists>s1 e1 w1. handleNative netOps (memOps wait) sha n nxt q s e netFresh = ((s1, e1, w1), Returned (Some x))
    \<and> netStatus (wRun netOps w1 errorProg) = Some 200
    \<and> (\<exists>s2 w2. handleNative netOps (memOps wait) sha n nxt q s1 e1 netFresh = ((s2, e1, w2), Returned None)
         \<and> netStatus w2 = Some 200 \<and> nBody w2 = [])"
proof -
  have o: "orderly n nxt" unfolding orderly_def
  proof (intro allI)
    fix s e r
    show "case nxt s e r of (_, prog, _) \<Rightarrow>
        list_all finalOp prog \<and> statusFirst prog \<and> int (length (progBody prog)) \<le> maxResponseBytes n"
      using silent assms(7) by (cases "nxt s e r") (metis (no_types, lifting) case_prod_conv list.pred_inject(1) list.size(3)
          of_nat_0 progBody.simps(1) prod.inject snd_conv statusFirst.simps(1))
  qed
  obtain s1 e1 w1 hs where f: "handleNative netOps (memOps wait) sha n nxt q s e netFresh = ((s1, e1, w1), Returned (Some x))"
      "netStatus w1 = Some 200"
      "memSaved s1 k \<lparr>StatusCode = 200, Headers = hs, Body = [], PayloadHash = (case h of Some x \<Rightarrow> x | None \<Rightarrow> [])\<rparr>
         (tsNow s1 + resolveTTL n q)"
    using free_request [OF assms(1-3) o assms(5, 6), of e wait] silent assms(8)
    unfolding Let_def by (metis (no_types, lifting) outcome.distinct(1) progBody.simps(1) progStatus.simps(1)
        snd_conv statusOr200_simps(1) prod.inject)
  let ?resp = "\<lparr>StatusCode = 200, Headers = hs, Body = [], PayloadHash = (case h of Some x \<Rightarrow> x | None \<Rightarrow> [])\<rparr>"
  have "\<not> payloadMismatch h ?resp" by (auto simp: payloadMismatch_def split: option.splits)
  moreover have "tsNow s1 \<le> tsNow s1 + resolveTTL n q" using assms(6) by simp
  ultimately obtain s2 where "handleNative netOps (memOps wait) sha n nxt q s1 e1 netFresh =
      ((s2, e1, replay netOps n ?resp netFresh), Returned None)"
    using saved_request [OF f(3) _ assms(1, 2), of wait nxt e1] by auto
  moreover obtain hd where "nSent w1 = Some (200, hd)" using f(2) by (auto simp: netStatus_def)
  ultimately show ?thesis using f(1) later_status replay_net [of ?resp n] by auto
qed

theorem chain_error_saved_as_ok_witness:
  "\<exists>s1 w1. handleNative netOps (memOps noWait) (Cons CHR ''#'') sampleConfig (silentRest (ErrForbidden ''no'')) (sampleCall ''a'')
       sampleStore 0 netFresh = ((s1, 1, w1), Returned (Some (ErrForbidden ''no'')))
     \<and> netStatus (wRun netOps w1 [OpWriteHeader 403, OpWrite ''no'']) = Some 200"
proof -
  have h: "hashBody (Cons CHR ''#'') sampleConfig (icReq (sampleCall ''a'')) =
      BodyHashed (icReq (sampleCall ''a'')) (Some (CHR ''#'' # ''a''))"
    by (rule sample_hash) simp
  have a: "\<forall>s e r. snd (silentRest (ErrForbidden ''no'') s e r) = ([], Returned (Some (ErrForbidden ''no'')))"
    by (simp add: silentRest_def)
  from chain_error_saved_as_ok [OF sample_keyed h sample_rest(4) a sample_rest(3) sample_policy(1, 5, 3),
      where e = 0 and wait = noWait and errorProg = "[OpWriteHeader 403, OpWrite ''no'']"]
  obtain s1 e1 w1 where r: "handleNative netOps (memOps noWait) (Cons CHR ''#'') sampleConfig (silentRest (ErrForbidden ''no''))
      (sampleCall ''a'') sampleStore 0 netFresh = ((s1, e1, w1), Returned (Some (ErrForbidden ''no'')))"
      "netStatus (wRun netOps w1 [OpWriteHeader 403, OpWrite ''no'']) = Some 200"
    by blast
  moreover have "e1 = 1" using r(1)
    unfolding handleNative_keyed [OF sample_keyed h] by (auto simp: keyedNative_def firstRequest_def silentRest_def Let_def
        errPayloadMismatchNative_def handleConflictNative_def errNative_def memOps_def sampleStore_def NewMemoryStore_def
        memGet_def memLock_def newEntry_def split: prod.splits)
  ultimately show ?thesis by blast
qed

section \<open>Replayed headers\<close>

lemma of_char_upperByte:
  "(of_char (upperByte c) :: nat) = (if 97 \<le> (of_char c :: nat) \<and> (of_char c :: nat) \<le> 122 then of_char c - 32 else of_char c)"
  by (auto simp: upperByte_def mod_less)

lemma of_char_lowerByte:
  "(of_char (lowerByte c) :: nat) = (if 65 \<le> (of_char c :: nat) \<and> (of_char c :: nat) \<le> 90 then of_char c + 32 else of_char c)"
  by (auto simp: lowerByte_def mod_less)

lemma char_eq_nat: "c = d \<longleftrightarrow> (of_char c :: nat) = of_char d"
  by simp

lemma byte_case_idem [simp]:
  "upperByte (upperByte c) = upperByte c" "lowerByte (lowerByte c) = lowerByte c"
  "upperByte c = CHR ''-'' \<longleftrightarrow> c = CHR ''-''" "lowerByte c = CHR ''-'' \<longleftrightarrow> c = CHR ''-''"
proof -
  show "upperByte (upperByte c) = upperByte c" "lowerByte (lowerByte c) = lowerByte c"
    unfolding char_eq_nat [of "upperByte _"] char_eq_nat [of "lowerByte _"] of_char_upperByte of_char_lowerByte by auto
  show "upperByte c = CHR ''-'' \<longleftrightarrow> c = CHR ''-''" "lowerByte c = CHR ''-'' \<longleftrightarrow> c = CHR ''-''"
    unfolding char_eq_nat [of _ "CHR ''-''"] of_char_upperByte of_char_lowerByte by auto
qed

lemma canonBytes_idem: "canonBytes up (canonBytes up k) = canonBytes up k"
  by (induction k arbitrary: up) auto

lemma canonicalHeaderKey_idem [simp]: "canonicalHeaderKey (canonicalHeaderKey k) = canonicalHeaderKey k"
  using canonBytes_idem by (simp add: canonicalHeaderKey_def)

lemma hValues_add_other:
  "canonicalHeaderKey k \<noteq> canonicalHeaderKey c \<Longrightarrow> hValues (foldl (\<lambda>d v. hAdd d k v) d vs) c = hValues d c"
  by (induction vs arbitrary: d) (auto simp: hValues_def hAdd_def update_conv)

lemma replay_dropped:
  "\<not> keepHeader (cachedHeaders n) (canonicalHeaderKey c) \<Longrightarrow> hValues (replayHeadersTo n dst src) c = hValues dst c"
proof (induction src arbitrary: dst)
  case (Cons kv src)
  obtain k vs where kv: "kv = (k, vs)" by (cases kv)
  have "canonicalHeaderKey k \<noteq> canonicalHeaderKey c" if "keepHeader (cachedHeaders n) (canonicalHeaderKey k)"
    using that Cons.prems by metis
  then show ?case using Cons hValues_add_other [of "canonicalHeaderKey k" c]
    by (simp add: replayHeadersTo_def kv)
qed (simp add: replayHeadersTo_def)

lemma snapshot_dropped:
  "\<not> keepHeader allow c \<Longrightarrow> map_of acc c = None \<Longrightarrow>
   map_of (foldl (\<lambda>acc (k, vs). if keepHeader allow (canonicalHeaderKey k)
                          then AList.update (canonicalHeaderKey k) vs acc else acc) acc h) c = None"
proof (induction h arbitrary: acc)
  case (Cons kv h)
  obtain k vs where kv: "kv = (k, vs)" by (cases kv)
  have "map_of (AList.update (canonicalHeaderKey k) vs acc) c = None" if "keepHeader allow (canonicalHeaderKey k)"
    using that Cons.prems by (cases "canonicalHeaderKey k = c") (simp_all add: update_conv)
  then show ?case using Cons by (simp add: kv)
qed simp



section \<open>The two variants\<close>

lemma conflict_variants:
  assumes "icHasCtx q" and "errFn n = None" and "handleConflictNative ops st n q h k s w = (x, Returned None)"
  shows "handleConflictStdlib ops st n q h k s w = x"
  using assms
  by (auto simp: handleConflictNative_def handleConflictStdlib_def errNative_def errPayloadMismatchNative_def Let_def
      split: conflictBehavior.splits option.splits prod.splits sum.splits waitErr.splits if_splits)

lemma conflict_no_panic: "errFn n = None \<Longrightarrow> snd (handleConflictNative ops st n q h k s w) \<noteq> Panicked"
  by (auto simp: handleConflictNative_def errNative_def errPayloadMismatchNative_def Let_def
      split: conflictBehavior.splits option.splits prod.splits sum.splits waitErr.splits if_splits)

lemma keyed_variants:
  assumes "icHasCtx q" and "errFn n = None" and "keyedNative ops st n nxt q h k s e w = (x, out)"
    and "out = Returned None \<or> out = Panicked"
  shows "keyedStdlib ops st n nxt q h k s e w = (x, out = Panicked)"
proof -
  obtain s1 g where g: "sGet st s k = (s1, g)" by fastforce
  obtain s2 l where l: "sLock st s1 k = (s2, l)" by fastforce
  obtain s3 w3 o3 where c: "handleConflictNative ops st n q h k s2 w = ((s3, w3), o3)" by (metis prod.exhaust)
  have p: "o3 \<noteq> Panicked" using conflict_no_panic [OF assms(2), of ops st q h k s2 w] c by simp
  have s: "o3 = Returned None \<Longrightarrow> handleConflictStdlib ops st n q h k s2 w = (s3, w3)"
    using conflict_variants [OF assms(1, 2), of ops st h k s2 w] c by simp
  show ?thesis
    using assms g l c p s
    by (auto simp: keyedNative_def keyedStdlib_def panickedOf_def errPayloadMismatchNative_def
        split: option.splits sum.splits if_splits bool.splits)
qed



end
