(* ===== verification/ViewerPage.thy ===== *)
theory ViewerPage
  imports Routes
begin

text \<open>
  The pages of the API viewers (\<^verbatim>\<open>plugins/openapi-ui/openapi_ui.go\<close>): the configuration and its
  defaults, the two HTML templates with the escaped values put in, and the routes that serve them.
  A reader of the markup these pages use (tags, quoted attributes, text, character references) says
  what a browser gets: the same elements whatever the configured values are, with the values
  themselves in their attributes.
\<close>

section \<open>Replacers\<close>

function replaceAll :: "(string \<times> string) list \<Rightarrow> string \<Rightarrow> string" where
  \<comment> \<open>\<^verbatim>\<open>strings.NewReplacer(...).Replace\<close>: at each position the first pair, in argument order, whose
     old string occurs there; what was put in is not looked at again\<close>
  "replaceAll ps [] = []"
| "replaceAll ps (c # cs) =
     (case find (\<lambda>q. hasPrefix (c # cs) (fst q)) ps of
        Some q \<Rightarrow> snd q @ replaceAll ps (drop (length (fst q) - 1) cs)
      | None \<Rightarrow> c # replaceAll ps cs)"
  by pat_completeness auto
termination by (relation "measure (length \<circ> snd)") auto

definition escapes :: "(string \<times> string) list" where
  "escapes = [(''&'', ''&amp;''), (''<'', ''&lt;''), (''>'', ''&gt;''), ([CHR 0x22], ''&quot;''), ([CHR 0x27], ''&#39;'')]"

definition htmlEscape :: "string \<Rightarrow> string" where
  "htmlEscape s = replaceAll escapes s"

section \<open>Pages\<close>

definition nl :: string where "nl = [CHR 0x0A]"
definition dq :: "string \<Rightarrow> string" where "dq s = CHR 0x22 # s @ [CHR 0x22]"

definition swaggerTemplate :: string where
  "swaggerTemplate =
     ''<!DOCTYPE html>'' @ nl @
     ''<html lang='' @ dq ''en'' @ ''>'' @ nl @
     ''<head>'' @ nl @
     ''  <meta charset='' @ dq ''UTF-8'' @ ''>'' @ nl @
     ''  <title>__TITLE__</title>'' @ nl @
     ''  <link rel='' @ dq ''stylesheet'' @ '' type='' @ dq ''text/css'' @ '' href='' @ dq ''__BASE__/swagger-ui.css'' @ ''>'' @ nl @
     ''</head>'' @ nl @
     ''<body>'' @ nl @
     ''  <div id='' @ dq ''swagger-ui'' @ ''></div>'' @ nl @
     ''  <script src='' @ dq ''__BASE__/swagger-ui-bundle.js'' @ '' charset='' @ dq ''UTF-8'' @ ''></script>'' @ nl @
     ''  <script src='' @ dq ''__BASE__/swagger-initializer.js'' @ '' data-spec-url='' @ dq ''__SPEC__'' @ '' charset='' @ dq ''UTF-8'' @ ''></script>'' @ nl @
     ''</body>'' @ nl @
     ''</html>'' @ nl"

definition redocTemplate :: string where
  "redocTemplate =
     ''<!DOCTYPE html>'' @ nl @
     ''<html lang='' @ dq ''en'' @ ''>'' @ nl @
     ''<head>'' @ nl @
     ''  <meta charset='' @ dq ''UTF-8'' @ ''>'' @ nl @
     ''  <title>__TITLE__</title>'' @ nl @
     ''  <meta name='' @ dq ''viewport'' @ '' content='' @ dq ''width=device-width, initial-scale=1'' @ ''>'' @ nl @
     ''</head>'' @ nl @
     ''<body style='' @ dq ''margin:0'' @ ''>'' @ nl @
     ''  <redoc spec-url='' @ dq ''__SPEC__'' @ ''></redoc>'' @ nl @
     ''  <script src='' @ dq ''__BASE__/redoc.standalone.js'' @ '' charset='' @ dq ''UTF-8'' @ ''></script>'' @ nl @
     ''</body>'' @ nl @
     ''</html>'' @ nl"

definition swaggerHTML :: "string \<Rightarrow> string \<Rightarrow> string \<Rightarrow> string" where
  "swaggerHTML specURL title staticBase =
     replaceAll [(''__TITLE__'', htmlEscape title), (''__BASE__'', htmlEscape staticBase), (''__SPEC__'', htmlEscape specURL)]
       swaggerTemplate"

definition redocHTML :: "string \<Rightarrow> string \<Rightarrow> string \<Rightarrow> string" where
  "redocHTML specURL title staticBase =
     replaceAll [(''__TITLE__'', htmlEscape title), (''__BASE__'', htmlEscape staticBase), (''__SPEC__'', htmlEscape specURL)]
       redocTemplate"

section \<open>Configuration and mounting\<close>

record viewerConfig =
  SpecURL :: string
  Title :: string
  SwaggerPath :: string
  ReDocPath :: string

definition SkipMount :: string where "SkipMount = ''-''"

definition applyDefaults :: "viewerConfig \<Rightarrow> viewerConfig" where
  "applyDefaults cfg =
     \<lparr>SpecURL = (if SpecURL cfg = [] then ''/openapi.json'' else SpecURL cfg),
      Title = (if Title cfg = [] then ''API Docs'' else Title cfg),
      SwaggerPath = (if SwaggerPath cfg = [] then ''/docs'' else SwaggerPath cfg),
      ReDocPath = (if ReDocPath cfg = [] then ''/redoc'' else ReDocPath cfg)\<rparr>"

record 's viewerServices =
  vsPage :: "string \<Rightarrow> 's handlerFunc" \<comment> \<open>sets the HTML content type and writes the body\<close>
  vsSwaggerFiles :: "'s httpHandler" \<comment> \<open>the file server of the embedded directory\<close>
  vsRedocFiles :: "'s httpHandler"
  vsSetPath :: "'s \<Rightarrow> string \<Rightarrow> 's"
  vsNotFound :: "'s \<Rightarrow> 's"
  vsLabel :: "'s middleware \<Rightarrow> string"

definition swaggerPageHandler :: "'s viewerServices \<Rightarrow> viewerConfig \<Rightarrow> 's handlerArg" where
  "swaggerPageHandler vs cfg =
     HHandlerFunc (vsPage vs (swaggerHTML (SpecURL cfg) (Title cfg) (SwaggerPath cfg @ ''/static''))) False"

definition redocPageHandler :: "'s viewerServices \<Rightarrow> viewerConfig \<Rightarrow> 's handlerArg" where
  "redocPageHandler vs cfg =
     HHandlerFunc (vsPage vs (redocHTML (SpecURL cfg) (Title cfg) (ReDocPath cfg @ ''/static''))) False"

definition mountViewer ::
  "'s viewerServices \<Rightarrow> 's appEnv \<Rightarrow> string \<Rightarrow> 's handlerArg \<Rightarrow> 's httpHandler \<Rightarrow> 's app \<Rightarrow> 's app go" where
  \<comment> \<open>the body of one \<^verbatim>\<open>if\<close> of \<^verbatim>\<open>Mount\<close>\<close>
  "mountViewer vs env path page files a =
     (if path = SkipMount then ret a
      else go_bind (appGet env (vsLabel vs) a path page []) (\<lambda>a1.
           appMount (vsSetPath vs) (vsNotFound vs) env a1 (path @ ''/static/'') files))"

definition viewerMount :: "'s viewerServices \<Rightarrow> 's appEnv \<Rightarrow> 's app option \<Rightarrow> viewerConfig \<Rightarrow> (string + 's app) go" where
  \<comment> \<open>\<^verbatim>\<open>Mount\<close>; \<open>None\<close> is the nil application, and the left of the result its error\<close>
  "viewerMount vs env app cfg0 =
     (case app of
        None \<Rightarrow> ret (Inl ''openapi-ui: app is nil'')
      | Some a \<Rightarrow>
          (let cfg = applyDefaults cfg0
           in go_bind (mountViewer vs env (SwaggerPath cfg) (swaggerPageHandler vs cfg) (vsSwaggerFiles vs) a) (\<lambda>a1.
              go_bind (mountViewer vs env (ReDocPath cfg) (redocPageHandler vs cfg) (vsRedocFiles vs) a1) (\<lambda>a2.
              ret (Inr a2)))))"

section \<open>Reading the markup\<close>

datatype token = Tag string "(string \<times> string) list" | Chars string

datatype reading =
  HText string "token list"
| HTag string "token list"
| HIn string "(string \<times> string) list" "token list"
| HAttr string "(string \<times> string) list" string "token list"
| HEq string "(string \<times> string) list" string "token list"
| HVal char string "(string \<times> string) list" string string "token list"
| HBare string "(string \<times> string) list" string string "token list"

definition references :: "(string \<times> string) list" where
  "references = [(''&amp;'', ''&''), (''&lt;'', ''<''), (''&gt;'', ''>''), (''&quot;'', [CHR 0x22]), (''&#39;'', [CHR 0x27])]"

definition htmlUnescape :: "string \<Rightarrow> string" where
  \<comment> \<open>character references, of which the pages contain these five\<close>
  "htmlUnescape s = replaceAll references s"

definition addText :: "string \<Rightarrow> token list \<Rightarrow> token list" where
  \<comment> \<open>text between tags; blank text makes no token\<close>
  "addText w ts = (if list_all (\<lambda>c. c \<in> set '' '' \<or> c = CHR 0x0A) w then ts else ts @ [Chars (htmlUnescape w)])"

fun htmlStep :: "reading \<Rightarrow> char \<Rightarrow> reading" where
  "htmlStep (HText w ts) c = (if c = CHR ''<'' then HTag [] (addText w ts) else HText (w @ [c]) ts)"
| "htmlStep (HTag n ts) c =
     (if c = CHR ''>'' then HText [] (ts @ [Tag n []])
      else if c = CHR '' '' \<or> c = CHR 0x0A then HIn n [] ts
      else HTag (n @ [c]) ts)"
| "htmlStep (HIn n as ts) c =
     (if c = CHR ''>'' then HText [] (ts @ [Tag n as])
      else if c = CHR '' '' \<or> c = CHR 0x0A then HIn n as ts
      else HAttr n as [c] ts)"
| "htmlStep (HAttr n as a ts) c =
     (if c = CHR ''>'' then HText [] (ts @ [Tag n (as @ [(a, [])])])
      else if c = CHR '' '' \<or> c = CHR 0x0A then HIn n (as @ [(a, [])]) ts
      else if c = CHR ''='' then HEq n as a ts
      else HAttr n as (a @ [c]) ts)"
| "htmlStep (HEq n as a ts) c =
     (if c = CHR 0x22 \<or> c = CHR 0x27 then HVal c n as a [] ts
      else if c = CHR ''>'' then HText [] (ts @ [Tag n (as @ [(a, [])])])
      else HBare n as a [c] ts)"
| "htmlStep (HVal q n as a v ts) c =
     (if c = q then HIn n (as @ [(a, htmlUnescape v)]) ts else HVal q n as a (v @ [c]) ts)"
| "htmlStep (HBare n as a v ts) c =
     (if c = CHR ''>'' then HText [] (ts @ [Tag n (as @ [(a, htmlUnescape v)])])
      else if c = CHR '' '' \<or> c = CHR 0x0A then HIn n (as @ [(a, htmlUnescape v)]) ts
      else HBare n as a (v @ [c]) ts)"

definition htmlRun :: "reading \<Rightarrow> string \<Rightarrow> reading" where
  "htmlRun r s = foldl htmlStep r s"

definition htmlTokens :: "string \<Rightarrow> token list" where
  "htmlTokens s = (case htmlRun (HText [] []) s of HText w ts \<Rightarrow> addText w ts | _ \<Rightarrow> [])"

section \<open>Escaping and reading back\<close>

definition escapeChar :: "char \<Rightarrow> string" where
  "escapeChar c =
     (if c = CHR ''&'' then ''&amp;'' else if c = CHR ''<'' then ''&lt;'' else if c = CHR ''>'' then ''&gt;''
      else if c = CHR 0x22 then ''&quot;'' else if c = CHR 0x27 then ''&#39;'' else [c])"

lemma htmlEscape_simps: "htmlEscape [] = []" "htmlEscape (c # s) = escapeChar c @ htmlEscape s"
  by (auto simp: htmlEscape_def escapes_def escapeChar_def hasPrefix_def)

lemma htmlEscape_append: "htmlEscape (s @ t) = htmlEscape s @ htmlEscape t"
  by (induction s) (simp_all add: htmlEscape_simps)

lemma htmlEscape_chars: "set (htmlEscape s) \<inter> {CHR ''<'', CHR ''>'', CHR 0x22, CHR 0x27} = {}"
  by (induction s) (auto simp: htmlEscape_simps escapeChar_def)

lemma unescape_char: "htmlUnescape (escapeChar c @ t) = c # htmlUnescape t"
  by (auto simp: htmlUnescape_def references_def escapeChar_def hasPrefix_def)

lemma unescape_escape_append: "htmlUnescape (htmlEscape s @ t) = s @ htmlUnescape t"
  by (induction s) (simp_all add: htmlEscape_simps unescape_char)

lemma unescape_escape: "htmlUnescape (htmlEscape s) = s"
  using unescape_escape_append [of s "[]"] by (simp add: htmlUnescape_def)

lemma htmlRun_simps [simp]: "htmlRun r [] = r" "htmlRun r (c # s) = htmlRun (htmlStep r c) s"
  by (simp_all add: htmlRun_def)

lemma htmlRun_append: "htmlRun r (s @ t) = htmlRun (htmlRun r s) t"
  by (simp add: htmlRun_def)

lemma htmlRun_val: "q \<notin> set s \<Longrightarrow> htmlRun (HVal q n as a v ts) s = HVal q n as a (v @ s) ts"
  by (induction s arbitrary: v) auto

lemma htmlRun_text: "CHR ''<'' \<notin> set s \<Longrightarrow> htmlRun (HText w ts) s = HText (w @ s) ts"
  by (induction s arbitrary: w) auto

lemma htmlRun_escaped:
  "htmlRun (HVal (CHR 0x22) n as a v ts) (htmlEscape s) = HVal (CHR 0x22) n as a (v @ htmlEscape s) ts"
  "htmlRun (HText w ts) (htmlEscape s) = HText (w @ htmlEscape s) ts"
  using htmlEscape_chars [of s] by (auto intro: htmlRun_val htmlRun_text)

section \<open>The elements of the pages\<close>

definition marks :: "string \<Rightarrow> string \<Rightarrow> string \<Rightarrow> (string \<times> string) list" where
  "marks t b u = [(''__TITLE__'', t), (''__BASE__'', b), (''__SPEC__'', u)]"

lemma replaceAll_marks:
  "c \<noteq> CHR ''_'' \<Longrightarrow> replaceAll (marks t b u) (c # cs) = c # replaceAll (marks t b u) cs"
  "replaceAll (marks t b u) (CHR ''_'' # CHR ''_'' # CHR ''T'' # CHR ''I'' # CHR ''T'' # CHR ''L'' # CHR ''E'' # CHR ''_'' # CHR ''_'' # cs) =
     t @ replaceAll (marks t b u) cs"
  "replaceAll (marks t b u) (CHR ''_'' # CHR ''_'' # CHR ''B'' # CHR ''A'' # CHR ''S'' # CHR ''E'' # CHR ''_'' # CHR ''_'' # cs) =
     b @ replaceAll (marks t b u) cs"
  "replaceAll (marks t b u) (CHR ''_'' # CHR ''_'' # CHR ''S'' # CHR ''P'' # CHR ''E'' # CHR ''C'' # CHR ''_'' # CHR ''_'' # cs) =
     u @ replaceAll (marks t b u) cs"
  by (simp_all add: marks_def hasPrefix_def)

lemma expand_marks:
  "swaggerHTML u t b = replaceAll (marks (htmlEscape t) (htmlEscape b) (htmlEscape u)) swaggerTemplate"
  "redocHTML u t b = replaceAll (marks (htmlEscape t) (htmlEscape b) (htmlEscape u)) redocTemplate"
  by (simp_all add: swaggerHTML_def redocHTML_def marks_def)

definition blank :: "string \<Rightarrow> bool" where
  "blank w = list_all (\<lambda>c. c \<in> set '' '' \<or> c = CHR 0x0A) w"

definition textTokens :: "string \<Rightarrow> token list" where
  "textTokens w = (if blank w then [] else [Chars w])"

lemma blank_escape: "blank (htmlEscape w) \<longleftrightarrow> blank w"
  by (induction w) (auto simp: blank_def htmlEscape_simps escapeChar_def)

lemma addText_escape: "addText (htmlEscape w) ts = ts @ textTokens w"
  using blank_escape [of w] by (simp add: addText_def textTokens_def blank_def unescape_escape)

lemma htmlUnescape_simps:
  "htmlUnescape [] = []" "c \<noteq> CHR ''&'' \<Longrightarrow> htmlUnescape (c # s) = c # htmlUnescape s"
  by (simp_all add: htmlUnescape_def references_def hasPrefix_def)

lemma addText_literal: "addText [] ts = ts" "addText [CHR 0x0A] ts = ts" "addText [CHR 0x0A, CHR '' ''] ts = ts"
  "addText [CHR 0x0A, CHR '' '', CHR '' ''] ts = ts"
  by (simp_all add: addText_def)

lemmas page_rules = expand_marks replaceAll_marks htmlRun_append htmlRun_escaped addText_escape addText_literal
  unescape_escape unescape_escape_append htmlUnescape_simps htmlTokens_def nl_def dq_def

lemma swagger_tokens:
  "htmlTokens (swaggerHTML spec title base) =
     [Tag ''!DOCTYPE'' [(''html'', [])], Tag ''html'' [(''lang'', ''en'')], Tag ''head'' [],
      Tag ''meta'' [(''charset'', ''UTF-8'')], Tag ''title'' []] @ textTokens title @
     [Tag ''/title'' [],
      Tag ''link'' [(''rel'', ''stylesheet''), (''type'', ''text/css''), (''href'', base @ ''/swagger-ui.css'')],
      Tag ''/head'' [], Tag ''body'' [], Tag ''div'' [(''id'', ''swagger-ui'')], Tag ''/div'' [],
      Tag ''script'' [(''src'', base @ ''/swagger-ui-bundle.js''), (''charset'', ''UTF-8'')], Tag ''/script'' [],
      Tag ''script'' [(''src'', base @ ''/swagger-initializer.js''), (''data-spec-url'', spec), (''charset'', ''UTF-8'')],
      Tag ''/script'' [], Tag ''/body'' [], Tag ''/html'' []]"
  by (simp add: page_rules swaggerTemplate_def del: replaceAll.simps(2))

lemma redoc_tokens:
  "htmlTokens (redocHTML spec title base) =
     [Tag ''!DOCTYPE'' [(''html'', [])], Tag ''html'' [(''lang'', ''en'')], Tag ''head'' [],
      Tag ''meta'' [(''charset'', ''UTF-8'')], Tag ''title'' []] @ textTokens title @
     [Tag ''/title'' [],
      Tag ''meta'' [(''name'', ''viewport''), (''content'', ''width=device-width, initial-scale=1'')],
      Tag ''/head'' [], Tag ''body'' [(''style'', ''margin:0'')], Tag ''redoc'' [(''spec-url'', spec)], Tag ''/redoc'' [],
      Tag ''script'' [(''src'', base @ ''/redoc.standalone.js''), (''charset'', ''UTF-8'')], Tag ''/script'' [],
      Tag ''/body'' [], Tag ''/html'' []]"
  by (simp add: page_rules redocTemplate_def del: replaceAll.simps(2))

text \<open>
  C2. The viewer pages are safe against markup in the configured values: whatever the title, the
  asset path and the specification URL are, the page reads as the same fixed sequence of elements,
  each value is read back exactly, and no value adds an element or an attribute.
\<close>
theorem viewer_pages_no_injection:
  "filter (\<lambda>t. case t of Tag _ _ \<Rightarrow> True | Chars _ \<Rightarrow> False) (htmlTokens (swaggerHTML spec title base)) =
     [Tag ''!DOCTYPE'' [(''html'', [])], Tag ''html'' [(''lang'', ''en'')], Tag ''head'' [],
      Tag ''meta'' [(''charset'', ''UTF-8'')], Tag ''title'' [], Tag ''/title'' [],
      Tag ''link'' [(''rel'', ''stylesheet''), (''type'', ''text/css''), (''href'', base @ ''/swagger-ui.css'')],
      Tag ''/head'' [], Tag ''body'' [], Tag ''div'' [(''id'', ''swagger-ui'')], Tag ''/div'' [],
      Tag ''script'' [(''src'', base @ ''/swagger-ui-bundle.js''), (''charset'', ''UTF-8'')], Tag ''/script'' [],
      Tag ''script'' [(''src'', base @ ''/swagger-initializer.js''), (''data-spec-url'', spec), (''charset'', ''UTF-8'')],
      Tag ''/script'' [], Tag ''/body'' [], Tag ''/html'' []]
   \<and> filter (\<lambda>t. case t of Tag _ _ \<Rightarrow> True | Chars _ \<Rightarrow> False) (htmlTokens (redocHTML spec title base)) =
     [Tag ''!DOCTYPE'' [(''html'', [])], Tag ''html'' [(''lang'', ''en'')], Tag ''head'' [],
      Tag ''meta'' [(''charset'', ''UTF-8'')], Tag ''title'' [], Tag ''/title'' [],
      Tag ''meta'' [(''name'', ''viewport''), (''content'', ''width=device-width, initial-scale=1'')],
      Tag ''/head'' [], Tag ''body'' [(''style'', ''margin:0'')], Tag ''redoc'' [(''spec-url'', spec)], Tag ''/redoc'' [],
      Tag ''script'' [(''src'', base @ ''/redoc.standalone.js''), (''charset'', ''UTF-8'')], Tag ''/script'' [],
      Tag ''/body'' [], Tag ''/html'' []]
   \<and> filter (\<lambda>t. case t of Tag _ _ \<Rightarrow> False | Chars _ \<Rightarrow> True) (htmlTokens (swaggerHTML spec title base)) =
       (if blank title then [] else [Chars title])
   \<and> filter (\<lambda>t. case t of Tag _ _ \<Rightarrow> False | Chars _ \<Rightarrow> True) (htmlTokens (redocHTML spec title base)) =
       (if blank title then [] else [Chars title])"
  unfolding swagger_tokens redoc_tokens by (simp add: textTokens_def)

end
