(* ===== verification/Styled.thy ===== *)
theory Styled
  imports Prelude
begin

text \<open>
  The styling layer of the bundled Redoc viewer (\<^verbatim>\<open>plugins/openapi-ui/assets/redoc/redoc.standalone.js\<close>).
  A styled component is a tagged template: literal text interleaved with interpolations, which are
  values, nested styles, references to other components or functions of the component's props.
  \<open>Wo\<close> is the function that flattens a template for given props; the text it yields is what is handed
  to the stylesheet. The theory has the script values that themes and props hold, the flattening, the
  media-query helpers and the extension hook. The colour functions of the polished library are part
  of the props record, as arguments. A theme is a function from dotted paths to values.
\<close>

section \<open>Script values\<close>

datatype jsval =
  JUndef
| JNull
| JBool bool
| JNum int
| JDec string \<comment> \<open>a fractional number, by its decimal notation\<close>
| JStr string
| JObj \<comment> \<open>an object; its fields have paths of their own\<close>

fun truthy :: "jsval \<Rightarrow> bool" where
  "truthy JUndef = False"
| "truthy JNull = False"
| "truthy (JBool b) = b"
| "truthy (JNum n) = (n \<noteq> 0)"
| "truthy (JDec _) = True"
| "truthy (JStr s) = (s \<noteq> [])"
| "truthy JObj = True"

definition decimal :: "int \<Rightarrow> string" where
  "decimal n = (if n = 0 then ''0'' else if n < 0 then CHR ''-'' # itoaLoop (nat (- n)) [] else itoaLoop (nat n) [])"

fun toStr :: "jsval \<Rightarrow> string" where
  "toStr JUndef = ''undefined''"
| "toStr JNull = ''null''"
| "toStr (JBool b) = (if b then ''true'' else ''false'')"
| "toStr (JNum n) = decimal n"
| "toStr (JDec d) = d"
| "toStr (JStr s) = s"
| "toStr JObj = ''[object Object]''"

definition jsAnd :: "jsval \<Rightarrow> jsval \<Rightarrow> jsval" where "jsAnd a b = (if truthy a then b else a)"
definition jsOr :: "jsval \<Rightarrow> jsval \<Rightarrow> jsval" where "jsOr a b = (if truthy a then a else b)"

fun jsMul :: "int \<Rightarrow> jsval \<Rightarrow> jsval" where
  \<comment> \<open>product with an integer; a value that is not a number gives NaN\<close>
  "jsMul k (JNum n) = JNum (k * n)"
| "jsMul k _ = JDec ''NaN''"

fun jsGt :: "jsval \<Rightarrow> int \<Rightarrow> bool" where
  "jsGt (JNum n) k = (k < n)"
| "jsGt _ k = False"

section \<open>Props and templates\<close>

record props =
  pTheme :: "string \<Rightarrow> jsval"
  pProp :: "string \<Rightarrow> jsval"
  pHook :: "(string \<Rightarrow> jsval) option" \<comment> \<open>the theme's \<^verbatim>\<open>extensionsHook\<close>, applied to the props\<close>
  pClass :: "string \<Rightarrow> string" \<comment> \<open>the generated class of a component\<close>
  pKeyframes :: "string \<Rightarrow> string" \<comment> \<open>the generated name of an animation\<close>
  pDarken :: "jsval \<Rightarrow> jsval \<Rightarrow> string" \<comment> \<open>\<^verbatim>\<open>Ur\<close>\<close>
  pLighten :: "jsval \<Rightarrow> jsval \<Rightarrow> string" \<comment> \<open>\<^verbatim>\<open>Hr\<close>\<close>
  pTransparentize :: "jsval \<Rightarrow> jsval \<Rightarrow> string" \<comment> \<open>\<^verbatim>\<open>Kr\<close>\<close>
  pLuminance :: "jsval \<Rightarrow> int" \<comment> \<open>\<^verbatim>\<open>Vr\<close> in thousandths, to which it rounds\<close>

datatype chunk =
  CVal jsval
| CArr "chunk list"
| CFn "props \<Rightarrow> chunk"
| CComp string \<comment> \<open>another styled component\<close>
| CKey string \<comment> \<open>an animation\<close>

definition Vo :: "jsval \<Rightarrow> bool" where
  "Vo v \<longleftrightarrow> v = JUndef \<or> v = JNull \<or> v = JBool False \<or> v = JStr []"

primrec Wo :: "props \<Rightarrow> chunk \<Rightarrow> string list" where
  "Wo p (CVal v) = (if Vo v then [] else [toStr v])"
| "Wo p (CArr cs) = concat (map (Wo p) cs)"
| "Wo p (CFn f) = (Wo p \<circ> f) p"
| "Wo p (CComp n) = [CHR ''.'' # pClass p n]"
| "Wo p (CKey n) = [pKeyframes p n]"

definition cssText :: "props \<Rightarrow> chunk \<Rightarrow> string" where
  "cssText p c = concat (Wo p c)"

subsection \<open>Notation for templates\<close>

abbreviation T :: "string \<Rightarrow> chunk" where "T s \<equiv> CVal (JStr s)"
abbreviation F :: "(props \<Rightarrow> jsval) \<Rightarrow> chunk" where "F f \<equiv> CFn (\<lambda>p. CVal (f p))"
abbreviation th :: "props \<Rightarrow> string \<Rightarrow> jsval" where "th p path \<equiv> pTheme p path"

definition ln :: "chunk list \<Rightarrow> chunk" where
  \<comment> \<open>one source line of a template\<close>
  "ln cs = CArr (cs @ [T [CHR 0x0A]])"

definition quoted :: "string \<Rightarrow> string" where
  "quoted s = CHR 0x27 # s @ [CHR 0x27]"

definition unlines :: "string list \<Rightarrow> string" where
  \<comment> \<open>text of several lines\<close>
  "unlines ls = concat (map (\<lambda>l. l @ [CHR 0x0A]) ls)"

definition parseIntPrefix :: "string \<Rightarrow> nat" where
  \<comment> \<open>\<^verbatim>\<open>parseInt(s, 10)\<close> of a string that starts with a digit\<close>
  "parseIntPrefix s = decValue (takeWhile (\<lambda>c. c \<in> set ''0123456789'') s)"

definition hundredths :: "nat \<Rightarrow> string" where
  \<comment> \<open>the decimal notation of \<open>n / 100\<close>\<close>
  "hundredths n =
     (let whole = decimal (int (n div 100)); t = (n mod 100) div 10; h = n mod 10
      in if n mod 100 = 0 then whole
         else if h = 0 then whole @ ''.'' @ decimal (int t)
         else whole @ ''.'' @ decimal (int t) @ decimal (int h))"

definition cAnd :: "jsval \<Rightarrow> chunk \<Rightarrow> chunk" where
  "cAnd v c = (if truthy v then c else CVal v)"

section \<open>Media queries and the extension hook\<close>

definition va_lessThan :: "string \<Rightarrow> bool \<Rightarrow> string \<Rightarrow> chunk \<Rightarrow> chunk" where
  "va_lessThan e print extra body = CArr [
     ln [T ''@media '', T (if print then ''print, '' else ''''), T '' screen and (max-width: '',
         F (\<lambda>p. th p (''breakpoints.'' @ e)), T '') '', T extra, T '' {''],
     ln [body, T '';''],
     ln [T ''}'']]"

definition va_greaterThan :: "string \<Rightarrow> chunk \<Rightarrow> chunk" where
  "va_greaterThan e body = CArr [
     ln [T ''@media (min-width: '', F (\<lambda>p. th p (''breakpoints.'' @ e)), T '') {''],
     ln [body, T '';''],
     ln [T ''}'']]"

definition va_between :: "string \<Rightarrow> string \<Rightarrow> chunk \<Rightarrow> chunk" where
  "va_between e t body = CArr [
     ln [T ''@media (min-width: '', F (\<lambda>p. th p (''breakpoints.'' @ e)), T '') and (max-width: '',
         F (\<lambda>p. th p (''breakpoints.'' @ t)), T '') {''],
     ln [body, T '';''],
     ln [T ''}'']]"

definition wa :: "string \<Rightarrow> chunk" where
  "wa e = F (\<lambda>p. case pHook p of Some hook \<Rightarrow> hook e | None \<Rightarrow> JUndef)"

section \<open>Reading stylesheet text\<close>

text \<open>
  A reading of the text as the stylesheet processor sees it: quoted strings and comments are skipped,
  braces open and close blocks. \<open>Bad\<close> is the state after a closing brace with no open block.
\<close>

datatype mode = Code | Slash | Line | Block | BlockStar | Quote char | Esc char

datatype nest = Nest mode nat | Bad

fun codeStep :: "nat \<Rightarrow> char \<Rightarrow> nest" where
  "codeStep d c =
     (if c = CHR ''{'' then Nest Code (Suc d)
      else if c = CHR ''}'' then (case d of 0 \<Rightarrow> Bad | Suc e \<Rightarrow> Nest Code e)
      else if c = CHR 0x27 \<or> c = CHR 0x22 then Nest (Quote c) d
      else if c = CHR ''/'' then Nest Slash d
      else Nest Code d)"

fun nestStep :: "nest \<Rightarrow> char \<Rightarrow> nest" where
  "nestStep Bad c = Bad"
| "nestStep (Nest Code d) c = codeStep d c"
| "nestStep (Nest Slash d) c =
     (if c = CHR ''*'' then Nest Block d else if c = CHR ''/'' then Nest Line d else codeStep d c)"
| "nestStep (Nest Line d) c = (if c = CHR 0x0A then Nest Code d else Nest Line d)"
| "nestStep (Nest Block d) c = (if c = CHR ''*'' then Nest BlockStar d else Nest Block d)"
| "nestStep (Nest BlockStar d) c =
     (if c = CHR ''/'' then Nest Code d else if c = CHR ''*'' then Nest BlockStar d else Nest Block d)"
| "nestStep (Nest (Quote q) d) c =
     (if c = q then Nest Code d else if c = CHR 0x5C then Nest (Esc q) d else Nest (Quote q) d)"
| "nestStep (Nest (Esc q) d) c = Nest (Quote q) d"

definition nestRun :: "nest \<Rightarrow> string \<Rightarrow> nest" where
  "nestRun s cs = foldl nestStep s cs"

definition wellNested :: "string \<Rightarrow> bool" where
  \<comment> \<open>every block is closed, none is closed twice, no string or comment is left open\<close>
  "wellNested text \<longleftrightarrow> nestRun (Nest Code 0) text = Nest Code 0"

definition neutral :: "string \<Rightarrow> bool" where
  \<comment> \<open>text that may stand anywhere in code without changing the nesting\<close>
  "neutral w \<longleftrightarrow> (\<forall>d. nestRun (Nest Code d) w = Nest Code d)"

definition plain :: "string \<Rightarrow> bool" where
  "plain w \<longleftrightarrow> set w \<inter> {CHR ''{'', CHR ''}'', CHR 0x27, CHR 0x22, CHR ''/''} = {}"

lemma nestRun_Nil [simp]: "nestRun s [] = s"
  and nestRun_Cons [simp]: "nestRun s (c # cs) = nestRun (nestStep s c) cs"
  and nestRun_append: "nestRun s (xs @ ys) = nestRun (nestRun s xs) ys"
  by (simp_all add: nestRun_def)

lemma nestRun_Bad [simp]: "nestRun Bad cs = Bad"
  by (induction cs) simp_all

lemma plain_neutral: "plain w \<Longrightarrow> neutral w"
  unfolding neutral_def plain_def by (induction w) auto

lemma neutral_append: "neutral a \<Longrightarrow> neutral b \<Longrightarrow> neutral (a @ b)"
  by (simp add: neutral_def nestRun_append)

lemma neutral_run: "neutral w \<Longrightarrow> nestRun (Nest Code d) w = Nest Code d"
  by (simp add: neutral_def)

lemma neutral_wellNested: "neutral w \<Longrightarrow> wellNested w"
  by (simp add: neutral_def wellNested_def)

lemma itoaLoop_chars:
  assumes "\<And>k. k < 10 \<Longrightarrow> char_of (48 + k :: nat) \<in> D"
  shows "set (itoaLoop n acc) \<subseteq> D \<union> set acc"
proof (induction n acc rule: itoaLoop.induct)
  case (1 n acc)
  show ?case
  proof (cases "n = 0")
    case False
    have "itoaLoop n acc = itoaLoop (n div 10) (char_of (48 + n mod 10) # acc)"
      using False by (subst itoaLoop.simps) (simp only: if_False)
    then show ?thesis using 1 [OF False] assms [of "n mod 10"] by auto
  qed (subst itoaLoop.simps, simp)
qed

lemma digit_char: "k < 10 \<Longrightarrow> char_of (48 + k :: nat) \<in> set ''0123456789''"
proof -
  assume "k < 10"
  then have "k = 0 \<or> k = 1 \<or> k = 2 \<or> k = 3 \<or> k = 4 \<or> k = 5 \<or> k = 6 \<or> k = 7 \<or> k = 8 \<or> k = 9" by presburger
  then show ?thesis by (elim disjE) (simp_all add: char_of_def bit_0)
qed

lemma decimal_chars: "set (decimal n) \<subseteq> insert (CHR ''-'') (set ''0123456789'')"
proof -
  have "set (itoaLoop m []) \<subseteq> set ''0123456789''" for m
    using itoaLoop_chars [of "set ''0123456789''" m "[]"] digit_char by (simp only: set_empty2 list.set(1) Un_empty_right)
  then show ?thesis unfolding decimal_def by (simp add: subset_insertI2)
qed

lemma hundredths_chars: "set (hundredths n) \<subseteq> insert (CHR ''-'') (insert (CHR ''.'') (set ''0123456789''))"
proof -
  have "set (decimal m) \<subseteq> insert (CHR ''-'') (insert (CHR ''.'') (set ''0123456789''))" for m
    using decimal_chars [of m] by (meson insert_mono subset_insertI subset_trans)
  then show ?thesis by (simp add: hundredths_def Let_def)
qed

end
