(* ===== verification/ViewerScripts.thy ===== *)
theory ViewerScripts
  imports ViewerPage Styled
begin

text \<open>
  The scripts that start the viewers: \<^verbatim>\<open>assets/swagger-ui/swagger-initializer.js\<close> and the end of
  \<^verbatim>\<open>assets/redoc/redoc.standalone.js\<close>. A page is its elements, the script that runs now, the listeners
  of the load event and the state of the viewer. Swagger UI's bundle and Redoc's rendering are
  arguments. The theorems follow the specification URL from the server's configuration through the
  page to the viewer.
\<close>

section \<open>The Swagger UI initializer\<close>

type_synonym element = "string \<Rightarrow> string option" \<comment> \<open>\<^verbatim>\<open>getAttribute\<close>, \<open>None\<close> for null\<close>

datatype 'a bundleGlobal =
  BundleMissing \<comment> \<open>not defined, or not a function\<close>
| BundleFunction "'a option" \<comment> \<open>with \<^verbatim>\<open>presets.apis\<close> when it has presets\<close>

record 'a swaggerOptions =
  url :: string
  dom_id :: string
  deepLinking :: bool
  presets :: "'a list option" \<comment> \<open>\<open>None\<close> for undefined\<close>

record ('a, 'u) window =
  currentScript :: "element option"
  loadListeners :: "(('a swaggerOptions \<Rightarrow> 'u) \<Rightarrow> 'a bundleGlobal \<Rightarrow> 'u option \<Rightarrow> 'u option) list"
  ui :: "'u option"

definition specURLOf :: "element option \<Rightarrow> string" where
  \<comment> \<open>\<^verbatim>\<open>(script && script.getAttribute('data-spec-url')) || '/openapi.json'\<close>\<close>
  "specURLOf script =
     (case script of
        None \<Rightarrow> ''/openapi.json''
      | Some el \<Rightarrow>
          (case el ''data-spec-url'' of
             None \<Rightarrow> ''/openapi.json''
           | Some v \<Rightarrow> if v = [] then ''/openapi.json'' else v))"

definition onLoad ::
  "string \<Rightarrow> ('a swaggerOptions \<Rightarrow> 'u) \<Rightarrow> 'a bundleGlobal \<Rightarrow> 'u option \<Rightarrow> 'u option" where
  "onLoad specURL SwaggerUIBundle g u =
     (case g of
        BundleMissing \<Rightarrow> u
      | BundleFunction pr \<Rightarrow>
          Some (SwaggerUIBundle \<lparr>url = specURL, dom_id = ''#swagger-ui'', deepLinking = True,
                                 presets = (case pr of None \<Rightarrow> None | Some apis \<Rightarrow> Some [apis])\<rparr>))"

definition initializer :: "('a, 'u) window \<Rightarrow> ('a, 'u) window" where
  "initializer w =
     (let specURL = specURLOf (currentScript w)
      in w\<lparr>loadListeners := loadListeners w @ [onLoad specURL]\<rparr>)"

subsection \<open>The browser\<close>

definition scriptElements :: "string \<Rightarrow> token list \<Rightarrow> element list" where
  \<comment> \<open>the script elements with a given source, in document order\<close>
  "scriptElements src ts =
     concat (map (\<lambda>t. case t of
       Tag n as \<Rightarrow> (if n = ''script'' \<and> map_of as ''src'' = Some src then [map_of as] else []) | Chars _ \<Rightarrow> []) ts)"

definition runInitializer :: "element \<Rightarrow> ('a, 'u) window \<Rightarrow> ('a, 'u) window" where
  \<comment> \<open>\<^verbatim>\<open>document.currentScript\<close> is the element while its script runs, and null afterwards\<close>
  "runInitializer el w = (initializer (w\<lparr>currentScript := Some el\<rparr>))\<lparr>currentScript := None\<rparr>"

definition openSwagger :: "string \<Rightarrow> string \<Rightarrow> ('a, 'u) window \<Rightarrow> ('a, 'u) window" where
  "openSwagger staticBase html w =
     fold runInitializer (scriptElements (staticBase @ ''/swagger-initializer.js'') (htmlTokens html)) w"

definition fireLoad :: "('a swaggerOptions \<Rightarrow> 'u) \<Rightarrow> 'a bundleGlobal \<Rightarrow> ('a, 'u) window \<Rightarrow> ('a, 'u) window" where
  "fireLoad bundle g w = w\<lparr>ui := foldl (\<lambda>u l. l bundle g u) (ui w) (loadListeners w)\<rparr>"

definition emptyWindow :: "('a, 'u) window" where
  "emptyWindow = \<lparr>currentScript = None, loadListeners = [], ui = None\<rparr>"

section \<open>Starting Redoc\<close>

definition upperChar :: "char \<Rightarrow> char" where
  \<comment> \<open>\<^verbatim>\<open>toUpperCase\<close> on ASCII\<close>
  "upperChar c = (let k = of_char c :: nat in if 97 \<le> k \<and> k \<le> 122 then char_of (k - 32) else c)"

fun camelKey :: "string \<Rightarrow> string" where
  \<comment> \<open>\<^verbatim>\<open>e.replace(/-(.)/g, (e, t) => t.toUpperCase())\<close>; a dot does not match a line end\<close>
  "camelKey (c # d # s) =
     (if c = CHR ''-'' \<and> d \<noteq> CHR 0x0A \<and> d \<noteq> CHR 0x0D then upperChar d # camelKey s else c # camelKey (d # s))"
| "camelKey s = s"

datatype 'j optionValue = OText string | OJson 'j

type_synonym 'j options = "(string \<times> 'j optionValue) list"

datatype redocError = NoElement | JSONError

definition setKey :: "(string \<times> 'v) list \<Rightarrow> string \<Rightarrow> 'v \<Rightarrow> (string \<times> 'v) list" where
  \<comment> \<open>assignment to a property; an existing one keeps its place\<close>
  "setKey ob k v =
     (if k \<in> fst ` set ob then map (\<lambda>q. if fst q = k then (k, v) else q) ob else ob @ [(k, v)])"

fun px :: "(string \<Rightarrow> 'j option) \<Rightarrow> (string \<times> string) list \<Rightarrow> 'j options \<Rightarrow> redocError + 'j options" where
  \<comment> \<open>the loop over an element's attributes; \<open>parse\<close> is \<^verbatim>\<open>JSON.parse\<close>, \<open>None\<close> when it throws\<close>
  "px parse [] n = Inr n"
| "px parse ((e, i) # t) n =
     (if e = ''theme''
      then (case parse i of None \<Rightarrow> Inl JSONError | Some j \<Rightarrow> px parse t (setKey n (camelKey e) (OJson j)))
      else px parse t (setKey n (camelKey e) (OText i)))"

datatype 'o specArg = SpecText string | SpecObject 'o | SpecOther

record ('o, 'j) rendering =
  rSpec :: "'o option"
  rSpecUrl :: "string option"
  rOptions :: "'j options"

definition dx ::
  "(string \<Rightarrow> 'j option) \<Rightarrow> 'o specArg \<Rightarrow> 'j options \<Rightarrow> (string \<times> string) list option \<Rightarrow> redocError + ('o, 'j) rendering" where
  "dx parse e t r =
     (case r of
        None \<Rightarrow> Inl NoElement
      | Some attrs \<Rightarrow>
          (case px parse attrs [] of
             Inl err \<Rightarrow> Inl err
           | Inr n \<Rightarrow>
               Inr \<lparr>rSpec = (case e of SpecObject s \<Rightarrow> Some s | _ \<Rightarrow> None),
                    rSpecUrl = (case e of SpecText a \<Rightarrow> Some a | _ \<Rightarrow> None),
                    rOptions = foldl (\<lambda>acc q. setKey acc (fst q) (snd q)) t n\<rparr>))"

fun querySelector :: "string \<Rightarrow> token list \<Rightarrow> (string \<times> string) list option" where
  \<comment> \<open>the first element with a tag name\<close>
  "querySelector name [] = None"
| "querySelector name (Tag n as # ts) = (if n = name then Some as else querySelector name ts)"
| "querySelector name (Chars _ # ts) = querySelector name ts"

definition autoInit :: "(string \<Rightarrow> 'j option) \<Rightarrow> token list \<Rightarrow> redocError + ('o, 'j) rendering option" where
  \<comment> \<open>the function that the script runs at its end\<close>
  "autoInit parse document =
     (case querySelector ''redoc'' document of
        None \<Rightarrow> Inr None
      | Some e \<Rightarrow>
          (case map_of e ''spec-url'' of
             None \<Rightarrow> Inr None
           | Some t \<Rightarrow> (if t = [] then Inr None else map_sum id Some (dx parse (SpecText t) [] (Some e)))))"

section \<open>From the configuration to the viewer\<close>

lemma scriptElements_swagger:
  "scriptElements (base @ ''/swagger-initializer.js'') (htmlTokens (swaggerHTML spec title base)) =
     [map_of [(''src'', base @ ''/swagger-initializer.js''), (''data-spec-url'', spec), (''charset'', ''UTF-8'')]]"
  unfolding swagger_tokens by (simp add: scriptElements_def textTokens_def)

lemma camelKey_specUrl: "camelKey ''spec-url'' = ''specUrl''"
  by (simp add: upperChar_def char_of_def bit_0)

text \<open>
  C1. The Swagger page shows the configured specification: for every specification URL, title and
  asset path, opening the page and then firing the load event calls the Swagger UI bundle once, with
  exactly that URL (the default one for an empty URL), although no script is current when the event
  fires; when the bundle did not load, nothing is called and the page stays as it was.
\<close>
theorem swagger_shows_spec:
  "ui (fireLoad bundle (BundleFunction pr) (openSwagger base (swaggerHTML spec title base) emptyWindow)) =
     Some (bundle \<lparr>url = (if spec = [] then ''/openapi.json'' else spec), dom_id = ''#swagger-ui'', deepLinking = True,
                   presets = map_option (\<lambda>apis. [apis]) pr\<rparr>)
   \<and> length (loadListeners (openSwagger base (swaggerHTML spec title base) (emptyWindow :: ('a, 'u) window))) = 1
   \<and> currentScript (openSwagger base (swaggerHTML spec title base) (emptyWindow :: ('a, 'u) window)) = None
   \<and> ui (fireLoad bundle BundleMissing (openSwagger base (swaggerHTML spec title base) emptyWindow)) = None"
  by (cases pr) (simp_all add: openSwagger_def scriptElements_swagger runInitializer_def initializer_def emptyWindow_def
    fireLoad_def onLoad_def specURLOf_def)

text \<open>
  C14. The Redoc page shows the configured specification: for every non-empty specification URL, title
  and asset path, the script finds the page's element, renders from exactly that URL, and passes the
  attributes on as options under their camel-case names; an empty URL renders nothing. Without the
  element an explicit start fails with the missing-element error.
\<close>
theorem redoc_shows_spec:
  "autoInit parse (htmlTokens (redocHTML spec title base)) =
     (if spec = [] then Inr None
      else Inr (Some \<lparr>rSpec = None, rSpecUrl = Some spec, rOptions = [(''specUrl'', OText spec)]\<rparr>))
   \<and> dx parse arg opts None = Inl NoElement"
proof -
  have q: "querySelector ''redoc'' (htmlTokens (redocHTML spec title base)) = Some [(''spec-url'', spec)]"
    unfolding redoc_tokens by (simp add: textTokens_def)
  show ?thesis
    by (simp add: autoInit_def q dx_def setKey_def camelKey_specUrl del: camelKey.simps)
qed

lemma map_of_replace:
  "map_of (map (\<lambda>q. if fst q = k then (k, v) else q) ob) x =
     (if x = k then if k \<in> fst ` set ob then Some v else None else map_of ob x)"
  by (induction ob) force+

lemma map_of_setKey: "map_of (setKey ob k v) = (map_of ob)(k \<mapsto> v)"
proof
  fix x
  show "map_of (setKey ob k v) x = ((map_of ob)(k \<mapsto> v)) x"
  proof (cases "k \<in> fst ` set ob")
    case False
    then have "map_of ob k = None" by (simp add: map_of_eq_None_iff)
    with False show ?thesis by (simp add: setKey_def map_add_def split: option.split)
  qed (simp add: setKey_def map_of_replace)
qed

lemma px_lookup:
  "px parse attrs n = Inr opts \<Longrightarrow> k \<noteq> ''theme'' \<Longrightarrow>
   map_of opts k =
    (case filter (\<lambda>q. camelKey (fst q) = k) (rev attrs) of [] \<Rightarrow> map_of n k | q # _ \<Rightarrow> Some (OText (snd q)))"
proof (induction parse attrs n rule: px.induct)
  case (2 parse e i t n)
  then show ?case
    by (auto simp: map_of_setKey split: if_splits option.splits list.splits)
qed simp

text \<open>
  Attributes of the Redoc element become options: the value of every attribute but the theme is
  passed on unchanged under its camel-case name, the last one winning when two names agree; a theme
  that does not parse stops the start with the parse error.
\<close>
theorem redoc_options:
  assumes "px parse attrs [] = Inr opts" and "k \<noteq> ''theme''"
  shows "map_of opts k =
    (case filter (\<lambda>q. camelKey (fst q) = k) (rev attrs) of [] \<Rightarrow> None | q # _ \<Rightarrow> Some (OText (snd q)))"
  using px_lookup [OF assms] by (simp split: list.split)

theorem redoc_options_witness:
  "px (\<lambda>_. None :: unit option) [(''spec-url'', ''/a.json''), (''hide-fab'', ''true'')] [] =
     Inr [(''specUrl'', OText ''/a.json''), (''hideFab'', OText ''true'')]
   \<and> map_of [(''specUrl'', OText ''/a.json''), (''hideFab'', OText ''true'' :: unit optionValue)] ''hideFab'' = Some (OText ''true'')"
proof -
  have k: "camelKey ''spec-url'' = ''specUrl''" "camelKey ''hide-fab'' = ''hideFab''"
    by (simp_all add: upperChar_def char_of_def bit_0)
  then have *: "px (\<lambda>_. None :: unit option) [(''spec-url'', ''/a.json''), (''hide-fab'', ''true'')] [] =
     Inr [(''specUrl'', OText ''/a.json''), (''hideFab'', OText ''true'')]"
    by (simp add: setKey_def del: camelKey.simps)
  show ?thesis using redoc_options [OF *, of "''hideFab''"] * by (simp add: k del: camelKey.simps)
qed

end
