(* ===== verification/RedocBaseStyles.thy ===== *)
theory RedocBaseStyles
  imports Styled
begin

text \<open>
  Styled components of the bundled Redoc viewer, in the order of the script: the error panel and spinner, the page layout (middle and right
  panels, sections), headings, share links, badges, the tables of schema properties and their buttons.
  Each definition is the template of the component with the script's name; indentation and blank
  lines of the templates are left out.
\<close>
definition css_ka :: chunk where
  "css_ka = CArr [
     ln [T ''padding: 20px;''],
     ln [T ''color: red;'']]"

definition css_Oa :: chunk where
  "css_Oa = CArr [
     ln [T ''0% {''],
     ln [T ''transform: rotate(0deg); }''],
     ln [T ''100% {''],
     ln [T ''transform: rotate(360deg);''],
     ln [T ''}'']]"

definition css_Ea :: chunk where
  "css_Ea = CArr [
     ln [T ''animation: 2s '', CKey ''Oa'', T '' linear infinite;''],
     ln [T ''width: 50px;''],
     ln [T ''height: 50px;''],
     ln [T (''content: '' @ quoted '''' @ '';'')],
     ln [T ''display: inline-block;''],
     ln [T ''margin-left: -25px;''],
     ln [T ''path {''],
     ln [T ''fill: '', F (\<lambda>p. pProp p ''color''), T '';''],
     ln [T ''}'']]"

definition css_u_a :: chunk where
  "css_u_a = CArr [
     ln [T ''font-family: helvetica, sans;''],
     ln [T ''width: 100%;''],
     ln [T ''text-align: center;''],
     ln [T ''font-size: 25px;''],
     ln [T ''margin: 30px 0 20px 0;''],
     ln [T ''color: '', F (\<lambda>p. pProp p ''color''), T '';'']]"

definition css_Iu :: chunk where
  "css_Iu = CArr [
     ln [T ''width: calc(100% - '', F (\<lambda>p. th p ''rightPanel.width''), T '');''],
     ln [T ''padding: 0 '', F (\<lambda>p. th p ''spacing.sectionHorizontal''), T ''px;''],
     ln [CFn (\<lambda>p. va_lessThan ''medium'' True '''' (CArr [
         ln [T ''width: 100%;''],
         ln [T ''padding: '',
             CVal (JStr (toStr ((if truthy (pProp p ''$compact'') then JNum 0 else th p ''spacing.sectionVertical'')) @
             ''px '' @ toStr (th p ''spacing.sectionHorizontal'') @ ''px'')), T '';'']])), T '';'']]"

definition css_Ru :: chunk where
  "css_Ru = CArr [
     ln [T ''padding: '', F (\<lambda>p. th p ''spacing.sectionVertical''), T ''px 0;''],
     ln [T ''&:last-child {''],
     ln [T ''min-height: calc(100vh + 1px);''],
     ln [T ''}''],
     ln [T ''& > &:last-child {''],
     ln [T ''min-height: initial;''],
     ln [T ''}''],
     ln [va_lessThan ''medium'' True '''' (CArr [
         ln [T ''padding: 0;'']])],
     ln [F (\<lambda>p. (if truthy (pProp p ''$underlined'') then JStr (unlines [''position: relative;'',
         ''&:not(:last-of-type):after {'', ''position: absolute;'', ''bottom: 0;'', ''width: 100%;'',
         ''display: block;'', ''content: '' @ quoted '''' @ '';'', ''border-bottom: 1px solid rgba(0, 0, 0, 0.2);'',
         ''}'']) else JStr ''''))]]"

definition css_Nu :: chunk where
  "css_Nu = CArr [
     ln [T ''width: '', F (\<lambda>p. th p ''rightPanel.width''), T '';''],
     ln [T ''color: '', F (\<lambda>p. th p ''rightPanel.textColor''), T '';''],
     ln [T ''background-color: '', F (\<lambda>p. th p ''rightPanel.backgroundColor''), T '';''],
     ln [T ''padding: 0 '', F (\<lambda>p. th p ''spacing.sectionHorizontal''), T ''px;''],
     ln [va_lessThan ''medium'' True '''' (CArr [
         ln [T ''width: 100%;''],
         ln [T ''padding: '', F (\<lambda>p. JStr (toStr (th p ''spacing.sectionVertical'') @ ''px '' @
             toStr (th p ''spacing.sectionHorizontal'') @ ''px'')), T '';'']]), T '';'']]"

definition css_S_u :: chunk where
  \<comment> \<open>extends \<open>css_Nu\<close>\<close>
  "css_S_u = CArr [
     ln [T ''background-color: '', F (\<lambda>p. th p ''rightPanel.backgroundColor''), T '';'']]"

definition css_Lu :: chunk where
  "css_Lu = CArr [
     ln [T ''display: flex;''],
     ln [T ''width: 100%;''],
     ln [T ''padding: 0;''],
     ln [va_lessThan ''medium'' True '''' (CArr [
         ln [T ''flex-direction: column;'']]), T '';'']]"

definition css_Du :: "int \<Rightarrow> jsval" where
  "css_Du n =
     (if n = 1 then JStr ''1.85714em'' else if n = 2 then JStr ''1.57143em'' else if n = 3 then JStr ''1.27em'' else JUndef)"

definition css_Mu :: "int \<Rightarrow> chunk" where
  "css_Mu n = CArr [
     ln [T ''font-family: '', F (\<lambda>p. th p ''typography.headings.fontFamily''), T '';''],
     ln [T ''font-weight: '', F (\<lambda>p. th p ''typography.headings.fontWeight''), T '';''],
     ln [T ''font-size: '', CVal (css_Du n), T '';''],
     ln [T ''line-height: '', F (\<lambda>p. th p ''typography.headings.lineHeight''), T '';'']]"

definition css_Fu :: chunk where
  "css_Fu = CArr [
     ln [css_Mu 1, T '';''],
     ln [T ''color: '', F (\<lambda>p. th p ''colors.text.primary''), T '';''],
     ln [wa ''H1'', T '';'']]"

definition css_zu :: chunk where
  "css_zu = CArr [
     ln [css_Mu 2, T '';''],
     ln [T ''color: '', F (\<lambda>p. th p ''colors.text.primary''), T '';''],
     ln [T ''margin: 0 0 20px;''],
     ln [wa ''H2'', T '';'']]"

definition css_Uu :: chunk where
  "css_Uu = CArr [
     ln [css_Mu 3, T '';''],
     ln [T ''color: '', F (\<lambda>p. th p ''colors.text.primary''), T '';''],
     ln [wa ''H3'', T '';'']]"

definition css_Bu :: chunk where
  "css_Bu = CArr [
     ln [T ''color: '', F (\<lambda>p. th p ''rightPanel.textColor''), T '';''],
     ln [wa ''RightPanelHeader'', T '';'']]"

definition css_qu :: chunk where
  "css_qu = CArr [
     ln [T ''border-bottom: 1px solid rgba(38, 50, 56, 0.3);''],
     ln [T ''margin: 1em 0 1em 0;''],
     ln [T ''color: rgba(38, 50, 56, 0.5);''],
     ln [T ''font-weight: normal;''],
     ln [T ''text-transform: uppercase;''],
     ln [T ''font-size: 0.929em;''],
     ln [T ''line-height: 20px;''],
     ln [wa ''UnderlinedHeader'', T '';'']]"

definition css_Gu :: "string \<Rightarrow> chunk" where
  "css_Gu e = CArr [
     ln [T e, T '' {''],
     ln [T ''cursor: pointer;''],
     ln [T ''margin-left: -20px;''],
     ln [T ''padding: 0;''],
     ln [T ''line-height: 1;''],
     ln [T ''width: 20px;''],
     ln [T ''display: inline-block;''],
     ln [T ''outline: 0;''],
     ln [T ''}''],
     ln [T e, T '':before {''],
     ln [T (''content: '' @ quoted '''' @ '';'')],
     ln [T ''width: 15px;''],
     ln [T ''height: 15px;''],
     ln [T ''background-size: contain;''],
     ln [T (''background-image: url('' @
         quoted ''data:image/svg+xml;base64,PHN2ZyB4bWxucz0iaHR0cDovL3d3dy53My5vcmcvMjAwMC9zdmciIHZlcnNpb249IjEuMSIgeD0iMCIgeT0iMCIgd2lkdGg9IjUxMiIgaGVpZ2h0PSI1MTIiIHZpZXdCb3g9IjAgMCA1MTIgNTEyIiBlbmFibGUtYmFja2dyb3VuZD0ibmV3IDAgMCA1MTIgNTEyIiB4bWw6c3BhY2U9InByZXNlcnZlIj48cGF0aCBmaWxsPSIjMDEwMTAxIiBkPSJNNDU5LjcgMjMzLjRsLTkwLjUgOTAuNWMtNTAgNTAtMTMxIDUwLTE4MSAwIC03LjktNy44LTE0LTE2LjctMTkuNC0yNS44bDQyLjEtNDIuMWMyLTIgNC41LTMuMiA2LjgtNC41IDIuOSA5LjkgOCAxOS4zIDE1LjggMjcuMiAyNSAyNSA2NS42IDI0LjkgOTAuNSAwbDkwLjUtOTAuNWMyNS0yNSAyNS02NS42IDAtOTAuNSAtMjQuOS0yNS02NS41LTI1LTkwLjUgMGwtMzIuMiAzMi4yYy0yNi4xLTEwLjItNTQuMi0xMi45LTgxLjYtOC45bDY4LjYtNjguNmM1MC01MCAxMzEtNTAgMTgxIDBDNTA5LjYgMTAyLjMgNTA5LjYgMTgzLjQgNDU5LjcgMjMzLjR6TTIyMC4zIDM4Mi4ybC0zMi4yIDMyLjJjLTI1IDI0LjktNjUuNiAyNC45LTkwLjUgMCAtMjUtMjUtMjUtNjUuNiAwLTkwLjVsOTAuNS05MC41YzI1LTI1IDY1LjUtMjUgOTAuNSAwIDcuOCA3LjggMTIuOSAxNy4yIDE1LjggMjcuMSAyLjQtMS40IDQuOC0yLjUgNi44LTQuNWw0Mi4xLTQyYy01LjQtOS4yLTExLjYtMTgtMTkuNC0yNS44IC01MC01MC0xMzEtNTAtMTgxIDBsLTkwLjUgOTAuNWMtNTAgNTAtNTAgMTMxIDAgMTgxIDUwIDUwIDEzMSA1MCAxODEgMGw2OC42LTY4LjZDMjc0LjYgMzk1LjEgMjQ2LjQgMzkyLjMgMjIwLjMgMzgyLjJ6Ii8+PC9zdmc+Cg=='' @
         '');'')],
     ln [T ''opacity: 0.5;''],
     ln [T ''visibility: hidden;''],
     ln [T ''display: inline-block;''],
     ln [T ''vertical-align: middle;''],
     ln [T ''}''],
     ln [T ''h1:hover > '', T e, T ''::before, h2:hover > '', T e, T ''::before, '', T e, T '':hover::before {''],
     ln [T ''visibility: visible;''],
     ln [T ''}'']]"

definition css_Qu :: chunk where
  "css_Qu = CArr [
     ln [css_Gu ''&'', T '';'']]"

definition css_Ku :: "jsval \<Rightarrow> jsval" where
  "css_Ku v =
     (if v = JStr ''left'' then JStr ''90deg'' else if v = JStr ''right'' then JStr ''-90deg''
      else if v = JStr ''up'' then JStr ''-180deg'' else if v = JStr ''down'' then JStr ''0'' else JUndef)"

definition css_Zu :: chunk where
  "css_Zu = CArr [
     ln [T ''height: '', F (\<lambda>p. jsOr (pProp p ''size'') (JStr ''18px'')), T '';''],
     ln [T ''width: '', F (\<lambda>p. jsOr (pProp p ''size'') (JStr ''18px'')), T '';''],
     ln [T ''min-width: '', F (\<lambda>p. jsOr (pProp p ''size'') (JStr ''18px'')), T '';''],
     ln [T ''vertical-align: middle;''],
     ln [T ''float: '', F (\<lambda>p. jsOr (pProp p ''float'') (JStr '''')), T '';''],
     ln [T ''transition: transform 0.2s ease-out;''],
     ln [T ''transform: rotateZ('', F (\<lambda>p. css_Ku (jsOr (pProp p ''direction'') (JStr ''down''))), T '');''],
     ln [T ''polygon {''],
     ln [T ''fill: '', F (\<lambda>p. jsOr (jsAnd (jsAnd (pProp p ''color'') (th p (''colors.responses.'' @
         toStr (pProp p ''color'')))) (th p (''colors.responses.'' @ toStr (pProp p ''color'') @
         ''.color''))) (pProp p ''color'')), T '';''],
     ln [T ''}'']]"

definition css_Ju :: chunk where
  "css_Ju = CArr [
     ln [T ''display: inline-block;''],
     ln [T ''padding: 2px 8px;''],
     ln [T ''margin: 0;''],
     ln [T ''background-color: '', F (\<lambda>p. th p (''colors.'' @ toStr (pProp p ''type'') @ ''.main'')),
         T '';''],
     ln [T ''color: '', F (\<lambda>p. th p (''colors.'' @ toStr (pProp p ''type'') @ ''.contrastText'')), T '';''],
     ln [T ''font-size: '', F (\<lambda>p. th p ''typography.code.fontSize''), T '';''],
     ln [T ''vertical-align: middle;''],
     ln [T ''line-height: 1.6;''],
     ln [T ''border-radius: 4px;''],
     ln [T ''font-weight: '', F (\<lambda>p. th p ''typography.fontWeightBold''), T '';''],
     ln [T ''font-size: 12px;''],
     ln [T ''+ span[type] {''],
     ln [T ''margin-left: 4px;''],
     ln [T ''}'']]"

definition css_ep :: chunk where
  "css_ep = CArr [
     ln [T ''text-decoration: line-through;''],
     ln [T ''color: #707070;'']]"

definition css_tp :: chunk where
  "css_tp = CArr [
     ln [T ''text-align: right;''],
     ln [T ''font-size: 0.9em;''],
     ln [T ''font-weight: normal;''],
     ln [T ''color: '', F (\<lambda>p. th p ''colors.text.secondary''), T '';'']]"

definition css_np :: chunk where
  "css_np = CArr [
     ln [T ''border-left: 1px solid '', F (\<lambda>p. th p ''schema.linesColor''), T '';''],
     ln [T ''box-sizing: border-box;''],
     ln [T ''position: relative;''],
     ln [T ''padding: 10px 10px 10px 0;''],
     ln [va_lessThan ''small'' False '''' (CArr [
         ln [T ''display: block;''],
         ln [T ''overflow: hidden;'']])],
     ln [T ''tr:first-of-type > &,''],
     ln [T ''tr.last > & {''],
     ln [T ''border-left-width: 0;''],
     ln [T ''background-position: top left;''],
     ln [T ''background-repeat: no-repeat;''],
     ln [T ''background-size: 1px 100%;''],
     ln [T ''}''],
     ln [T ''tr:first-of-type > & {''],
     ln [T ''background-image: linear-gradient(''],
     ln [T ''to bottom,''],
     ln [T ''transparent 0%,''],
     ln [T ''transparent 22px,''],
     ln [F (\<lambda>p. th p ''schema.linesColor''), T '' 22px,''],
     ln [F (\<lambda>p. th p ''schema.linesColor''), T '' 100%''],
     ln [T '');''],
     ln [T ''}''],
     ln [T ''tr.last > & {''],
     ln [T ''background-image: linear-gradient(''],
     ln [T ''to bottom,''],
     ln [F (\<lambda>p. th p ''schema.linesColor''), T '' 0%,''],
     ln [F (\<lambda>p. th p ''schema.linesColor''), T '' 22px,''],
     ln [T ''transparent 22px,''],
     ln [T ''transparent 100%''],
     ln [T '');''],
     ln [T ''}''],
     ln [T ''tr.last + tr > & {''],
     ln [T ''border-left-color: transparent;''],
     ln [T ''}''],
     ln [T ''tr.last:first-child > & {''],
     ln [T ''background: none;''],
     ln [T ''border-left-color: transparent;''],
     ln [T ''}'']]"

definition css_rp :: chunk where
  \<comment> \<open>extends \<open>css_np\<close>\<close>
  "css_rp = CArr [
     ln [T ''padding: 0;'']]"

definition css_ip :: chunk where
  \<comment> \<open>extends \<open>css_np\<close>\<close>
  "css_ip = CArr [
     ln [T ''vertical-align: top;''],
     ln [T ''line-height: 20px;''],
     ln [T ''white-space: nowrap;''],
     ln [T ''font-size: 13px;''],
     ln [T ''font-family: '', F (\<lambda>p. th p ''typography.code.fontFamily''), T '';''],
     ln [T ''&.deprecated {''],
     ln [css_ep, T '';''],
     ln [T ''}''],
     ln [CFn (\<lambda>p. cAnd (JBool (JStr ''patternProperties'' = pProp p ''kind'')) (CArr [
         ln [T ''> span.property-name {''],
         ln [T ''display: inline-table;''],
         ln [T ''white-space: break-spaces;''],
         ln [T ''margin-right: 20px;''],
         ln [T ''::before,''],
         ln [T ''::after {''],
         ln [T (''content: '' @ quoted ''/'' @ '';'')],
         ln [T ''filter: opacity(0.2);''],
         ln [T ''}''],
         ln [T ''}'']]))],
     ln [F (\<lambda>p. (if (if pProp p ''kind'' = JUndef then JStr '''' else pProp p ''kind'') \<in> {JStr ''field'',
         JStr ''additionalProperties'', JStr ''patternProperties''} then JStr '''' else JStr ''font-style: italic'')),
         T '';''],
     ln [wa ''PropertyNameCell'', T '';'']]"

definition css_op :: chunk where
  "css_op = CArr [
     ln [T ''border-bottom: 1px solid #9fb4be;''],
     ln [T ''padding: 10px 0;''],
     ln [T ''width: '', F (\<lambda>p. th p ''schema.defaultDetailsWidth''), T '';''],
     ln [T ''box-sizing: border-box;''],
     ln [T ''tr.expanded & {''],
     ln [T ''border-bottom: none;''],
     ln [T ''}''],
     ln [va_lessThan ''small'' False '''' (CArr [
         ln [T ''padding: 0 20px;''],
         ln [T ''border-bottom: none;''],
         ln [T ''border-left: 1px solid '', F (\<lambda>p. th p ''schema.linesColor''), T '';''],
         ln [T ''tr.last > & {''],
         ln [T ''border-left: none;''],
         ln [T ''}'']])],
     ln [wa ''PropertyDetailsCell'', T '';'']]"

definition css_ap :: chunk where
  "css_ap = CArr [
     ln [T ''color: '', F (\<lambda>p. th p ''schema.linesColor''), T '';''],
     ln [T ''font-family: '', F (\<lambda>p. th p ''typography.code.fontFamily''), T '';''],
     ln [T ''margin-right: 10px;''],
     ln [T ''&::before {''],
     ln [T (''content: '' @ quoted '''' @ '';'')],
     ln [T ''display: inline-block;''],
     ln [T ''vertical-align: middle;''],
     ln [T ''width: 10px;''],
     ln [T ''height: 1px;''],
     ln [T ''background: '', F (\<lambda>p. th p ''schema.linesColor''), T '';''],
     ln [T ''}''],
     ln [T ''&::after {''],
     ln [T (''content: '' @ quoted '''' @ '';'')],
     ln [T ''display: inline-block;''],
     ln [T ''vertical-align: middle;''],
     ln [T ''width: 1px;''],
     ln [T ''background: '', F (\<lambda>p. th p ''schema.linesColor''), T '';''],
     ln [T ''height: 7px;''],
     ln [T ''}'']]"

definition css_sp :: chunk where
  "css_sp = CArr [
     ln [T ''padding: '', F (\<lambda>p. th p ''schema.nestingSpacing''), T '';'']]"

definition css_lp :: chunk where
  "css_lp = CArr [
     ln [T ''border-collapse: separate;''],
     ln [T ''border-radius: 3px;''],
     ln [T ''font-size: '', F (\<lambda>p. th p ''typography.fontSize''), T '';''],
     ln [T ''border-spacing: 0;''],
     ln [T ''width: 100%;''],
     ln [T ''> tr {''],
     ln [T ''vertical-align: middle;''],
     ln [T ''}''],
     ln [va_lessThan ''small'' False '''' (CArr [
         ln [T ''display: block;''],
         ln [T ''> tr, > tbody > tr {''],
         ln [T ''display: block;''],
         ln [T ''}'']])],
     ln [va_lessThan ''small'' False '' and (-ms-high-contrast:none)'' (CArr [
         ln [T ''td {''],
         ln [T ''float: left;''],
         ln [T ''width: 100%;''],
         ln [T ''}'']])],
     ln [T ''&''],
     ln [CComp ''sp'', T '',''],
     ln [T ''&''],
     ln [CComp ''sp''],
     ln [CComp ''sp''],
     ln [CComp ''sp'', T '',''],
     ln [T ''&''],
     ln [CComp ''sp''],
     ln [CComp ''sp''],
     ln [CComp ''sp''],
     ln [CComp ''sp''],
     ln [CComp ''sp'', T '' {''],
     ln [T ''margin: '', F (\<lambda>p. th p ''schema.nestingSpacing''), T '';''],
     ln [T ''margin-right: 0;''],
     ln [T ''background: '', F (\<lambda>p. th p ''schema.nestedBackground''), T '';''],
     ln [T ''}''],
     ln [T ''&''],
     ln [CComp ''sp''],
     ln [CComp ''sp'', T '',''],
     ln [T ''&''],
     ln [CComp ''sp''],
     ln [CComp ''sp''],
     ln [CComp ''sp''],
     ln [CComp ''sp'', T '',''],
     ln [T ''&''],
     ln [CComp ''sp''],
     ln [CComp ''sp''],
     ln [CComp ''sp''],
     ln [CComp ''sp''],
     ln [CComp ''sp''],
     ln [CComp ''sp'', T '' {''],
     ln [T ''background: #ffffff;''],
     ln [T ''}'']]"

definition css_cp :: chunk where
  "css_cp = CArr [
     ln [T ''margin: 0 0 3px 0;''],
     ln [T ''display: inline-block;'']]"

definition css_up :: chunk where
  "css_up = CArr [
     ln [T ''font-size: 0.9em;''],
     ln [T ''margin-right: 10px;''],
     ln [T ''color: '', F (\<lambda>p. th p ''colors.primary.main''), T '';''],
     ln [T ''font-family: '', F (\<lambda>p. th p ''typography.headings.fontFamily''), T '';''],
     ln [T ''}'']]"

definition css_pp :: chunk where
  "css_pp = CArr [
     ln [T ''display: inline-block;''],
     ln [T ''margin-right: 10px;''],
     ln [T ''margin-bottom: 5px;''],
     ln [T ''font-size: 0.8em;''],
     ln [T ''cursor: pointer;''],
     ln [T ''border: 1px solid '', F (\<lambda>p. th p ''colors.primary.main''), T '';''],
     ln [T ''padding: 2px 10px;''],
     ln [T ''line-height: 1.5em;''],
     ln [T ''outline: none;''],
     ln [T ''&:focus {''],
     ln [T ''box-shadow: 0 0 0 1px '', F (\<lambda>p. th p ''colors.primary.main''), T '';''],
     ln [T ''}''],
     ln [CFn (\<lambda>p. (if truthy (pProp p ''$deprecated'') then css_ep else CVal (JStr ''''))), T '';''],
     ln [F (\<lambda>p. (if truthy (pProp p ''$active'') then JStr (unlines [''color: white;'',
         ''background-color: '' @ toStr (th p ''colors.primary.main'') @ '';'', ''&:focus {'', ''box-shadow: none;'',
         ''background-color: '' @ toStr (JStr (pDarken p (JDec ''0.15'') (th p ''colors.primary.main''))) @ '';'',
         ''}'']) else JStr (unlines [''color: '' @ toStr (th p ''colors.primary.main'') @ '';'',
         ''background-color: white;''])))]]"

definition css_dp :: chunk where
  "css_dp = CArr [
     ln [T ''font-size: 0.9em;''],
     ln [T ''font-family: '', F (\<lambda>p. th p ''typography.code.fontFamily''), T '';''],
     ln [T ''&::after {''],
     ln [T (''content: '' @ quoted '' ['' @ '';'')],
     ln [T ''}'']]"

definition css_fp :: chunk where
  "css_fp = CArr [
     ln [T ''font-size: 0.9em;''],
     ln [T ''font-family: '', F (\<lambda>p. th p ''typography.code.fontFamily''), T '';''],
     ln [T ''&::after {''],
     ln [T (''content: '' @ quoted '']'' @ '';'')],
     ln [T ''}'']]"

end
