(* ===== verification/RedocCodeStyles.thy ===== *)
theory RedocCodeStyles
  imports RedocBaseStyles
begin

text \<open>
  Styled components of the bundled Redoc viewer, in the order of the script: tabs, syntax highlighting, sample controls, drop-down lists,
  rendered markdown and tooltips.
  Each definition is the template of the component with the script's name; indentation and blank
  lines of the templates are left out.
\<close>
definition css_Vp :: chunk where
  "css_Vp = CArr [
     ln [T ''> ul {''],
     ln [T ''list-style: none;''],
     ln [T ''padding: 0;''],
     ln [T ''margin: 0;''],
     ln [T ''margin: 0 -5px;''],
     ln [T ''> li {''],
     ln [T ''padding: 5px 10px;''],
     ln [T ''display: inline-block;''],
     ln [T ''background-color: '', F (\<lambda>p. th p ''codeBlock.backgroundColor''), T '';''],
     ln [T ''border-bottom: 1px solid rgba(0, 0, 0, 0.5);''],
     ln [T ''cursor: pointer;''],
     ln [T ''text-align: center;''],
     ln [T ''outline: none;''],
     ln [T ''color: '',
         F (\<lambda>p. JStr (pDarken p (th p ''colors.tonalOffset'') (th p ''rightPanel.textColor''))), T '';''],
     ln [T ''margin: 0''],
     ln [F (\<lambda>p. JStr (toStr (th p ''spacing.unit'') @ ''px '' @ toStr (th p ''spacing.unit'') @ ''px '' @
         toStr (th p ''spacing.unit'') @ ''px'')), T '';''],
     ln [T ''border: 1px solid '',
         F (\<lambda>p. JStr (pDarken p (JDec ''0.05'') (th p ''codeBlock.backgroundColor''))), T '';''],
     ln [T ''border-radius: 5px;''],
     ln [T ''min-width: 60px;''],
     ln [T ''font-size: 0.9em;''],
     ln [T ''font-weight: bold;''],
     ln [T ''&.react-tabs__tab--selected {''],
     ln [T ''color: '', F (\<lambda>p. th p ''colors.text.primary''), T '';''],
     ln [T ''background: '', F (\<lambda>p. th p ''rightPanel.textColor''), T '';''],
     ln [T ''&:focus {''],
     ln [T ''outline: auto;''],
     ln [T ''}''],
     ln [T ''}''],
     ln [T ''&:only-child {''],
     ln [T ''flex: none;''],
     ln [T ''min-width: 100px;''],
     ln [T ''}''],
     ln [T ''&.tab-success {''],
     ln [T ''color: '', F (\<lambda>p. th p ''colors.responses.success.tabTextColor''), T '';''],
     ln [T ''}''],
     ln [T ''&.tab-redirect {''],
     ln [T ''color: '', F (\<lambda>p. th p ''colors.responses.redirect.tabTextColor''), T '';''],
     ln [T ''}''],
     ln [T ''&.tab-info {''],
     ln [T ''color: '', F (\<lambda>p. th p ''colors.responses.info.tabTextColor''), T '';''],
     ln [T ''}''],
     ln [T ''&.tab-error {''],
     ln [T ''color: '', F (\<lambda>p. th p ''colors.responses.error.tabTextColor''), T '';''],
     ln [T ''}''],
     ln [T ''}''],
     ln [T ''}''],
     ln [T ''> .react-tabs__tab-panel {''],
     ln [T ''background: '', F (\<lambda>p. th p ''codeBlock.backgroundColor''), T '';''],
     ln [T ''& > div,''],
     ln [T ''& > pre {''],
     ln [T ''padding: '', F (\<lambda>p. jsMul 4 (th p ''spacing.unit'')), T ''px;''],
     ln [T ''margin: 0;''],
     ln [T ''}''],
     ln [T ''& > div > pre {''],
     ln [T ''padding: 0;''],
     ln [T ''}''],
     ln [T ''}'']]"

definition css_Vp_small :: chunk where
  \<comment> \<open>extends \<open>css_Vp\<close>\<close>
  "css_Vp_small = CArr [
     ln [T ''> ul {''],
     ln [T ''display: block;''],
     ln [T ''> li {''],
     ln [T ''padding: 2px 5px;''],
     ln [T ''min-width: auto;''],
     ln [T ''margin: 0 15px 0 0;''],
     ln [T ''font-size: 13px;''],
     ln [T ''font-weight: normal;''],
     ln [T ''border-bottom: 1px dashed;''],
     ln [T ''color: '',
         F (\<lambda>p. JStr (pDarken p (th p ''colors.tonalOffset'') (th p ''rightPanel.textColor''))), T '';''],
     ln [T ''border-radius: 0;''],
     ln [T ''background: none;''],
     ln [T ''&:last-child {''],
     ln [T ''margin-right: 0;''],
     ln [T ''}''],
     ln [T ''&.react-tabs__tab--selected {''],
     ln [T ''color: '', F (\<lambda>p. th p ''rightPanel.textColor''), T '';''],
     ln [T ''background: none;''],
     ln [T ''}''],
     ln [T ''}''],
     ln [T ''}''],
     ln [T ''> .react-tabs__tab-panel {''],
     ln [T ''& > div,''],
     ln [T ''& > pre {''],
     ln [T ''padding: '', F (\<lambda>p. jsMul 2 (th p ''spacing.unit'')), T ''px 0;''],
     ln [T ''}''],
     ln [T ''}'']]"

definition css_Wp :: chunk where
  "css_Wp = CArr [
     ln [T ''/**''],
     ln [T ''* Based on prism-dark.css''],
     ln [T ''*/''],
     ln [T (''code[class*='' @ quoted ''language-'' @ ''],'')],
     ln [T (''pre[class*='' @ quoted ''language-'' @ ''] {'')],
     ln [T ''/* color: white;''],
     ln [T ''background: none; */''],
     ln [T ''text-shadow: 0 -0.1em 0.2em black;''],
     ln [T ''text-align: left;''],
     ln [T ''white-space: pre;''],
     ln [T ''word-spacing: normal;''],
     ln [T ''word-break: normal;''],
     ln [T ''word-wrap: normal;''],
     ln [T ''line-height: 1.5;''],
     ln [T ''-moz-tab-size: 4;''],
     ln [T ''-o-tab-size: 4;''],
     ln [T ''tab-size: 4;''],
     ln [T ''-webkit-hyphens: none;''],
     ln [T ''-moz-hyphens: none;''],
     ln [T ''-ms-hyphens: none;''],
     ln [T ''hyphens: none;''],
     ln [T ''}''],
     ln [T ''@media print {''],
     ln [T (''code[class*='' @ quoted ''language-'' @ ''],'')],
     ln [T (''pre[class*='' @ quoted ''language-'' @ ''] {'')],
     ln [T ''text-shadow: none;''],
     ln [T ''}''],
     ln [T ''}''],
     ln [T ''/* Code blocks */''],
     ln [T (''pre[class*='' @ quoted ''language-'' @ ''] {'')],
     ln [T ''padding: 1em;''],
     ln [T ''margin: 0.5em 0;''],
     ln [T ''overflow: auto;''],
     ln [T ''}''],
     ln [T ''.token.comment,''],
     ln [T ''.token.prolog,''],
     ln [T ''.token.doctype,''],
     ln [T ''.token.cdata {''],
     ln [T ''color: hsl(30, 20%, 50%);''],
     ln [T ''}''],
     ln [T ''.token.punctuation {''],
     ln [T ''opacity: 0.7;''],
     ln [T ''}''],
     ln [T ''.namespace {''],
     ln [T ''opacity: 0.7;''],
     ln [T ''}''],
     ln [T ''.token.property,''],
     ln [T ''.token.tag,''],
     ln [T ''.token.number,''],
     ln [T ''.token.constant,''],
     ln [T ''.token.symbol {''],
     ln [T ''color: #4a8bb3;''],
     ln [T ''}''],
     ln [T ''.token.boolean {''],
     ln [T ''color: #e64441;''],
     ln [T ''}''],
     ln [T ''.token.selector,''],
     ln [T ''.token.attr-name,''],
     ln [T ''.token.string,''],
     ln [T ''.token.char,''],
     ln [T ''.token.builtin,''],
     ln [T ''.token.inserted {''],
     ln [T ''color: #a0fbaa;''],
     ln [T ''& + a,''],
     ln [T ''& + a:visited {''],
     ln [T ''color: #4ed2ba;''],
     ln [T ''text-decoration: underline;''],
     ln [T ''}''],
     ln [T ''}''],
     ln [T ''.token.property.string {''],
     ln [T ''color: white;''],
     ln [T ''}''],
     ln [T ''.token.operator,''],
     ln [T ''.token.entity,''],
     ln [T ''.token.url,''],
     ln [T ''.token.variable {''],
     ln [T ''color: hsl(40, 90%, 60%);''],
     ln [T ''}''],
     ln [T ''.token.atrule,''],
     ln [T ''.token.attr-value,''],
     ln [T ''.token.keyword {''],
     ln [T ''color: hsl(350, 40%, 70%);''],
     ln [T ''}''],
     ln [T ''.token.regex,''],
     ln [T ''.token.important {''],
     ln [T ''color: #e90;''],
     ln [T ''}''],
     ln [T ''.token.important,''],
     ln [T ''.token.bold {''],
     ln [T ''font-weight: bold;''],
     ln [T ''}''],
     ln [T ''.token.italic {''],
     ln [T ''font-style: italic;''],
     ln [T ''}''],
     ln [T ''.token.entity {''],
     ln [T ''cursor: help;''],
     ln [T ''}''],
     ln [T ''.token.deleted {''],
     ln [T ''color: red;''],
     ln [T ''}''],
     ln [wa ''Prism'', T '';'']]"

definition css_Hp :: chunk where
  "css_Hp = CArr [
     ln [T ''opacity: 0.7;''],
     ln [T ''transition: opacity 0.3s ease;''],
     ln [T ''text-align: right;''],
     ln [T ''&:focus-within {''],
     ln [T ''opacity: 1;''],
     ln [T ''}''],
     ln [T ''> button {''],
     ln [T ''background-color: transparent;''],
     ln [T ''border: 0;''],
     ln [T ''color: inherit;''],
     ln [T ''padding: 2px 10px;''],
     ln [T ''font-family: '', F (\<lambda>p. th p ''typography.fontFamily''), T '';''],
     ln [T ''font-size: '', F (\<lambda>p. th p ''typography.fontSize''), T '';''],
     ln [T ''line-height: '', F (\<lambda>p. th p ''typography.lineHeight''), T '';''],
     ln [T ''cursor: pointer;''],
     ln [T ''outline: 0;''],
     ln [T '':hover,''],
     ln [T '':focus {''],
     ln [T ''background: rgba(255, 255, 255, 0.1);''],
     ln [T ''}''],
     ln [T ''}'']]"

definition css_Yp :: chunk where
  "css_Yp = CArr [
     ln [T ''&:hover '', CComp ''Hp'', T '' {''],
     ln [T ''opacity: 1;''],
     ln [T ''}'']]"

definition css_Gp :: chunk where
  \<comment> \<open>extends \<open>css_Wp\<close>\<close>
  "css_Gp = CArr [
     ln [T ''font-family: '', F (\<lambda>p. th p ''typography.code.fontFamily''), T '';''],
     ln [T ''font-size: '', F (\<lambda>p. th p ''typography.code.fontSize''), T '';''],
     ln [T ''overflow-x: auto;''],
     ln [T ''margin: 0;''],
     ln [T ''white-space: '',
         F (\<lambda>p. (if truthy (th p ''typography.code.wrap'') then JStr ''pre-wrap'' else JStr ''pre'')),
         T '';'']]"

definition css_Ad :: chunk where
  "css_Ad = CArr [
     ln [T ''position: relative;'']]"

definition css_Pd :: chunk where
  "css_Pd = CArr [
     ln [T ''position: absolute;''],
     ln [T ''pointer-events: none;''],
     ln [T ''z-index: 1;''],
     ln [T ''top: 50%;''],
     ln [T ''-webkit-transform: translateY(-50%);''],
     ln [T ''-ms-transform: translateY(-50%);''],
     ln [T ''transform: translateY(-50%);''],
     ln [T ''right: 8px;''],
     ln [T ''margin: auto;''],
     ln [T ''text-align: center;''],
     ln [T ''polyline {''],
     ln [T ''color: '', F (\<lambda>p. jsAnd (JBool (JStr ''dark'' = pProp p ''variant'')) (JStr ''white'')),
         T '';''],
     ln [T ''}'']]"

definition css_Id :: chunk where
  "css_Id = CArr [
     ln [T ''label {''],
     ln [T ''box-sizing: border-box;''],
     ln [T ''min-width: 100px;''],
     ln [T ''outline: none;''],
     ln [T ''display: inline-block;''],
     ln [T ''font-family: '', F (\<lambda>p. th p ''typography.headings.fontFamily''), T '';''],
     ln [T ''color: '', F (\<lambda>p. th p ''colors.text.primary''), T '';''],
     ln [T ''vertical-align: bottom;''],
     ln [T ''width: '', F (\<lambda>p. (if truthy (pProp p ''fullWidth'') then JStr ''100%'' else JStr ''auto'')),
         T '';''],
     ln [T ''text-transform: none;''],
     ln [T ''padding: 0 22px 0 4px;''],
     ln [T ''font-size: 0.929em;''],
     ln [T ''line-height: 1.5em;''],
     ln [T ''font-family: inherit;''],
     ln [T ''text-overflow: ellipsis;''],
     ln [T ''overflow: hidden;''],
     ln [T ''white-space: nowrap;''],
     ln [T ''}''],
     ln [T ''.dropdown-select {''],
     ln [T ''position: absolute;''],
     ln [T ''top: 0;''],
     ln [T ''left: 0;''],
     ln [T ''width: 100%;''],
     ln [T ''height: 100%;''],
     ln [T ''opacity: 0;''],
     ln [T ''border: none;''],
     ln [T ''appearance: none;''],
     ln [T ''cursor: pointer;''],
     ln [T ''color: '', F (\<lambda>p. th p ''colors.text.primary''), T '';''],
     ln [T ''line-height: inherit;''],
     ln [T ''font-family: inherit;''],
     ln [T ''}''],
     ln [T ''box-sizing: border-box;''],
     ln [T ''min-width: 100px;''],
     ln [T ''outline: none;''],
     ln [T ''display: inline-block;''],
     ln [T ''border-radius: 2px;''],
     ln [T ''border: 1px solid rgba(38, 50, 56, 0.5);''],
     ln [T ''vertical-align: bottom;''],
     ln [T ''padding: 2px 0px 2px 6px;''],
     ln [T ''position: relative;''],
     ln [T ''width: auto;''],
     ln [T ''background: white;''],
     ln [T ''color: #263238;''],
     ln [T ''font-family: '', F (\<lambda>p. th p ''typography.headings.fontFamily''), T '';''],
     ln [T ''font-size: 0.929em;''],
     ln [T ''line-height: 1.5em;''],
     ln [T ''cursor: pointer;''],
     ln [T ''transition: border 0.25s ease, color 0.25s ease, box-shadow 0.25s ease;''],
     ln [T ''&:hover,''],
     ln [T ''&:focus-within {''],
     ln [T ''border: 1px solid '', F (\<lambda>p. th p ''colors.primary.main''), T '';''],
     ln [T ''color: '', F (\<lambda>p. th p ''colors.primary.main''), T '';''],
     ln [T ''box-shadow: 0px 0px 0px 1px '', F (\<lambda>p. th p ''colors.primary.main''), T '';''],
     ln [T ''}'']]"

definition css_Rd :: chunk where
  \<comment> \<open>extends \<open>css_Id\<close>\<close>
  "css_Rd = CArr [
     ln [T ''margin-left: 10px;''],
     ln [T ''text-transform: none;''],
     ln [T ''font-size: 0.969em;''],
     ln [T ''font-size: 1em;''],
     ln [T ''border: none;''],
     ln [T ''padding: 0 1.2em 0 0;''],
     ln [T ''background: transparent;''],
     ln [T ''&:hover,''],
     ln [T ''&:focus-within {''],
     ln [T ''border: none;''],
     ln [T ''box-shadow: none;''],
     ln [T ''label {''],
     ln [T ''color: '', F (\<lambda>p. th p ''colors.primary.main''), T '';''],
     ln [T ''text-shadow: 0px 0px 0px '', F (\<lambda>p. th p ''colors.primary.main''), T '';''],
     ln [T ''}''],
     ln [T ''}'']]"

definition css_Nd :: chunk where
  "css_Nd = CArr [
     ln [T ''margin-left: 10px;''],
     ln [T ''text-transform: none;''],
     ln [T ''font-size: 0.929em;''],
     ln [T ''color: black;'']]"

definition css_Rf :: chunk where
  "css_Rf = CArr [
     ln [T ''a {''],
     ln [T ''text-decoration: '', F (\<lambda>p. th p ''typography.links.textDecoration''), T '';''],
     ln [T ''color: '', F (\<lambda>p. th p ''typography.links.color''), T '';''],
     ln [T ''&:visited {''],
     ln [T ''color: '', F (\<lambda>p. th p ''typography.links.visited''), T '';''],
     ln [T ''}''],
     ln [T ''&:hover {''],
     ln [T ''color: '', F (\<lambda>p. th p ''typography.links.hover''), T '';''],
     ln [T ''text-decoration: '', F (\<lambda>p. th p ''typography.links.hoverTextDecoration''), T '';''],
     ln [T ''}''],
     ln [T ''}'']]"

definition css_Nf :: chunk where
  \<comment> \<open>extends \<open>css_Wp\<close>\<close>
  "css_Nf = CArr [
     ln [T ''font-family: '', F (\<lambda>p. th p ''typography.fontFamily''), T '';''],
     ln [T ''font-weight: '', F (\<lambda>p. th p ''typography.fontWeightRegular''), T '';''],
     ln [T ''line-height: '', F (\<lambda>p. th p ''typography.lineHeight''), T '';''],
     ln [T ''p {''],
     ln [T ''&:last-child {''],
     ln [T ''margin-bottom: 0;''],
     ln [T ''}''],
     ln [T ''}''],
     ln [F (\<lambda>p. jsAnd (pProp p ''$compact'') (JStr (unlines [''p:first-child {'', ''margin-top: 0;'', ''}'',
         ''p:last-child {'', ''margin-bottom: 0;'', ''}''])))],
     ln [F (\<lambda>p. jsAnd (pProp p ''$inline'') (JStr (unlines [''p {'', ''display: inline-block;'', ''}''])))],
     ln [T ''h1 {''],
     ln [css_Mu 1, T '';''],
     ln [T ''color: '', F (\<lambda>p. th p ''colors.primary.main''), T '';''],
     ln [T ''margin-top: 0;''],
     ln [T ''}''],
     ln [T ''h2 {''],
     ln [css_Mu 2, T '';''],
     ln [T ''color: '', F (\<lambda>p. th p ''colors.text.primary''), T '';''],
     ln [T ''}''],
     ln [T ''code {''],
     ln [T ''color: '', F (\<lambda>p. th p ''typography.code.color''), T '';''],
     ln [T ''background-color: '', F (\<lambda>p. th p ''typography.code.backgroundColor''), T '';''],
     ln [T ''font-family: '', F (\<lambda>p. th p ''typography.code.fontFamily''), T '';''],
     ln [T ''border-radius: 2px;''],
     ln [T ''border: 1px solid rgba(38, 50, 56, 0.1);''],
     ln [T ''padding: 0 '', F (\<lambda>p. th p ''spacing.unit''), T ''px;''],
     ln [T ''font-size: '', F (\<lambda>p. th p ''typography.code.fontSize''), T '';''],
     ln [T ''font-weight: '', F (\<lambda>p. th p ''typography.code.fontWeight''), T '';''],
     ln [T ''word-break: break-word;''],
     ln [T ''}''],
     ln [T ''pre {''],
     ln [T ''font-family: '', F (\<lambda>p. th p ''typography.code.fontFamily''), T '';''],
     ln [T ''white-space: '',
         F (\<lambda>p. (if truthy (th p ''typography.code.wrap'') then JStr ''pre-wrap'' else JStr ''pre'')),
         T '';''],
     ln [T ''background-color: '', F (\<lambda>p. th p ''codeBlock.backgroundColor''), T '';''],
     ln [T ''color: white;''],
     ln [T ''padding: '', F (\<lambda>p. jsMul 4 (th p ''spacing.unit'')), T ''px;''],
     ln [T ''overflow-x: auto;''],
     ln [T ''line-height: normal;''],
     ln [T ''border-radius: 0;''],
     ln [T ''border: 1px solid rgba(38, 50, 56, 0.1);''],
     ln [T ''code {''],
     ln [T ''background-color: transparent;''],
     ln [T ''color: white;''],
     ln [T ''padding: 0;''],
     ln [T ''&:before,''],
     ln [T ''&:after {''],
     ln [T ''content: none;''],
     ln [T ''}''],
     ln [T ''}''],
     ln [T ''}''],
     ln [T ''blockquote {''],
     ln [T ''margin: 0;''],
     ln [T ''margin-bottom: 1em;''],
     ln [T ''padding: 0 15px;''],
     ln [T ''color: #777;''],
     ln [T ''border-left: 4px solid #ddd;''],
     ln [T ''}''],
     ln [T ''img {''],
     ln [T ''max-width: 100%;''],
     ln [T ''box-sizing: content-box;''],
     ln [T ''}''],
     ln [T ''ul,''],
     ln [T ''ol {''],
     ln [T ''padding-left: 2em;''],
     ln [T ''margin: 0;''],
     ln [T ''margin-bottom: 1em;''],
     ln [T ''ul,''],
     ln [T ''ol {''],
     ln [T ''margin-bottom: 0;''],
     ln [T ''margin-top: 0;''],
     ln [T ''}''],
     ln [T ''}''],
     ln [T ''table {''],
     ln [T ''display: block;''],
     ln [T ''width: 100%;''],
     ln [T ''overflow: auto;''],
     ln [T ''word-break: normal;''],
     ln [T ''word-break: keep-all;''],
     ln [T ''border-collapse: collapse;''],
     ln [T ''border-spacing: 0;''],
     ln [T ''margin-top: 1.5em;''],
     ln [T ''margin-bottom: 1.5em;''],
     ln [T ''}''],
     ln [T ''table tr {''],
     ln [T ''background-color: #fff;''],
     ln [T ''border-top: 1px solid #ccc;''],
     ln [T ''&:nth-child(2n) {''],
     ln [T ''background-color: '', F (\<lambda>p. th p ''schema.nestedBackground''), T '';''],
     ln [T ''}''],
     ln [T ''}''],
     ln [T ''table th,''],
     ln [T ''table td {''],
     ln [T ''padding: 6px 13px;''],
     ln [T ''border: 1px solid #ddd;''],
     ln [T ''}''],
     ln [T ''table th {''],
     ln [T ''text-align: left;''],
     ln [T ''font-weight: bold;''],
     ln [T ''}''],
     ln [css_Gu ''.share-link'', T '';''],
     ln [css_Rf],
     ln [wa ''Markdown'', T '';'']]"

definition css_qf :: chunk where
  "css_qf = CArr [
     ln [T ''display: inline;'']]"

definition css_Hf :: chunk where
  "css_Hf = CArr [
     ln [T ''position: relative;'']]"

definition css_Yf :: chunk where
  "css_Yf = CArr [
     ln [T ''position: absolute;''],
     ln [T ''min-width: 80px;''],
     ln [T ''max-width: 500px;''],
     ln [T ''background: #fff;''],
     ln [T ''bottom: 100%;''],
     ln [T ''left: 50%;''],
     ln [T ''margin-bottom: 10px;''],
     ln [T ''transform: translateX(-50%);''],
     ln [T ''border-radius: 4px;''],
     ln [T ''padding: 0.3em 0.6em;''],
     ln [T ''text-align: center;''],
     ln [T ''box-shadow: 0px 0px 5px 0px rgba(204, 204, 204, 1);'']]"

definition css_Gf :: chunk where
  "css_Gf = CArr [
     ln [T ''background: #fff;''],
     ln [T ''color: #000;''],
     ln [T ''display: inline;''],
     ln [T ''font-size: 0.85em;''],
     ln [T ''white-space: nowrap;'']]"

definition css_Qf :: chunk where
  "css_Qf = CArr [
     ln [T ''position: absolute;''],
     ln [T ''width: 0;''],
     ln [T ''height: 0;''],
     ln [T ''bottom: -5px;''],
     ln [T ''left: 50%;''],
     ln [T ''margin-left: -5px;''],
     ln [T ''border-left: solid transparent 5px;''],
     ln [T ''border-right: solid transparent 5px;''],
     ln [T ''border-top: solid #fff 5px;'']]"

definition css_Xf :: chunk where
  "css_Xf = CArr [
     ln [T ''position: absolute;''],
     ln [T ''width: 100%;''],
     ln [T ''height: 20px;''],
     ln [T ''bottom: -20px;'']]"

end
