(* ===== verification/RedocSchemaStyles.thy ===== *)
theory RedocSchemaStyles
  imports RedocCodeStyles
begin

text \<open>
  Styled components of the bundled Redoc viewer, in the order of the script: collapsible JSON samples, example selectors, schema fields and
  their labels, enumerations, security requirements.
  Each definition is the template of the component with the script's name; indentation and blank
  lines of the templates are left out.
\<close>
definition css_lh :: chunk where
  "css_lh = CArr [
     ln [T ''.redoc-json code > .collapser {''],
     ln [T ''display: none;''],
     ln [T ''pointer-events: none;''],
     ln [T ''}''],
     ln [T ''font-family: '', F (\<lambda>p. th p ''typography.code.fontFamily''), T '';''],
     ln [T ''font-size: '', F (\<lambda>p. th p ''typography.code.fontSize''), T '';''],
     ln [T ''white-space: '',
         F (\<lambda>p. (if truthy (th p ''typography.code.wrap'') then JStr ''pre-wrap'' else JStr ''pre'')),
         T '';''],
     ln [T ''contain: content;''],
     ln [T ''overflow-x: auto;''],
     ln [T ''.callback-function {''],
     ln [T ''color: gray;''],
     ln [T ''}''],
     ln [T ''.collapser:after {''],
     ln [T (''content: '' @ quoted ''-'' @ '';'')],
     ln [T ''cursor: pointer;''],
     ln [T ''}''],
     ln [T ''.collapsed > .collapser:after {''],
     ln [T (''content: '' @ quoted ''+'' @ '';'')],
     ln [T ''cursor: pointer;''],
     ln [T ''}''],
     ln [T ''.ellipsis:after {''],
     ln [T (''content: '' @ quoted ('' '' @ [CHR 0xE2] @ [CHR 0x80] @ [CHR 0xA6] @ '' '') @ '';'')],
     ln [T ''}''],
     ln [T ''.collapsible {''],
     ln [T ''margin-left: 2em;''],
     ln [T ''}''],
     ln [T ''.hoverable {''],
     ln [T ''padding-top: 1px;''],
     ln [T ''padding-bottom: 1px;''],
     ln [T ''padding-left: 2px;''],
     ln [T ''padding-right: 2px;''],
     ln [T ''border-radius: 2px;''],
     ln [T ''}''],
     ln [T ''.hovered {''],
     ln [T ''background-color: rgba(235, 238, 249, 1);''],
     ln [T ''}''],
     ln [T ''.collapser {''],
     ln [T ''background-color: transparent;''],
     ln [T ''border: 0;''],
     ln [T ''color: #fff;''],
     ln [T ''font-family: '', F (\<lambda>p. th p ''typography.code.fontFamily''), T '';''],
     ln [T ''font-size: '', F (\<lambda>p. th p ''typography.code.fontSize''), T '';''],
     ln [T ''padding-right: 6px;''],
     ln [T ''padding-left: 6px;''],
     ln [T ''padding-top: 0;''],
     ln [T ''padding-bottom: 0;''],
     ln [T ''display: flex;''],
     ln [T ''align-items: center;''],
     ln [T ''justify-content: center;''],
     ln [T ''width: 15px;''],
     ln [T ''height: 15px;''],
     ln [T ''position: absolute;''],
     ln [T ''top: 4px;''],
     ln [T ''left: -1.5em;''],
     ln [T ''cursor: default;''],
     ln [T ''user-select: none;''],
     ln [T ''-webkit-user-select: none;''],
     ln [T ''padding: 2px;''],
     ln [T ''&:focus {''],
     ln [T ''outline-color: #fff;''],
     ln [T ''outline-style: dotted;''],
     ln [T ''outline-width: 1px;''],
     ln [T ''}''],
     ln [T ''}''],
     ln [T ''ul {''],
     ln [T ''list-style-type: none;''],
     ln [T ''padding: 0px;''],
     ln [T ''margin: 0px 0px 0px 26px;''],
     ln [T ''}''],
     ln [T ''li {''],
     ln [T ''position: relative;''],
     ln [T ''display: block;''],
     ln [T ''}''],
     ln [T ''.hoverable {''],
     ln [T ''display: inline-block;''],
     ln [T ''}''],
     ln [T ''.selected {''],
     ln [T ''outline-style: solid;''],
     ln [T ''outline-width: 1px;''],
     ln [T ''outline-style: dotted;''],
     ln [T ''}''],
     ln [T ''.collapsed > .collapsible {''],
     ln [T ''display: none;''],
     ln [T ''}''],
     ln [T ''.ellipsis {''],
     ln [T ''display: none;''],
     ln [T ''}''],
     ln [T ''.collapsed > .ellipsis {''],
     ln [T ''display: inherit;''],
     ln [T ''}'']]"

definition css_ch :: chunk where
  "css_ch = CArr [
     ln [T ''&:hover > '', CComp ''Hp'', T '' {''],
     ln [T ''opacity: 1;''],
     ln [T ''}'']]"

definition css_uh :: chunk where
  "css_uh = CArr [
     ln [css_lh, T '';'']]"

definition css_yh :: chunk where
  "css_yh = CArr [
     ln [T ''padding: 0.9em;''],
     ln [T ''background-color: '',
         F (\<lambda>p. JStr (pTransparentize p (JDec ''0.6'') (th p ''rightPanel.backgroundColor''))), T '';''],
     ln [T ''margin: 0 0 10px 0;''],
     ln [T ''display: block;''],
     ln [T ''font-family: '', F (\<lambda>p. th p ''typography.headings.fontFamily''), T '';''],
     ln [T ''font-size: 0.929em;''],
     ln [T ''line-height: 1.5em;'']]"

definition css_bh :: chunk where
  "css_bh = CArr [
     ln [T ''font-family: '', F (\<lambda>p. th p ''typography.headings.fontFamily''), T '';''],
     ln [T ''font-size: 12px;''],
     ln [T ''position: absolute;''],
     ln [T ''z-index: 1;''],
     ln [T ''top: -11px;''],
     ln [T ''left: 12px;''],
     ln [T ''font-weight: '', F (\<lambda>p. th p ''typography.fontWeightBold''), T '';''],
     ln [T ''color: '', F (\<lambda>p. JStr (pTransparentize p (JDec ''0.3'') (th p ''rightPanel.textColor''))),
         T '';'']]"

definition css_vh :: chunk where
  "css_vh = CArr [
     ln [T ''position: relative;'']]"

definition css_xh :: chunk where
  \<comment> \<open>extends \<open>css_Id\<close>\<close>
  "css_xh = CArr [
     ln [T ''label {''],
     ln [T ''color: '', F (\<lambda>p. th p ''rightPanel.textColor''), T '';''],
     ln [T ''text-overflow: ellipsis;''],
     ln [T ''white-space: nowrap;''],
     ln [T ''overflow: hidden;''],
     ln [T ''font-size: 1em;''],
     ln [T ''text-transform: none;''],
     ln [T ''border: none;''],
     ln [T ''}''],
     ln [T ''margin: 0 0 10px 0;''],
     ln [T ''display: block;''],
     ln [T ''background-color: '',
         F (\<lambda>p. JStr (pTransparentize p (JDec ''0.6'') (th p ''rightPanel.backgroundColor''))), T '';''],
     ln [T ''border: none;''],
     ln [T ''padding: 0.9em 1.6em 0.9em 0.9em;''],
     ln [T ''box-shadow: none;''],
     ln [T ''&:hover,''],
     ln [T ''&:focus-within {''],
     ln [T ''border: none;''],
     ln [T ''box-shadow: none;''],
     ln [T ''background-color: '',
         F (\<lambda>p. JStr (pTransparentize p (JDec ''0.3'') (th p ''rightPanel.backgroundColor''))), T '';''],
     ln [T ''}'']]"

definition css_wh :: chunk where
  "css_wh = CArr [
     ln [T ''font-family: '', F (\<lambda>p. th p ''typography.code.fontFamily''), T '';''],
     ln [T ''font-size: 12px;''],
     ln [T ''color: #ee807f;'']]"

definition css_Sh :: chunk where
  "css_Sh = CArr [
     ln [T ''margin-top: 15px;'']]"

definition css_tm :: chunk where
  \<comment> \<open>extends \<open>css_ip\<close>\<close>
  "css_tm = CArr [
     ln [T ''&.deprecated {''],
     ln [T ''span.property-name {''],
     ln [css_ep],
     ln [T ''}''],
     ln [T ''}''],
     ln [T ''button {''],
     ln [T ''background-color: transparent;''],
     ln [T ''border: 0;''],
     ln [T ''outline: 0;''],
     ln [T ''font-size: 13px;''],
     ln [T ''font-family: '', F (\<lambda>p. th p ''typography.code.fontFamily''), T '';''],
     ln [T ''cursor: pointer;''],
     ln [T ''padding: 0;''],
     ln [T ''color: '', F (\<lambda>p. th p ''colors.text.primary''), T '';''],
     ln [T ''&:focus {''],
     ln [T ''font-weight: '', F (\<lambda>p. th p ''typography.fontWeightBold''), T '';''],
     ln [T ''}''],
     ln [CFn (\<lambda>p. cAnd (JBool (JStr ''patternProperties'' = pProp p ''kind'')) (CArr [
         ln [T ''display: inline-flex;''],
         ln [T ''margin-right: 20px;''],
         ln [T ''> span.property-name {''],
         ln [T ''white-space: break-spaces;''],
         ln [T ''text-align: left;''],
         ln [T ''::before,''],
         ln [T ''::after {''],
         ln [T (''content: '' @ quoted ''/'' @ '';'')],
         ln [T ''filter: opacity(0.2);''],
         ln [T ''}''],
         ln [T ''}''],
         ln [T ''> svg {''],
         ln [T ''align-self: center;''],
         ln [T ''}'']]))],
     ln [T ''}''],
     ln [CComp ''Zu'', T '' {''],
     ln [T ''height: '', F (\<lambda>p. th p ''schema.arrow.size''), T '';''],
     ln [T ''width: '', F (\<lambda>p. th p ''schema.arrow.size''), T '';''],
     ln [T ''polygon {''],
     ln [T ''fill: '', F (\<lambda>p. th p ''schema.arrow.color''), T '';''],
     ln [T ''}''],
     ln [T ''}'']]"

definition css_nm :: chunk where
  "css_nm = CArr [
     ln [T ''vertical-align: middle;''],
     ln [T ''font-size: '', F (\<lambda>p. th p ''typography.code.fontSize''), T '';''],
     ln [T ''line-height: 20px;'']]"

definition css_rm :: chunk where
  \<comment> \<open>extends \<open>css_nm\<close>\<close>
  "css_rm = CArr [
     ln [T ''color: '', F (\<lambda>p. JStr (pTransparentize p (JDec ''0.1'') (th p ''schema.typeNameColor''))),
         T '';'']]"

definition css_im :: chunk where
  \<comment> \<open>extends \<open>css_nm\<close>\<close>
  "css_im = CArr [
     ln [T ''color: '', F (\<lambda>p. th p ''schema.typeNameColor''), T '';'']]"

definition css_om :: chunk where
  \<comment> \<open>extends \<open>css_nm\<close>\<close>
  "css_om = CArr [
     ln [T ''color: '', F (\<lambda>p. th p ''schema.typeTitleColor''), T '';''],
     ln [T ''word-break: break-word;'']]"

definition css_sm :: chunk where
  \<comment> \<open>extends \<open>css_nm\<close>\<close>
  "css_sm = CArr [
     ln [T ''color: '', F (\<lambda>p. th p ''schema.requireLabelColor''), T '';''],
     ln [T ''font-size: '', F (\<lambda>p. th p ''schema.labelsTextSize''), T '';''],
     ln [T ''font-weight: normal;''],
     ln [T ''margin-left: 20px;''],
     ln [T ''line-height: 1;'']]"

definition css_lm :: chunk where
  \<comment> \<open>extends \<open>css_sm\<close>\<close>
  "css_lm = CArr [
     ln [T ''color: '', F (\<lambda>p. th p ''colors.primary.light''), T '';'']]"

definition css_cm :: chunk where
  \<comment> \<open>extends \<open>css_nm\<close>\<close>
  "css_cm = CArr [
     ln [T ''color: '', F (\<lambda>p. th p ''colors.warning.main''), T '';''],
     ln [T ''font-size: 13px;'']]"

definition css_um :: chunk where
  \<comment> \<open>extends \<open>css_nm\<close>\<close>
  "css_um = CArr [
     ln [T ''color: #0e7c86;''],
     ln [T ''&::before,''],
     ln [T ''&::after {''],
     ln [T ''font-weight: bold;''],
     ln [T ''}'']]"

definition css_pm :: chunk where
  \<comment> \<open>extends \<open>css_nm\<close>\<close>
  "css_pm = CArr [
     ln [T ''border-radius: 2px;''],
     ln [T ''word-break: break-word;''],
     ln [F (\<lambda>p. JStr (unlines [''background-color: '' @
         toStr (JStr (pTransparentize p (JDec ''0.95'') (th p ''colors.text.primary''))) @ '';'', ''color: '' @
         toStr (JStr (pTransparentize p (JDec ''0.1'') (th p ''colors.text.primary''))) @ '';'', ''padding: 0 '' @
         toStr (th p ''spacing.unit'') @ ''px;'', ''border: 1px solid '' @
         toStr (JStr (pTransparentize p (JDec ''0.9'') (th p ''colors.text.primary''))) @ '';'', ''font-family: '' @
         toStr (th p ''typography.code.fontFamily'') @ '';'', ''}''])), T '';''],
     ln [T ''& + & {''],
     ln [T ''margin-left: 0;''],
     ln [T ''}''],
     ln [wa ''ExampleValue'', T '';'']]"

definition css_fm :: chunk where
  "css_fm = CArr [
     ln [T ''border-radius: 2px;''],
     ln [F (\<lambda>p. JStr (unlines [''background-color: '' @
         toStr (JStr (pTransparentize p (JDec ''0.95'') (th p ''colors.primary.light''))) @ '';'', ''color: '' @
         toStr (JStr (pTransparentize p (JDec ''0.1'') (th p ''colors.primary.main''))) @ '';'', ''margin: 0 '' @
         toStr (th p ''spacing.unit'') @ ''px;'', ''padding: 0 '' @ toStr (th p ''spacing.unit'') @ ''px;'',
         ''border: 1px solid '' @ toStr (JStr (pTransparentize p (JDec ''0.9'') (th p ''colors.primary.main''))) @
         '';'', ''}''])), T '';''],
     ln [T ''& + & {''],
     ln [T ''margin-left: 0;''],
     ln [T ''}''],
     ln [wa ''ConstraintItem'', T '';'']]"

definition css_hm :: chunk where
  "css_hm = CArr [
     ln [T ''background-color: transparent;''],
     ln [T ''border: 0;''],
     ln [T ''color: '', F (\<lambda>p. th p ''colors.text.secondary''), T '';''],
     ln [T ''margin-left: '', F (\<lambda>p. th p ''spacing.unit''), T ''px;''],
     ln [T ''border-radius: 2px;''],
     ln [T ''cursor: pointer;''],
     ln [T ''outline-color: '', F (\<lambda>p. th p ''colors.text.secondary''), T '';''],
     ln [T ''font-size: 12px;'']]"

definition css_mm :: chunk where
  "css_mm = CArr [
     ln [css_Rf, T '';''],
     ln [F (\<lambda>p. (if truthy (pProp p ''$compact'') then JStr '''' else JStr ''margin: 1em 0''))]]"

definition css_bm :: chunk where
  "css_bm = CArr [
     ln [T ''color: '', F (\<lambda>p. th p ''colors.primary.main''), T '';''],
     ln [T ''vertical-align: middle;''],
     ln [T ''font-size: 13px;''],
     ln [T ''line-height: 20px;''],
     ln [T ''padding: 0 5px;''],
     ln [T ''cursor: pointer;'']]"

definition css_vm :: chunk where
  \<comment> \<open>extends \<open>css_Nf\<close>\<close>
  "css_vm = CArr [
     ln [T ''margin: 2px 0;'']]"

definition css_km :: chunk where
  "css_km = CArr [
     ln [T ''margin-top: 1em;''],
     ln [T ''list-style-position: outside;'']]"

definition css_jm :: chunk where
  \<comment> \<open>extends \<open>css_rm\<close>\<close>
  "css_jm = CArr [
     ln [T ''margin: 0 5px;''],
     ln [T ''vertical-align: text-top;'']]"

definition css_eg :: chunk where
  "css_eg = CArr [
     ln [T ''padding-left: '', F (\<lambda>p. jsMul 2 (th p ''spacing.unit'')), T ''px;'']]"

definition css_Ig :: chunk where
  "css_Ig = CArr [
     ln [T ''background: '', F (\<lambda>p. th p ''codeBlock.backgroundColor''), T '';''],
     ln [T ''& > div,''],
     ln [T ''& > pre {''],
     ln [T ''padding: '', F (\<lambda>p. jsMul 4 (th p ''spacing.unit'')), T ''px;''],
     ln [T ''margin: 0;''],
     ln [T ''}''],
     ln [T ''& > div > pre {''],
     ln [T ''padding: 0;''],
     ln [T ''}'']]"

definition css_Rg_bg :: chunk where
  "css_Rg_bg = CArr [
     ln [T ''background-color: #e4e7eb;'']]"

definition css_Rg_list :: chunk where
  "css_Rg_list = CArr [
     ln [T ''display: inline;''],
     ln [T ''list-style: none;''],
     ln [T ''padding: 0;''],
     ln [T ''li {''],
     ln [T ''display: inherit;''],
     ln [T ''&:after {''],
     ln [T (''content: '' @ quoted '','' @ '';'')],
     ln [T ''}''],
     ln [T ''&:last-child:after {''],
     ln [T ''content: none;''],
     ln [T ''}''],
     ln [T ''}'']]"

definition css_Rg :: chunk where
  "css_Rg = CArr [
     ln [T ''font-size: '', F (\<lambda>p. th p ''typography.code.fontSize''), T '';''],
     ln [T ''font-family: '', F (\<lambda>p. th p ''typography.code.fontFamily''), T '';''],
     ln [T ''margin: 0 3px;''],
     ln [T ''padding: 0.2em;''],
     ln [T ''display: inline-block;''],
     ln [T ''line-height: 1;''],
     ln [T ''&:after {''],
     ln [T (''content: '' @ quoted '','' @ '';'')],
     ln [T ''font-weight: normal;''],
     ln [T ''}''],
     ln [T ''&:last-child:after {''],
     ln [T ''content: none;''],
     ln [T ''}'']]"

definition css_Ng :: chunk where
  "css_Ng = CArr [
     ln [T ''&:after {''],
     ln [T (''content: '' @ quoted '' and '' @ '';'')],
     ln [T ''font-weight: normal;''],
     ln [T ''}''],
     ln [T ''&:last-child:after {''],
     ln [T ''content: none;''],
     ln [T ''}''],
     ln [css_Rf, T '';'']]"

definition css_S_g :: chunk where
  "css_S_g = CArr [
     ln [F (\<lambda>p. jsAnd (JBool (\<not> (truthy (pProp p ''$expanded'')))) (JStr ''white-space: nowrap;''))],
     ln [T ''&:after {''],
     ln [T (''content: '' @ quoted '' or '' @ '';'')],
     ln [F (\<lambda>p. jsAnd (pProp p ''$expanded'') (JStr (''content: '' @ quoted ('' or '' @ [CHR 0x5C] @ ''a'') @
         '';'')))],
     ln [T ''white-space: pre;''],
     ln [T ''}''],
     ln [T ''&:last-child:after,''],
     ln [T ''&:only-child:after {''],
     ln [T ''content: none;''],
     ln [T ''}''],
     ln [css_Rf, T '';'']]"

definition css_Lg :: chunk where
  "css_Lg = CArr [
     ln [T ''flex: 1 1 auto;''],
     ln [T ''cursor: pointer;'']]"

definition css_Dg :: chunk where
  "css_Dg = CArr [
     ln [T ''width: '', F (\<lambda>p. th p ''schema.defaultDetailsWidth''), T '';''],
     ln [T ''text-overflow: ellipsis;''],
     ln [T ''border-radius: 4px;''],
     ln [T ''overflow: hidden;''],
     ln [F (\<lambda>p. jsAnd (pProp p ''$expanded'') (JStr (unlines [''background: '' @
         toStr (th p ''colors.gray.100'') @ '';'', ''padding: 8px 9.6px;'', ''margin: 20px 0;'', ''width: 100%;'']))),
         T '';''],
     ln [va_lessThan ''small'' False '''' (CArr [
         ln [T ''margin-top: 10px;'']])]]"

definition css_Mg :: chunk where
  \<comment> \<open>extends \<open>css_qu\<close>\<close>
  "css_Mg = CArr [
     ln [T ''display: inline-block;''],
     ln [T ''margin: 0;'']]"

definition css_Fg :: chunk where
  "css_Fg = CArr [
     ln [T ''width: 100%;''],
     ln [T ''display: flex;''],
     ln [T ''margin: 1em 0;''],
     ln [T ''flex-direction: '',
         F (\<lambda>p. (if truthy (pProp p ''$expanded'') then JStr ''column'' else JStr ''row'')), T '';''],
     ln [va_lessThan ''small'' False '''' (CArr [
         ln [T ''flex-direction: column;'']])]]"

definition css_zg :: chunk where
  "css_zg = CArr [
     ln [T ''margin: 0.5em 0;'']]"

definition css_Ug :: chunk where
  "css_Ug = CArr [
     ln [T ''border-bottom: 1px solid '', F (\<lambda>p. th p ''colors.border.dark''), T '';''],
     ln [T ''margin-bottom: 1.5em;''],
     ln [T ''padding-bottom: 0.7em;''],
     ln [T ''h5 {''],
     ln [T ''line-height: 1em;''],
     ln [T ''margin: 0 0 0.6em;''],
     ln [T ''font-size: '', F (\<lambda>p. th p ''typography.fontSize''), T '';''],
     ln [T ''}''],
     ln [T ''.redoc-markdown p:first-child {''],
     ln [T ''display: inline;''],
     ln [T ''}'']]"

definition css_qg :: chunk where
  "css_qg = CArr [
     ln [T ''overflow-y: hidden;'']]"

definition css_Vg :: chunk where
  "css_Vg = CArr [
     ln [T ''text-align: center;''],
     ln [T ''line-height: 1.5em;''],
     ln [F (\<lambda>p. jsAnd (pProp p ''$dimmed'') (JStr (unlines [''background-image: linear-gradient(to bottom, transparent,rgb(255 255 255));'',
         ''position: relative;'', ''top: -0.5em;'', ''padding-top: 0.5em;'', ''background-position-y: -1em;''])))]]"

definition css_Wg :: chunk where
  "css_Wg = CArr [
     ln [T ''cursor: pointer;'']]"

end
