(* ===== verification/RedocMenuStyles.thy ===== *)
theory RedocMenuStyles
  imports RedocSchemaStyles
begin

text \<open>
  Styled components of the bundled Redoc viewer, in the order of the script: the API header, logo, operation badges, the side menu, endpoints
  and servers, responses, the page frame, the mobile menu button and the search box.
  Each definition is the template of the component with the script's name; indentation and blank
  lines of the templates are left out.
\<close>
definition css_Zg :: chunk where
  \<comment> \<open>extends \<open>css_Fu\<close>\<close>
  "css_Zg = CArr [
     ln [T ''margin-top: 0;''],
     ln [T ''margin-bottom: 0.5em;''],
     ln [wa ''ApiHeader'', T '';'']]"

definition css_Jg :: chunk where
  "css_Jg = CArr [
     ln [T ''border: 1px solid '', F (\<lambda>p. th p ''colors.primary.main''), T '';''],
     ln [T ''color: '', F (\<lambda>p. th p ''colors.primary.main''), T '';''],
     ln [T ''font-weight: normal;''],
     ln [T ''margin-left: 0.5em;''],
     ln [T ''padding: 4px 8px 4px;''],
     ln [T ''display: inline-block;''],
     ln [T ''text-decoration: none;''],
     ln [T ''cursor: pointer;''],
     ln [wa ''DownloadButton'', T '';'']]"

definition css_ey :: chunk where
  "css_ey = CArr [
     ln [T ''&::before {''],
     ln [T (''content: '' @ quoted ''|'' @ '';'')],
     ln [T ''display: inline-block;''],
     ln [T ''opacity: 0.5;''],
     ln [T ''width: '', CVal (JNum 15), T ''px;''],
     ln [T ''text-align: center;''],
     ln [T ''}''],
     ln [T ''&:last-child::after {''],
     ln [T ''display: none;''],
     ln [T ''}'']]"

definition css_ty :: chunk where
  "css_ty = CArr [
     ln [T ''overflow: hidden;'']]"

definition css_ny :: chunk where
  "css_ny = CArr [
     ln [T ''display: flex;''],
     ln [T ''flex-wrap: wrap;''],
     ln [T ''// hide separator on new lines: idea from https://stackoverflow.com/a/31732902/1749888''],
     ln [T ''margin-left: -'', CVal (JNum 15), T ''px;'']]"

definition css_iy :: chunk where
  "css_iy = CArr [
     ln [T ''max-height: '', F (\<lambda>p. th p ''logo.maxHeight''), T '';''],
     ln [T ''max-width: '', F (\<lambda>p. th p ''logo.maxWidth''), T '';''],
     ln [T ''padding: '', F (\<lambda>p. th p ''logo.gutter''), T '';''],
     ln [T ''width: 100%;''],
     ln [T ''display: block;'']]"

definition css_oy :: chunk where
  "css_oy = CArr [
     ln [T ''text-align: center;'']]"

definition css_ay :: chunk where
  "css_ay = CArr [
     ln [T ''display: inline-block;'']]"

definition css_gy :: chunk where
  "css_gy = CArr [
     ln [T ''width: 9ex;''],
     ln [T ''display: inline-block;''],
     ln [T ''height: '', F (\<lambda>p. th p ''typography.code.fontSize''), T '';''],
     ln [T ''line-height: '', F (\<lambda>p. th p ''typography.code.fontSize''), T '';''],
     ln [T ''background-color: #333;''],
     ln [T ''border-radius: 3px;''],
     ln [T ''background-repeat: no-repeat;''],
     ln [T ''background-position: 6px 4px;''],
     ln [T ''font-size: 7px;''],
     ln [T ''font-family: Verdana, sans-serif; // web-safe''],
     ln [T ''color: white;''],
     ln [T ''text-transform: uppercase;''],
     ln [T ''text-align: center;''],
     ln [T ''font-weight: bold;''],
     ln [T ''vertical-align: middle;''],
     ln [T ''margin-right: 6px;''],
     ln [T ''margin-top: 2px;''],
     ln [T ''&.get {''],
     ln [T ''background-color: '', F (\<lambda>p. th p ''colors.http.get''), T '';''],
     ln [T ''}''],
     ln [T ''&.post {''],
     ln [T ''background-color: '', F (\<lambda>p. th p ''colors.http.post''), T '';''],
     ln [T ''}''],
     ln [T ''&.put {''],
     ln [T ''background-color: '', F (\<lambda>p. th p ''colors.http.put''), T '';''],
     ln [T ''}''],
     ln [T ''&.options {''],
     ln [T ''background-color: '', F (\<lambda>p. th p ''colors.http.options''), T '';''],
     ln [T ''}''],
     ln [T ''&.patch {''],
     ln [T ''background-color: '', F (\<lambda>p. th p ''colors.http.patch''), T '';''],
     ln [T ''}''],
     ln [T ''&.delete {''],
     ln [T ''background-color: '', F (\<lambda>p. th p ''colors.http.delete''), T '';''],
     ln [T ''}''],
     ln [T ''&.basic {''],
     ln [T ''background-color: '', F (\<lambda>p. th p ''colors.http.basic''), T '';''],
     ln [T ''}''],
     ln [T ''&.link {''],
     ln [T ''background-color: '', F (\<lambda>p. th p ''colors.http.link''), T '';''],
     ln [T ''}''],
     ln [T ''&.head {''],
     ln [T ''background-color: '', F (\<lambda>p. th p ''colors.http.head''), T '';''],
     ln [T ''}''],
     ln [T ''&.hook {''],
     ln [T ''background-color: '', F (\<lambda>p. th p ''colors.primary.main''), T '';''],
     ln [T ''}''],
     ln [T ''&.schema {''],
     ln [T ''background-color: '', F (\<lambda>p. th p ''colors.http.basic''), T '';''],
     ln [T ''}'']]"

definition yy :: "jsval \<Rightarrow> props \<Rightarrow> string \<Rightarrow> jsval" where
  "yy e p n =
     (if jsGt e 1 then th p (''sidebar.level1Items.'' @ n)
      else if e = JNum 1 then th p (''sidebar.groupItems.'' @ n) else JStr [])"

definition css_by :: chunk where
  "css_by = CArr [
     ln [T ''margin: 0;''],
     ln [T ''padding: 0;''],
     ln [T ''&:first-child {''],
     ln [T ''padding-bottom: 32px;''],
     ln [T ''}''],
     ln [T ''& & {''],
     ln [T ''font-size: 0.929em;''],
     ln [T ''}''],
     ln [F (\<lambda>p. (if truthy (pProp p ''$expanded'') then JStr '''' else JStr ''display: none;'')), T '';'']]"

definition css_vy :: chunk where
  "css_vy = CArr [
     ln [T ''list-style: none inside none;''],
     ln [T ''overflow: hidden;''],
     ln [T ''text-overflow: ellipsis;''],
     ln [T ''padding: 0;''],
     ln [F (\<lambda>p. (if JNum 0 = pProp p ''depth'' then JStr ''margin-top: 15px'' else JStr '''')), T '';'']]"

definition css_xy0 :: chunk where
  "css_xy0 = CArr [
     ln [T ''opacity: 0.7;''],
     ln [T ''text-transform: '', F (\<lambda>p. th p ''sidebar.groupItems.textTransform''), T '';''],
     ln [T ''font-size: 0.8em;''],
     ln [T ''padding-bottom: 0;''],
     ln [T ''cursor: default;'']]"

definition css_xy1 :: chunk where
  "css_xy1 = CArr [
     ln [T ''font-size: 0.929em;''],
     ln [T ''text-transform: '', F (\<lambda>p. th p ''sidebar.level1Items.textTransform''), T '';'']]"

definition css_xy :: "jsval \<Rightarrow> chunk" where
  "css_xy v = (if v = JNum 0 then css_xy0 else if v = JNum 1 then css_xy1 else CVal JUndef)"

definition css_wy :: chunk where
  "css_wy = CArr [
     ln [T ''cursor: pointer;''],
     ln [T ''color: '',
         F (\<lambda>p. (if truthy (pProp p ''$active'') then yy (pProp p ''$depth'') p ''activeTextColor'' else th p ''sidebar.textColor'')),
         T '';''],
     ln [T ''margin: 0;''],
     ln [T ''padding: 12.5px '', F (\<lambda>p. jsMul 4 (th p ''spacing.unit'')), T ''px;''],
     ln [F (\<lambda>p. jsOr (jsAnd (jsAnd (JBool (JStr ''section'' = pProp p ''$type'')) (JBool (jsGt (pProp p ''$depth'') 1))) (JStr (''padding-left: '' @
         toStr (jsMul 8 (th p ''spacing.unit'')) @ ''px;''))) (JStr ''''))],
     ln [T ''display: flex;''],
     ln [T ''justify-content: space-between;''],
     ln [T ''font-family: '', F (\<lambda>p. th p ''typography.headings.fontFamily''), T '';''],
     ln [CFn (\<lambda>p. css_xy (pProp p ''$depth'')), T '';''],
     ln [T ''background-color: '',
         F (\<lambda>p. (if truthy (pProp p ''$active'') then yy (pProp p ''$depth'') p ''activeBackgroundColor'' else th p ''sidebar.backgroundColor'')),
         T '';''],
     ln [CFn (\<lambda>p. (if truthy (pProp p ''$deprecated'') then css_ep else CVal (JStr ''''))), T '';''],
     ln [T ''&:hover {''],
     ln [T ''color: '', F (\<lambda>p. yy (pProp p ''$depth'') p ''activeTextColor''), T '';''],
     ln [T ''background-color: '', F (\<lambda>p. yy (pProp p ''$depth'') p ''activeBackgroundColor''), T '';''],
     ln [T ''}''],
     ln [CComp ''Zu'', T '' {''],
     ln [T ''height: '', F (\<lambda>p. th p ''sidebar.arrow.size''), T '';''],
     ln [T ''width: '', F (\<lambda>p. th p ''sidebar.arrow.size''), T '';''],
     ln [T ''polygon {''],
     ln [T ''fill: '', F (\<lambda>p. th p ''sidebar.arrow.color''), T '';''],
     ln [T ''}''],
     ln [T ''}'']]"

definition css_ky :: chunk where
  "css_ky = CArr [
     ln [T ''display: inline-block;''],
     ln [T ''vertical-align: middle;''],
     ln [T ''width: '', F (\<lambda>p. (if truthy (pProp p ''width'') then pProp p ''width'' else JStr ''auto'')),
         T '';''],
     ln [T ''overflow: hidden;''],
     ln [T ''text-overflow: ellipsis;'']]"

definition css_Sy :: chunk where
  "css_Sy = CArr [
     ln [CFn (\<lambda>p. CArr [
         ln [T ''font-size: 0.8em;''],
         ln [T ''margin-top: '', CVal (jsMul 2 (th p ''spacing.unit'')), T ''px;''],
         ln [T ''text-align: center;''],
         ln [T ''position: fixed;''],
         ln [T ''width: '', CVal (th p ''sidebar.width''), T '';''],
         ln [T ''bottom: 0;''],
         ln [T ''background: '', CVal (th p ''sidebar.backgroundColor''), T '';''],
         ln [T ''a,''],
         ln [T ''a:visited,''],
         ln [T ''a:hover {''],
         ln [T ''color: '', CVal (th p ''sidebar.textColor''), T '' !important;''],
         ln [T ''padding: '', CVal (th p ''spacing.unit''), T ''px 0;''],
         ln [T ''border-top: 1px solid '', CVal (JStr (pDarken p (JDec ''0.1'') (th p ''sidebar.backgroundColor''))),
             T '';''],
         ln [T ''text-decoration: none;''],
         ln [T ''display: flex;''],
         ln [T ''align-items: center;''],
         ln [T ''justify-content: center;''],
         ln [T ''}'']]), T '';''],
     ln [T ''img {''],
     ln [T ''width: 15px;''],
     ln [T ''margin-right: 5px;''],
     ln [T ''}''],
     ln [va_lessThan ''small'' False '''' (CArr [
         ln [T ''width: 100%;'']]), T '';'']]"

definition css_Oy :: chunk where
  "css_Oy = CArr [
     ln [T ''border: 0;''],
     ln [T ''width: 100%;''],
     ln [T ''text-align: left;''],
     ln [T ''& > * {''],
     ln [T ''vertical-align: middle;''],
     ln [T ''}''],
     ln [CComp ''Zu'', T '' {''],
     ln [T ''polygon {''],
     ln [T ''fill: '', F (\<lambda>p. JStr (pDarken p (th p ''colors.tonalOffset'') (th p ''colors.gray.100''))),
         T '';''],
     ln [T ''}''],
     ln [T ''}'']]"

definition css_Ey :: chunk where
  "css_Ey = CArr [
     ln [T ''text-decoration: '',
         F (\<lambda>p. (if truthy (pProp p ''$deprecated'') then JStr ''line-through'' else JStr ''none'')),
         T '';''],
     ln [T ''margin-right: 8px;'']]"

definition css_u_y :: chunk where
  \<comment> \<open>extends \<open>css_gy\<close>\<close>
  "css_u_y = CArr [
     ln [T ''margin: 0 5px 0 0;'']]"

definition css_Ay :: chunk where
  "css_Ay = CArr [
     ln [T ''padding: 10px;''],
     ln [T ''border-radius: 2px;''],
     ln [T ''margin-bottom: 4px;''],
     ln [T ''line-height: 1.5em;''],
     ln [T ''background-color: '', F (\<lambda>p. th p ''colors.gray.100''), T '';''],
     ln [T ''cursor: pointer;''],
     ln [T ''outline-color: '',
         F (\<lambda>p. JStr (pDarken p (th p ''colors.tonalOffset'') (th p ''colors.gray.100''))), T '';'']]"

definition css_jy :: chunk where
  "css_jy = CArr [
     ln [T ''padding: 10px 25px;''],
     ln [T ''background-color: '', F (\<lambda>p. th p ''colors.gray.50''), T '';''],
     ln [T ''margin-bottom: 5px;''],
     ln [T ''margin-top: 5px;'']]"

definition css_Py :: chunk where
  "css_Py = CArr [
     ln [T ''cursor: pointer;''],
     ln [T ''position: relative;''],
     ln [T ''margin-bottom: 5px;'']]"

definition css_Ty :: chunk where
  "css_Ty = CArr [
     ln [T ''font-family: '', F (\<lambda>p. th p ''typography.code.fontFamily''), T '';''],
     ln [T ''margin-left: 10px;''],
     ln [T ''flex: 1;''],
     ln [T ''overflow-x: hidden;''],
     ln [T ''text-overflow: ellipsis;'']]"

definition css_Iy :: chunk where
  "css_Iy = CArr [
     ln [T ''outline: 0;''],
     ln [T ''color: inherit;''],
     ln [T ''width: 100%;''],
     ln [T ''text-align: left;''],
     ln [T ''cursor: pointer;''],
     ln [T ''padding: 10px 30px 10px '',
         F (\<lambda>p. (if truthy (pProp p ''$inverted'') then JStr ''10px'' else JStr ''20px'')), T '';''],
     ln [T ''border-radius: '',
         F (\<lambda>p. (if truthy (pProp p ''$inverted'') then JStr ''0'' else JStr ''4px 4px 0 0'')), T '';''],
     ln [T ''background-color: '',
         F (\<lambda>p. (if truthy (pProp p ''$inverted'') then JStr ''transparent'' else th p ''codeBlock.backgroundColor'')),
         T '';''],
     ln [T ''display: flex;''],
     ln [T ''white-space: nowrap;''],
     ln [T ''align-items: center;''],
     ln [T ''border: '',
         F (\<lambda>p. (if truthy (pProp p ''$inverted'') then JStr ''0'' else JStr ''1px solid transparent'')),
         T '';''],
     ln [T ''border-bottom: '',
         F (\<lambda>p. (if truthy (pProp p ''$inverted'') then JStr ''1px solid #ccc'' else JStr ''0'')), T '';''],
     ln [T ''transition: border-color 0.25s ease;''],
     ln [F (\<lambda>p. jsOr (jsAnd (jsAnd (pProp p ''$expanded'') (JBool (\<not> (truthy (pProp p ''$inverted''))))) (JStr (''border-color: '' @
         toStr (th p ''colors.border.dark'') @ '';''))) (JStr ''''))],
     ln [T ''.'', CComp ''Ty'', T '' {''],
     ln [T ''color: '',
         F (\<lambda>p. (if truthy (pProp p ''$inverted'') then th p ''colors.text.primary'' else JStr ''#ffffff'')),
         T '';''],
     ln [T ''}''],
     ln [T ''&:focus {''],
     ln [T ''box-shadow: inset 0 2px 2px rgba(0, 0, 0, 0.45), 0 2px 0 rgba(128, 128, 128, 0.25);''],
     ln [T ''}'']]"

definition css_Ry :: chunk where
  "css_Ry = CArr [
     ln [T ''font-size: '',
         F (\<lambda>p. (if truthy (pProp p ''$compact'') then JStr ''0.8em'' else JStr ''0.929em'')), T '';''],
     ln [T ''line-height: '',
         F (\<lambda>p. (if truthy (pProp p ''$compact'') then JStr ''18px'' else JStr ''20px'')), T '';''],
     ln [T ''background-color: '', F (\<lambda>p. jsOr (th p (''colors.http.'' @
         toStr (pProp p ''type''))) (JStr ''#999999'')), T '';''],
     ln [T ''color: #ffffff;''],
     ln [T ''padding: '',
         F (\<lambda>p. (if truthy (pProp p ''$compact'') then JStr ''2px 8px'' else JStr ''3px 10px'')), T '';''],
     ln [T ''text-transform: uppercase;''],
     ln [T ''font-family: '', F (\<lambda>p. th p ''typography.headings.fontFamily''), T '';''],
     ln [T ''margin: 0;'']]"

definition css_Ny :: chunk where
  "css_Ny = CArr [
     ln [T ''position: absolute;''],
     ln [T ''width: 100%;''],
     ln [T ''z-index: 100;''],
     ln [T ''background: '', F (\<lambda>p. th p ''rightPanel.servers.overlay.backgroundColor''), T '';''],
     ln [T ''color: '', F (\<lambda>p. th p ''rightPanel.servers.overlay.textColor''), T '';''],
     ln [T ''box-sizing: border-box;''],
     ln [T ''box-shadow: 0 0 6px rgba(0, 0, 0, 0.33);''],
     ln [T ''overflow: hidden;''],
     ln [T ''border-bottom-left-radius: 4px;''],
     ln [T ''border-bottom-right-radius: 4px;''],
     ln [T ''transition: all 0.25s ease;''],
     ln [T ''visibility: hidden;''],
     ln [F (\<lambda>p. (if truthy (pProp p ''$expanded'') then JStr ''visibility: visible;'' else JStr ''transform: translateY(-50%) scaleY(0);''))]]"

definition css_S_y :: chunk where
  "css_S_y = CArr [
     ln [T ''padding: 10px;'']]"

definition css_Ly :: chunk where
  "css_Ly = CArr [
     ln [T ''padding: 5px;''],
     ln [T ''border: 1px solid #ccc;''],
     ln [T ''background: '', F (\<lambda>p. th p ''rightPanel.servers.url.backgroundColor''), T '';''],
     ln [T ''word-break: break-all;''],
     ln [T ''color: '', F (\<lambda>p. th p ''colors.primary.main''), T '';''],
     ln [T ''> span {''],
     ln [T ''color: '', F (\<lambda>p. th p ''colors.text.primary''), T '';''],
     ln [T ''}'']]"

definition css_Ky :: string where
  "css_Ky = unlines [''text-transform: lowercase;'', ''margin-left: 0;'', ''line-height: 1.5em;'']"

definition css_Zy :: chunk where
  \<comment> \<open>extends \<open>css_sm\<close>\<close>
  "css_Zy = CArr [
     ln [CVal (JStr css_Ky)]]"

definition css_Jy :: chunk where
  "css_Jy = CArr [
     ln [CVal (JStr css_Ky)],
     ln [T ''color: '', F (\<lambda>p. th p ''colors.text.secondary''), T '';''],
     ln [T ''font-size: '', F (\<lambda>p. th p ''schema.labelsTextSize''), T '';'']]"

definition css_eb :: chunk where
  "css_eb = CArr [
     ln [T ''display: block;''],
     ln [T ''border: 0;''],
     ln [T ''width: 100%;''],
     ln [T ''text-align: left;''],
     ln [T ''padding: 10px;''],
     ln [T ''border-radius: 2px;''],
     ln [T ''margin-bottom: 4px;''],
     ln [T ''line-height: 1.5em;''],
     ln [T ''cursor: pointer;''],
     ln [T ''color: '', F (\<lambda>p. th p (''colors.responses.'' @ toStr (pProp p ''type'') @ ''.color'')),
         T '';''],
     ln [T ''background-color: '', F (\<lambda>p. th p (''colors.responses.'' @ toStr (pProp p ''type'') @
         ''.backgroundColor'')), T '';''],
     ln [T ''&:focus {''],
     ln [T ''outline: auto '', F (\<lambda>p. th p (''colors.responses.'' @ toStr (pProp p ''type'') @ ''.color'')),
         T '';''],
     ln [T ''}''],
     ln [F (\<lambda>p. (if truthy (pProp p ''empty'') then JStr (unlines [''cursor: default;'', ''&::before {'',
         ''content: '' @ [CHR 0x22] @ [CHR 0xE2] @ [CHR 0x80] @ [CHR 0x94] @ [CHR 0x22] @ '';'',
         ''font-weight: bold;'', ''width: 1.5em;'', ''text-align: center;'', ''display: inline-block;'',
         ''vertical-align: top;'', ''}'', ''&:focus {'', ''outline: 0;'', ''}'']) else JStr '''')), T '';'']]"

definition css_tb :: chunk where
  "css_tb = CArr [
     ln [T ''padding: 10px;'']]"

definition css_nb :: chunk where
  \<comment> \<open>extends \<open>css_qu\<close>\<close>
  "css_nb = CArr [
     ln [T ''text-align: left;''],
     ln [T ''margin-top: 1em;''],
     ln [T ''caption-side: top;'']]"

definition css_rb :: chunk where
  "css_rb = CArr [
     ln [T ''vertical-align: top;'']]"

definition css_db :: chunk where
  "css_db = CArr [
     ln [T ''font-size: 1.3em;''],
     ln [T ''padding: 0.2em 0;''],
     ln [T ''margin: 3em 0 1.1em;''],
     ln [T ''color: '', F (\<lambda>p. th p ''colors.text.primary''), T '';''],
     ln [T ''font-weight: normal;'']]"

definition css_xb :: chunk where
  "css_xb = CArr [
     ln [T ''margin-bottom: '', F (\<lambda>p. jsMul 3 (th p ''spacing.unit'')), T ''px;'']]"

definition css_Sb :: chunk where
  "css_Sb = CArr [
     ln [T ''font-size: 1.3em;''],
     ln [T ''padding: 0.2em 0;''],
     ln [T ''margin: 3em 0 1.1em;''],
     ln [T ''color: '', F (\<lambda>p. th p ''colors.text.primary''), T '';''],
     ln [T ''font-weight: normal;'']]"

definition css_Nb :: chunk where
  "css_Nb = CArr [
     ln [T ''margin-top: 15px;'']]"

definition css_qb :: chunk where
  "css_qb = CArr [
     ln [T ''background: '', F (\<lambda>p. th p ''codeBlock.backgroundColor''), T '';''],
     ln [T ''padding: '', F (\<lambda>p. jsMul 4 (th p ''spacing.unit'')), T ''px;'']]"

definition css_Jb :: chunk where
  "css_Jb = CArr [
     ln [T ''margin-bottom: '', F (\<lambda>p. jsMul 6 (th p ''spacing.unit'')), T ''px;'']]"

definition css_Iv :: chunk where
  "css_Iv = CArr [
     ln [T ''user-select: none;''],
     ln [T ''width: 20px;''],
     ln [T ''height: 20px;''],
     ln [T ''align-self: center;''],
     ln [T ''display: flex;''],
     ln [T ''flex-direction: column;''],
     ln [T ''color: '', F (\<lambda>p. th p ''colors.primary.main''), T '';'']]"

definition css_S_v :: chunk where
  "css_S_v = CArr [
     ln [T ''width: '', F (\<lambda>p. th p ''sidebar.width''), T '';''],
     ln [T ''background-color: '', F (\<lambda>p. th p ''sidebar.backgroundColor''), T '';''],
     ln [T ''overflow: hidden;''],
     ln [T ''display: flex;''],
     ln [T ''flex-direction: column;''],
     ln [T ''backface-visibility: hidden;''],
     ln [T ''/* contain: strict; TODO: breaks layout since Chrome 80*/''],
     ln [T ''height: 100vh;''],
     ln [T ''position: sticky;''],
     ln [T ''position: -webkit-sticky;''],
     ln [T ''top: 0;''],
     ln [va_lessThan ''small'' False '''' (CArr [
         ln [T ''position: fixed;''],
         ln [T ''z-index: 20;''],
         ln [T ''width: 100%;''],
         ln [T ''background: '', F (\<lambda>p. th p ''sidebar.backgroundColor''), T '';''],
         ln [T ''display: '', F (\<lambda>p. (if truthy (pProp p ''$open'') then JStr ''flex'' else JStr ''none'')),
             T '';'']]), T '';''],
     ln [T ''@media print {''],
     ln [T ''display: none;''],
     ln [T ''}'']]"

definition css_Lv :: chunk where
  "css_Lv = CArr [
     ln [T ''outline: none;''],
     ln [T ''user-select: none;''],
     ln [T ''background-color: '', F (\<lambda>p. th p ''fab.backgroundColor''), T '';''],
     ln [T ''color: '', F (\<lambda>p. th p ''colors.primary.main''), T '';''],
     ln [T ''display: none;''],
     ln [T ''cursor: pointer;''],
     ln [T ''position: fixed;''],
     ln [T ''right: 20px;''],
     ln [T ''z-index: 100;''],
     ln [T ''border-radius: 50%;''],
     ln [T ''box-shadow: 0 0 20px rgba(0, 0, 0, 0.3);''],
     ln [va_lessThan ''small'' False '''' (CArr [
         ln [T ''display: flex;'']]), T '';''],
     ln [T ''bottom: 44px;''],
     ln [T ''width: 60px;''],
     ln [T ''height: 60px;''],
     ln [T ''padding: 0 20px;''],
     ln [T ''svg {''],
     ln [T ''color: '', F (\<lambda>p. th p ''fab.color''), T '';''],
     ln [T ''}''],
     ln [T ''@media print {''],
     ln [T ''display: none;''],
     ln [T ''}'']]"

definition css_Mv :: chunk where
  "css_Mv = CArr [
     ln [F (\<lambda>p. JStr (unlines [''font-family: '' @ toStr (th p ''typography.fontFamily'') @ '';'',
         ''font-size: '' @ toStr (th p ''typography.fontSize'') @ '';'', ''font-weight: '' @
         toStr (th p ''typography.fontWeightRegular'') @ '';'', ''line-height: '' @
         toStr (th p ''typography.lineHeight'') @ '';'', ''color: '' @ toStr (th p ''colors.text.primary'') @ '';'',
         ''display: flex;'', ''position: relative;'', ''text-align: left;'', ''-webkit-font-smoothing: '' @
         toStr (th p ''typography.smoothing'') @ '';'', ''font-smoothing: '' @ toStr (th p ''typography.smoothing'') @
         '';'',
         toStr ((if truthy (th p ''typography.optimizeSpeed'') then JStr ''text-rendering: optimizeSpeed !important'' else JStr '''')) @
         '';'', ''tap-highlight-color: rgba(0, 0, 0, 0);'', ''text-size-adjust: 100%;'', ''* {'',
         ''box-sizing: border-box;'', ''-webkit-tap-highlight-color: rgba(255, 255, 255, 0);'', ''}''])), T '';'']]"

definition css_Fv :: chunk where
  "css_Fv = CArr [
     ln [T ''z-index: 1;''],
     ln [T ''position: relative;''],
     ln [T ''overflow: hidden;''],
     ln [T ''width: calc(100% - '', F (\<lambda>p. th p ''sidebar.width''), T '');''],
     ln [va_lessThan ''small'' True '''' (CArr [
         ln [T ''width: 100%;'']]), T '';''],
     ln [T ''contain: layout;'']]"

definition overlayWidth :: "jsval \<Rightarrow> jsval \<Rightarrow> jsval" where
  \<comment> \<open>the width of the right panel's background, relative to the page without the side menu\<close>
  "overlayWidth w sidebar =
     (if hasSuffix (toStr w) ''%''
      then JStr (''calc((100% - '' @ toStr sidebar @ '') * '' @ hundredths (parseIntPrefix (toStr w)) @ '')'')
      else w)"

definition css_zv :: chunk where
  "css_zv = CArr [
     ln [T ''background: '', F (\<lambda>p. th p ''rightPanel.backgroundColor''), T '';''],
     ln [T ''position: absolute;''],
     ln [T ''top: 0;''],
     ln [T ''bottom: 0;''],
     ln [T ''right: 0;''],
     ln [T ''width: '', F (\<lambda>p. overlayWidth (th p ''rightPanel.width'') (th p ''sidebar.width'')), T '';''],
     ln [va_lessThan ''medium'' True '''' (CArr [
         ln [T ''display: none;'']]), T '';'']]"

definition css_Uv :: chunk where
  "css_Uv = CArr [
     ln [T ''padding: 5px 0;'']]"

definition css_Bv :: chunk where
  "css_Bv = CArr [
     ln [T ''width: calc(100% - '', F (\<lambda>p. jsMul 8 (th p ''spacing.unit'')), T ''px);''],
     ln [T ''box-sizing: border-box;''],
     ln [T ''margin: 0 '', F (\<lambda>p. jsMul 4 (th p ''spacing.unit'')), T ''px;''],
     ln [T ''padding: 5px '', F (\<lambda>p. jsMul 2 (th p ''spacing.unit'')), T ''px 5px''],
     ln [F (\<lambda>p. jsMul 4 (th p ''spacing.unit'')), T ''px;''],
     ln [T ''border: 0;''],
     ln [T ''border-bottom: 1px solid''],
     ln [F (\<lambda>p. JStr (if 500 < pLuminance p (th p ''sidebar.backgroundColor'') then pDarken p (JDec ''0.1'') (th p ''sidebar.backgroundColor'') else pLighten p (JDec ''0.1'') (th p ''sidebar.backgroundColor''))),
         T '';''],
     ln [T ''font-family: '', F (\<lambda>p. th p ''typography.fontFamily''), T '';''],
     ln [T ''font-weight: bold;''],
     ln [T ''font-size: 13px;''],
     ln [T ''color: '', F (\<lambda>p. th p ''sidebar.textColor''), T '';''],
     ln [T ''background-color: transparent;''],
     ln [T ''outline: none;'']]"

definition css_qv :: chunk where
  "css_qv = CArr [
     ln [T ''position: absolute;''],
     ln [T ''left: '', F (\<lambda>p. jsMul 4 (th p ''spacing.unit'')), T ''px;''],
     ln [T ''height: 1.8em;''],
     ln [T ''width: 0.9em;''],
     ln [T ''path {''],
     ln [T ''fill: '', F (\<lambda>p. th p ''sidebar.textColor''), T '';''],
     ln [T ''}'']]"

definition css_Vv :: chunk where
  "css_Vv = CArr [
     ln [T ''padding: '', F (\<lambda>p. th p ''spacing.unit''), T ''px 0;''],
     ln [T ''background-color: '',
         F (\<lambda>p. JStr (pDarken p (JDec ''0.05'') (th p ''sidebar.backgroundColor''))), T ''};''],
     ln [T ''color: '', F (\<lambda>p. th p ''sidebar.textColor''), T '';''],
     ln [T ''min-height: 150px;''],
     ln [T ''max-height: 250px;''],
     ln [T ''border-top: '', F (\<lambda>p. JStr (pDarken p (JDec ''0.1'') (th p ''sidebar.backgroundColor''))),
         T ''};''],
     ln [T ''border-bottom: '', F (\<lambda>p. JStr (pDarken p (JDec ''0.1'') (th p ''sidebar.backgroundColor''))),
         T ''};''],
     ln [T ''margin-top: 10px;''],
     ln [T ''line-height: 1.4;''],
     ln [T ''font-size: 0.9em;''],
     ln [T ''li {''],
     ln [T ''background-color: inherit;''],
     ln [T ''}''],
     ln [CComp ''wy'', T '' {''],
     ln [T ''padding-top: 6px;''],
     ln [T ''padding-bottom: 6px;''],
     ln [T ''&:hover,''],
     ln [T ''&.active {''],
     ln [T ''background-color: '', F (\<lambda>p. JStr (pDarken p (JDec ''0.1'') (th p ''sidebar.backgroundColor''))),
         T '';''],
     ln [T ''}''],
     ln [T ''> svg {''],
     ln [T ''display: none;''],
     ln [T ''}''],
     ln [T ''}'']]"

definition css_Wv :: chunk where
  "css_Wv = CArr [
     ln [T ''position: absolute;''],
     ln [T ''display: inline-block;''],
     ln [T ''width: '', F (\<lambda>p. jsMul 2 (th p ''spacing.unit'')), T ''px;''],
     ln [T ''text-align: center;''],
     ln [T ''right: '', F (\<lambda>p. jsMul 4 (th p ''spacing.unit'')), T ''px;''],
     ln [T ''line-height: 2em;''],
     ln [T ''vertical-align: middle;''],
     ln [T ''margin-right: 2px;''],
     ln [T ''cursor: pointer;''],
     ln [T ''font-style: normal;''],
     ln [T (''color: '' @ quoted ''#666'' @ '';'')]]"

end
