(* ===== verification/StyleNesting.thy ===== *)
theory StyleNesting
  imports RedocMenuStyles
begin

text \<open>
  Nesting of the stylesheet text: for every theme and props whose values do not themselves open or
  close blocks, strings or comments, the text of every styled component but five is well nested; the
  other five close a block that was never opened.
\<close>

section \<open>Running over chunks\<close>

lemma nestStep_shift:
  "nestStep (Nest m d) c = Nest m' d' \<Longrightarrow> nestStep (Nest m (d + k)) c = Nest m' (d' + k)"
  by (cases m) (auto split: if_splits nat.splits)

lemma nestRun_shift:
  "nestRun (Nest m d) w = Nest m' d' \<Longrightarrow> nestRun (Nest m (d + k)) w = Nest m' (d' + k)"
proof (induction w arbitrary: m d)
  case (Cons c w)
  show ?case
  proof (cases "nestStep (Nest m d) c")
    case (Nest m1 d1)
    then show ?thesis using Cons nestStep_shift [OF Nest, of k] by simp
  qed (use Cons in simp)
qed simp

lemma wellNested_iff_neutral: "wellNested w \<longleftrightarrow> neutral w"
  unfolding wellNested_def neutral_def using nestRun_shift [of Code 0 w Code 0] by auto

definition runC :: "props \<Rightarrow> nest \<Rightarrow> chunk \<Rightarrow> nest" where
  "runC p s c = nestRun s (cssText p c)"

lemma runC_simps [simp]:
  "runC p s (CArr []) = s"
  "runC p s (CArr (c # cs)) = runC p (runC p s c) (CArr cs)"
  "runC p s (CFn f) = runC p s (f p)"
  "runC p s (CComp n) = nestRun s (CHR ''.'' # pClass p n)"
  "runC p s (CKey n) = nestRun s (pKeyframes p n)"
  "runC p s (CVal (JStr t)) = nestRun s t"
  "runC p s (CVal JUndef) = s"
  "runC p s (CVal (JBool False)) = s"
  "runC p s (if b then c1 else c2) = (if b then runC p s c1 else runC p s c2)"
  "runC p s (CVal (if b then v1 else v2)) = (if b then runC p s (CVal v1) else runC p s (CVal v2))"
  by (simp_all add: runC_def cssText_def nestRun_append Vo_def)

lemma runC_Bad [simp]: "runC p Bad c = Bad"
  by (simp add: runC_def)

lemma runC_ln [simp]: "runC p s (ln cs) = nestRun (runC p s (CArr cs)) [CHR 0x0A]"
  by (simp add: runC_def cssText_def ln_def nestRun_append Vo_def)

lemma runC_val: "neutral (toStr v) \<Longrightarrow> runC p (Nest Code d) (CVal v) = Nest Code d"
  by (simp add: runC_def cssText_def neutral_def)

lemma runC_neutral: "neutral (cssText p c) \<Longrightarrow> runC p (Nest Code d) c = Nest Code d"
  by (simp add: runC_def neutral_def)

section \<open>Values that do not nest\<close>

named_theorems nest \<open>how the nesting runs over parts of templates\<close>

definition neutralProps :: "props \<Rightarrow> bool" where
  "neutralProps p \<longleftrightarrow>
     (\<forall>x. neutral (toStr (pTheme p x))) \<and> (\<forall>x. neutral (toStr (pProp p x)))
     \<and> (\<forall>h x. pHook p = Some h \<longrightarrow> neutral (toStr (h x)))
     \<and> (\<forall>x. neutral (pClass p x)) \<and> (\<forall>x. neutral (pKeyframes p x))
     \<and> (\<forall>a c. neutral (pDarken p a c)) \<and> (\<forall>a c. neutral (pLighten p a c)) \<and> (\<forall>a c. neutral (pTransparentize p a c))"

lemma plain_decimal: "plain (decimal n)"
  using decimal_chars [of n] unfolding plain_def by auto

lemma neutral_decimal [simp]: "neutral (decimal n)"
  by (rule plain_neutral [OF plain_decimal])

lemma neutral_hundredths: "neutral (hundredths n)"
  using plain_decimal by (intro plain_neutral) (auto simp: hundredths_def plain_def Let_def)

lemma neutral_Mul: "neutral (toStr (jsMul k v))"
  by (cases v) (auto simp: plain_neutral plain_def)

lemma neutral_unlines:
  "nestRun s (unlines []) = s"
  "nestRun s (unlines (l # ls)) = nestRun (nestRun (nestRun s l) [CHR 0x0A]) (unlines ls)"
  by (simp_all add: unlines_def nestRun_append)

lemma run_quoted_plain: "nestRun s (quoted t) = nestRun (nestRun (nestStep s (CHR 0x27)) t) [CHR 0x27]"
  by (simp add: quoted_def nestRun_append)

lemma neutralPropsD [nest]:
  "neutralProps p \<Longrightarrow> neutral (toStr (pTheme p x))"
  "neutralProps p \<Longrightarrow> neutral (toStr (pProp p x))"
  "neutralProps p \<Longrightarrow> neutral (pClass p x)"
  "neutralProps p \<Longrightarrow> neutral (pKeyframes p x)"
  "neutralProps p \<Longrightarrow> neutral (pDarken p a c)"
  "neutralProps p \<Longrightarrow> neutral (pLighten p a c)"
  "neutralProps p \<Longrightarrow> neutral (pTransparentize p a c)"
  by (simp_all add: neutralProps_def)

lemma runC_wa [nest]: "neutralProps p \<Longrightarrow> runC p (Nest Code d) (wa e) = Nest Code d"
  by (auto simp: wa_def neutralProps_def runC_val split: option.split)

lemma neutralI: "runC p (Nest Code 0) c = Nest Code 0 \<Longrightarrow> neutral (cssText p c)"
  by (simp add: runC_def wellNested_def flip: wellNested_iff_neutral)

lemma neutral_lit:
  "neutral []"
  "neutral (c # cs) \<longleftrightarrow> nestRun (nestStep (Nest Code 0) c) cs = Nest Code 0"
  "neutral (xs @ ys) \<longleftrightarrow> nestRun (nestRun (Nest Code 0) xs) ys = Nest Code 0"
  "neutral (unlines ls) \<longleftrightarrow> nestRun (Nest Code 0) (unlines ls) = Nest Code 0"
  "neutral (quoted t) \<longleftrightarrow> nestRun (Nest Code 0) (quoted t) = Nest Code 0"
  by (simp_all add: wellNested_def nestRun_append flip: wellNested_iff_neutral)

lemma neutral_bool:
  "neutral (toStr a) \<Longrightarrow> neutral (toStr b) \<Longrightarrow> neutral (toStr (jsAnd a b))"
  "neutral (toStr a) \<Longrightarrow> neutral (toStr b) \<Longrightarrow> neutral (toStr (jsOr a b))"
  "neutral (toStr (JBool x))"
  by (simp_all add: jsAnd_def jsOr_def neutral_lit)

lemmas nest_rules = runC_val neutral_run nestRun_append neutral_unlines run_quoted_plain neutral_Mul neutral_decimal
  neutral_lit neutral_bool cAnd_def

lemma lessThan_run [nest]:
  "neutralProps p \<Longrightarrow> runC p (Nest Code (Suc d)) body = Nest Code (Suc d) \<Longrightarrow>
     runC p (Nest Code d) (va_lessThan e b [] body) = Nest Code d"
  "neutralProps p \<Longrightarrow> runC p (Nest Code (Suc d)) body = Nest Code (Suc d) \<Longrightarrow>
     runC p (Nest Code d) (va_lessThan e b '' and (-ms-high-contrast:none)'' body) = Nest Code d"
  by (simp_all add: va_lessThan_def nest nest_rules)

section \<open>The components\<close>

lemma nested_ka [nest]: "neutralProps p \<Longrightarrow> runC p (Nest Code d) css_ka = Nest Code d"
  by (simp add: css_ka_def nest nest_rules)

lemma nested_Oa [nest]: "neutralProps p \<Longrightarrow> runC p (Nest Code d) css_Oa = Nest Code d"
  by (simp add: css_Oa_def nest nest_rules)

lemma nested_Ea [nest]: "neutralProps p \<Longrightarrow> runC p (Nest Code d) css_Ea = Nest Code d"
  by (simp add: css_Ea_def nest nest_rules)

lemma nested_u_a [nest]: "neutralProps p \<Longrightarrow> runC p (Nest Code d) css_u_a = Nest Code d"
  by (simp add: css_u_a_def nest nest_rules)

lemma nested_Iu [nest]: "neutralProps p \<Longrightarrow> runC p (Nest Code d) css_Iu = Nest Code d"
  by (simp add: css_Iu_def nest nest_rules)

lemma nested_Ru [nest]: "neutralProps p \<Longrightarrow> runC p (Nest Code d) css_Ru = Nest Code d"
  by (simp add: css_Ru_def nest nest_rules)

lemma nested_Nu [nest]: "neutralProps p \<Longrightarrow> runC p (Nest Code d) css_Nu = Nest Code d"
  by (simp add: css_Nu_def nest nest_rules)

lemma nested_S_u [nest]: "neutralProps p \<Longrightarrow> runC p (Nest Code d) css_S_u = Nest Code d"
  by (simp add: css_S_u_def nest nest_rules)

lemma nested_Lu [nest]: "neutralProps p \<Longrightarrow> runC p (Nest Code d) css_Lu = Nest Code d"
  by (simp add: css_Lu_def nest nest_rules)

lemma nested_Mu [nest]: "neutralProps p \<Longrightarrow> runC p (Nest Code d) (css_Mu n) = Nest Code d"
  by (simp add: css_Mu_def nest nest_rules css_Du_def)

lemma nested_Fu [nest]: "neutralProps p \<Longrightarrow> runC p (Nest Code d) css_Fu = Nest Code d"
  by (simp add: css_Fu_def nest nest_rules)

lemma nested_zu [nest]: "neutralProps p \<Longrightarrow> runC p (Nest Code d) css_zu = Nest Code d"
  by (simp add: css_zu_def nest nest_rules)

lemma nested_Uu [nest]: "neutralProps p \<Longrightarrow> runC p (Nest Code d) css_Uu = Nest Code d"
  by (simp add: css_Uu_def nest nest_rules)

lemma nested_Bu [nest]: "neutralProps p \<Longrightarrow> runC p (Nest Code d) css_Bu = Nest Code d"
  by (simp add: css_Bu_def nest nest_rules)

lemma nested_qu [nest]: "neutralProps p \<Longrightarrow> runC p (Nest Code d) css_qu = Nest Code d"
  by (simp add: css_qu_def nest nest_rules)

lemma nested_Gu [nest]: "neutralProps p \<Longrightarrow> neutral e \<Longrightarrow> runC p (Nest Code d) (css_Gu e) = Nest Code d"
  by (simp add: css_Gu_def nest nest_rules)

lemma nested_Qu [nest]: "neutralProps p \<Longrightarrow> runC p (Nest Code d) css_Qu = Nest Code d"
  by (simp add: css_Qu_def nest nest_rules)

lemma neutral_Ku [nest]: "neutral (toStr (css_Ku v))"
  by (simp add: css_Ku_def neutral_lit)

lemma nested_Zu [nest]: "neutralProps p \<Longrightarrow> runC p (Nest Code d) css_Zu = Nest Code d"
  by (simp add: css_Zu_def nest nest_rules)

lemma nested_Ju [nest]: "neutralProps p \<Longrightarrow> runC p (Nest Code d) css_Ju = Nest Code d"
  by (simp add: css_Ju_def nest nest_rules)

lemma nested_ep [nest]: "neutralProps p \<Longrightarrow> runC p (Nest Code d) css_ep = Nest Code d"
  by (simp add: css_ep_def nest nest_rules)

lemma nested_tp [nest]: "neutralProps p \<Longrightarrow> runC p (Nest Code d) css_tp = Nest Code d"
  by (simp add: css_tp_def nest nest_rules)

lemma nested_np [nest]: "neutralProps p \<Longrightarrow> runC p (Nest Code d) css_np = Nest Code d"
  by (simp add: css_np_def nest nest_rules)

lemma nested_rp [nest]: "neutralProps p \<Longrightarrow> runC p (Nest Code d) css_rp = Nest Code d"
  by (simp add: css_rp_def nest nest_rules)

lemma nested_ip [nest]: "neutralProps p \<Longrightarrow> runC p (Nest Code d) css_ip = Nest Code d"
  by (simp add: css_ip_def nest nest_rules)

lemma nested_op [nest]: "neutralProps p \<Longrightarrow> runC p (Nest Code d) css_op = Nest Code d"
  by (simp add: css_op_def nest nest_rules)

lemma nested_ap [nest]: "neutralProps p \<Longrightarrow> runC p (Nest Code d) css_ap = Nest Code d"
  by (simp add: css_ap_def nest nest_rules)

lemma nested_sp [nest]: "neutralProps p \<Longrightarrow> runC p (Nest Code d) css_sp = Nest Code d"
  by (simp add: css_sp_def nest nest_rules)

lemma nested_lp [nest]: "neutralProps p \<Longrightarrow> runC p (Nest Code d) css_lp = Nest Code d"
  by (simp add: css_lp_def nest nest_rules)

lemma nested_cp [nest]: "neutralProps p \<Longrightarrow> runC p (Nest Code d) css_cp = Nest Code d"
  by (simp add: css_cp_def nest nest_rules)

lemma nested_pp [nest]: "neutralProps p \<Longrightarrow> runC p (Nest Code d) css_pp = Nest Code d"
  by (simp add: css_pp_def nest nest_rules)

lemma nested_dp [nest]: "neutralProps p \<Longrightarrow> runC p (Nest Code d) css_dp = Nest Code d"
  by (simp add: css_dp_def nest nest_rules)

lemma nested_fp [nest]: "neutralProps p \<Longrightarrow> runC p (Nest Code d) css_fp = Nest Code d"
  by (simp add: css_fp_def nest nest_rules)

lemma nested_Vp [nest]: "neutralProps p \<Longrightarrow> runC p (Nest Code d) css_Vp = Nest Code d"
  by (simp add: css_Vp_def nest nest_rules)

lemma nested_Vp_small [nest]: "neutralProps p \<Longrightarrow> runC p (Nest Code d) css_Vp_small = Nest Code d"
  by (simp add: css_Vp_small_def nest nest_rules)

lemma nested_Wp [nest]: "neutralProps p \<Longrightarrow> runC p (Nest Code d) css_Wp = Nest Code d"
  by (simp add: css_Wp_def nest nest_rules)

lemma nested_Hp [nest]: "neutralProps p \<Longrightarrow> runC p (Nest Code d) css_Hp = Nest Code d"
  by (simp add: css_Hp_def nest nest_rules)

lemma nested_Yp [nest]: "neutralProps p \<Longrightarrow> runC p (Nest Code d) css_Yp = Nest Code d"
  by (simp add: css_Yp_def nest nest_rules)

lemma nested_Gp [nest]: "neutralProps p \<Longrightarrow> runC p (Nest Code d) css_Gp = Nest Code d"
  by (simp add: css_Gp_def nest nest_rules)

lemma nested_Ad [nest]: "neutralProps p \<Longrightarrow> runC p (Nest Code d) css_Ad = Nest Code d"
  by (simp add: css_Ad_def nest nest_rules)

lemma nested_Pd [nest]: "neutralProps p \<Longrightarrow> runC p (Nest Code d) css_Pd = Nest Code d"
  by (simp add: css_Pd_def nest nest_rules)

lemma nested_Id [nest]: "neutralProps p \<Longrightarrow> runC p (Nest Code d) css_Id = Nest Code d"
  by (simp add: css_Id_def nest nest_rules)

lemma nested_Rd [nest]: "neutralProps p \<Longrightarrow> runC p (Nest Code d) css_Rd = Nest Code d"
  by (simp add: css_Rd_def nest nest_rules)

lemma nested_Nd [nest]: "neutralProps p \<Longrightarrow> runC p (Nest Code d) css_Nd = Nest Code d"
  by (simp add: css_Nd_def nest nest_rules)

lemma nested_Rf [nest]: "neutralProps p \<Longrightarrow> runC p (Nest Code d) css_Rf = Nest Code d"
  by (simp add: css_Rf_def nest nest_rules)

lemma nested_Nf [nest]: "neutralProps p \<Longrightarrow> runC p (Nest Code d) css_Nf = Nest Code d"
  by (simp add: css_Nf_def nest nest_rules)

lemma nested_qf [nest]: "neutralProps p \<Longrightarrow> runC p (Nest Code d) css_qf = Nest Code d"
  by (simp add: css_qf_def nest nest_rules)

lemma nested_Hf [nest]: "neutralProps p \<Longrightarrow> runC p (Nest Code d) css_Hf = Nest Code d"
  by (simp add: css_Hf_def nest nest_rules)

lemma nested_Yf [nest]: "neutralProps p \<Longrightarrow> runC p (Nest Code d) css_Yf = Nest Code d"
  by (simp add: css_Yf_def nest nest_rules)

lemma nested_Gf [nest]: "neutralProps p \<Longrightarrow> runC p (Nest Code d) css_Gf = Nest Code d"
  by (simp add: css_Gf_def nest nest_rules)

lemma nested_Qf [nest]: "neutralProps p \<Longrightarrow> runC p (Nest Code d) css_Qf = Nest Code d"
  by (simp add: css_Qf_def nest nest_rules)

lemma nested_Xf [nest]: "neutralProps p \<Longrightarrow> runC p (Nest Code d) css_Xf = Nest Code d"
  by (simp add: css_Xf_def nest nest_rules)

lemma nested_lh [nest]: "neutralProps p \<Longrightarrow> runC p (Nest Code d) css_lh = Nest Code d"
  by (simp add: css_lh_def nest nest_rules)

lemma nested_ch [nest]: "neutralProps p \<Longrightarrow> runC p (Nest Code d) css_ch = Nest Code d"
  by (simp add: css_ch_def nest nest_rules)

lemma nested_uh [nest]: "neutralProps p \<Longrightarrow> runC p (Nest Code d) css_uh = Nest Code d"
  by (simp add: css_uh_def nest nest_rules)

lemma nested_yh [nest]: "neutralProps p \<Longrightarrow> runC p (Nest Code d) css_yh = Nest Code d"
  by (simp add: css_yh_def nest nest_rules)

lemma nested_bh [nest]: "neutralProps p \<Longrightarrow> runC p (Nest Code d) css_bh = Nest Code d"
  by (simp add: css_bh_def nest nest_rules)

lemma nested_vh [nest]: "neutralProps p \<Longrightarrow> runC p (Nest Code d) css_vh = Nest Code d"
  by (simp add: css_vh_def nest nest_rules)

lemma nested_xh [nest]: "neutralProps p \<Longrightarrow> runC p (Nest Code d) css_xh = Nest Code d"
  by (simp add: css_xh_def nest nest_rules)

lemma nested_wh [nest]: "neutralProps p \<Longrightarrow> runC p (Nest Code d) css_wh = Nest Code d"
  by (simp add: css_wh_def nest nest_rules)

lemma nested_Sh [nest]: "neutralProps p \<Longrightarrow> runC p (Nest Code d) css_Sh = Nest Code d"
  by (simp add: css_Sh_def nest nest_rules)

lemma nested_tm [nest]: "neutralProps p \<Longrightarrow> runC p (Nest Code d) css_tm = Nest Code d"
  by (simp add: css_tm_def nest nest_rules)

lemma nested_nm [nest]: "neutralProps p \<Longrightarrow> runC p (Nest Code d) css_nm = Nest Code d"
  by (simp add: css_nm_def nest nest_rules)

lemma nested_rm [nest]: "neutralProps p \<Longrightarrow> runC p (Nest Code d) css_rm = Nest Code d"
  by (simp add: css_rm_def nest nest_rules)

lemma nested_im [nest]: "neutralProps p \<Longrightarrow> runC p (Nest Code d) css_im = Nest Code d"
  by (simp add: css_im_def nest nest_rules)

lemma nested_om [nest]: "neutralProps p \<Longrightarrow> runC p (Nest Code d) css_om = Nest Code d"
  by (simp add: css_om_def nest nest_rules)

lemma nested_sm [nest]: "neutralProps p \<Longrightarrow> runC p (Nest Code d) css_sm = Nest Code d"
  by (simp add: css_sm_def nest nest_rules)

lemma nested_lm [nest]: "neutralProps p \<Longrightarrow> runC p (Nest Code d) css_lm = Nest Code d"
  by (simp add: css_lm_def nest nest_rules)

lemma nested_cm [nest]: "neutralProps p \<Longrightarrow> runC p (Nest Code d) css_cm = Nest Code d"
  by (simp add: css_cm_def nest nest_rules)

lemma nested_um [nest]: "neutralProps p \<Longrightarrow> runC p (Nest Code d) css_um = Nest Code d"
  by (simp add: css_um_def nest nest_rules)

lemma nested_hm [nest]: "neutralProps p \<Longrightarrow> runC p (Nest Code d) css_hm = Nest Code d"
  by (simp add: css_hm_def nest nest_rules)

lemma nested_mm [nest]: "neutralProps p \<Longrightarrow> runC p (Nest Code d) css_mm = Nest Code d"
  by (simp add: css_mm_def nest nest_rules)

lemma nested_bm [nest]: "neutralProps p \<Longrightarrow> runC p (Nest Code d) css_bm = Nest Code d"
  by (simp add: css_bm_def nest nest_rules)

lemma nested_vm [nest]: "neutralProps p \<Longrightarrow> runC p (Nest Code d) css_vm = Nest Code d"
  by (simp add: css_vm_def nest nest_rules)

lemma nested_km [nest]: "neutralProps p \<Longrightarrow> runC p (Nest Code d) css_km = Nest Code d"
  by (simp add: css_km_def nest nest_rules)

lemma nested_jm [nest]: "neutralProps p \<Longrightarrow> runC p (Nest Code d) css_jm = Nest Code d"
  by (simp add: css_jm_def nest nest_rules)

lemma nested_eg [nest]: "neutralProps p \<Longrightarrow> runC p (Nest Code d) css_eg = Nest Code d"
  by (simp add: css_eg_def nest nest_rules)

lemma nested_Ig [nest]: "neutralProps p \<Longrightarrow> runC p (Nest Code d) css_Ig = Nest Code d"
  by (simp add: css_Ig_def nest nest_rules)

lemma nested_Rg_bg [nest]: "neutralProps p \<Longrightarrow> runC p (Nest Code d) css_Rg_bg = Nest Code d"
  by (simp add: css_Rg_bg_def nest nest_rules)

lemma nested_Rg_list [nest]: "neutralProps p \<Longrightarrow> runC p (Nest Code d) css_Rg_list = Nest Code d"
  by (simp add: css_Rg_list_def nest nest_rules)

lemma nested_Rg [nest]: "neutralProps p \<Longrightarrow> runC p (Nest Code d) css_Rg = Nest Code d"
  by (simp add: css_Rg_def nest nest_rules)

lemma nested_Ng [nest]: "neutralProps p \<Longrightarrow> runC p (Nest Code d) css_Ng = Nest Code d"
  by (simp add: css_Ng_def nest nest_rules)

lemma nested_S_g [nest]: "neutralProps p \<Longrightarrow> runC p (Nest Code d) css_S_g = Nest Code d"
  by (simp add: css_S_g_def nest nest_rules)

lemma nested_Lg [nest]: "neutralProps p \<Longrightarrow> runC p (Nest Code d) css_Lg = Nest Code d"
  by (simp add: css_Lg_def nest nest_rules)

lemma nested_Dg [nest]: "neutralProps p \<Longrightarrow> runC p (Nest Code d) css_Dg = Nest Code d"
  by (simp add: css_Dg_def nest nest_rules)

lemma nested_Mg [nest]: "neutralProps p \<Longrightarrow> runC p (Nest Code d) css_Mg = Nest Code d"
  by (simp add: css_Mg_def nest nest_rules)

lemma nested_Fg [nest]: "neutralProps p \<Longrightarrow> runC p (Nest Code d) css_Fg = Nest Code d"
  by (simp add: css_Fg_def nest nest_rules)

lemma nested_zg [nest]: "neutralProps p \<Longrightarrow> runC p (Nest Code d) css_zg = Nest Code d"
  by (simp add: css_zg_def nest nest_rules)

lemma nested_Ug [nest]: "neutralProps p \<Longrightarrow> runC p (Nest Code d) css_Ug = Nest Code d"
  by (simp add: css_Ug_def nest nest_rules)

lemma nested_qg [nest]: "neutralProps p \<Longrightarrow> runC p (Nest Code d) css_qg = Nest Code d"
  by (simp add: css_qg_def nest nest_rules)

lemma nested_Vg [nest]: "neutralProps p \<Longrightarrow> runC p (Nest Code d) css_Vg = Nest Code d"
  by (simp add: css_Vg_def nest nest_rules)

lemma nested_Wg [nest]: "neutralProps p \<Longrightarrow> runC p (Nest Code d) css_Wg = Nest Code d"
  by (simp add: css_Wg_def nest nest_rules)

lemma nested_Zg [nest]: "neutralProps p \<Longrightarrow> runC p (Nest Code d) css_Zg = Nest Code d"
  by (simp add: css_Zg_def nest nest_rules)

lemma nested_Jg [nest]: "neutralProps p \<Longrightarrow> runC p (Nest Code d) css_Jg = Nest Code d"
  by (simp add: css_Jg_def nest nest_rules)

lemma nested_ey [nest]: "neutralProps p \<Longrightarrow> runC p (Nest Code d) css_ey = Nest Code d"
  by (simp add: css_ey_def nest nest_rules)

lemma nested_ty [nest]: "neutralProps p \<Longrightarrow> runC p (Nest Code d) css_ty = Nest Code d"
  by (simp add: css_ty_def nest nest_rules)

lemma nested_ny [nest]: "neutralProps p \<Longrightarrow> runC p (Nest Code d) css_ny = Nest Code d"
  by (simp add: css_ny_def nest nest_rules)

lemma nested_iy [nest]: "neutralProps p \<Longrightarrow> runC p (Nest Code d) css_iy = Nest Code d"
  by (simp add: css_iy_def nest nest_rules)

lemma nested_oy [nest]: "neutralProps p \<Longrightarrow> runC p (Nest Code d) css_oy = Nest Code d"
  by (simp add: css_oy_def nest nest_rules)

lemma nested_ay [nest]: "neutralProps p \<Longrightarrow> runC p (Nest Code d) css_ay = Nest Code d"
  by (simp add: css_ay_def nest nest_rules)

lemma nested_gy [nest]: "neutralProps p \<Longrightarrow> runC p (Nest Code d) css_gy = Nest Code d"
  by (simp add: css_gy_def nest nest_rules)

lemma nested_by [nest]: "neutralProps p \<Longrightarrow> runC p (Nest Code d) css_by = Nest Code d"
  by (simp add: css_by_def nest nest_rules)

lemma nested_vy [nest]: "neutralProps p \<Longrightarrow> runC p (Nest Code d) css_vy = Nest Code d"
  by (simp add: css_vy_def nest nest_rules)

lemma nested_xy0 [nest]: "neutralProps p \<Longrightarrow> runC p (Nest Code d) css_xy0 = Nest Code d"
  by (simp add: css_xy0_def nest nest_rules)

lemma nested_xy1 [nest]: "neutralProps p \<Longrightarrow> runC p (Nest Code d) css_xy1 = Nest Code d"
  by (simp add: css_xy1_def nest nest_rules)

lemma neutral_yy [nest]: "neutralProps p \<Longrightarrow> neutral (toStr (yy e p n))"
  by (simp add: yy_def nest neutral_lit)

lemma nested_xy [nest]: "neutralProps p \<Longrightarrow> runC p (Nest Code d) (css_xy v) = Nest Code d"
  by (simp add: css_xy_def nest)

lemma nested_wy [nest]: "neutralProps p \<Longrightarrow> runC p (Nest Code d) css_wy = Nest Code d"
  by (simp add: css_wy_def nest nest_rules)

lemma nested_ky [nest]: "neutralProps p \<Longrightarrow> runC p (Nest Code d) css_ky = Nest Code d"
  by (simp add: css_ky_def nest nest_rules)

lemma nested_Sy [nest]: "neutralProps p \<Longrightarrow> runC p (Nest Code d) css_Sy = Nest Code d"
  by (simp add: css_Sy_def nest nest_rules)

lemma nested_Oy [nest]: "neutralProps p \<Longrightarrow> runC p (Nest Code d) css_Oy = Nest Code d"
  by (simp add: css_Oy_def nest nest_rules)

lemma nested_Ey [nest]: "neutralProps p \<Longrightarrow> runC p (Nest Code d) css_Ey = Nest Code d"
  by (simp add: css_Ey_def nest nest_rules)

lemma nested_u_y [nest]: "neutralProps p \<Longrightarrow> runC p (Nest Code d) css_u_y = Nest Code d"
  by (simp add: css_u_y_def nest nest_rules)

lemma nested_Ay [nest]: "neutralProps p \<Longrightarrow> runC p (Nest Code d) css_Ay = Nest Code d"
  by (simp add: css_Ay_def nest nest_rules)

lemma nested_jy [nest]: "neutralProps p \<Longrightarrow> runC p (Nest Code d) css_jy = Nest Code d"
  by (simp add: css_jy_def nest nest_rules)

lemma nested_Py [nest]: "neutralProps p \<Longrightarrow> runC p (Nest Code d) css_Py = Nest Code d"
  by (simp add: css_Py_def nest nest_rules)

lemma nested_Ty [nest]: "neutralProps p \<Longrightarrow> runC p (Nest Code d) css_Ty = Nest Code d"
  by (simp add: css_Ty_def nest nest_rules)

lemma nested_Iy [nest]: "neutralProps p \<Longrightarrow> runC p (Nest Code d) css_Iy = Nest Code d"
  by (simp add: css_Iy_def nest nest_rules)

lemma nested_Ry [nest]: "neutralProps p \<Longrightarrow> runC p (Nest Code d) css_Ry = Nest Code d"
  by (simp add: css_Ry_def nest nest_rules)

lemma nested_Ny [nest]: "neutralProps p \<Longrightarrow> runC p (Nest Code d) css_Ny = Nest Code d"
  by (simp add: css_Ny_def nest nest_rules)

lemma nested_S_y [nest]: "neutralProps p \<Longrightarrow> runC p (Nest Code d) css_S_y = Nest Code d"
  by (simp add: css_S_y_def nest nest_rules)

lemma nested_Ly [nest]: "neutralProps p \<Longrightarrow> runC p (Nest Code d) css_Ly = Nest Code d"
  by (simp add: css_Ly_def nest nest_rules)

lemma nested_Zy [nest]: "neutralProps p \<Longrightarrow> runC p (Nest Code d) css_Zy = Nest Code d"
  by (simp add: css_Zy_def nest nest_rules css_Ky_def)

lemma nested_Jy [nest]: "neutralProps p \<Longrightarrow> runC p (Nest Code d) css_Jy = Nest Code d"
  by (simp add: css_Jy_def nest nest_rules css_Ky_def)

lemma nested_eb [nest]: "neutralProps p \<Longrightarrow> runC p (Nest Code d) css_eb = Nest Code d"
  by (simp add: css_eb_def nest nest_rules)

lemma nested_tb [nest]: "neutralProps p \<Longrightarrow> runC p (Nest Code d) css_tb = Nest Code d"
  by (simp add: css_tb_def nest nest_rules)

lemma nested_nb [nest]: "neutralProps p \<Longrightarrow> runC p (Nest Code d) css_nb = Nest Code d"
  by (simp add: css_nb_def nest nest_rules)

lemma nested_rb [nest]: "neutralProps p \<Longrightarrow> runC p (Nest Code d) css_rb = Nest Code d"
  by (simp add: css_rb_def nest nest_rules)

lemma nested_db [nest]: "neutralProps p \<Longrightarrow> runC p (Nest Code d) css_db = Nest Code d"
  by (simp add: css_db_def nest nest_rules)

lemma nested_xb [nest]: "neutralProps p \<Longrightarrow> runC p (Nest Code d) css_xb = Nest Code d"
  by (simp add: css_xb_def nest nest_rules)

lemma nested_Sb [nest]: "neutralProps p \<Longrightarrow> runC p (Nest Code d) css_Sb = Nest Code d"
  by (simp add: css_Sb_def nest nest_rules)

lemma nested_Nb [nest]: "neutralProps p \<Longrightarrow> runC p (Nest Code d) css_Nb = Nest Code d"
  by (simp add: css_Nb_def nest nest_rules)

lemma nested_qb [nest]: "neutralProps p \<Longrightarrow> runC p (Nest Code d) css_qb = Nest Code d"
  by (simp add: css_qb_def nest nest_rules)

lemma nested_Jb [nest]: "neutralProps p \<Longrightarrow> runC p (Nest Code d) css_Jb = Nest Code d"
  by (simp add: css_Jb_def nest nest_rules)

lemma nested_Iv [nest]: "neutralProps p \<Longrightarrow> runC p (Nest Code d) css_Iv = Nest Code d"
  by (simp add: css_Iv_def nest nest_rules)

lemma nested_S_v [nest]: "neutralProps p \<Longrightarrow> runC p (Nest Code d) css_S_v = Nest Code d"
  by (simp add: css_S_v_def nest nest_rules)

lemma nested_Lv [nest]: "neutralProps p \<Longrightarrow> runC p (Nest Code d) css_Lv = Nest Code d"
  by (simp add: css_Lv_def nest nest_rules)

lemma nested_Mv [nest]: "neutralProps p \<Longrightarrow> runC p (Nest Code d) css_Mv = Nest Code d"
  by (simp add: css_Mv_def nest nest_rules)

lemma nested_Fv [nest]: "neutralProps p \<Longrightarrow> runC p (Nest Code d) css_Fv = Nest Code d"
  by (simp add: css_Fv_def nest nest_rules)

lemma nested_zv [nest]: "neutralProps p \<Longrightarrow> runC p (Nest Code d) css_zv = Nest Code d"
  by (simp add: css_zv_def nest nest_rules overlayWidth_def neutral_hundredths)

lemma nested_Uv [nest]: "neutralProps p \<Longrightarrow> runC p (Nest Code d) css_Uv = Nest Code d"
  by (simp add: css_Uv_def nest nest_rules)

lemma nested_Bv [nest]: "neutralProps p \<Longrightarrow> runC p (Nest Code d) css_Bv = Nest Code d"
  by (simp add: css_Bv_def nest nest_rules)

lemma nested_qv [nest]: "neutralProps p \<Longrightarrow> runC p (Nest Code d) css_qv = Nest Code d"
  by (simp add: css_qv_def nest nest_rules)

lemma nested_Wv [nest]: "neutralProps p \<Longrightarrow> runC p (Nest Code d) css_Wv = Nest Code d"
  by (simp add: css_Wv_def nest nest_rules)

section \<open>All components\<close>

definition allStyles :: "(string \<times> chunk) list" where
  "allStyles = [
     (''ka'', css_ka), (''Oa'', css_Oa), (''Ea'', css_Ea), (''u_a'', css_u_a), (''Iu'', css_Iu),
     (''Ru'', css_Ru), (''Nu'', css_Nu), (''S_u'', css_S_u), (''Lu'', css_Lu), (''Fu'', css_Fu),
     (''zu'', css_zu), (''Uu'', css_Uu), (''Bu'', css_Bu), (''qu'', css_qu), (''Qu'', css_Qu), (''Zu'', css_Zu),
     (''Ju'', css_Ju), (''ep'', css_ep), (''tp'', css_tp), (''np'', css_np), (''rp'', css_rp), (''ip'', css_ip),
     (''op'', css_op), (''ap'', css_ap), (''sp'', css_sp), (''lp'', css_lp), (''cp'', css_cp), (''up'', css_up),
     (''pp'', css_pp), (''dp'', css_dp), (''fp'', css_fp), (''Vp'', css_Vp), (''Vp_small'', css_Vp_small),
     (''Wp'', css_Wp), (''Hp'', css_Hp), (''Yp'', css_Yp), (''Gp'', css_Gp), (''Ad'', css_Ad), (''Pd'', css_Pd),
     (''Id'', css_Id), (''Rd'', css_Rd), (''Nd'', css_Nd), (''Rf'', css_Rf), (''Nf'', css_Nf), (''qf'', css_qf),
     (''Hf'', css_Hf), (''Yf'', css_Yf), (''Gf'', css_Gf), (''Qf'', css_Qf), (''Xf'', css_Xf), (''lh'', css_lh),
     (''ch'', css_ch), (''uh'', css_uh), (''yh'', css_yh), (''bh'', css_bh), (''vh'', css_vh), (''xh'', css_xh),
     (''wh'', css_wh), (''Sh'', css_Sh), (''tm'', css_tm), (''nm'', css_nm), (''rm'', css_rm), (''im'', css_im),
     (''om'', css_om), (''sm'', css_sm), (''lm'', css_lm), (''cm'', css_cm), (''um'', css_um), (''pm'', css_pm),
     (''fm'', css_fm), (''hm'', css_hm), (''mm'', css_mm), (''bm'', css_bm), (''vm'', css_vm), (''km'', css_km),
     (''jm'', css_jm), (''eg'', css_eg), (''Ig'', css_Ig), (''Rg_bg'', css_Rg_bg), (''Rg_list'', css_Rg_list),
     (''Rg'', css_Rg), (''Ng'', css_Ng), (''S_g'', css_S_g), (''Lg'', css_Lg), (''Dg'', css_Dg),
     (''Mg'', css_Mg), (''Fg'', css_Fg), (''zg'', css_zg), (''Ug'', css_Ug), (''qg'', css_qg), (''Vg'', css_Vg),
     (''Wg'', css_Wg), (''Zg'', css_Zg), (''Jg'', css_Jg), (''ey'', css_ey), (''ty'', css_ty), (''ny'', css_ny),
     (''iy'', css_iy), (''oy'', css_oy), (''ay'', css_ay), (''gy'', css_gy), (''by'', css_by), (''vy'', css_vy),
     (''xy0'', css_xy0), (''xy1'', css_xy1), (''wy'', css_wy), (''ky'', css_ky), (''Sy'', css_Sy),
     (''Oy'', css_Oy), (''Ey'', css_Ey), (''u_y'', css_u_y), (''Ay'', css_Ay), (''jy'', css_jy),
     (''Py'', css_Py), (''Ty'', css_Ty), (''Iy'', css_Iy), (''Ry'', css_Ry), (''Ny'', css_Ny),
     (''S_y'', css_S_y), (''Ly'', css_Ly), (''Zy'', css_Zy), (''Jy'', css_Jy), (''eb'', css_eb),
     (''tb'', css_tb), (''nb'', css_nb), (''rb'', css_rb), (''db'', css_db), (''xb'', css_xb), (''Sb'', css_Sb),
     (''Nb'', css_Nb), (''qb'', css_qb), (''Jb'', css_Jb), (''Iv'', css_Iv), (''S_v'', css_S_v),
     (''Lv'', css_Lv), (''Mv'', css_Mv), (''Fv'', css_Fv), (''zv'', css_zv), (''Uv'', css_Uv), (''Bv'', css_Bv),
     (''qv'', css_qv), (''Vv'', css_Vv), (''Wv'', css_Wv)]"

definition brokenStyles :: "string set" where
  "brokenStyles = {''up'', ''pm'', ''fm'', ''Vv''}"

lemma wellNested_runC: "runC p (Nest Code 0) c = Nest Code 0 \<Longrightarrow> wellNested (cssText p c)"
  by (simp add: runC_def wellNested_def)

text \<open>
  C21. For every theme and props whose values open and close no blocks, strings or comments, the text of
  every styled component of the viewer except the four listed ones is well nested: each of its blocks,
  strings and comments is closed, and no closing brace is left over.
\<close>
theorem styles_well_nested:
  assumes "neutralProps p" and "(n, c) \<in> set allStyles" and "n \<notin> brokenStyles"
  shows "wellNested (cssText p c)"
proof -
  have "list_all (\<lambda>(n, c). n \<in> brokenStyles \<or> runC p (Nest Code 0) c = Nest Code 0) allStyles"
    using assms(1) by (simp add: allStyles_def brokenStyles_def nest)
  then have "runC p (Nest Code 0) c = Nest Code 0" using assms(2, 3) by (auto simp: list_all_iff)
  then show ?thesis by (rule wellNested_runC)
qed

definition sampleProps :: props where
  "sampleProps = \<lparr>pTheme = (\<lambda>_. JStr ''1em''), pProp = (\<lambda>_. JUndef), pHook = None, pClass = (\<lambda>_. ''sc''),
     pKeyframes = (\<lambda>_. ''spin''), pDarken = (\<lambda>_ _. ''black''), pLighten = (\<lambda>_ _. ''white''),
     pTransparentize = (\<lambda>_ _. ''gray''), pLuminance = (\<lambda>_. 0)\<rparr>"

lemma neutral_sampleProps: "neutralProps sampleProps"
  by (simp add: neutralProps_def sampleProps_def neutral_lit)

theorem styles_well_nested_witness: "neutralProps sampleProps \<and> wellNested (cssText sampleProps css_Fu)"
  using styles_well_nested [of sampleProps "''Fu''" css_Fu] neutral_sampleProps
  by (simp add: allStyles_def brokenStyles_def)

text \<open>
  The type badge, the example and constraint chips and the search results have a closing brace that
  nothing opened, whatever the theme. In the search results it closes the component's own rule after
  the background colour, so that the text colour and all that follows stand outside the rule.
\<close>
theorem stray_closing_braces:
  assumes "neutralProps p"
  shows "nestRun (Nest Code 0) (cssText p css_up) = Bad
    \<and> nestRun (Nest Code 0) (cssText p css_pm) = Bad
    \<and> nestRun (Nest Code 0) (cssText p css_fm) = Bad
    \<and> nestRun (Nest Code 0) (cssText p css_Vv) = Bad
    \<and> (\<exists>before after. cssText p css_Vv = before @ ''color: '' @ after \<and> nestRun (Nest Code 1) before = Nest Code 0)"
proof -
  have "runC p (Nest Code 0) css_up = Bad" "runC p (Nest Code 0) css_pm = Bad" "runC p (Nest Code 0) css_fm = Bad"
    "runC p (Nest Code 0) css_Vv = Bad"
    using assms by (simp_all add: css_up_def css_pm_def css_fm_def css_Vv_def nest nest_rules)
  moreover
  let ?head = "CArr [
     ln [T ''padding: '', F (\<lambda>p. th p ''spacing.unit''), T ''px 0;''],
     ln [T ''background-color: '', F (\<lambda>p. JStr (pDarken p (JDec ''0.05'') (th p ''sidebar.backgroundColor''))), T ''};'']]"
  have "runC p (Nest Code 1) ?head = Nest Code 0" using assms by (simp add: nest nest_rules)
  moreover have "Wo p css_Vv = Wo p ?head @ [''color: ''] @ tl (Wo p (CArr (drop 2 (case css_Vv of CArr cs \<Rightarrow> cs))))"
    by (simp add: css_Vv_def ln_def Vo_def)
  then have "cssText p css_Vv = cssText p ?head @ ''color: '' @ concat (tl (Wo p (CArr (drop 2 (case css_Vv of CArr cs \<Rightarrow> cs)))))"
    by (simp only: cssText_def concat_append concat.simps append_Nil2)
  ultimately show ?thesis unfolding runC_def by blast
qed

theorem stray_closing_braces_witness:
  "neutralProps sampleProps \<and> nestRun (Nest Code 0) (cssText sampleProps css_Vv) = Bad"
  using stray_closing_braces [OF neutral_sampleProps] neutral_sampleProps by simp

text \<open>
  The selector for the path in the endpoint button is a dot followed by the component reference,
  which itself starts with a dot; the text has two dots, and no class name follows the first one.
\<close>
theorem doubled_class_dot:
  "\<exists>before after. cssText p css_Iy = before @ ''..'' @ pClass p ''Ty'' @ '' {'' @ after"
proof -
  have "Wo p css_Iy = Wo p (CArr (take 15 (case css_Iy of CArr cs \<Rightarrow> cs))) @ [''.'', CHR ''.'' # pClass p ''Ty'', '' {'']
      @ [[CHR 0x0A]] @ Wo p (CArr (drop 16 (case css_Iy of CArr cs \<Rightarrow> cs)))"
    by (simp add: css_Iy_def ln_def Vo_def)
  then show ?thesis unfolding cssText_def by (simp only: concat_append) auto
qed

end
