(* ===== verification/StyleLayout.thy ===== *)
theory StyleLayout
  imports RedocMenuStyles
begin

text \<open>
  The layout the styles describe. A reader splits stylesheet text into declarations, each with the
  rules and media queries it stands in; the value a property takes on the component's own element is
  that of the last declaration whose enclosing media queries all match. The theorems say how the
  two panels, the side menu and the menu button of the viewer appear for each media query.
\<close>

section \<open>Declarations of a stylesheet text\<close>

record decl =
  dCtx :: "string list" \<comment> \<open>enclosing rules and media queries, innermost first\<close>
  dName :: string
  dValue :: string

datatype reader = Rd mode "string list" string "decl list"

definition isSpace :: "char \<Rightarrow> bool" where
  "isSpace c \<longleftrightarrow> c = CHR '' '' \<or> c = CHR 0x0A"

definition trimRight :: "string \<Rightarrow> string" where
  "trimRight w = rev (dropWhile isSpace (rev w))"

definition flush :: "string list \<Rightarrow> string \<Rightarrow> decl list \<Rightarrow> decl list" where
  \<comment> \<open>ends a declaration: the property name up to the colon, then the value\<close>
  "flush ctx buf out =
     (if buf = [] then out
      else out @ [\<lparr>dCtx = ctx, dName = takeWhile (\<lambda>c. c \<noteq> CHR '':'') buf,
                   dValue = dropWhile isSpace (drop 1 (dropWhile (\<lambda>c. c \<noteq> CHR '':'') buf))\<rparr>])"

definition readCode :: "string list \<Rightarrow> string \<Rightarrow> decl list \<Rightarrow> char \<Rightarrow> reader" where
  "readCode ctx buf out c =
     (if c = CHR ''{'' then Rd Code (trimRight buf # ctx) [] out
      else if c = CHR ''}'' then Rd Code (tl ctx) [] (flush ctx buf out)
      else if c = CHR '';'' then Rd Code ctx [] (flush ctx buf out)
      else if c = CHR 0x27 \<or> c = CHR 0x22 then Rd (Quote c) ctx (buf @ [c]) out
      else if c = CHR ''/'' then Rd Slash ctx buf out
      else if buf = [] \<and> isSpace c then Rd Code ctx [] out
      else Rd Code ctx (buf @ [c]) out)"

fun readStep :: "reader \<Rightarrow> char \<Rightarrow> reader" where
  "readStep (Rd Code ctx buf out) c = readCode ctx buf out c"
| "readStep (Rd Slash ctx buf out) c =
     (if c = CHR ''*'' then Rd Block ctx buf out
      else if c = CHR ''/'' then Rd Line ctx buf out
      else readCode ctx (buf @ ''/'') out c)"
| "readStep (Rd Line ctx buf out) c = (if c = CHR 0x0A then Rd Code ctx buf out else Rd Line ctx buf out)"
| "readStep (Rd Block ctx buf out) c = (if c = CHR ''*'' then Rd BlockStar ctx buf out else Rd Block ctx buf out)"
| "readStep (Rd BlockStar ctx buf out) c =
     (if c = CHR ''/'' then Rd Code ctx buf out
      else if c = CHR ''*'' then Rd BlockStar ctx buf out else Rd Block ctx buf out)"
| "readStep (Rd (Quote q) ctx buf out) c =
     (if c = q then Rd Code ctx (buf @ [c]) out
      else if c = CHR 0x5C then Rd (Esc q) ctx (buf @ [c]) out else Rd (Quote q) ctx (buf @ [c]) out)"
| "readStep (Rd (Esc q) ctx buf out) c = Rd (Quote q) ctx (buf @ [c]) out"

definition readRun :: "reader \<Rightarrow> string \<Rightarrow> reader" where
  "readRun s w = foldl readStep s w"

fun declsOf :: "reader \<Rightarrow> decl list" where
  "declsOf (Rd _ ctx buf out) = flush ctx buf out"

definition declarations :: "string \<Rightarrow> decl list" where
  "declarations text = declsOf (readRun (Rd Code [] [] []) text)"

section \<open>The value of a property\<close>

definition applies :: "(string \<Rightarrow> bool) \<Rightarrow> decl \<Rightarrow> bool" where
  \<comment> \<open>on the element itself: under media queries that match, and under no nested selector\<close>
  "applies view d = list_all (\<lambda>pre. take 6 pre = ''@media'' \<and> view pre) (dCtx d)"

definition computed :: "(string \<Rightarrow> bool) \<Rightarrow> props \<Rightarrow> chunk \<Rightarrow> string \<Rightarrow> string option" where
  "computed view p css name =
     (case filter (\<lambda>d. dName d = name \<and> applies view d) (declarations (cssText p css)) of
        [] \<Rightarrow> None
      | ds \<Rightarrow> Some (dValue (last ds)))"

section \<open>Reading templates\<close>

definition solid :: "string \<Rightarrow> bool" where
  \<comment> \<open>a value that reads as itself: no blank at its start, nothing that ends a declaration\<close>
  "solid w \<longleftrightarrow> (case w of [] \<Rightarrow> False | c # _ \<Rightarrow> \<not> isSpace c)
     \<and> list_all (\<lambda>c. c \<notin> set [CHR ''{'', CHR ''}'', CHR '';'', CHR 0x27, CHR 0x22, CHR ''/'']) w"

definition solidAt :: "props \<Rightarrow> string list \<Rightarrow> bool" where
  "solidAt p paths = list_all (\<lambda>x. \<not> Vo (th p x) \<and> solid (toStr (th p x))) paths"

definition readC :: "props \<Rightarrow> reader \<Rightarrow> chunk \<Rightarrow> reader" where
  "readC p s c = readRun s (cssText p c)"

lemma readRun_simps [simp]:
  "readRun s [] = s"
  "readRun s (c # w) = readRun (readStep s c) w"
  by (simp_all add: readRun_def)

lemma readRun_append: "readRun s (v @ w) = readRun (readRun s v) w"
  by (simp add: readRun_def)

lemma readC_simps [simp]:
  "readC p s (CArr []) = s"
  "readC p s (CArr (c # cs)) = readC p (readC p s c) (CArr cs)"
  "readC p s (CFn f) = readC p s (f p)"
  "readC p s (CVal (JStr t)) = readRun s t"
  "readC p s (CVal (if b then v1 else v2)) = (if b then readC p s (CVal v1) else readC p s (CVal v2))"
  by (simp_all add: readC_def cssText_def readRun_append Vo_def)

lemma readC_ln [simp]: "readC p s (ln cs) = readRun (readC p s (CArr cs)) [CHR 0x0A]"
  by (simp add: readC_def cssText_def ln_def readRun_append Vo_def)

lemma readRun_inner:
  assumes "list_all (\<lambda>c. c \<notin> set [CHR ''{'', CHR ''}'', CHR '';'', CHR 0x27, CHR 0x22, CHR ''/'']) w" "b \<noteq> []"
  shows "readRun (Rd Code ctx b out) w = Rd Code ctx (b @ w) out"
  using assms
proof (induction w arbitrary: b)
  case (Cons c w)
  have "readStep (Rd Code ctx b out) c = Rd Code ctx (b @ [c]) out" using Cons.prems by (simp add: readCode_def)
  then show ?case using Cons.IH [of "b @ [c]"] Cons.prems by simp
qed simp

lemma readRun_solid: "solid w \<Longrightarrow> b \<noteq> [] \<Longrightarrow> readRun (Rd Code ctx b out) w = Rd Code ctx (b @ w) out"
  by (simp add: solid_def readRun_inner)

lemma readC_solid:
  "\<not> Vo v \<Longrightarrow> solid (toStr v) \<Longrightarrow> b \<noteq> [] \<Longrightarrow> readC p (Rd Code ctx b out) (CVal v) = Rd Code ctx (b @ toStr v) out"
  by (simp add: readC_def cssText_def readRun_solid)

lemma dropWhile_solid: "solid w \<Longrightarrow> dropWhile isSpace (w @ r) = w @ r"
  by (cases w) (simp_all add: solid_def)

lemma dropWhile_solid0: "solid w \<Longrightarrow> dropWhile isSpace w = w"
  using dropWhile_solid [of w "[]"] by simp

lemmas read_rules = va_lessThan_def readCode_def flush_def trimRight_def isSpace_def
  readC_solid readRun_solid readRun_append dropWhile_solid dropWhile_solid0 solidAt_def

lemma computed_read:
  "computed view p css name =
     (case filter (\<lambda>d. dName d = name \<and> applies view d) (declsOf (readC p (Rd Code [] [] []) css)) of
        [] \<Rightarrow> None | ds \<Rightarrow> Some (dValue (last ds)))"
  by (simp add: computed_def declarations_def readC_def)

section \<open>Panels, menu and button\<close>

definition lessThanQuery :: "props \<Rightarrow> string \<Rightarrow> bool \<Rightarrow> string" where
  "lessThanQuery p e print =
     ''@media '' @ (if print then ''print, '' else '''') @ '' screen and (max-width: '' @ toStr (th p (''breakpoints.'' @ e)) @ '')''"

lemma computed_Lu:
  "solidAt p [''breakpoints.medium''] \<Longrightarrow>
   computed view p css_Lu ''flex-direction'' =
     (if view (lessThanQuery p ''medium'' True) then Some ''column'' else None)"
  by (simp add: css_Lu_def computed_read read_rules applies_def lessThanQuery_def)

lemma computed_Nu:
  "solidAt p [''breakpoints.medium'', ''rightPanel.width'', ''rightPanel.textColor'', ''rightPanel.backgroundColor'',
     ''spacing.sectionHorizontal'', ''spacing.sectionVertical''] \<Longrightarrow>
   computed view p css_Nu ''width'' =
     Some (if view (lessThanQuery p ''medium'' True) then ''100%'' else toStr (th p ''rightPanel.width''))"
  by (simp add: css_Nu_def computed_read read_rules applies_def lessThanQuery_def)

lemma computed_Iu:
  assumes "solidAt p [''breakpoints.medium'', ''rightPanel.width'', ''spacing.sectionHorizontal'', ''spacing.sectionVertical'']"
  shows "computed view p css_Iu ''width'' =
     Some (if view (lessThanQuery p ''medium'' True) then ''100%''
           else ''calc(100% - '' @ toStr (th p ''rightPanel.width'') @ '')'')"
  using assms
  by (cases "truthy (pProp p ''$compact'')")
    (simp_all add: css_Iu_def computed_read read_rules applies_def lessThanQuery_def decimal_def)

lemma solid_overlayWidth:
  "solid (toStr w) \<Longrightarrow> solid (toStr sidebar) \<Longrightarrow> \<not> Vo w \<Longrightarrow>
   \<not> Vo (overlayWidth w sidebar) \<and> solid (toStr (overlayWidth w sidebar))"
  using hundredths_chars [of "parseIntPrefix (toStr w)"]
  by (auto simp: overlayWidth_def solid_def Vo_def isSpace_def list_all_iff)

lemma computed_zv:
  "solidAt p [''breakpoints.medium'', ''rightPanel.width'', ''rightPanel.backgroundColor'', ''sidebar.width''] \<Longrightarrow>
   computed view p css_zv ''display'' = (if view (lessThanQuery p ''medium'' True) then Some ''none'' else None)
   \<and> computed view p css_zv ''width'' = Some (toStr (overlayWidth (th p ''rightPanel.width'') (th p ''sidebar.width'')))"
  using solid_overlayWidth [of "th p ''rightPanel.width''" "th p ''sidebar.width''"]
  by (simp add: css_zv_def computed_read read_rules applies_def lessThanQuery_def)

lemma computed_Fv:
  "solidAt p [''breakpoints.small'', ''sidebar.width''] \<Longrightarrow>
   computed view p css_Fv ''width'' =
     Some (if view (lessThanQuery p ''small'' True) then ''100%''
           else ''calc(100% - '' @ toStr (th p ''sidebar.width'') @ '')'')"
  by (simp add: css_Fv_def computed_read read_rules applies_def lessThanQuery_def)

lemma computed_S_v:
  assumes "solidAt p [''breakpoints.small'', ''sidebar.width'', ''sidebar.backgroundColor'']"
  shows "computed view p css_S_v ''display'' =
     Some (if view ''@media print'' then ''none''
           else if view (lessThanQuery p ''small'' False) \<and> \<not> truthy (pProp p ''$open'') then ''none'' else ''flex'')
   \<and> computed view p css_S_v ''width'' =
     Some (if view (lessThanQuery p ''small'' False) then ''100%'' else toStr (th p ''sidebar.width''))"
  using assms
  by (cases "truthy (pProp p ''$open'')")
    (simp_all add: css_S_v_def computed_read read_rules applies_def lessThanQuery_def)

lemma computed_Lv:
  "solidAt p [''breakpoints.small'', ''fab.backgroundColor'', ''fab.color'', ''colors.primary.main''] \<Longrightarrow>
   computed view p css_Lv ''display'' =
     Some (if \<not> view ''@media print'' \<and> view (lessThanQuery p ''small'' False) then ''flex'' else ''none'')"
  by (simp add: css_Lv_def computed_read read_rules applies_def lessThanQuery_def)

definition panelPaths :: "string list" where
  "panelPaths = [''breakpoints.medium'', ''rightPanel.width'', ''rightPanel.textColor'', ''rightPanel.backgroundColor'',
     ''sidebar.width'', ''spacing.sectionHorizontal'', ''spacing.sectionVertical'']"

definition menuPaths :: "string list" where
  "menuPaths = [''breakpoints.small'', ''sidebar.width'', ''sidebar.backgroundColor'', ''fab.backgroundColor'',
     ''fab.color'', ''colors.primary.main'']"


definition layoutProps :: "jsval \<Rightarrow> props" where
  \<comment> \<open>the values of the default theme\<close>
  "layoutProps opened = \<lparr>pTheme = (\<lambda>x. case map_of [
       (''breakpoints.small'', JStr ''50rem''), (''breakpoints.medium'', JStr ''75rem''),
       (''rightPanel.width'', JStr ''40%''), (''rightPanel.textColor'', JStr ''#ffffff''),
       (''rightPanel.backgroundColor'', JStr ''#263238''), (''sidebar.width'', JStr ''260px''),
       (''sidebar.backgroundColor'', JStr ''#fafafa''), (''fab.backgroundColor'', JStr ''#f2f2f2''),
       (''fab.color'', JStr ''#0065FB''), (''colors.primary.main'', JStr ''#32329f''),
       (''spacing.sectionHorizontal'', JNum 40), (''spacing.sectionVertical'', JNum 40)] x of
         Some v \<Rightarrow> v | None \<Rightarrow> JUndef),
     pProp = (\<lambda>x. if x = ''$open'' then opened else JUndef), pHook = None, pClass = (\<lambda>_. ''sc''),
     pKeyframes = (\<lambda>_. ''spin''), pDarken = (\<lambda>_ _. ''black''), pLighten = (\<lambda>_ _. ''white''),
     pTransparentize = (\<lambda>_ _. ''gray''), pLuminance = (\<lambda>_. 0)\<rparr>"

lemma toStr_40: "toStr (JNum 40) = ''40''"
  by (simp add: decimal_def itoaLoop.simps char_of_def bit_0)

lemma layoutProps_values [simp]:
  "th (layoutProps v) ''rightPanel.width'' = JStr ''40%''"
  "th (layoutProps v) ''sidebar.width'' = JStr ''260px''"
  "th (layoutProps v) ''breakpoints.medium'' = JStr ''75rem''"
  "th (layoutProps v) ''breakpoints.small'' = JStr ''50rem''"
  "pProp (layoutProps v) ''$open'' = v"
  by (simp_all add: layoutProps_def)

lemma layoutProps_solid: "solidAt (layoutProps v) panelPaths" "solidAt (layoutProps v) menuPaths"
  by (simp_all add: solidAt_def panelPaths_def menuPaths_def layoutProps_def Vo_def solid_def isSpace_def toStr_40 del: toStr.simps(4))




end
