(* ===== verification/RedocTheme.thy ===== *)
theory RedocTheme
  imports Styled
begin

text \<open>
  The theme of the Redoc viewer (\<^verbatim>\<open>redoc.standalone.js\<close>, line 2: the default theme \<^verbatim>\<open>Zr\<close>, the deep
  merge \<^verbatim>\<open>ci\<close>, and the resolution of the theme in the constructor of \<^verbatim>\<open>Pi\<close>). A theme is a tree whose
  leaves are values or functions of the theme. Resolution replaces every function by a property
  getter that computes its value on first use, remembers it, and gives up after a thousand
  computations; the resolved theme is then read out property by property.

  A theme function is the sequence of its reads of the theme: a result, or a read and what to do
  with the value. The resolver is a machine with the stack of the functions under way. Its
  specification is the natural evaluation relation \<open>evals\<close>, which has no memory and no counter.
\<close>

section \<open>Themes\<close>

datatype tfun = Ret jsval | Throw | Read "string list" "jsval \<Rightarrow> tfun"

datatype tree = Leaf jsval | Getter tfun | Node "(string \<times> tree) list"

datatype themeErr = Circular string | ThemeTypeError

fun treeTruthy :: "tree \<Rightarrow> bool" where
  "treeTruthy (Leaf v) = truthy v"
| "treeTruthy _ = True"

fun assign :: "(string \<times> tree) list \<Rightarrow> string \<Rightarrow> tree \<Rightarrow> (string \<times> tree) list" where
  \<comment> \<open>assignment to a property; an existing one keeps its place\<close>
  "assign [] k t = [(k, t)]"
| "assign ((k', t') # fs) k t = (if k' = k then (k, t) # fs else (k', t') # assign fs k t)"

definition targetOf :: "(string \<times> tree) list \<Rightarrow> string \<Rightarrow> tree" where
  \<comment> \<open>\<^verbatim>\<open>e[t] || (e[t] = {})\<close>\<close>
  "targetOf es k = (case map_of es k of None \<Rightarrow> Node [] | Some t \<Rightarrow> if treeTruthy t then t else Node [])"

fun mergeObjects :: "tree \<Rightarrow> tree \<Rightarrow> tree" and mergeKeys :: "(string \<times> tree) list \<Rightarrow> (string \<times> tree) list \<Rightarrow> (string \<times> tree) list" where
  \<comment> \<open>\<^verbatim>\<open>ci(e, n)\<close>\<close>
  "mergeObjects (Node es) (Node ns) = Node (mergeKeys es ns)"
| "mergeObjects e n = e"
| "mergeKeys es [] = es"
| "mergeKeys es ((k, Node ns) # rest) = mergeKeys (assign es k (mergeObjects (targetOf es k) (Node ns))) rest"
| "mergeKeys es ((k, v) # rest) = mergeKeys (assign es k v) rest"

fun at :: "tree \<Rightarrow> string list \<Rightarrow> tree option" where
  "at t [] = Some t"
| "at (Node fs) (k # ks) = (case map_of fs k of None \<Rightarrow> None | Some t \<Rightarrow> at t ks)"
| "at _ (k # ks) = None"

fun distinctKeys :: "tree \<Rightarrow> bool" where
  "distinctKeys (Node fs) = (distinct (map fst fs) \<and> list_all (\<lambda>q. distinctKeys (snd q)) fs)"
| "distinctKeys _ = True"

fun room :: "tree \<Rightarrow> string list \<Rightarrow> bool" where
  \<comment> \<open>no value stands where the path needs an object\<close>
  "room (Node es) (k # ks) = (ks = [] \<or> room (targetOf es k) ks)"
| "room _ _ = False"

fun untouched :: "tree \<Rightarrow> string list \<Rightarrow> bool" where
  \<comment> \<open>the merged object says nothing about the path\<close>
  "untouched (Node ns) (k # ks) =
     (case map_of ns k of None \<Rightarrow> True | Some (Node ms) \<Rightarrow> untouched (Node ms) ks | Some _ \<Rightarrow> False)"
| "untouched _ _ = False"

lemma map_of_assign: "map_of (assign es k t) x = (if x = k then Some t else map_of es x)"
  by (induction es k t rule: assign.induct) auto

lemma map_of_mergeKeys:
  "distinct (map fst ns) \<Longrightarrow>
   map_of (mergeKeys es ns) k =
     (case map_of ns k of
        None \<Rightarrow> map_of es k
      | Some v \<Rightarrow> (case v of Node ms \<Rightarrow> Some (mergeObjects (targetOf es k) (Node ms)) | _ \<Rightarrow> Some v))"
proof (induction ns arbitrary: es)
  case (Cons q ns)
  obtain k' v where q: "q = (k', v)" by fastforce
  have fresh: "map_of ns k' = None" using Cons.prems q by (auto simp: map_of_eq_None_iff)
  obtain v' where step: "mergeKeys es (q # ns) = mergeKeys (assign es k' v') ns"
    and v': "Some v' = (case v of Node ms \<Rightarrow> Some (mergeObjects (targetOf es k') (Node ms)) | _ \<Rightarrow> Some v)"
    using q by (cases v) auto
  have same: "k \<noteq> k' \<Longrightarrow> targetOf (assign es k' v') k = targetOf es k" by (simp add: targetOf_def map_of_assign)
  show ?case
  proof (cases "k = k'")
    case True
    then show ?thesis using Cons.IH [of "assign es k' v'"] Cons.prems step fresh v' q
      by (simp add: map_of_assign split: tree.splits)
  next
    case False
    then show ?thesis using Cons.IH [of "assign es k' v'"] Cons.prems step q same [OF False]
      by (simp add: map_of_assign split: option.splits tree.splits)
  qed
qed simp

lemma distinctKeys_child:
  assumes "distinctKeys (Node ns)" "map_of ns k = Some n'"
  shows "distinctKeys n'"
proof -
  have "(k, n') \<in> set ns" using assms(2) by (rule map_of_SomeD)
  then show ?thesis using assms(1) unfolding distinctKeys.simps list_all_iff by fastforce
qed

lemma merge_override:
  "at n p = Some v \<Longrightarrow> \<forall>ms. v \<noteq> Node ms \<Longrightarrow> distinctKeys n \<Longrightarrow> room e p \<Longrightarrow> at (mergeObjects e n) p = Some v"
proof (induction p arbitrary: e n)
  case (Cons k ks)
  from Cons.prems(4) obtain es where e: "e = Node es" and room: "ks = [] \<or> room (targetOf es k) ks" by (cases e) auto
  from Cons.prems(1) obtain ns n' where n: "n = Node ns" "map_of ns k = Some n'" "at n' ks = Some v"
    by (cases n) (auto split: option.splits)
  have d: "distinct (map fst ns)" "distinctKeys n'"
    using Cons.prems(3) n(1) distinctKeys_child [OF Cons.prems(3) [unfolded n(1)] n(2)] by auto
  show ?case
  proof (cases n')
    case (Node ms)
    then have "ks \<noteq> []" using n(3) Cons.prems(2) by auto
    then have "at (mergeObjects (targetOf es k) n') ks = Some v" using Cons.IH [OF n(3) Cons.prems(2) d(2)] room by blast
    then show ?thesis using e n Node map_of_mergeKeys [OF d(1)] by simp
  qed (use e n map_of_mergeKeys [OF d(1)] in simp_all)
qed simp

lemma merge_keep:
  "at e p = Some v \<Longrightarrow> \<forall>ms. v \<noteq> Node ms \<Longrightarrow> distinctKeys n \<Longrightarrow> untouched n p \<Longrightarrow> at (mergeObjects e n) p = Some v"
proof (induction p arbitrary: e n)
  case (Cons k ks)
  from Cons.prems(1) obtain es e' where e: "e = Node es" "map_of es k = Some e'" "at e' ks = Some v"
    by (cases e) (auto split: option.splits)
  from Cons.prems(4) obtain ns where n: "n = Node ns" by (cases n) auto
  have d: "distinct (map fst ns)" using Cons.prems(3) n by simp
  show ?case
  proof (cases "map_of ns k")
    case None
    then show ?thesis using e n map_of_mergeKeys [OF d] by simp
  next
    case (Some n')
    then obtain ms where ms: "n' = Node ms" and u: "untouched (Node ms) ks" using Cons.prems(4) n by (auto split: tree.splits)
    have "distinctKeys (Node ms)" using distinctKeys_child [OF Cons.prems(3) [unfolded n] Some] ms by simp
    moreover obtain es' where "e' = Node es'" using e(3) u by (cases ks; cases e') auto
    ultimately have "at (mergeObjects (targetOf es k) n') ks = Some v"
      using Cons.IH [OF e(3) Cons.prems(2) _ u] e(2) ms by (simp add: targetOf_def)
    then show ?thesis using e(1) n Some ms map_of_mergeKeys [OF d] by simp
  qed
qed simp

section \<open>The default theme\<close>

record colourFns =
  cLighten :: "jsval \<Rightarrow> jsval \<Rightarrow> string" \<comment> \<open>\<^verbatim>\<open>Hr\<close>\<close>
  cDarken :: "jsval \<Rightarrow> jsval \<Rightarrow> string" \<comment> \<open>\<^verbatim>\<open>Ur\<close>\<close>
  cDesaturate :: "jsval \<Rightarrow> jsval \<Rightarrow> string" \<comment> \<open>\<^verbatim>\<open>qr\<close>\<close>
  cTransparentize :: "jsval \<Rightarrow> jsval \<Rightarrow> string" \<comment> \<open>\<^verbatim>\<open>Kr\<close>\<close>
  cReadable :: "jsval \<Rightarrow> string" \<comment> \<open>\<^verbatim>\<open>Qr\<close>\<close>
  cTimes :: "int \<Rightarrow> jsval \<Rightarrow> jsval" \<comment> \<open>the product with a fractional number\<close>

definition theme_spacing :: "colourFns \<Rightarrow> tree" where
  "theme_spacing col = Node [
    (''unit'', Leaf (JNum 5)),
    (''sectionHorizontal'', Getter (Read [''spacing'', ''unit''] (\<lambda>a. Ret (jsMul 8 a)))),
    (''sectionVertical'', Getter (Read [''spacing'', ''unit''] (\<lambda>a. Ret (jsMul 8 a))))]"

definition theme_breakpoints :: "colourFns \<Rightarrow> tree" where
  "theme_breakpoints col = Node [
    (''small'', Leaf (JStr ''50rem'')),
    (''medium'', Leaf (JStr ''75rem'')),
    (''large'', Leaf (JStr ''105rem''))]"

definition theme_colors :: "colourFns \<Rightarrow> tree" where
  "theme_colors col = Node [
    (''tonalOffset'', Leaf (JDec ''0.2'')),
    (''primary'', Node [
      (''main'', Leaf (JStr ''#32329f'')),
      (''light'', Getter (Read [''colors'', ''tonalOffset''] (\<lambda>a. Read [''colors'', ''primary'', ''main''] (\<lambda>b. Ret (JStr (cLighten col a b)))))),
      (''dark'', Getter (Read [''colors'', ''tonalOffset''] (\<lambda>a. Read [''colors'', ''primary'', ''main''] (\<lambda>b. Ret (JStr (cDarken col a b)))))),
      (''contrastText'', Getter (Read [''colors'', ''primary'', ''main''] (\<lambda>a. Ret (JStr (cReadable col a)))))]),
    (''success'', Node [
      (''main'', Leaf (JStr ''#1d8127'')),
      (''light'', Getter (Read [''colors'', ''tonalOffset''] (\<lambda>a. Read [''colors'', ''success'', ''main''] (\<lambda>b. Ret (JStr (cLighten col (cTimes col 2 a) b)))))),
      (''dark'', Getter (Read [''colors'', ''tonalOffset''] (\<lambda>a. Read [''colors'', ''success'', ''main''] (\<lambda>b. Ret (JStr (cDarken col a b)))))),
      (''contrastText'', Getter (Read [''colors'', ''success'', ''main''] (\<lambda>a. Ret (JStr (cReadable col a)))))]),
    (''warning'', Node [
      (''main'', Leaf (JStr ''#ffa500'')),
      (''light'', Getter (Read [''colors'', ''tonalOffset''] (\<lambda>a. Read [''colors'', ''warning'', ''main''] (\<lambda>b. Ret (JStr (cLighten col a b)))))),
      (''dark'', Getter (Read [''colors'', ''tonalOffset''] (\<lambda>a. Read [''colors'', ''warning'', ''main''] (\<lambda>b. Ret (JStr (cDarken col a b)))))),
      (''contrastText'', Leaf (JStr ''#ffffff''))]),
    (''error'', Node [
      (''main'', Leaf (JStr ''#d41f1c'')),
      (''light'', Getter (Read [''colors'', ''tonalOffset''] (\<lambda>a. Read [''colors'', ''error'', ''main''] (\<lambda>b. Ret (JStr (cLighten col a b)))))),
      (''dark'', Getter (Read [''colors'', ''tonalOffset''] (\<lambda>a. Read [''colors'', ''error'', ''main''] (\<lambda>b. Ret (JStr (cDarken col a b)))))),
      (''contrastText'', Getter (Read [''colors'', ''error'', ''main''] (\<lambda>a. Ret (JStr (cReadable col a)))))]),
    (''gray'', Node [
      (''50'', Leaf (JStr ''#FAFAFA'')),
      (''100'', Leaf (JStr ''#F5F5F5''))]),
    (''text'', Node [
      (''primary'', Leaf (JStr ''#333333'')),
      (''secondary'', Getter (Read [''colors'', ''tonalOffset''] (\<lambda>a. Read [''colors'', ''text'', ''primary''] (\<lambda>b. Ret (JStr (cLighten col a b))))))]),
    (''border'', Node [
      (''dark'', Leaf (JStr ''rgba(0,0,0, 0.1)'')),
      (''light'', Leaf (JStr ''#ffffff''))]),
    (''responses'', Node [
      (''success'', Node [
        (''color'', Getter (Read [''colors'', ''success'', ''main''] Ret)),
        (''backgroundColor'', Getter (Read [''colors'', ''success'', ''main''] (\<lambda>a. Ret (JStr (cTransparentize col (JDec ''0.93'') a))))),
        (''tabTextColor'', Getter (Read [''colors'', ''responses'', ''success'', ''color''] Ret))]),
      (''error'', Node [
        (''color'', Getter (Read [''colors'', ''error'', ''main''] Ret)),
        (''backgroundColor'', Getter (Read [''colors'', ''error'', ''main''] (\<lambda>a. Ret (JStr (cTransparentize col (JDec ''0.93'') a))))),
        (''tabTextColor'', Getter (Read [''colors'', ''responses'', ''error'', ''color''] Ret))]),
      (''redirect'', Node [
        (''color'', Getter (Read [''colors'', ''warning'', ''main''] Ret)),
        (''backgroundColor'', Getter (Read [''colors'', ''responses'', ''redirect'', ''color''] (\<lambda>a. Ret (JStr (cTransparentize col (JDec ''0.9'') a))))),
        (''tabTextColor'', Getter (Read [''colors'', ''responses'', ''redirect'', ''color''] Ret))]),
      (''info'', Node [
        (''color'', Leaf (JStr ''#87ceeb'')),
        (''backgroundColor'', Getter (Read [''colors'', ''responses'', ''info'', ''color''] (\<lambda>a. Ret (JStr (cTransparentize col (JDec ''0.9'') a))))),
        (''tabTextColor'', Getter (Read [''colors'', ''responses'', ''info'', ''color''] Ret))])]),
    (''http'', Node [
      (''get'', Leaf (JStr ''#2F8132'')),
      (''post'', Leaf (JStr ''#186FAF'')),
      (''put'', Leaf (JStr ''#95507c'')),
      (''options'', Leaf (JStr ''#947014'')),
      (''patch'', Leaf (JStr ''#bf581d'')),
      (''delete'', Leaf (JStr ''#cc3333'')),
      (''basic'', Leaf (JStr ''#707070'')),
      (''link'', Leaf (JStr ''#07818F'')),
      (''head'', Leaf (JStr ''#A23DAD''))])]"

definition theme_schema :: "colourFns \<Rightarrow> tree" where
  "theme_schema col = Node [
    (''linesColor'', Getter (Read [''colors'', ''tonalOffset''] (\<lambda>a. Read [''colors'', ''tonalOffset''] (\<lambda>b. Read [''colors'', ''primary'', ''main''] (\<lambda>c. Ret (JStr (cLighten col a (JStr (cDesaturate col b c))))))))),
    (''defaultDetailsWidth'', Leaf (JStr ''75%'')),
    (''typeNameColor'', Getter (Read [''colors'', ''text'', ''secondary''] Ret)),
    (''typeTitleColor'', Getter (Read [''schema'', ''typeNameColor''] Ret)),
    (''requireLabelColor'', Getter (Read [''colors'', ''error'', ''main''] Ret)),
    (''labelsTextSize'', Leaf (JStr ''0.9em'')),
    (''nestingSpacing'', Leaf (JStr ''1em'')),
    (''nestedBackground'', Leaf (JStr ''#fafafa'')),
    (''arrow'', Node [
      (''size'', Leaf (JStr ''1.1em'')),
      (''color'', Getter (Read [''colors'', ''text'', ''secondary''] Ret))])]"

definition theme_typography :: "colourFns \<Rightarrow> tree" where
  "theme_typography col = Node [
    (''fontSize'', Leaf (JStr ''14px'')),
    (''lineHeight'', Leaf (JStr ''1.5em'')),
    (''fontWeightRegular'', Leaf (JStr ''400'')),
    (''fontWeightBold'', Leaf (JStr ''600'')),
    (''fontWeightLight'', Leaf (JStr ''300'')),
    (''fontFamily'', Leaf (JStr ''Roboto, sans-serif'')),
    (''smoothing'', Leaf (JStr ''antialiased'')),
    (''optimizeSpeed'', Leaf (JBool True)),
    (''headings'', Node [
      (''fontFamily'', Leaf (JStr ''Montserrat, sans-serif'')),
      (''fontWeight'', Leaf (JStr ''400'')),
      (''lineHeight'', Leaf (JStr ''1.6em''))]),
    (''code'', Node [
      (''fontSize'', Leaf (JStr ''13px'')),
      (''fontFamily'', Leaf (JStr ''Courier, monospace'')),
      (''lineHeight'', Getter (Read [''typography'', ''lineHeight''] Ret)),
      (''fontWeight'', Getter (Read [''typography'', ''fontWeightRegular''] Ret)),
      (''color'', Leaf (JStr ''#e53935'')),
      (''backgroundColor'', Leaf (JStr ''rgba(38, 50, 56, 0.05)'')),
      (''wrap'', Leaf (JBool False))]),
    (''links'', Node [
      (''color'', Getter (Read [''colors'', ''primary'', ''main''] Ret)),
      (''visited'', Getter (Read [''typography'', ''links'', ''color''] Ret)),
      (''hover'', Getter (Read [''typography'', ''links'', ''color''] (\<lambda>a. Ret (JStr (cLighten col (JDec ''0.2'') a))))),
      (''textDecoration'', Leaf (JStr ''auto'')),
      (''hoverTextDecoration'', Leaf (JStr ''auto''))])]"

definition theme_sidebar :: "colourFns \<Rightarrow> tree" where
  "theme_sidebar col = Node [
    (''width'', Leaf (JStr ''260px'')),
    (''backgroundColor'', Leaf (JStr ''#fafafa'')),
    (''textColor'', Leaf (JStr ''#333333'')),
    (''activeTextColor'', Getter (Read [''sidebar'', ''textColor''] (\<lambda>a. if a \<noteq> JStr ''#333333'' then Read [''sidebar'', ''textColor''] Ret else Read [''colors'', ''primary'', ''main''] Ret))),
    (''groupItems'', Node [
      (''activeBackgroundColor'', Getter (Read [''sidebar'', ''backgroundColor''] (\<lambda>a. Ret (JStr (cDarken col (JDec ''0.1'') a))))),
      (''activeTextColor'', Getter (Read [''sidebar'', ''activeTextColor''] Ret)),
      (''textTransform'', Leaf (JStr ''uppercase''))]),
    (''level1Items'', Node [
      (''activeBackgroundColor'', Getter (Read [''sidebar'', ''backgroundColor''] (\<lambda>a. Ret (JStr (cDarken col (JDec ''0.05'') a))))),
      (''activeTextColor'', Getter (Read [''sidebar'', ''activeTextColor''] Ret)),
      (''textTransform'', Leaf (JStr ''none''))]),
    (''arrow'', Node [
      (''size'', Leaf (JStr ''1.5em'')),
      (''color'', Getter (Read [''sidebar'', ''textColor''] Ret))])]"

definition theme_logo :: "colourFns \<Rightarrow> tree" where
  "theme_logo col = Node [
    (''maxHeight'', Getter (Read [''sidebar'', ''width''] Ret)),
    (''maxWidth'', Getter (Read [''sidebar'', ''width''] Ret)),
    (''gutter'', Leaf (JStr ''2px''))]"

definition theme_rightPanel :: "colourFns \<Rightarrow> tree" where
  "theme_rightPanel col = Node [
    (''backgroundColor'', Leaf (JStr ''#263238'')),
    (''width'', Leaf (JStr ''40%'')),
    (''textColor'', Leaf (JStr ''#ffffff'')),
    (''servers'', Node [
      (''overlay'', Node [
        (''backgroundColor'', Leaf (JStr ''#fafafa'')),
        (''textColor'', Leaf (JStr ''#263238''))]),
      (''url'', Node [
        (''backgroundColor'', Leaf (JStr ''#fff''))])])]"

definition theme_codeBlock :: "colourFns \<Rightarrow> tree" where
  "theme_codeBlock col = Node [
    (''backgroundColor'', Getter (Read [''rightPanel'', ''backgroundColor''] (\<lambda>a. Ret (JStr (cDarken col (JDec ''0.1'') a)))))]"

definition theme_fab :: "colourFns \<Rightarrow> tree" where
  "theme_fab col = Node [
    (''backgroundColor'', Leaf (JStr ''#f2f2f2'')),
    (''color'', Leaf (JStr ''#0065FB''))]"

definition defaultTheme :: "colourFns \<Rightarrow> tree" where
  "defaultTheme col = Node [
     (''spacing'', theme_spacing col),
     (''breakpoints'', theme_breakpoints col),
     (''colors'', theme_colors col),
     (''schema'', theme_schema col),
     (''typography'', theme_typography col),
     (''sidebar'', theme_sidebar col),
     (''logo'', theme_logo col),
     (''rightPanel'', theme_rightPanel col),
     (''codeBlock'', theme_codeBlock col),
     (''fab'', theme_fab col)]"

definition objTruthy :: "(string \<times> tree) list \<Rightarrow> string \<Rightarrow> bool" where
  "objTruthy fs k \<longleftrightarrow> (case map_of fs k of None \<Rightarrow> False | Some t \<Rightarrow> treeTruthy t)"

definition renamed :: "string \<Rightarrow> string \<Rightarrow> (string \<times> tree) list \<Rightarrow> (string \<times> tree) list" where
  \<comment> \<open>a deprecated section is used under its new name unless that is given too\<close>
  "renamed old new fs =
     (if objTruthy fs old \<and> \<not> objTruthy fs new then assign fs new (the (map_of fs old)) else fs)"

definition effectiveTheme :: "colourFns \<Rightarrow> (string \<times> tree) list option \<Rightarrow> tree" where
  \<comment> \<open>the theme that is resolved; \<open>None\<close> when no theme is given\<close>
  "effectiveTheme col user =
     (let given = (case user of None \<Rightarrow> [] | Some fs \<Rightarrow> renamed ''codeSample'' ''codeBlock'' (renamed ''menu'' ''sidebar'' fs));
          own = assign given ''extensionsHook'' (Leaf JUndef)
      in mergeObjects (mergeObjects (Node []) (defaultTheme col)) (Node own))"

section \<open>Reading a property\<close>

datatype found = FVal jsval | FGetter "string list" tfun "string list" | FFail

definition nullish :: "jsval \<Rightarrow> bool" where
  "nullish v \<longleftrightarrow> v = JUndef \<or> v = JNull"

fun lookup :: "tree \<Rightarrow> string list \<Rightarrow> string list \<Rightarrow> found" where
  \<comment> \<open>\<open>e.a.b.c\<close>: a value, a getter met on the way with the keys left, or a type error\<close>
  "lookup (Getter f) ks pre = FGetter pre f ks"
| "lookup (Leaf v) [] pre = FVal v"
| "lookup (Node fs) [] pre = FVal JObj"
| "lookup (Leaf v) (k # ks) pre = (if nullish v \<or> ks \<noteq> [] then FFail else FVal JUndef)"
| "lookup (Node fs) (k # ks) pre =
     (case map_of fs k of
        None \<Rightarrow> if ks = [] then FVal JUndef else FFail
      | Some t \<Rightarrow> lookup t ks (pre @ [k]))"

definition descend :: "jsval \<Rightarrow> string list \<Rightarrow> (jsval \<Rightarrow> tfun) \<Rightarrow> tfun" where
  \<comment> \<open>the keys left after a getter gave a primitive value\<close>
  "descend v rest k = (case rest of [] \<Rightarrow> k v | [_] \<Rightarrow> if nullish v then Throw else k JUndef | _ \<Rightarrow> Throw)"

definition dotted :: "string list \<Rightarrow> string" where
  "dotted pre = joinWith (CHR ''.'') pre"

section \<open>The resolver\<close>

record resolver =
  memo :: "string \<Rightarrow> jsval"
  count :: nat

type_synonym frame = "string \<times> (jsval \<Rightarrow> tfun)"

definition subfun :: "(tfun \<times> tfun) set" where
  "subfun = {(x, Read ks k) | x ks k. x = Throw \<or> (\<exists>v. x = k v)}"

lemma wf_subfun: "wf subfun"
proof (rule wfUNIVI)
  fix P :: "tfun \<Rightarrow> bool" and x
  assume step: "\<forall>x. (\<forall>y. (y, x) \<in> subfun \<longrightarrow> P y) \<longrightarrow> P x"
  have "P Throw" using step by (auto simp: subfun_def)
  show "P x"
  proof (induction x)
    case (Read ks k)
    have "\<forall>y. (y, Read ks k) \<in> subfun \<longrightarrow> P y" using Read \<open>P Throw\<close> by (auto simp: subfun_def)
    then show ?case using step by blast
  qed (use step in \<open>auto simp: subfun_def\<close>)
qed

lemma descend_subfun: "(descend v rest k, Read ks k) \<in> subfun"
  by (auto simp: descend_def subfun_def split: list.splits)

lemma app_subfun: "(k v, Read ks k) \<in> subfun"
  by (auto simp: subfun_def)

function runTheme :: "tree \<Rightarrow> tfun \<Rightarrow> frame list \<Rightarrow> resolver \<Rightarrow> (themeErr + jsval) \<times> resolver" where
  "runTheme t (Ret v) [] st = (Inr v, st)"
| "runTheme t (Ret v) ((s, k) # K) st = runTheme t (k v) K (st\<lparr>memo := (memo st)(s := v)\<rparr>)"
| "runTheme t Throw K st = (Inl ThemeTypeError, st)"
| "runTheme t (Read ks k) K st =
     (case lookup t ks [] of
        FVal v \<Rightarrow> runTheme t (k v) K st
      | FFail \<Rightarrow> (Inl ThemeTypeError, st)
      | FGetter pre f rest \<Rightarrow>
          (let s = dotted pre
           in if truthy (memo st s) then runTheme t (descend (memo st s) rest k) K st
              else if 1000 < count st + 1 then (Inl (Circular s), st\<lparr>count := count st + 1\<rparr>)
              else runTheme t f ((s, \<lambda>v. descend v rest k) # K) (st\<lparr>count := count st + 1\<rparr>)))"
  by pat_completeness auto

termination
proof (relation "inv_image (less_than <*lex*> less_than <*lex*> subfun)
    (\<lambda>(t, g, K, st). (1001 - count st, length K, g))")
  show "wf (inv_image (less_than <*lex*> less_than <*lex*> subfun)
    (\<lambda>(t, g, K, st). (1001 - count st, length K, g)))"
    by (intro wf_inv_image wf_lex_prod wf_less_than wf_subfun)
qed (auto simp: descend_subfun app_subfun)

definition freshResolver :: resolver where
  "freshResolver = \<lparr>memo = (\<lambda>_. JUndef), count = 0\<rparr>"

fun hasNull :: "tree \<Rightarrow> bool" where
  \<comment> \<open>the installation of the getters walks into everything of type object, and null is one\<close>
  "hasNull (Leaf v) \<longleftrightarrow> v = JNull"
| "hasNull (Getter f) \<longleftrightarrow> False"
| "hasNull (Node fs) \<longleftrightarrow> list_ex (\<lambda>q. hasNull (snd q)) fs"

fun leafPaths :: "tree \<Rightarrow> string list list" where
  "leafPaths (Node fs) = concat (map (\<lambda>q. map (\<lambda>p. fst q # p) (leafPaths (snd q))) fs)"
| "leafPaths _ = [[]]"

fun jsonValue :: "jsval \<Rightarrow> jsval" where
  "jsonValue (JDec d) = (if d = ''NaN'' then JNull else JDec d)"
| "jsonValue v = v"

fun readOut :: "tree \<Rightarrow> string list list \<Rightarrow> resolver \<Rightarrow> themeErr + (string \<times> jsval) list" where
  \<comment> \<open>\<^verbatim>\<open>JSON.parse(JSON.stringify(e))\<close>: every property in order, undefined ones left out\<close>
  "readOut t [] st = Inr []"
| "readOut t (p # ps) st =
     (case runTheme t (Read p Ret) [] st of
        (Inl e, _) \<Rightarrow> Inl e
      | (Inr v, st') \<Rightarrow>
          (case readOut t ps st' of
             Inl e \<Rightarrow> Inl e
           | Inr out \<Rightarrow> Inr (if v = JUndef then out else (dotted p, jsonValue v) # out)))"

definition resolveTheme :: "tree \<Rightarrow> themeErr + (string \<times> jsval) list" where
  "resolveTheme t = (if hasNull t then Inl ThemeTypeError else readOut t (leafPaths t) freshResolver)"

section \<open>Evaluation without memory\<close>

inductive evals :: "tree \<Rightarrow> tfun \<Rightarrow> jsval \<Rightarrow> bool" for t where
  evRet: "evals t (Ret v) v"
| evVal: "lookup t ks [] = FVal v \<Longrightarrow> evals t (k v) w \<Longrightarrow> evals t (Read ks k) w"
| evGetter: "lookup t ks [] = FGetter pre f rest \<Longrightarrow> evals t f u \<Longrightarrow> evals t (descend u rest k) w \<Longrightarrow> evals t (Read ks k) w"

inductive_cases evals_RetE: "evals t (Ret v) w"
inductive_cases evals_ThrowE [elim!]: "evals t Throw w"
inductive_cases evals_ReadE: "evals t (Read ks k) w"

lemma evals_det: "evals t g v \<Longrightarrow> evals t g w \<Longrightarrow> v = w"
proof (induction arbitrary: w rule: evals.induct)
  case (evVal ks v k x)
  from evVal.prems evVal.hyps(1) have "evals t (k v) w" by (elim evals_ReadE) simp_all
  then show ?case by (rule evVal.IH)
next
  case (evGetter ks pre f rest u k x)
  from evGetter.prems evGetter.hyps(1) obtain u' where "evals t f u'" "evals t (descend u' rest k) w"
    by (elim evals_ReadE) simp_all
  then show ?case using evGetter.IH by blast
qed (auto elim: evals_RetE)

lemma evals_Read_val: "lookup t ks [] = FVal v \<Longrightarrow> evals t (Read ks k) w \<longleftrightarrow> evals t (k v) w"
  by (auto elim: evals_ReadE intro: evVal)

lemma evals_Read_getter:
  assumes "lookup t ks [] = FGetter pre f rest" "evals t f u"
  shows "evals t (Read ks k) w \<longleftrightarrow> evals t (descend u rest k) w"
proof
  assume "evals t (Read ks k) w"
  then obtain u' where "evals t f u'" "evals t (descend u' rest k) w" using assms(1) by (elim evals_ReadE) simp_all
  then show "evals t (descend u rest k) w" using evals_det [OF assms(2)] by blast
qed (rule evGetter [OF assms])

lemma evals_Read_stuck:
  "lookup t ks [] = FGetter pre f rest \<Longrightarrow> \<nexists>u. evals t f u \<Longrightarrow> \<not> evals t (Read ks k) w"
  "lookup t ks [] = FFail \<Longrightarrow> \<not> evals t (Read ks k) w"
  by (auto elim!: evals_ReadE)

section \<open>Names of getters\<close>

definition getter :: "tree \<Rightarrow> string \<Rightarrow> tfun \<Rightarrow> bool" where
  "getter t s f \<longleftrightarrow> (\<exists>ks pre rest. lookup t ks [] = FGetter pre f rest \<and> dotted pre = s)"

fun keysPlain :: "tree \<Rightarrow> bool" where
  \<comment> \<open>no key has a dot, so that dotted paths name properties uniquely\<close>
  "keysPlain (Node fs) = list_all (\<lambda>q. CHR ''.'' \<notin> set (fst q) \<and> keysPlain (snd q)) fs"
| "keysPlain _ = True"

lemma lookup_getterD:
  "lookup t ks pre0 = FGetter pre f rest \<Longrightarrow> keysPlain t \<Longrightarrow>
   \<exists>mid. pre = pre0 @ mid \<and> ks = mid @ rest \<and> (\<forall>k\<in>set mid. CHR ''.'' \<notin> set k) \<and> (\<forall>rest' pre1. lookup t (mid @ rest') pre1 = FGetter (pre1 @ mid) f rest')"
proof (induction t ks pre0 rule: lookup.induct)
  case (5 fs k ks pre0)
  then obtain t' where t': "map_of fs k = Some t'" "lookup t' ks (pre0 @ [k]) = FGetter pre f rest"
    by (auto split: option.splits if_splits)
  then have "(k, t') \<in> set fs" by (simp add: map_of_SomeD)
  then have plain: "CHR ''.'' \<notin> set k" "keysPlain t'" using 5 by (auto simp: list_all_iff)
  from 5(1) [OF t' plain(2)] obtain mid where "pre = pre0 @ [k] @ mid" "ks = mid @ rest" "\<forall>k\<in>set mid. CHR ''.'' \<notin> set k"
    "\<forall>rest' pre1. lookup t' (mid @ rest') pre1 = FGetter (pre1 @ mid) f rest'" by auto
  then show ?case using t' plain by (intro exI [of _ "k # mid"]) simp
qed (auto split: if_splits)

lemma lookup_top:
  assumes "lookup (Node fs) ks [] = FGetter pre f rest" "keysPlain (Node fs)"
  shows "pre \<noteq> [] \<and> (\<forall>k\<in>set pre. CHR ''.'' \<notin> set k) \<and> lookup (Node fs) pre [] = FGetter pre f []"
proof -
  from lookup_getterD [OF assms] have all: "\<forall>k\<in>set pre. CHR ''.'' \<notin> set k"
    and at: "\<forall>rest' pre1. lookup (Node fs) (pre @ rest') pre1 = FGetter (pre1 @ pre) f rest'" by auto
  from at have here: "lookup (Node fs) pre [] = FGetter pre f []" by (metis append_Nil append_Nil2)
  then have "pre \<noteq> []" by (cases pre) simp_all
  with all here show ?thesis by blast
qed

lemma getter_unique:
  assumes plain: "keysPlain (Node fs)" and "getter (Node fs) s f" "getter (Node fs) s f'"
  shows "f = f'"
proof -
  obtain ks pre rest where 1: "lookup (Node fs) ks [] = FGetter pre f rest" "dotted pre = s"
    using assms by (auto simp: getter_def)
  obtain ks' pre' rest' where 2: "lookup (Node fs) ks' [] = FGetter pre' f' rest'" "dotted pre' = s"
    using assms by (auto simp: getter_def)
  note a = lookup_top [OF 1(1) plain] and b = lookup_top [OF 2(1) plain]
  have "splitOn (CHR ''.'') s = pre" using a 1(2) splitOn_joinWith unfolding dotted_def by blast
  moreover have "splitOn (CHR ''.'') s = pre'" using b 2(2) splitOn_joinWith unfolding dotted_def by blast
  ultimately show ?thesis using a b by simp
qed

section \<open>The resolver computes the evaluation\<close>

definition memoOK :: "tree \<Rightarrow> resolver \<Rightarrow> bool" where
  \<comment> \<open>a remembered value is the value of the getter of that name\<close>
  "memoOK t st \<longleftrightarrow> (\<forall>s f. truthy (memo st s) \<longrightarrow> getter t s f \<longrightarrow> evals t f (memo st s))"

fun evalsK :: "tree \<Rightarrow> tfun \<Rightarrow> frame list \<Rightarrow> jsval \<Rightarrow> bool" where
  "evalsK t g [] v = evals t g v"
| "evalsK t g ((s, k) # K) v = (\<exists>u. evals t g u \<and> evalsK t (k u) K v)"

fun framesOK :: "tree \<Rightarrow> tfun \<Rightarrow> frame list \<Rightarrow> bool" where
  \<comment> \<open>what is left to run gives the value of the function under way\<close>
  "framesOK t g [] = True"
| "framesOK t g ((s, k) # K) =
     ((\<forall>f u. getter t s f \<longrightarrow> evals t g u \<longrightarrow> evals t f u) \<and> (\<forall>u. evals t g u \<longrightarrow> framesOK t (k u) K))"

lemma framesOK_mono: "framesOK t g K \<Longrightarrow> (\<And>u. evals t g' u \<Longrightarrow> evals t g u) \<Longrightarrow> framesOK t g' K"
  by (cases "(t, g, K)" rule: framesOK.cases) auto

lemma evalsK_mono: "evalsK t g' K v \<Longrightarrow> (\<And>u. evals t g' u \<Longrightarrow> evals t g u) \<Longrightarrow> evalsK t g K v"
  by (cases "(t, g', K, v)" rule: evalsK.cases) auto

lemma run_sound:
  "runTheme t g K st = (Inr v, st') \<Longrightarrow> t = Node fs \<Longrightarrow> keysPlain t \<Longrightarrow> memoOK t st \<Longrightarrow> framesOK t g K \<Longrightarrow>
   evalsK t g K v \<and> memoOK t st'"
proof (induction t g K st rule: runTheme.induct)
  case (1 t v' st)
  then show ?case by (auto intro: evRet)
next
  case (2 t u s k K st)
  have "evals t (Ret u) u" by (rule evRet)
  then have "memoOK t (st\<lparr>memo := (memo st)(s := u)\<rparr>)" "framesOK t (k u) K"
    using 2(5,6) by (auto simp: memoOK_def)
  then have "evalsK t (k u) K v \<and> memoOK t st'" using 2 by simp
  moreover have "evals t (Ret u) u" by (rule evRet)
  ultimately show ?case by (simp only: evalsK.simps) blast
next
  case (4 t ks k K st)
  show ?case
  proof (cases "lookup t ks []")
    case (FVal u)
    have sub: "evals t (k u) w \<Longrightarrow> evals t (Read ks k) w" for w by (rule evVal [OF FVal])
    have "evalsK t (k u) K v \<and> memoOK t st'"
      using 4(1) [OF FVal] 4(4-8) framesOK_mono [OF 4(8) sub] FVal by simp
    then show ?thesis using evalsK_mono [OF _ sub] by blast
  next
    case (FGetter pre f rest)
    define s where "s = dotted pre"
    have get: "getter t s f" using FGetter by (auto simp: getter_def s_def)
    have sub: "evals t f u \<Longrightarrow> evals t (descend u rest k) w \<Longrightarrow> evals t (Read ks k) w" for u w
      by (rule evGetter [OF FGetter])
    show ?thesis
    proof (cases "truthy (memo st s)")
      case True
      then have "evals t f (memo st s)" using 4(7) get by (auto simp: memoOK_def)
      note sub' = sub [OF this]
      have "evalsK t (descend (memo st s) rest k) K v \<and> memoOK t st'"
        using 4(2) [OF FGetter s_def True] 4(4-8) framesOK_mono [OF 4(8) sub'] FGetter True by (simp add: Let_def s_def)
      then show ?thesis using evalsK_mono [OF _ sub'] by blast
    next
      case False
      then have lim: "\<not> 1000 < count st + 1" using 4(4) FGetter by (auto simp: Let_def s_def split: if_splits)
      define st1 where "st1 = st\<lparr>count := count st + 1\<rparr>"
      have "memoOK t st1" using 4(7) by (simp add: memoOK_def st1_def)
      moreover have "framesOK t f ((s, \<lambda>u. descend u rest k) # K)"
        using getter_unique get 4(5,6) framesOK_mono [OF 4(8) sub] by auto
      ultimately have "evalsK t f ((s, \<lambda>u. descend u rest k) # K) v \<and> memoOK t st'"
        using 4(3) [OF FGetter s_def False lim] 4(4-6) FGetter False lim by (simp add: Let_def s_def st1_def)
      then show ?thesis using evalsK_mono [OF _ sub] by auto
    qed
  qed (use 4(4) in simp)
qed simp

section \<open>Themes without cycles never reach the limit\<close>

primrec lowReads :: "tree \<Rightarrow> (string \<Rightarrow> nat) \<Rightarrow> nat \<Rightarrow> tfun \<Rightarrow> bool" where
  \<comment> \<open>every getter that a function may read has a rank below \<open>b\<close>\<close>
  "lowReads t r b (Ret v) = True"
| "lowReads t r b Throw = True"
| "lowReads t r b (Read ks k) =
     ((case lookup t ks [] of FGetter pre f rest \<Rightarrow> r (dotted pre) < b | _ \<Rightarrow> True) \<and> (\<forall>v. lowReads t r b (k v)))"

definition ranked :: "tree \<Rightarrow> (string \<Rightarrow> nat) \<Rightarrow> bool" where
  "ranked t r \<longleftrightarrow> (\<forall>s f. getter t s f \<longrightarrow> lowReads t r (r s) f)"

definition getters :: "tree \<Rightarrow> string set" where
  "getters t = {s. \<exists>f. getter t s f}"

definition remembered :: "resolver \<Rightarrow> string set" where
  "remembered st = {s. truthy (memo st s)}"

lemma getters_I: "lookup t ks [] = FGetter pre f rest \<Longrightarrow> dotted pre \<in> getters t"
  by (auto simp: getters_def getter_def)

lemma lookup_leafPaths:
  "lookup t ks pre0 = FGetter pre f rest \<Longrightarrow> \<exists>mid\<in>set (leafPaths t). pre = pre0 @ mid"
proof (induction t ks pre0 rule: lookup.induct)
  case (5 fs k ks pre0)
  then obtain t' where t': "map_of fs k = Some t'" "lookup t' ks (pre0 @ [k]) = FGetter pre f rest"
    by (auto split: option.splits if_splits)
  then obtain mid where "mid \<in> set (leafPaths t')" "pre = (pre0 @ [k]) @ mid" using 5(1) by blast
  moreover have "(k, t') \<in> set fs" using t' by (simp add: map_of_SomeD)
  ultimately show ?case by (intro bexI [of _ "k # mid"]) force+
qed (auto split: if_splits)

lemma getters_leafPaths: "getters t \<subseteq> dotted ` set (leafPaths t)"
proof
  fix s
  assume "s \<in> getters t"
  then obtain ks pre f rest where "lookup t ks [] = FGetter pre f rest" "dotted pre = s"
    by (auto simp: getters_def getter_def)
  then show "s \<in> dotted ` set (leafPaths t)" using lookup_leafPaths [of t ks "[]" pre f rest] by auto
qed

lemma finite_getters: "finite (getters t)" and card_getters: "card (getters t) \<le> length (leafPaths t)"
proof -
  show "finite (getters t)" by (rule finite_subset [OF getters_leafPaths]) simp
  have "card (getters t) \<le> card (dotted ` set (leafPaths t))" by (rule card_mono [OF _ getters_leafPaths]) simp
  also have "\<dots> \<le> card (set (leafPaths t))" by (rule card_image_le) simp
  finally show "card (getters t) \<le> length (leafPaths t)" using card_length [of "leafPaths t"] by simp
qed

definition truthyGetters :: "tree \<Rightarrow> bool" where
  "truthyGetters t \<longleftrightarrow> (\<forall>s f v. getter t s f \<longrightarrow> evals t f v \<longrightarrow> truthy v)"

definition accounted :: "tree \<Rightarrow> (string \<Rightarrow> nat) \<Rightarrow> nat \<Rightarrow> string set \<Rightarrow> resolver \<Rightarrow> bool" where
  \<comment> \<open>the counter is the number of remembered getters and of those under way\<close>
  "accounted t r b P st \<longleftrightarrow> memoOK t st \<and> remembered st \<subseteq> getters t \<and> P \<subseteq> getters t
     \<and> (\<forall>s\<in>P. b \<le> r s) \<and> P \<inter> remembered st = {} \<and> count st = card (remembered st) + card P"

lemma accounted_limit:
  assumes "accounted t r b P st" "length (leafPaths t) \<le> 1000" "s \<in> getters t" "s \<notin> remembered st" "s \<notin> P"
  shows "count st + 1 \<le> 1000"
proof -
  have fin: "finite (remembered st)" "finite P"
    using assms(1) finite_subset [OF _ finite_getters] by (auto simp: accounted_def)
  have "count st + 1 = card (insert s (remembered st \<union> P))"
    using assms fin by (auto simp: accounted_def card_Un_disjoint Int_commute)
  also have "\<dots> \<le> card (getters t)"
    using assms by (intro card_mono finite_getters) (auto simp: accounted_def)
  finally show ?thesis using card_getters [of t] assms(2) by simp
qed

lemma accounted_call:
  assumes "accounted t r b P st" "s \<in> getters t" "s \<notin> remembered st" "r s < b"
  shows "accounted t r (r s) (insert s P) (st\<lparr>count := count st + 1\<rparr>)"
proof -
  have "finite P" using assms(1) finite_subset [OF _ finite_getters] by (auto simp: accounted_def)
  moreover have "s \<notin> P" using assms by (auto simp: accounted_def)
  ultimately show ?thesis using assms by (auto simp: accounted_def memoOK_def remembered_def)
qed

lemma accounted_return:
  assumes "accounted t r (r s) (insert s P) st" "s \<notin> P" "\<forall>p\<in>P. b \<le> r p" "truthy u"
    "\<And>f. getter t s f \<Longrightarrow> evals t f u"
  shows "accounted t r b P (st\<lparr>memo := (memo st)(s := u)\<rparr>)"
proof -
  have fin: "finite (remembered st)" "finite P"
    using assms(1) finite_subset [OF _ finite_getters] by (auto simp: accounted_def)
  have "remembered (st\<lparr>memo := (memo st)(s := u)\<rparr>) = insert s (remembered st)"
    using assms(4) by (auto simp: remembered_def)
  moreover have "memoOK t (st\<lparr>memo := (memo st)(s := u)\<rparr>)"
    using assms(1,5) by (auto simp: accounted_def memoOK_def)
  ultimately show ?thesis using assms fin by (auto simp: accounted_def)
qed

lemma lowReads_descend: "lowReads t r b (Read ks k) \<Longrightarrow> lowReads t r b (descend u rest k)"
  by (auto simp: descend_def split: list.splits)

definition settles :: "tree \<Rightarrow> (string \<Rightarrow> nat) \<Rightarrow> nat \<Rightarrow> string set \<Rightarrow> tfun \<Rightarrow> resolver \<Rightarrow> bool" where
  "settles t r b P g st \<longleftrightarrow>
     (\<exists>v st'. (\<forall>K. runTheme t g K st = runTheme t (Ret v) K st') \<and> evals t g v \<and> accounted t r b P st')
     \<or> (\<nexists>v. evals t g v) \<and> (\<exists>st'. \<forall>K. runTheme t g K st = (Inl ThemeTypeError, st'))"

lemma settles_step:
  "settles t r b P g' st' \<Longrightarrow> (\<And>K. runTheme t g K st = runTheme t g' K st') \<Longrightarrow> (\<And>v. evals t g v \<longleftrightarrow> evals t g' v) \<Longrightarrow>
   settles t r b P g st"
  unfolding settles_def by simp

lemma run_ranked:
  assumes "keysPlain (Node fs)" and "ranked (Node fs) r" and "truthyGetters (Node fs)"
    and size: "length (leafPaths (Node fs)) \<le> 1000"
  shows "lowReads (Node fs) r b g \<Longrightarrow> accounted (Node fs) r b P st \<Longrightarrow> settles (Node fs) r b P g st"
proof (induction b arbitrary: g P st rule: less_induct)
  case (less b)
  show ?case using less.prems
  proof (induction g arbitrary: st)
    case (Ret v)
    then show ?case unfolding settles_def using evRet by blast
  next
    case Throw
    have "\<nexists>v. evals (Node fs) Throw v" by blast
    then show ?case unfolding settles_def by simp
  next
    case (Read ks k)
    let ?t = "Node fs"
    have desc: "settles ?t r b P (descend u rest k) st1" if "accounted ?t r b P st1" for u rest st1
      using Read.IH [OF rangeI _ that] Read.prems(1) unfolding descend_def settles_def
      by (auto split: list.splits)
    show ?case
    proof (cases "lookup ?t ks []")
      case (FVal v)
      have "settles ?t r b P (k v) st" using Read.IH [OF rangeI] Read.prems by auto
      then show ?thesis by (rule settles_step) (simp_all add: FVal evals_Read_val)
    next
      case FFail
      then show ?thesis unfolding settles_def by (simp add: evals_Read_stuck)
    next
      case (FGetter pre f rest)
      define s where "s = dotted pre"
      have get: "getter ?t s f" using FGetter by (auto simp: getter_def s_def)
      have rank: "r s < b" using Read.prems(1) FGetter by (simp add: s_def)
      show ?thesis
      proof (cases "truthy (memo st s)")
        case True
        then have ev: "evals ?t f (memo st s)" using Read.prems(2) get by (auto simp: accounted_def memoOK_def)
        show ?thesis
          by (rule settles_step [OF desc [OF Read.prems(2)]])
            (use FGetter True s_def evals_Read_getter [OF FGetter ev] in \<open>simp_all add: Let_def\<close>)
      next
        case False
        have notin: "s \<in> getters ?t" "s \<notin> remembered st" "s \<notin> P"
          using get False rank Read.prems(2) by (auto simp: getters_def remembered_def accounted_def)
        have lim: "\<not> 1000 < count st + 1" using accounted_limit [OF Read.prems(2) size notin] by simp
        define st1 where "st1 = st\<lparr>count := count st + 1\<rparr>"
        have step: "runTheme ?t (Read ks k) K st = runTheme ?t f ((s, \<lambda>u. descend u rest k) # K) st1" for K
          using FGetter False lim by (simp add: Let_def s_def st1_def)
        have low: "lowReads ?t r (r s) f" using assms(2) get by (auto simp: ranked_def)
        have "settles ?t r (r s) (insert s P) f st1"
          unfolding st1_def by (rule less.IH [OF rank low accounted_call [OF Read.prems(2) notin(1,2) rank]])
        then consider (err) st2 where "\<forall>K. runTheme ?t f K st1 = (Inl ThemeTypeError, st2)" "\<nexists>v. evals ?t f v"
          | (val) u st2 where "\<forall>K. runTheme ?t f K st1 = runTheme ?t (Ret u) K st2" "evals ?t f u" "accounted ?t r (r s) (insert s P) st2"
          unfolding settles_def by blast
        then show ?thesis
        proof cases
          case err
          then show ?thesis unfolding settles_def step using evals_Read_stuck(1) [OF FGetter] by blast
        next
          case val
          have "truthy u" using assms(3) get val(2) by (auto simp: truthyGetters_def)
          moreover have "\<And>f'. getter ?t s f' \<Longrightarrow> evals ?t f' u" using getter_unique [OF assms(1) get] val(2) by blast
          moreover have "\<forall>p\<in>P. b \<le> r p" using Read.prems(2) by (simp add: accounted_def)
          ultimately have "accounted ?t r b P (st2\<lparr>memo := (memo st2)(s := u)\<rparr>)"
            by (intro accounted_return [OF val(3) notin(3)])
          from desc [OF this] show ?thesis
            by (rule settles_step [where g' = "descend u rest k"])
              (use step val(1) evals_Read_getter [OF FGetter val(2)] in simp_all)
        qed
      qed
    qed
  qed
qed

section \<open>Resolving a theme\<close>

definition readings :: "tree \<Rightarrow> string list list \<Rightarrow> jsval list \<Rightarrow> (string \<times> jsval) list" where
  \<comment> \<open>the properties with their values, undefined ones left out\<close>
  "readings t paths vs =
     map (\<lambda>(p, v). (dotted p, jsonValue v)) (filter (\<lambda>(p, v). v \<noteq> JUndef) (zip paths vs))"

lemma readOut_sound:
  "readOut t paths st = Inr out \<Longrightarrow> t = Node fs \<Longrightarrow> keysPlain t \<Longrightarrow> memoOK t st \<Longrightarrow>
   \<exists>vs. list_all2 (\<lambda>p v. evals t (Read p Ret) v) paths vs \<and> out = readings t paths vs"
proof (induction paths arbitrary: st out)
  case Nil
  then show ?case by (auto simp: readings_def)
next
  case (Cons p ps)
  then obtain v st' out' where run: "runTheme t (Read p Ret) [] st = (Inr v, st')" and rest: "readOut t ps st' = Inr out'"
    and out: "out = (if v = JUndef then out' else (dotted p, jsonValue v) # out')"
    by (auto split: prod.splits sum.splits)
  have "evals t (Read p Ret) v" and ok: "memoOK t st'" using run_sound [OF run] Cons.prems by auto
  moreover obtain vs where "list_all2 (\<lambda>p v. evals t (Read p Ret) v) ps vs" "out' = readings t ps vs"
    using Cons.IH [OF rest] Cons.prems ok by blast
  ultimately show ?case using out by (intro exI [of _ "v # vs"]) (simp add: readings_def)
qed

lemma list_all2_ex: "list_all2 P xs ys \<Longrightarrow> x \<in> set xs \<Longrightarrow> \<exists>y. P x y"
  by (induction rule: list_all2_induct) auto

lemma memoOK_fresh: "memoOK t freshResolver"
  by (simp add: memoOK_def freshResolver_def)

lemma readOut_ranked:
  assumes "keysPlain (Node fs)" "ranked (Node fs) r" "truthyGetters (Node fs)" "length (leafPaths (Node fs)) \<le> 1000"
  shows "accounted (Node fs) r b {} st \<Longrightarrow> (\<And>s. s \<in> getters (Node fs) \<Longrightarrow> r s < b) \<Longrightarrow>
    (\<exists>vs. list_all2 (\<lambda>p v. evals (Node fs) (Read p Ret) v) paths vs
       \<and> readOut (Node fs) paths st = Inr (readings (Node fs) paths vs))
    \<or> (\<exists>p\<in>set paths. \<nexists>v. evals (Node fs) (Read p Ret) v) \<and> readOut (Node fs) paths st = Inl ThemeTypeError"
proof (induction paths arbitrary: st)
  case Nil
  then show ?case by (simp add: readings_def)
next
  case (Cons p ps)
  have "lowReads (Node fs) r b (Read p Ret)"
    using Cons.prems(2) [OF getters_I] by (simp split: found.split)
  from run_ranked [OF assms this Cons.prems(1)]
  consider (val) v st' where "runTheme (Node fs) (Read p Ret) [] st = (Inr v, st')" "evals (Node fs) (Read p Ret) v"
      "accounted (Node fs) r b {} st'"
    | (err) st' where "runTheme (Node fs) (Read p Ret) [] st = (Inl ThemeTypeError, st')" "\<nexists>v. evals (Node fs) (Read p Ret) v"
    unfolding settles_def by (elim disjE exE conjE) (simp_all del: runTheme.simps(4))
  then show ?case
  proof cases
    case val
    have "(\<exists>vs. list_all2 (\<lambda>p v. evals (Node fs) (Read p Ret) v) ps vs \<and> readOut (Node fs) ps st' = Inr (readings (Node fs) ps vs))
      \<or> (\<exists>p\<in>set ps. \<nexists>v. evals (Node fs) (Read p Ret) v) \<and> readOut (Node fs) ps st' = Inl ThemeTypeError"
      using Cons.IH [OF val(3)] Cons.prems(2) by simp
    then show ?thesis
    proof (elim disjE exE conjE)
      fix vs assume vs: "list_all2 (\<lambda>p. evals (Node fs) (Read p Ret)) ps vs" "readOut (Node fs) ps st' = Inr (readings (Node fs) ps vs)"
      have "readOut (Node fs) (p # ps) st = Inr (readings (Node fs) (p # ps) (v # vs))"
        using val(1) vs(2) by (simp add: readings_def del: runTheme.simps)
      then show ?thesis using vs(1) val(2) by (intro disjI1 exI [of _ "v # vs"]) simp
    next
      assume "\<exists>p\<in>set ps. \<nexists>v. evals (Node fs) (Read p Ret) v" "readOut (Node fs) ps st' = Inl ThemeTypeError"
      then show ?thesis using val(1) by (simp del: runTheme.simps)
    qed
  next
    case err
    then show ?thesis by (simp del: runTheme.simps)
  qed
qed

text \<open>
  C3. The resolver computes the theme: whenever resolution succeeds, the resolved theme lists the
  properties in order, each with the value that evaluating the theme functions gives, without the
  remembering and the counting of the implementation. It needs that no key has a dot in it, since
  remembered values are kept under the dotted path.
\<close>
theorem resolve_theme_correct:
  assumes "keysPlain (Node fs)" and "resolveTheme (Node fs) = Inr out"
  shows "\<exists>vs. list_all2 (\<lambda>p v. evals (Node fs) (Read p Ret) v) (leafPaths (Node fs)) vs
    \<and> out = readings (Node fs) (leafPaths (Node fs)) vs"
  using assms readOut_sound [OF _ refl assms(1) memoOK_fresh] unfolding resolveTheme_def by (auto split: if_splits)


text \<open>
  C7. Themes without cycles resolve: when the functions can be ranked so that each reads only
  functions of lower rank, every function that has a value has a truthy one, no property is null and
  there are at most a thousand properties, then resolution gives every property its value if they
  all have one, and otherwise the type error of the theme; it never reports a cycle.
\<close>
theorem acyclic_theme_resolved:
  assumes "keysPlain (Node fs)" "ranked (Node fs) r" "truthyGetters (Node fs)" "length (leafPaths (Node fs)) \<le> 1000"
    and "\<not> hasNull (Node fs)"
  shows "(\<exists>vs. list_all2 (\<lambda>p v. evals (Node fs) (Read p Ret) v) (leafPaths (Node fs)) vs
       \<and> resolveTheme (Node fs) = Inr (readings (Node fs) (leafPaths (Node fs)) vs))
    \<or> (\<exists>p\<in>set (leafPaths (Node fs)). \<nexists>v. evals (Node fs) (Read p Ret) v) \<and> resolveTheme (Node fs) = Inl ThemeTypeError"
proof -
  define b where "b = Suc (Max (insert 0 (r ` getters (Node fs))))"
  have low: "r x < b" if "x \<in> getters (Node fs)" for x
    using that finite_getters unfolding b_def by (simp add: less_Suc_eq_le)
  have "accounted (Node fs) r b {} freshResolver"
    using memoOK_fresh by (auto simp: accounted_def freshResolver_def remembered_def)
  from readOut_ranked [OF assms(1-4) this low, of "leafPaths (Node fs)"] assms(5) show ?thesis
    by (simp only: resolveTheme_def if_False)
qed

lemma getter_path:
  assumes "keysPlain (Node fs)" "getter (Node fs) s f"
  shows "\<exists>p\<in>set (leafPaths (Node fs)). lookup (Node fs) p [] = FGetter p f [] \<and> s = dotted p"
proof -
  obtain ks pre rest where at: "lookup (Node fs) ks [] = FGetter pre f rest" "dotted pre = s"
    using assms(2) by (auto simp: getter_def)
  have "pre \<in> set (leafPaths (Node fs))" using lookup_leafPaths [OF at(1)] by (simp only: append_Nil) blast
  moreover have "lookup (Node fs) pre [] = FGetter pre f []" using lookup_top [OF at(1) assms(1)] by blast
  ultimately show ?thesis using at(2) by blast
qed

lemma list_all2_det: "list_all2 P xs ys \<Longrightarrow> list_all2 P xs zs \<Longrightarrow> (\<And>x y z. P x y \<Longrightarrow> P x z \<Longrightarrow> y = z) \<Longrightarrow> ys = zs"
proof (induction arbitrary: zs rule: list_all2_induct)
  case (Cons x xs y ys)
  from Cons.prems(1) obtain z zs' where zs: "zs = z # zs'" "P x z" "list_all2 P xs zs'"
    by (auto simp: list_all2_Cons1)
  have "y = z" by (rule Cons.prems(2) [OF Cons.hyps(1) zs(2)])
  moreover have "ys = zs'" by (rule Cons.IH [OF zs(3) Cons.prems(2)])
  ultimately show ?case using zs(1) by blast
qed simp

definition smallTheme :: "(string \<times> tree) list" where
  "smallTheme = [(''a'', Leaf (JStr ''x'')), (''b'', Getter (Read [''a''] Ret)), (''c'', Getter (Read [''b''] Ret))]"

definition loopTheme :: "(string \<times> tree) list" where
  "loopTheme = [(''a'', Getter (Read [''b''] Ret)), (''b'', Getter (Read [''a''] Ret))]"

lemma smallTheme_resolves:
  "resolveTheme (Node smallTheme) = Inr [(''a'', JStr ''x''), (''b'', JStr ''x''), (''c'', JStr ''x'')]"
  by (simp add: smallTheme_def resolveTheme_def freshResolver_def dotted_def descend_def)

theorem resolve_theme_correct_witness:
  "\<exists>vs. list_all2 (\<lambda>p v. evals (Node smallTheme) (Read p Ret) v) [[''a''], [''b''], [''c'']] vs
    \<and> [(''a'', JStr ''x''), (''b'', JStr ''x''), (''c'', JStr ''x'')] = readings (Node smallTheme) [[''a''], [''b''], [''c'']] vs"
  using resolve_theme_correct [OF _ smallTheme_resolves] by (simp add: smallTheme_def)

lemma loop_no_value: "evals (Node loopTheme) g v \<Longrightarrow> g = Read [''a''] Ret \<or> g = Read [''b''] Ret \<Longrightarrow> False"
  by (induction rule: evals.induct) (auto simp: loopTheme_def)


lemma lookup_Leaf [simp]: "lookup (Leaf v) ks pre \<noteq> FGetter pre' f rest"
  by (cases ks) auto

lemma small_getter: "getter (Node smallTheme) s f \<Longrightarrow> s = ''b'' \<and> f = Read [''a''] Ret \<or> s = ''c'' \<and> f = Read [''b''] Ret"
  unfolding getter_def smallTheme_def
  by (elim exE conjE, rename_tac ks pre rest, case_tac ks) (auto simp: dotted_def split: if_splits)

lemma small_ranked: "ranked (Node smallTheme) (\<lambda>s. if s = ''c'' then 1 else 0)"
  unfolding ranked_def using small_getter by (fastforce simp: smallTheme_def dotted_def)

lemma small_truthy: "truthyGetters (Node smallTheme)"
proof -
  have "evals (Node smallTheme) (Read [''a''] Ret) v \<Longrightarrow> v = JStr ''x''" for v
    by (erule evals_ReadE) (auto simp: smallTheme_def elim: evals_RetE)
  moreover have "evals (Node smallTheme) (Read [''b''] Ret) v \<Longrightarrow> \<exists>u. evals (Node smallTheme) (Read [''a''] Ret) u \<and> v = u" for v
    by (erule evals_ReadE) (auto simp: smallTheme_def descend_def elim: evals_RetE)
  ultimately show ?thesis
    unfolding truthyGetters_def using small_getter by fastforce
qed

theorem acyclic_theme_resolved_witness:
  "keysPlain (Node smallTheme) \<and> length (leafPaths (Node smallTheme)) \<le> 1000
   \<and> (\<exists>vs. resolveTheme (Node smallTheme) = Inr (readings (Node smallTheme) (leafPaths (Node smallTheme)) vs))"
proof -
  have "keysPlain (Node smallTheme)" "length (leafPaths (Node smallTheme)) \<le> 1000" "\<not> hasNull (Node smallTheme)"
    by (simp_all add: smallTheme_def)
  with acyclic_theme_resolved [OF _ small_ranked small_truthy] smallTheme_resolves show ?thesis by fastforce
qed

text \<open>
  Merging themes: a value or function that the given theme has at a path replaces the default
  one, provided no plain value of the default theme stands where the path needs an object; and a
  value or function of the default theme stays when the given theme says nothing about its path.
\<close>
theorem merge_theme:
  assumes "distinctKeys n" and "\<forall>ms. v \<noteq> Node ms"
  shows "(at n p = Some v \<and> room e p \<longrightarrow> at (mergeObjects e n) p = Some v)
    \<and> (at e p = Some v \<and> untouched n p \<longrightarrow> at (mergeObjects e n) p = Some v)"
  using merge_override [OF _ assms(2,1)] merge_keep [OF _ assms(2,1)] by blast

theorem merge_theme_witness:
  "at (mergeObjects (Node [(''sidebar'', Node [(''width'', Leaf (JStr ''260px'')), (''textColor'', Leaf (JStr ''#333''))])])
      (Node [(''sidebar'', Node [(''width'', Leaf (JStr ''200px''))])])) [''sidebar'', ''width''] = Some (Leaf (JStr ''200px''))"
  using merge_theme [of "Node [(''sidebar'', Node [(''width'', Leaf (JStr ''200px''))])]" "Leaf (JStr ''200px'')"
    "[''sidebar'', ''width'']" "Node [(''sidebar'', Node [(''width'', Leaf (JStr ''260px'')), (''textColor'', Leaf (JStr ''#333''))])]"]
  by (simp add: targetOf_def)

end
