(* ===== verification/RedocDefaults.thy ===== *)
theory RedocDefaults
  imports RedocTheme StyleLayout
begin

text \<open>
  The default theme of the Redoc viewer, resolved: the value of each of its properties, and the
  layout of the page that follows from them.
\<close>

section \<open>The resolved default theme\<close>

definition coloursGiven :: "colourFns \<Rightarrow> bool" where
  "coloursGiven col \<longleftrightarrow>
     (\<forall>a b. cLighten col a b \<noteq> [] \<and> cDarken col a b \<noteq> [] \<and> cTransparentize col a b \<noteq> [] \<and> cReadable col a \<noteq> [])"

lemmas default_theme_defs = defaultTheme_def theme_spacing_def theme_breakpoints_def theme_colors_def theme_schema_def
  theme_typography_def theme_sidebar_def theme_logo_def theme_rightPanel_def theme_codeBlock_def theme_fab_def

lemma evals_Ret_iff: "evals t (Ret v) w \<longleftrightarrow> v = w"
  by (auto elim: evals_RetE intro: evRet)

lemma descend_Nil: "descend u [] k = k u"
  by (simp add: descend_def)

lemma evals_getter_value: "lookup t ks [] = FGetter pre f [] \<Longrightarrow> evals t f u \<Longrightarrow> evals t (Read ks k) w \<longleftrightarrow> evals t (k u) w"
  by (simp add: evals_Read_getter descend_Nil)

lemmas evals_rules = evals_Ret_iff evals_Read_val evals_getter_value

definition defaultValues :: "colourFns \<Rightarrow> (string \<times> jsval) list" where
  "defaultValues col = [
    (''spacing.unit'', JNum 5),
    (''spacing.sectionHorizontal'', JNum 40),
    (''spacing.sectionVertical'', JNum 40),
    (''breakpoints.small'', JStr ''50rem''),
    (''breakpoints.medium'', JStr ''75rem''),
    (''breakpoints.large'', JStr ''105rem''),
    (''colors.tonalOffset'', JDec ''0.2''),
    (''colors.primary.main'', JStr ''#32329f''),
    (''colors.primary.light'', JStr (cLighten col (JDec ''0.2'') (JStr ''#32329f''))),
    (''colors.primary.dark'', JStr (cDarken col (JDec ''0.2'') (JStr ''#32329f''))),
    (''colors.primary.contrastText'', JStr (cReadable col (JStr ''#32329f''))),
    (''colors.success.main'', JStr ''#1d8127''),
    (''colors.success.light'', JStr (cLighten col (cTimes col 2 (JDec ''0.2'')) (JStr ''#1d8127''))),
    (''colors.success.dark'', JStr (cDarken col (JDec ''0.2'') (JStr ''#1d8127''))),
    (''colors.success.contrastText'', JStr (cReadable col (JStr ''#1d8127''))),
    (''colors.warning.main'', JStr ''#ffa500''),
    (''colors.warning.light'', JStr (cLighten col (JDec ''0.2'') (JStr ''#ffa500''))),
    (''colors.warning.dark'', JStr (cDarken col (JDec ''0.2'') (JStr ''#ffa500''))),
    (''colors.warning.contrastText'', JStr ''#ffffff''),
    (''colors.error.main'', JStr ''#d41f1c''),
    (''colors.error.light'', JStr (cLighten col (JDec ''0.2'') (JStr ''#d41f1c''))),
    (''colors.error.dark'', JStr (cDarken col (JDec ''0.2'') (JStr ''#d41f1c''))),
    (''colors.error.contrastText'', JStr (cReadable col (JStr ''#d41f1c''))),
    (''colors.gray.50'', JStr ''#FAFAFA''),
    (''colors.gray.100'', JStr ''#F5F5F5''),
    (''colors.text.primary'', JStr ''#333333''),
    (''colors.text.secondary'', JStr (cLighten col (JDec ''0.2'') (JStr ''#333333''))),
    (''colors.border.dark'', JStr ''rgba(0,0,0, 0.1)''),
    (''colors.border.light'', JStr ''#ffffff''),
    (''colors.responses.success.color'', JStr ''#1d8127''),
    (''colors.responses.success.backgroundColor'', JStr (cTransparentize col (JDec ''0.93'') (JStr ''#1d8127''))),
    (''colors.responses.success.tabTextColor'', JStr ''#1d8127''),
    (''colors.responses.error.color'', JStr ''#d41f1c''),
    (''colors.responses.error.backgroundColor'', JStr (cTransparentize col (JDec ''0.93'') (JStr ''#d41f1c''))),
    (''colors.responses.error.tabTextColor'', JStr ''#d41f1c''),
    (''colors.responses.redirect.color'', JStr ''#ffa500''),
    (''colors.responses.redirect.backgroundColor'', JStr (cTransparentize col (JDec ''0.9'') (JStr ''#ffa500''))),
    (''colors.responses.redirect.tabTextColor'', JStr ''#ffa500''),
    (''colors.responses.info.color'', JStr ''#87ceeb''),
    (''colors.responses.info.backgroundColor'', JStr (cTransparentize col (JDec ''0.9'') (JStr ''#87ceeb''))),
    (''colors.responses.info.tabTextColor'', JStr ''#87ceeb''),
    (''colors.http.get'', JStr ''#2F8132''),
    (''colors.http.post'', JStr ''#186FAF''),
    (''colors.http.put'', JStr ''#95507c''),
    (''colors.http.options'', JStr ''#947014''),
    (''colors.http.patch'', JStr ''#bf581d''),
    (''colors.http.delete'', JStr ''#cc3333''),
    (''colors.http.basic'', JStr ''#707070''),
    (''colors.http.link'', JStr ''#07818F''),
    (''colors.http.head'', JStr ''#A23DAD''),
    (''schema.linesColor'', JStr (cLighten col (JDec ''0.2'') (JStr (cDesaturate col (JDec ''0.2'') (JStr ''#32329f''))))),
    (''schema.defaultDetailsWidth'', JStr ''75%''),
    (''schema.typeNameColor'', JStr (cLighten col (JDec ''0.2'') (JStr ''#333333''))),
    (''schema.typeTitleColor'', JStr (cLighten col (JDec ''0.2'') (JStr ''#333333''))),
    (''schema.requireLabelColor'', JStr ''#d41f1c''),
    (''schema.labelsTextSize'', JStr ''0.9em''),
    (''schema.nestingSpacing'', JStr ''1em''),
    (''schema.nestedBackground'', JStr ''#fafafa''),
    (''schema.arrow.size'', JStr ''1.1em''),
    (''schema.arrow.color'', JStr (cLighten col (JDec ''0.2'') (JStr ''#333333''))),
    (''typography.fontSize'', JStr ''14px''),
    (''typography.lineHeight'', JStr ''1.5em''),
    (''typography.fontWeightRegular'', JStr ''400''),
    (''typography.fontWeightBold'', JStr ''600''),
    (''typography.fontWeightLight'', JStr ''300''),
    (''typography.fontFamily'', JStr ''Roboto, sans-serif''),
    (''typography.smoothing'', JStr ''antialiased''),
    (''typography.optimizeSpeed'', JBool True),
    (''typography.headings.fontFamily'', JStr ''Montserrat, sans-serif''),
    (''typography.headings.fontWeight'', JStr ''400''),
    (''typography.headings.lineHeight'', JStr ''1.6em''),
    (''typography.code.fontSize'', JStr ''13px''),
    (''typography.code.fontFamily'', JStr ''Courier, monospace''),
    (''typography.code.lineHeight'', JStr ''1.5em''),
    (''typography.code.fontWeight'', JStr ''400''),
    (''typography.code.color'', JStr ''#e53935''),
    (''typography.code.backgroundColor'', JStr ''rgba(38, 50, 56, 0.05)''),
    (''typography.code.wrap'', JBool False),
    (''typography.links.color'', JStr ''#32329f''),
    (''typography.links.visited'', JStr ''#32329f''),
    (''typography.links.hover'', JStr (cLighten col (JDec ''0.2'') (JStr ''#32329f''))),
    (''typography.links.textDecoration'', JStr ''auto''),
    (''typography.links.hoverTextDecoration'', JStr ''auto''),
    (''sidebar.width'', JStr ''260px''),
    (''sidebar.backgroundColor'', JStr ''#fafafa''),
    (''sidebar.textColor'', JStr ''#333333''),
    (''sidebar.activeTextColor'', JStr ''#32329f''),
    (''sidebar.groupItems.activeBackgroundColor'', JStr (cDarken col (JDec ''0.1'') (JStr ''#fafafa''))),
    (''sidebar.groupItems.activeTextColor'', JStr ''#32329f''),
    (''sidebar.groupItems.textTransform'', JStr ''uppercase''),
    (''sidebar.level1Items.activeBackgroundColor'', JStr (cDarken col (JDec ''0.05'') (JStr ''#fafafa''))),
    (''sidebar.level1Items.activeTextColor'', JStr ''#32329f''),
    (''sidebar.level1Items.textTransform'', JStr ''none''),
    (''sidebar.arrow.size'', JStr ''1.5em''),
    (''sidebar.arrow.color'', JStr ''#333333''),
    (''logo.maxHeight'', JStr ''260px''),
    (''logo.maxWidth'', JStr ''260px''),
    (''logo.gutter'', JStr ''2px''),
    (''rightPanel.backgroundColor'', JStr ''#263238''),
    (''rightPanel.width'', JStr ''40%''),
    (''rightPanel.textColor'', JStr ''#ffffff''),
    (''rightPanel.servers.overlay.backgroundColor'', JStr ''#fafafa''),
    (''rightPanel.servers.overlay.textColor'', JStr ''#263238''),
    (''rightPanel.servers.url.backgroundColor'', JStr ''#fff''),
    (''codeBlock.backgroundColor'', JStr (cDarken col (JDec ''0.1'') (JStr ''#263238''))),
    (''fab.backgroundColor'', JStr ''#f2f2f2''),
    (''fab.color'', JStr ''#0065FB'')]"

section \<open>Looking up the properties\<close>

lemma default_sections:
  "lookup (defaultTheme col) (''spacing'' # ks) [] = lookup (theme_spacing col) ks [''spacing'']"
  "lookup (defaultTheme col) (''breakpoints'' # ks) [] = lookup (theme_breakpoints col) ks [''breakpoints'']"
  "lookup (defaultTheme col) (''colors'' # ks) [] = lookup (theme_colors col) ks [''colors'']"
  "lookup (defaultTheme col) (''schema'' # ks) [] = lookup (theme_schema col) ks [''schema'']"
  "lookup (defaultTheme col) (''typography'' # ks) [] = lookup (theme_typography col) ks [''typography'']"
  "lookup (defaultTheme col) (''sidebar'' # ks) [] = lookup (theme_sidebar col) ks [''sidebar'']"
  "lookup (defaultTheme col) (''logo'' # ks) [] = lookup (theme_logo col) ks [''logo'']"
  "lookup (defaultTheme col) (''rightPanel'' # ks) [] = lookup (theme_rightPanel col) ks [''rightPanel'']"
  "lookup (defaultTheme col) (''codeBlock'' # ks) [] = lookup (theme_codeBlock col) ks [''codeBlock'']"
  "lookup (defaultTheme col) (''fab'' # ks) [] = lookup (theme_fab col) ks [''fab'']"
  by (simp_all add: defaultTheme_def)

lemma spacing_lookups:
  "lookup (theme_spacing col) [''unit''] [''spacing''] = FVal (JNum 5)"
  "lookup (theme_spacing col) [''sectionHorizontal''] [''spacing''] = FGetter [''spacing'', ''sectionHorizontal''] (Read [''spacing'', ''unit''] (\<lambda>a. Ret (jsMul 8 a))) []"
  "lookup (theme_spacing col) [''sectionVertical''] [''spacing''] = FGetter [''spacing'', ''sectionVertical''] (Read [''spacing'', ''unit''] (\<lambda>a. Ret (jsMul 8 a))) []"
  by (simp_all add: theme_spacing_def)

lemma breakpoints_lookups:
  "lookup (theme_breakpoints col) [''small''] [''breakpoints''] = FVal (JStr ''50rem'')"
  "lookup (theme_breakpoints col) [''medium''] [''breakpoints''] = FVal (JStr ''75rem'')"
  "lookup (theme_breakpoints col) [''large''] [''breakpoints''] = FVal (JStr ''105rem'')"
  by (simp_all add: theme_breakpoints_def)

lemma colors_lookups:
  "lookup (theme_colors col) [''tonalOffset''] [''colors''] = FVal (JDec ''0.2'')"
  "lookup (theme_colors col) [''primary'', ''main''] [''colors''] = FVal (JStr ''#32329f'')"
  "lookup (theme_colors col) [''primary'', ''light''] [''colors''] = FGetter [''colors'', ''primary'', ''light''] (Read [''colors'', ''tonalOffset''] (\<lambda>a. Read [''colors'', ''primary'', ''main''] (\<lambda>b. Ret (JStr (cLighten col a b))))) []"
  "lookup (theme_colors col) [''primary'', ''dark''] [''colors''] = FGetter [''colors'', ''primary'', ''dark''] (Read [''colors'', ''tonalOffset''] (\<lambda>a. Read [''colors'', ''primary'', ''main''] (\<lambda>b. Ret (JStr (cDarken col a b))))) []"
  "lookup (theme_colors col) [''primary'', ''contrastText''] [''colors''] = FGetter [''colors'', ''primary'', ''contrastText''] (Read [''colors'', ''primary'', ''main''] (\<lambda>a. Ret (JStr (cReadable col a)))) []"
  "lookup (theme_colors col) [''success'', ''main''] [''colors''] = FVal (JStr ''#1d8127'')"
  "lookup (theme_colors col) [''success'', ''light''] [''colors''] = FGetter [''colors'', ''success'', ''light''] (Read [''colors'', ''tonalOffset''] (\<lambda>a. Read [''colors'', ''success'', ''main''] (\<lambda>b. Ret (JStr (cLighten col (cTimes col 2 a) b))))) []"
  "lookup (theme_colors col) [''success'', ''dark''] [''colors''] = FGetter [''colors'', ''success'', ''dark''] (Read [''colors'', ''tonalOffset''] (\<lambda>a. Read [''colors'', ''success'', ''main''] (\<lambda>b. Ret (JStr (cDarken col a b))))) []"
  "lookup (theme_colors col) [''success'', ''contrastText''] [''colors''] = FGetter [''colors'', ''success'', ''contrastText''] (Read [''colors'', ''success'', ''main''] (\<lambda>a. Ret (JStr (cReadable col a)))) []"
  "lookup (theme_colors col) [''warning'', ''main''] [''colors''] = FVal (JStr ''#ffa500'')"
  "lookup (theme_colors col) [''warning'', ''light''] [''colors''] = FGetter [''colors'', ''warning'', ''light''] (Read [''colors'', ''tonalOffset''] (\<lambda>a. Read [''colors'', ''warning'', ''main''] (\<lambda>b. Ret (JStr (cLighten col a b))))) []"
  "lookup (theme_colors col) [''warning'', ''dark''] [''colors''] = FGetter [''colors'', ''warning'', ''dark''] (Read [''colors'', ''tonalOffset''] (\<lambda>a. Read [''colors'', ''warning'', ''main''] (\<lambda>b. Ret (JStr (cDarken col a b))))) []"
  "lookup (theme_colors col) [''warning'', ''contrastText''] [''colors''] = FVal (JStr ''#ffffff'')"
  "lookup (theme_colors col) [''error'', ''main''] [''colors''] = FVal (JStr ''#d41f1c'')"
  "lookup (theme_colors col) [''error'', ''light''] [''colors''] = FGetter [''colors'', ''error'', ''light''] (Read [''colors'', ''tonalOffset''] (\<lambda>a. Read [''colors'', ''error'', ''main''] (\<lambda>b. Ret (JStr (cLighten col a b))))) []"
  "lookup (theme_colors col) [''error'', ''dark''] [''colors''] = FGetter [''colors'', ''error'', ''dark''] (Read [''colors'', ''tonalOffset''] (\<lambda>a. Read [''colors'', ''error'', ''main''] (\<lambda>b. Ret (JStr (cDarken col a b))))) []"
  "lookup (theme_colors col) [''error'', ''contrastText''] [''colors''] = FGetter [''colors'', ''error'', ''contrastText''] (Read [''colors'', ''error'', ''main''] (\<lambda>a. Ret (JStr (cReadable col a)))) []"
  "lookup (theme_colors col) [''gray'', ''50''] [''colors''] = FVal (JStr ''#FAFAFA'')"
  "lookup (theme_colors col) [''gray'', ''100''] [''colors''] = FVal (JStr ''#F5F5F5'')"
  "lookup (theme_colors col) [''text'', ''primary''] [''colors''] = FVal (JStr ''#333333'')"
  "lookup (theme_colors col) [''text'', ''secondary''] [''colors''] = FGetter [''colors'', ''text'', ''secondary''] (Read [''colors'', ''tonalOffset''] (\<lambda>a. Read [''colors'', ''text'', ''primary''] (\<lambda>b. Ret (JStr (cLighten col a b))))) []"
  "lookup (theme_colors col) [''border'', ''dark''] [''colors''] = FVal (JStr ''rgba(0,0,0, 0.1)'')"
  "lookup (theme_colors col) [''border'', ''light''] [''colors''] = FVal (JStr ''#ffffff'')"
  "lookup (theme_colors col) [''responses'', ''success'', ''color''] [''colors''] = FGetter [''colors'', ''responses'', ''success'', ''color''] (Read [''colors'', ''success'', ''main''] Ret) []"
  "lookup (theme_colors col) [''responses'', ''success'', ''backgroundColor''] [''colors''] = FGetter [''colors'', ''responses'', ''success'', ''backgroundColor''] (Read [''colors'', ''success'', ''main''] (\<lambda>a. Ret (JStr (cTransparentize col (JDec ''0.93'') a)))) []"
  "lookup (theme_colors col) [''responses'', ''success'', ''tabTextColor''] [''colors''] = FGetter [''colors'', ''responses'', ''success'', ''tabTextColor''] (Read [''colors'', ''responses'', ''success'', ''color''] Ret) []"
  "lookup (theme_colors col) [''responses'', ''error'', ''color''] [''colors''] = FGetter [''colors'', ''responses'', ''error'', ''color''] (Read [''colors'', ''error'', ''main''] Ret) []"
  "lookup (theme_colors col) [''responses'', ''error'', ''backgroundColor''] [''colors''] = FGetter [''colors'', ''responses'', ''error'', ''backgroundColor''] (Read [''colors'', ''error'', ''main''] (\<lambda>a. Ret (JStr (cTransparentize col (JDec ''0.93'') a)))) []"
  "lookup (theme_colors col) [''responses'', ''error'', ''tabTextColor''] [''colors''] = FGetter [''colors'', ''responses'', ''error'', ''tabTextColor''] (Read [''colors'', ''responses'', ''error'', ''color''] Ret) []"
  "lookup (theme_colors col) [''responses'', ''redirect'', ''color''] [''colors''] = FGetter [''colors'', ''responses'', ''redirect'', ''color''] (Read [''colors'', ''warning'', ''main''] Ret) []"
  "lookup (theme_colors col) [''responses'', ''redirect'', ''backgroundColor''] [''colors''] = FGetter [''colors'', ''responses'', ''redirect'', ''backgroundColor''] (Read [''colors'', ''responses'', ''redirect'', ''color''] (\<lambda>a. Ret (JStr (cTransparentize col (JDec ''0.9'') a)))) []"
  "lookup (theme_colors col) [''responses'', ''redirect'', ''tabTextColor''] [''colors''] = FGetter [''colors'', ''responses'', ''redirect'', ''tabTextColor''] (Read [''colors'', ''responses'', ''redirect'', ''color''] Ret) []"
  "lookup (theme_colors col) [''responses'', ''info'', ''color''] [''colors''] = FVal (JStr ''#87ceeb'')"
  "lookup (theme_colors col) [''responses'', ''info'', ''backgroundColor''] [''colors''] = FGetter [''colors'', ''responses'', ''info'', ''backgroundColor''] (Read [''colors'', ''responses'', ''info'', ''color''] (\<lambda>a. Ret (JStr (cTransparentize col (JDec ''0.9'') a)))) []"
  "lookup (theme_colors col) [''responses'', ''info'', ''tabTextColor''] [''colors''] = FGetter [''colors'', ''responses'', ''info'', ''tabTextColor''] (Read [''colors'', ''responses'', ''info'', ''color''] Ret) []"
  "lookup (theme_colors col) [''http'', ''get''] [''colors''] = FVal (JStr ''#2F8132'')"
  "lookup (theme_colors col) [''http'', ''post''] [''colors''] = FVal (JStr ''#186FAF'')"
  "lookup (theme_colors col) [''http'', ''put''] [''colors''] = FVal (JStr ''#95507c'')"
  "lookup (theme_colors col) [''http'', ''options''] [''colors''] = FVal (JStr ''#947014'')"
  "lookup (theme_colors col) [''http'', ''patch''] [''colors''] = FVal (JStr ''#bf581d'')"
  "lookup (theme_colors col) [''http'', ''delete''] [''colors''] = FVal (JStr ''#cc3333'')"
  "lookup (theme_colors col) [''http'', ''basic''] [''colors''] = FVal (JStr ''#707070'')"
  "lookup (theme_colors col) [''http'', ''link''] [''colors''] = FVal (JStr ''#07818F'')"
  "lookup (theme_colors col) [''http'', ''head''] [''colors''] = FVal (JStr ''#A23DAD'')"
  by (simp_all add: theme_colors_def)

lemma schema_lookups:
  "lookup (theme_schema col) [''linesColor''] [''schema''] = FGetter [''schema'', ''linesColor''] (Read [''colors'', ''tonalOffset''] (\<lambda>a. Read [''colors'', ''tonalOffset''] (\<lambda>b. Read [''colors'', ''primary'', ''main''] (\<lambda>c. Ret (JStr (cLighten col a (JStr (cDesaturate col b c)))))))) []"
  "lookup (theme_schema col) [''defaultDetailsWidth''] [''schema''] = FVal (JStr ''75%'')"
  "lookup (theme_schema col) [''typeNameColor''] [''schema''] = FGetter [''schema'', ''typeNameColor''] (Read [''colors'', ''text'', ''secondary''] Ret) []"
  "lookup (theme_schema col) [''typeTitleColor''] [''schema''] = FGetter [''schema'', ''typeTitleColor''] (Read [''schema'', ''typeNameColor''] Ret) []"
  "lookup (theme_schema col) [''requireLabelColor''] [''schema''] = FGetter [''schema'', ''requireLabelColor''] (Read [''colors'', ''error'', ''main''] Ret) []"
  "lookup (theme_schema col) [''labelsTextSize''] [''schema''] = FVal (JStr ''0.9em'')"
  "lookup (theme_schema col) [''nestingSpacing''] [''schema''] = FVal (JStr ''1em'')"
  "lookup (theme_schema col) [''nestedBackground''] [''schema''] = FVal (JStr ''#fafafa'')"
  "lookup (theme_schema col) [''arrow'', ''size''] [''schema''] = FVal (JStr ''1.1em'')"
  "lookup (theme_schema col) [''arrow'', ''color''] [''schema''] = FGetter [''schema'', ''arrow'', ''color''] (Read [''colors'', ''text'', ''secondary''] Ret) []"
  by (simp_all add: theme_schema_def)

lemma typography_lookups:
  "lookup (theme_typography col) [''fontSize''] [''typography''] = FVal (JStr ''14px'')"
  "lookup (theme_typography col) [''lineHeight''] [''typography''] = FVal (JStr ''1.5em'')"
  "lookup (theme_typography col) [''fontWeightRegular''] [''typography''] = FVal (JStr ''400'')"
  "lookup (theme_typography col) [''fontWeightBold''] [''typography''] = FVal (JStr ''600'')"
  "lookup (theme_typography col) [''fontWeightLight''] [''typography''] = FVal (JStr ''300'')"
  "lookup (theme_typography col) [''fontFamily''] [''typography''] = FVal (JStr ''Roboto, sans-serif'')"
  "lookup (theme_typography col) [''smoothing''] [''typography''] = FVal (JStr ''antialiased'')"
  "lookup (theme_typography col) [''optimizeSpeed''] [''typography''] = FVal (JBool True)"
  "lookup (theme_typography col) [''headings'', ''fontFamily''] [''typography''] = FVal (JStr ''Montserrat, sans-serif'')"
  "lookup (theme_typography col) [''headings'', ''fontWeight''] [''typography''] = FVal (JStr ''400'')"
  "lookup (theme_typography col) [''headings'', ''lineHeight''] [''typography''] = FVal (JStr ''1.6em'')"
  "lookup (theme_typography col) [''code'', ''fontSize''] [''typography''] = FVal (JStr ''13px'')"
  "lookup (theme_typography col) [''code'', ''fontFamily''] [''typography''] = FVal (JStr ''Courier, monospace'')"
  "lookup (theme_typography col) [''code'', ''lineHeight''] [''typography''] = FGetter [''typography'', ''code'', ''lineHeight''] (Read [''typography'', ''lineHeight''] Ret) []"
  "lookup (theme_typography col) [''code'', ''fontWeight''] [''typography''] = FGetter [''typography'', ''code'', ''fontWeight''] (Read [''typography'', ''fontWeightRegular''] Ret) []"
  "lookup (theme_typography col) [''code'', ''color''] [''typography''] = FVal (JStr ''#e53935'')"
  "lookup (theme_typography col) [''code'', ''backgroundColor''] [''typography''] = FVal (JStr ''rgba(38, 50, 56, 0.05)'')"
  "lookup (theme_typography col) [''code'', ''wrap''] [''typography''] = FVal (JBool False)"
  "lookup (theme_typography col) [''links'', ''color''] [''typography''] = FGetter [''typography'', ''links'', ''color''] (Read [''colors'', ''primary'', ''main''] Ret) []"
  "lookup (theme_typography col) [''links'', ''visited''] [''typography''] = FGetter [''typography'', ''links'', ''visited''] (Read [''typography'', ''links'', ''color''] Ret) []"
  "lookup (theme_typography col) [''links'', ''hover''] [''typography''] = FGetter [''typography'', ''links'', ''hover''] (Read [''typography'', ''links'', ''color''] (\<lambda>a. Ret (JStr (cLighten col (JDec ''0.2'') a)))) []"
  "lookup (theme_typography col) [''links'', ''textDecoration''] [''typography''] = FVal (JStr ''auto'')"
  "lookup (theme_typography col) [''links'', ''hoverTextDecoration''] [''typography''] = FVal (JStr ''auto'')"
  by (simp_all add: theme_typography_def)

lemma sidebar_lookups:
  "lookup (theme_sidebar col) [''width''] [''sidebar''] = FVal (JStr ''260px'')"
  "lookup (theme_sidebar col) [''backgroundColor''] [''sidebar''] = FVal (JStr ''#fafafa'')"
  "lookup (theme_sidebar col) [''textColor''] [''sidebar''] = FVal (JStr ''#333333'')"
  "lookup (theme_sidebar col) [''activeTextColor''] [''sidebar''] = FGetter [''sidebar'', ''activeTextColor''] (Read [''sidebar'', ''textColor''] (\<lambda>a. if a \<noteq> JStr ''#333333'' then Read [''sidebar'', ''textColor''] Ret else Read [''colors'', ''primary'', ''main''] Ret)) []"
  "lookup (theme_sidebar col) [''groupItems'', ''activeBackgroundColor''] [''sidebar''] = FGetter [''sidebar'', ''groupItems'', ''activeBackgroundColor''] (Read [''sidebar'', ''backgroundColor''] (\<lambda>a. Ret (JStr (cDarken col (JDec ''0.1'') a)))) []"
  "lookup (theme_sidebar col) [''groupItems'', ''activeTextColor''] [''sidebar''] = FGetter [''sidebar'', ''groupItems'', ''activeTextColor''] (Read [''sidebar'', ''activeTextColor''] Ret) []"
  "lookup (theme_sidebar col) [''groupItems'', ''textTransform''] [''sidebar''] = FVal (JStr ''uppercase'')"
  "lookup (theme_sidebar col) [''level1Items'', ''activeBackgroundColor''] [''sidebar''] = FGetter [''sidebar'', ''level1Items'', ''activeBackgroundColor''] (Read [''sidebar'', ''backgroundColor''] (\<lambda>a. Ret (JStr (cDarken col (JDec ''0.05'') a)))) []"
  "lookup (theme_sidebar col) [''level1Items'', ''activeTextColor''] [''sidebar''] = FGetter [''sidebar'', ''level1Items'', ''activeTextColor''] (Read [''sidebar'', ''activeTextColor''] Ret) []"
  "lookup (theme_sidebar col) [''level1Items'', ''textTransform''] [''sidebar''] = FVal (JStr ''none'')"
  "lookup (theme_sidebar col) [''arrow'', ''size''] [''sidebar''] = FVal (JStr ''1.5em'')"
  "lookup (theme_sidebar col) [''arrow'', ''color''] [''sidebar''] = FGetter [''sidebar'', ''arrow'', ''color''] (Read [''sidebar'', ''textColor''] Ret) []"
  by (simp_all add: theme_sidebar_def)

lemma logo_lookups:
  "lookup (theme_logo col) [''maxHeight''] [''logo''] = FGetter [''logo'', ''maxHeight''] (Read [''sidebar'', ''width''] Ret) []"
  "lookup (theme_logo col) [''maxWidth''] [''logo''] = FGetter [''logo'', ''maxWidth''] (Read [''sidebar'', ''width''] Ret) []"
  "lookup (theme_logo col) [''gutter''] [''logo''] = FVal (JStr ''2px'')"
  by (simp_all add: theme_logo_def)

lemma rightPanel_lookups:
  "lookup (theme_rightPanel col) [''backgroundColor''] [''rightPanel''] = FVal (JStr ''#263238'')"
  "lookup (theme_rightPanel col) [''width''] [''rightPanel''] = FVal (JStr ''40%'')"
  "lookup (theme_rightPanel col) [''textColor''] [''rightPanel''] = FVal (JStr ''#ffffff'')"
  "lookup (theme_rightPanel col) [''servers'', ''overlay'', ''backgroundColor''] [''rightPanel''] = FVal (JStr ''#fafafa'')"
  "lookup (theme_rightPanel col) [''servers'', ''overlay'', ''textColor''] [''rightPanel''] = FVal (JStr ''#263238'')"
  "lookup (theme_rightPanel col) [''servers'', ''url'', ''backgroundColor''] [''rightPanel''] = FVal (JStr ''#fff'')"
  by (simp_all add: theme_rightPanel_def)

lemma codeBlock_lookups:
  "lookup (theme_codeBlock col) [''backgroundColor''] [''codeBlock''] = FGetter [''codeBlock'', ''backgroundColor''] (Read [''rightPanel'', ''backgroundColor''] (\<lambda>a. Ret (JStr (cDarken col (JDec ''0.1'') a)))) []"
  by (simp_all add: theme_codeBlock_def)

lemma fab_lookups:
  "lookup (theme_fab col) [''backgroundColor''] [''fab''] = FVal (JStr ''#f2f2f2'')"
  "lookup (theme_fab col) [''color''] [''fab''] = FVal (JStr ''#0065FB'')"
  by (simp_all add: theme_fab_def)

lemmas default_lookups = default_sections spacing_lookups breakpoints_lookups colors_lookups schema_lookups typography_lookups sidebar_lookups logo_lookups rightPanel_lookups codeBlock_lookups fab_lookups

lemma default_leafPaths:
  "leafPaths (defaultTheme col) = [
     [''spacing'', ''unit''],
     [''spacing'', ''sectionHorizontal''],
     [''spacing'', ''sectionVertical''],
     [''breakpoints'', ''small''],
     [''breakpoints'', ''medium''],
     [''breakpoints'', ''large''],
     [''colors'', ''tonalOffset''],
     [''colors'', ''primary'', ''main''],
     [''colors'', ''primary'', ''light''],
     [''colors'', ''primary'', ''dark''],
     [''colors'', ''primary'', ''contrastText''],
     [''colors'', ''success'', ''main''],
     [''colors'', ''success'', ''light''],
     [''colors'', ''success'', ''dark''],
     [''colors'', ''success'', ''contrastText''],
     [''colors'', ''warning'', ''main''],
     [''colors'', ''warning'', ''light''],
     [''colors'', ''warning'', ''dark''],
     [''colors'', ''warning'', ''contrastText''],
     [''colors'', ''error'', ''main''],
     [''colors'', ''error'', ''light''],
     [''colors'', ''error'', ''dark''],
     [''colors'', ''error'', ''contrastText''],
     [''colors'', ''gray'', ''50''],
     [''colors'', ''gray'', ''100''],
     [''colors'', ''text'', ''primary''],
     [''colors'', ''text'', ''secondary''],
     [''colors'', ''border'', ''dark''],
     [''colors'', ''border'', ''light''],
     [''colors'', ''responses'', ''success'', ''color''],
     [''colors'', ''responses'', ''success'', ''backgroundColor''],
     [''colors'', ''responses'', ''success'', ''tabTextColor''],
     [''colors'', ''responses'', ''error'', ''color''],
     [''colors'', ''responses'', ''error'', ''backgroundColor''],
     [''colors'', ''responses'', ''error'', ''tabTextColor''],
     [''colors'', ''responses'', ''redirect'', ''color''],
     [''colors'', ''responses'', ''redirect'', ''backgroundColor''],
     [''colors'', ''responses'', ''redirect'', ''tabTextColor''],
     [''colors'', ''responses'', ''info'', ''color''],
     [''colors'', ''responses'', ''info'', ''backgroundColor''],
     [''colors'', ''responses'', ''info'', ''tabTextColor''],
     [''colors'', ''http'', ''get''],
     [''colors'', ''http'', ''post''],
     [''colors'', ''http'', ''put''],
     [''colors'', ''http'', ''options''],
     [''colors'', ''http'', ''patch''],
     [''colors'', ''http'', ''delete''],
     [''colors'', ''http'', ''basic''],
     [''colors'', ''http'', ''link''],
     [''colors'', ''http'', ''head''],
     [''schema'', ''linesColor''],
     [''schema'', ''defaultDetailsWidth''],
     [''schema'', ''typeNameColor''],
     [''schema'', ''typeTitleColor''],
     [''schema'', ''requireLabelColor''],
     [''schema'', ''labelsTextSize''],
     [''schema'', ''nestingSpacing''],
     [''schema'', ''nestedBackground''],
     [''schema'', ''arrow'', ''size''],
     [''schema'', ''arrow'', ''color''],
     [''typography'', ''fontSize''],
     [''typography'', ''lineHeight''],
     [''typography'', ''fontWeightRegular''],
     [''typography'', ''fontWeightBold''],
     [''typography'', ''fontWeightLight''],
     [''typography'', ''fontFamily''],
     [''typography'', ''smoothing''],
     [''typography'', ''optimizeSpeed''],
     [''typography'', ''headings'', ''fontFamily''],
     [''typography'', ''headings'', ''fontWeight''],
     [''typography'', ''headings'', ''lineHeight''],
     [''typography'', ''code'', ''fontSize''],
     [''typography'', ''code'', ''fontFamily''],
     [''typography'', ''code'', ''lineHeight''],
     [''typography'', ''code'', ''fontWeight''],
     [''typography'', ''code'', ''color''],
     [''typography'', ''code'', ''backgroundColor''],
     [''typography'', ''code'', ''wrap''],
     [''typography'', ''links'', ''color''],
     [''typography'', ''links'', ''visited''],
     [''typography'', ''links'', ''hover''],
     [''typography'', ''links'', ''textDecoration''],
     [''typography'', ''links'', ''hoverTextDecoration''],
     [''sidebar'', ''width''],
     [''sidebar'', ''backgroundColor''],
     [''sidebar'', ''textColor''],
     [''sidebar'', ''activeTextColor''],
     [''sidebar'', ''groupItems'', ''activeBackgroundColor''],
     [''sidebar'', ''groupItems'', ''activeTextColor''],
     [''sidebar'', ''groupItems'', ''textTransform''],
     [''sidebar'', ''level1Items'', ''activeBackgroundColor''],
     [''sidebar'', ''level1Items'', ''activeTextColor''],
     [''sidebar'', ''level1Items'', ''textTransform''],
     [''sidebar'', ''arrow'', ''size''],
     [''sidebar'', ''arrow'', ''color''],
     [''logo'', ''maxHeight''],
     [''logo'', ''maxWidth''],
     [''logo'', ''gutter''],
     [''rightPanel'', ''backgroundColor''],
     [''rightPanel'', ''width''],
     [''rightPanel'', ''textColor''],
     [''rightPanel'', ''servers'', ''overlay'', ''backgroundColor''],
     [''rightPanel'', ''servers'', ''overlay'', ''textColor''],
     [''rightPanel'', ''servers'', ''url'', ''backgroundColor''],
     [''codeBlock'', ''backgroundColor''],
     [''fab'', ''backgroundColor''],
     [''fab'', ''color'']]"
  by (simp add: default_theme_defs)

section \<open>Values of the functions\<close>

definition defaultRank :: "string \<Rightarrow> nat" where
  "defaultRank s = (case map_of [(''colors.responses.success.tabTextColor'', 1), (''colors.responses.error.tabTextColor'', 1), (''colors.responses.redirect.backgroundColor'', 1), (''colors.responses.redirect.tabTextColor'', 1), (''schema.typeNameColor'', 1), (''schema.typeTitleColor'', 2), (''schema.arrow.color'', 1), (''typography.links.visited'', 1), (''typography.links.hover'', 1), (''sidebar.groupItems.activeTextColor'', 1), (''sidebar.level1Items.activeTextColor'', 1)] s of None \<Rightarrow> 0 | Some n \<Rightarrow> n)"

lemma default_ranks:
  "defaultRank (dotted [''spacing'', ''sectionHorizontal'']) = 0"
  "defaultRank (dotted [''spacing'', ''sectionVertical'']) = 0"
  "defaultRank (dotted [''colors'', ''primary'', ''light'']) = 0"
  "defaultRank (dotted [''colors'', ''primary'', ''dark'']) = 0"
  "defaultRank (dotted [''colors'', ''primary'', ''contrastText'']) = 0"
  "defaultRank (dotted [''colors'', ''success'', ''light'']) = 0"
  "defaultRank (dotted [''colors'', ''success'', ''dark'']) = 0"
  "defaultRank (dotted [''colors'', ''success'', ''contrastText'']) = 0"
  "defaultRank (dotted [''colors'', ''warning'', ''light'']) = 0"
  "defaultRank (dotted [''colors'', ''warning'', ''dark'']) = 0"
  "defaultRank (dotted [''colors'', ''error'', ''light'']) = 0"
  "defaultRank (dotted [''colors'', ''error'', ''dark'']) = 0"
  "defaultRank (dotted [''colors'', ''error'', ''contrastText'']) = 0"
  "defaultRank (dotted [''colors'', ''text'', ''secondary'']) = 0"
  "defaultRank (dotted [''colors'', ''responses'', ''success'', ''color'']) = 0"
  "defaultRank (dotted [''colors'', ''responses'', ''success'', ''backgroundColor'']) = 0"
  "defaultRank (dotted [''colors'', ''responses'', ''success'', ''tabTextColor'']) = 1"
  "defaultRank (dotted [''colors'', ''responses'', ''error'', ''color'']) = 0"
  "defaultRank (dotted [''colors'', ''responses'', ''error'', ''backgroundColor'']) = 0"
  "defaultRank (dotted [''colors'', ''responses'', ''error'', ''tabTextColor'']) = 1"
  "defaultRank (dotted [''colors'', ''responses'', ''redirect'', ''color'']) = 0"
  "defaultRank (dotted [''colors'', ''responses'', ''redirect'', ''backgroundColor'']) = 1"
  "defaultRank (dotted [''colors'', ''responses'', ''redirect'', ''tabTextColor'']) = 1"
  "defaultRank (dotted [''colors'', ''responses'', ''info'', ''backgroundColor'']) = 0"
  "defaultRank (dotted [''colors'', ''responses'', ''info'', ''tabTextColor'']) = 0"
  "defaultRank (dotted [''schema'', ''linesColor'']) = 0"
  "defaultRank (dotted [''schema'', ''typeNameColor'']) = 1"
  "defaultRank (dotted [''schema'', ''typeTitleColor'']) = 2"
  "defaultRank (dotted [''schema'', ''requireLabelColor'']) = 0"
  "defaultRank (dotted [''schema'', ''arrow'', ''color'']) = 1"
  "defaultRank (dotted [''typography'', ''code'', ''lineHeight'']) = 0"
  "defaultRank (dotted [''typography'', ''code'', ''fontWeight'']) = 0"
  "defaultRank (dotted [''typography'', ''links'', ''color'']) = 0"
  "defaultRank (dotted [''typography'', ''links'', ''visited'']) = 1"
  "defaultRank (dotted [''typography'', ''links'', ''hover'']) = 1"
  "defaultRank (dotted [''sidebar'', ''activeTextColor'']) = 0"
  "defaultRank (dotted [''sidebar'', ''groupItems'', ''activeBackgroundColor'']) = 0"
  "defaultRank (dotted [''sidebar'', ''groupItems'', ''activeTextColor'']) = 1"
  "defaultRank (dotted [''sidebar'', ''level1Items'', ''activeBackgroundColor'']) = 0"
  "defaultRank (dotted [''sidebar'', ''level1Items'', ''activeTextColor'']) = 1"
  "defaultRank (dotted [''sidebar'', ''arrow'', ''color'']) = 0"
  "defaultRank (dotted [''logo'', ''maxHeight'']) = 0"
  "defaultRank (dotted [''logo'', ''maxWidth'']) = 0"
  "defaultRank (dotted [''codeBlock'', ''backgroundColor'']) = 0"
  by (simp_all add: defaultRank_def dotted_def)

lemma default_values_0:
  "evals (defaultTheme col) (Read [''spacing'', ''unit''] (\<lambda>a. Ret (jsMul 8 a))) (JNum 40)"
  "evals (defaultTheme col) (Read [''spacing'', ''unit''] (\<lambda>a. Ret (jsMul 8 a))) (JNum 40)"
  "evals (defaultTheme col) (Read [''colors'', ''tonalOffset''] (\<lambda>a. Read [''colors'', ''primary'', ''main''] (\<lambda>b. Ret (JStr (cLighten col a b))))) (JStr (cLighten col (JDec ''0.2'') (JStr ''#32329f'')))"
  "evals (defaultTheme col) (Read [''colors'', ''tonalOffset''] (\<lambda>a. Read [''colors'', ''primary'', ''main''] (\<lambda>b. Ret (JStr (cDarken col a b))))) (JStr (cDarken col (JDec ''0.2'') (JStr ''#32329f'')))"
  "evals (defaultTheme col) (Read [''colors'', ''primary'', ''main''] (\<lambda>a. Ret (JStr (cReadable col a)))) (JStr (cReadable col (JStr ''#32329f'')))"
  "evals (defaultTheme col) (Read [''colors'', ''tonalOffset''] (\<lambda>a. Read [''colors'', ''success'', ''main''] (\<lambda>b. Ret (JStr (cLighten col (cTimes col 2 a) b))))) (JStr (cLighten col (cTimes col 2 (JDec ''0.2'')) (JStr ''#1d8127'')))"
  "evals (defaultTheme col) (Read [''colors'', ''tonalOffset''] (\<lambda>a. Read [''colors'', ''success'', ''main''] (\<lambda>b. Ret (JStr (cDarken col a b))))) (JStr (cDarken col (JDec ''0.2'') (JStr ''#1d8127'')))"
  "evals (defaultTheme col) (Read [''colors'', ''success'', ''main''] (\<lambda>a. Ret (JStr (cReadable col a)))) (JStr (cReadable col (JStr ''#1d8127'')))"
  "evals (defaultTheme col) (Read [''colors'', ''tonalOffset''] (\<lambda>a. Read [''colors'', ''warning'', ''main''] (\<lambda>b. Ret (JStr (cLighten col a b))))) (JStr (cLighten col (JDec ''0.2'') (JStr ''#ffa500'')))"
  "evals (defaultTheme col) (Read [''colors'', ''tonalOffset''] (\<lambda>a. Read [''colors'', ''warning'', ''main''] (\<lambda>b. Ret (JStr (cDarken col a b))))) (JStr (cDarken col (JDec ''0.2'') (JStr ''#ffa500'')))"
  "evals (defaultTheme col) (Read [''colors'', ''tonalOffset''] (\<lambda>a. Read [''colors'', ''error'', ''main''] (\<lambda>b. Ret (JStr (cLighten col a b))))) (JStr (cLighten col (JDec ''0.2'') (JStr ''#d41f1c'')))"
  "evals (defaultTheme col) (Read [''colors'', ''tonalOffset''] (\<lambda>a. Read [''colors'', ''error'', ''main''] (\<lambda>b. Ret (JStr (cDarken col a b))))) (JStr (cDarken col (JDec ''0.2'') (JStr ''#d41f1c'')))"
  "evals (defaultTheme col) (Read [''colors'', ''error'', ''main''] (\<lambda>a. Ret (JStr (cReadable col a)))) (JStr (cReadable col (JStr ''#d41f1c'')))"
  "evals (defaultTheme col) (Read [''colors'', ''tonalOffset''] (\<lambda>a. Read [''colors'', ''text'', ''primary''] (\<lambda>b. Ret (JStr (cLighten col a b))))) (JStr (cLighten col (JDec ''0.2'') (JStr ''#333333'')))"
  "evals (defaultTheme col) (Read [''colors'', ''success'', ''main''] Ret) (JStr ''#1d8127'')"
  "evals (defaultTheme col) (Read [''colors'', ''success'', ''main''] (\<lambda>a. Ret (JStr (cTransparentize col (JDec ''0.93'') a)))) (JStr (cTransparentize col (JDec ''0.93'') (JStr ''#1d8127'')))"
  "evals (defaultTheme col) (Read [''colors'', ''error'', ''main''] Ret) (JStr ''#d41f1c'')"
  "evals (defaultTheme col) (Read [''colors'', ''error'', ''main''] (\<lambda>a. Ret (JStr (cTransparentize col (JDec ''0.93'') a)))) (JStr (cTransparentize col (JDec ''0.93'') (JStr ''#d41f1c'')))"
  "evals (defaultTheme col) (Read [''colors'', ''warning'', ''main''] Ret) (JStr ''#ffa500'')"
  "evals (defaultTheme col) (Read [''colors'', ''responses'', ''info'', ''color''] (\<lambda>a. Ret (JStr (cTransparentize col (JDec ''0.9'') a)))) (JStr (cTransparentize col (JDec ''0.9'') (JStr ''#87ceeb'')))"
  "evals (defaultTheme col) (Read [''colors'', ''responses'', ''info'', ''color''] Ret) (JStr ''#87ceeb'')"
  "evals (defaultTheme col) (Read [''colors'', ''tonalOffset''] (\<lambda>a. Read [''colors'', ''tonalOffset''] (\<lambda>b. Read [''colors'', ''primary'', ''main''] (\<lambda>c. Ret (JStr (cLighten col a (JStr (cDesaturate col b c)))))))) (JStr (cLighten col (JDec ''0.2'') (JStr (cDesaturate col (JDec ''0.2'') (JStr ''#32329f'')))))"
  "evals (defaultTheme col) (Read [''colors'', ''error'', ''main''] Ret) (JStr ''#d41f1c'')"
  "evals (defaultTheme col) (Read [''typography'', ''lineHeight''] Ret) (JStr ''1.5em'')"
  "evals (defaultTheme col) (Read [''typography'', ''fontWeightRegular''] Ret) (JStr ''400'')"
  "evals (defaultTheme col) (Read [''colors'', ''primary'', ''main''] Ret) (JStr ''#32329f'')"
  "evals (defaultTheme col) (Read [''sidebar'', ''textColor''] (\<lambda>a. if a \<noteq> JStr ''#333333'' then Read [''sidebar'', ''textColor''] Ret else Read [''colors'', ''primary'', ''main''] Ret)) (JStr ''#32329f'')"
  "evals (defaultTheme col) (Read [''sidebar'', ''backgroundColor''] (\<lambda>a. Ret (JStr (cDarken col (JDec ''0.1'') a)))) (JStr (cDarken col (JDec ''0.1'') (JStr ''#fafafa'')))"
  "evals (defaultTheme col) (Read [''sidebar'', ''backgroundColor''] (\<lambda>a. Ret (JStr (cDarken col (JDec ''0.05'') a)))) (JStr (cDarken col (JDec ''0.05'') (JStr ''#fafafa'')))"
  "evals (defaultTheme col) (Read [''sidebar'', ''textColor''] Ret) (JStr ''#333333'')"
  "evals (defaultTheme col) (Read [''sidebar'', ''width''] Ret) (JStr ''260px'')"
  "evals (defaultTheme col) (Read [''sidebar'', ''width''] Ret) (JStr ''260px'')"
  "evals (defaultTheme col) (Read [''rightPanel'', ''backgroundColor''] (\<lambda>a. Ret (JStr (cDarken col (JDec ''0.1'') a)))) (JStr (cDarken col (JDec ''0.1'') (JStr ''#263238'')))"
  by (simp_all add: evals_rules default_lookups)

lemma default_values_1:
  "evals (defaultTheme col) (Read [''colors'', ''responses'', ''success'', ''color''] Ret) (JStr ''#1d8127'')"
  "evals (defaultTheme col) (Read [''colors'', ''responses'', ''error'', ''color''] Ret) (JStr ''#d41f1c'')"
  "evals (defaultTheme col) (Read [''colors'', ''responses'', ''redirect'', ''color''] (\<lambda>a. Ret (JStr (cTransparentize col (JDec ''0.9'') a)))) (JStr (cTransparentize col (JDec ''0.9'') (JStr ''#ffa500'')))"
  "evals (defaultTheme col) (Read [''colors'', ''responses'', ''redirect'', ''color''] Ret) (JStr ''#ffa500'')"
  "evals (defaultTheme col) (Read [''colors'', ''text'', ''secondary''] Ret) (JStr (cLighten col (JDec ''0.2'') (JStr ''#333333'')))"
  "evals (defaultTheme col) (Read [''colors'', ''text'', ''secondary''] Ret) (JStr (cLighten col (JDec ''0.2'') (JStr ''#333333'')))"
  "evals (defaultTheme col) (Read [''typography'', ''links'', ''color''] Ret) (JStr ''#32329f'')"
  "evals (defaultTheme col) (Read [''typography'', ''links'', ''color''] (\<lambda>a. Ret (JStr (cLighten col (JDec ''0.2'') a)))) (JStr (cLighten col (JDec ''0.2'') (JStr ''#32329f'')))"
  "evals (defaultTheme col) (Read [''sidebar'', ''activeTextColor''] Ret) (JStr ''#32329f'')"
  "evals (defaultTheme col) (Read [''sidebar'', ''activeTextColor''] Ret) (JStr ''#32329f'')"
  by (simp_all add: evals_rules default_lookups default_values_0)

lemma default_values_2:
  "evals (defaultTheme col) (Read [''schema'', ''typeNameColor''] Ret) (JStr (cLighten col (JDec ''0.2'') (JStr ''#333333'')))"
  by (simp_all add: evals_rules default_lookups default_values_0 default_values_1)

lemmas default_values = default_values_0 default_values_1 default_values_2

lemma default_plain: "keysPlain (defaultTheme col)" and default_hasNull: "\<not> hasNull (defaultTheme col)"
  by (simp_all add: default_theme_defs)

lemma default_ranked_paths:
  "\<forall>p\<in>set (leafPaths (defaultTheme col)). \<forall>f. lookup (defaultTheme col) p [] = FGetter p f [] \<longrightarrow>
     lowReads (defaultTheme col) defaultRank (defaultRank (dotted p)) f"
  by (simp add: default_leafPaths default_lookups default_ranks)

lemma default_truthy_paths:
  assumes "coloursGiven col"
  shows "\<forall>p\<in>set (leafPaths (defaultTheme col)). \<forall>f v. lookup (defaultTheme col) p [] = FGetter p f [] \<longrightarrow>
     evals (defaultTheme col) f v \<longrightarrow> truthy v"
  using assms by (simp add: default_leafPaths default_lookups evals_rules default_values coloursGiven_def)

lemma default_all_values:
  "list_all2 (\<lambda>p v. evals (defaultTheme col) (Read p Ret) v) (leafPaths (defaultTheme col)) (map snd (defaultValues col))"
  by (simp add: default_leafPaths default_lookups evals_rules default_values defaultValues_def)

lemma default_readings:
  "readings (defaultTheme col) (leafPaths (defaultTheme col)) (map snd (defaultValues col)) = defaultValues col"
  by (simp add: readings_def default_leafPaths defaultValues_def dotted_def)

lemma default_getter:
  assumes "getter (defaultTheme col) s f"
  obtains p where "p \<in> set (leafPaths (defaultTheme col))" "lookup (defaultTheme col) p [] = FGetter p f []" "s = dotted p"
proof -
  obtain fs where fs: "defaultTheme col = Node fs" by (simp add: defaultTheme_def)
  show ?thesis using getter_path [OF default_plain [of col, unfolded fs] assms [unfolded fs]] that unfolding fs by blast
qed

lemma default_resolved:
  assumes "coloursGiven col"
  shows "resolveTheme (defaultTheme col) = Inr (defaultValues col)"
proof -
  obtain fs where fs: "defaultTheme col = Node fs" by (simp add: defaultTheme_def)
  have ranked: "ranked (defaultTheme col) defaultRank"
    unfolding ranked_def
  proof (intro allI impI)
    fix s f assume "getter (defaultTheme col) s f"
    then obtain p where p: "p \<in> set (leafPaths (defaultTheme col))" "lookup (defaultTheme col) p [] = FGetter p f []" "s = dotted p"
      by (rule default_getter)
    show "lowReads (defaultTheme col) defaultRank (defaultRank s) f"
      using bspec [OF default_ranked_paths p(1)] p(2,3) by blast
  qed
  have truthy: "truthyGetters (defaultTheme col)"
    unfolding truthyGetters_def
  proof (intro allI impI)
    fix s f v assume "getter (defaultTheme col) s f" and ev: "evals (defaultTheme col) f v"
    then obtain p where p: "p \<in> set (leafPaths (defaultTheme col))" "lookup (defaultTheme col) p [] = FGetter p f []" "s = dotted p"
      by (elim default_getter)
    show "truthy v" using bspec [OF default_truthy_paths [OF assms] p(1)] p(2) ev by blast
  qed
  have size: "length (leafPaths (defaultTheme col)) \<le> 1000" by (simp add: default_leafPaths)
  have fresh: "accounted (defaultTheme col) defaultRank 3 {} freshResolver"
    using memoOK_fresh by (auto simp: accounted_def freshResolver_def remembered_def)
  have low: "defaultRank s < 3" for s by (auto simp: defaultRank_def split: option.splits dest!: map_of_SomeD)
  from readOut_ranked [OF default_plain [of col, unfolded fs] ranked [unfolded fs] truthy [unfolded fs] size [unfolded fs]
      fresh [unfolded fs] low, of "leafPaths (defaultTheme col)"]
  show ?thesis
  proof (elim disjE exE conjE)
    fix vs assume vs: "list_all2 (\<lambda>p. evals (Node fs) (Read p Ret)) (leafPaths (defaultTheme col)) vs"
      and out: "readOut (Node fs) (leafPaths (defaultTheme col)) freshResolver = Inr (readings (Node fs) (leafPaths (defaultTheme col)) vs)"
    have "vs = map snd (defaultValues col)"
      by (rule list_all2_det [OF vs [folded fs] default_all_values]) (rule evals_det)
    then show ?thesis using out [folded fs] by (simp only: resolveTheme_def default_hasNull if_False default_readings)
  next
    assume "\<exists>p\<in>set (leafPaths (defaultTheme col)). \<nexists>a. evals (Node fs) (Read p Ret) a"
    then show ?thesis using list_all2_ex [OF default_all_values [of col]] unfolding fs by blast
  qed
qed

text \<open>
  C9. The default theme resolves: whatever the colour functions compute, as long as they give a
  colour, resolution of the default theme succeeds and gives each of its properties, in order, the
  value its definition describes.
\<close>
theorem default_theme_resolves:
  assumes "coloursGiven col"
  shows "resolveTheme (defaultTheme col) = Inr (defaultValues col)"
  by (rule default_resolved [OF assms])

definition plainColours :: colourFns where
  "plainColours = \<lparr>cLighten = (\<lambda>_ _. ''white''), cDarken = (\<lambda>_ _. ''black''), cDesaturate = (\<lambda>_ _. ''gray''),
     cTransparentize = (\<lambda>_ _. ''transparent''), cReadable = (\<lambda>_. ''#000''), cTimes = (\<lambda>_ v. v)\<rparr>"

lemma plainColours_given: "coloursGiven plainColours"
  by (simp add: coloursGiven_def plainColours_def)

theorem default_theme_resolves_witness:
  "coloursGiven plainColours \<and> resolveTheme (defaultTheme plainColours) = Inr (defaultValues plainColours)"
  using default_theme_resolves [OF plainColours_given] plainColours_given by blast

section \<open>The layout of the default theme\<close>

definition themeOf :: "(string \<times> jsval) list \<Rightarrow> string \<Rightarrow> jsval" where
  "themeOf out x = (case map_of out x of Some v \<Rightarrow> v | None \<Rightarrow> JUndef)"

definition defaultProps :: "colourFns \<Rightarrow> (string \<Rightarrow> jsval) \<Rightarrow> props \<Rightarrow> props" where
  "defaultProps col pr p = p\<lparr>pTheme := themeOf (defaultValues col), pProp := pr\<rparr>"

lemma themeOf_Cons: "themeOf ((k, v) # out) x = (if k = x then v else themeOf out x)"
  by (simp add: themeOf_def)

lemma default_theme_values:
  "themeOf (defaultValues col) ''breakpoints.small'' = JStr ''50rem''"
  "themeOf (defaultValues col) ''breakpoints.medium'' = JStr ''75rem''"
  "themeOf (defaultValues col) ''rightPanel.width'' = JStr ''40%''"
  "themeOf (defaultValues col) ''rightPanel.textColor'' = JStr ''#ffffff''"
  "themeOf (defaultValues col) ''rightPanel.backgroundColor'' = JStr ''#263238''"
  "themeOf (defaultValues col) ''sidebar.width'' = JStr ''260px''"
  "themeOf (defaultValues col) ''sidebar.backgroundColor'' = JStr ''#fafafa''"
  "themeOf (defaultValues col) ''fab.backgroundColor'' = JStr ''#f2f2f2''"
  "themeOf (defaultValues col) ''fab.color'' = JStr ''#0065FB''"
  "themeOf (defaultValues col) ''colors.primary.main'' = JStr ''#32329f''"
  "themeOf (defaultValues col) ''spacing.sectionHorizontal'' = JNum 40"
  "themeOf (defaultValues col) ''spacing.sectionVertical'' = JNum 40"
  by (simp_all add: themeOf_Cons defaultValues_def)

lemma default_solid: "solidAt (defaultProps col pr p) panelPaths" "solidAt (defaultProps col pr p) menuPaths"
  by (simp_all add: solidAt_def panelPaths_def menuPaths_def defaultProps_def default_theme_values Vo_def solid_def
    isSpace_def toStr_40 del: toStr.simps(4))

lemma hundredths_40: "hundredths 40 = ''0.4''"
  by (simp add: hundredths_def Let_def decimal_def itoaLoop.simps char_of_def bit_0)

lemma overlay_default: "toStr (overlayWidth (JStr ''40%'') (JStr ''260px'')) = ''calc((100% - 260px) * 0.4)''"
  by (simp add: overlayWidth_def hasSuffix_def parseIntPrefix_def decValue_def digitVal_def hundredths_40)

text \<open>
  The default page. With the resolved default theme, on a wide screen the side menu is 260 pixels
  wide, the content has the rest, each section gives two fifths to the right panel and the rest to the
  middle panel, and the dark background behind the right panel is two fifths of the content. Up to
  75rem the panels are stacked, and up to 50rem the content takes the whole width.
\<close>
theorem default_page_layout:
  fixes col pr p0 view
  defines "p \<equiv> defaultProps col pr p0"
  shows "computed view p css_Nu ''width'' = Some (if view ''@media print,  screen and (max-width: 75rem)'' then ''100%'' else ''40%'')
    \<and> computed view p css_Iu ''width'' =
        Some (if view ''@media print,  screen and (max-width: 75rem)'' then ''100%'' else ''calc(100% - 40%)'')
    \<and> computed view p css_zv ''width'' = Some ''calc((100% - 260px) * 0.4)''
    \<and> computed view p css_S_v ''width'' = Some (if view ''@media  screen and (max-width: 50rem)'' then ''100%'' else ''260px'')
    \<and> computed view p css_Fv ''width'' =
        Some (if view ''@media print,  screen and (max-width: 50rem)'' then ''100%'' else ''calc(100% - 260px)'')"
proof -
  have vals: "th p x = themeOf (defaultValues col) x" for x by (simp add: p_def defaultProps_def)
  have solid: "solidAt p panelPaths" "solidAt p menuPaths" unfolding p_def by (rule default_solid)+
  then show ?thesis
    using computed_Nu [of p view] computed_Iu [of p view] computed_zv [of p view] computed_S_v [of p view] computed_Fv [of p view]
    by (simp add: solidAt_def panelPaths_def menuPaths_def lessThanQuery_def vals default_theme_values overlay_default)
qed

end
