(* ===== verification/RedocSpec.thy ===== *)
theory RedocSpec
  imports ViewerScripts
begin

text \<open>
  The Redoc viewer's access to the API description (\<^verbatim>\<open>redoc.standalone.js\<close>: the JSON pointer module on
  line 2, and the pointer class \<^verbatim>\<open>Ua\<close> and the parser class \<^verbatim>\<open>vc\<close> on line 41): JSON values, pointers,
  following a reference with the stack of references under way, and merging the siblings of a
  reference. Following references need not end, so it is a partial function; a script error is the
  left of its result. A string is the sequence of its UTF-8 bytes.
\<close>

section \<open>JSON values\<close>

datatype json =
  NullV
| BoolV bool
| NumV int
| FracV string \<comment> \<open>a fractional number, by its decimal notation\<close>
| TextV string
| ListV "json list"
| ObjV "(string \<times> json) list"

fun jsonTruthy :: "json \<Rightarrow> bool" where
  "jsonTruthy NullV = False"
| "jsonTruthy (BoolV b) = b"
| "jsonTruthy (NumV n) = (n \<noteq> 0)"
| "jsonTruthy (TextV s) = (s \<noteq> [])"
| "jsonTruthy _ = True"

fun field :: "json \<Rightarrow> string \<Rightarrow> json option" where
  \<comment> \<open>an own property of an object, \<open>None\<close> for undefined\<close>
  "field (ObjV fs) k = map_of fs k"
| "field _ k = None"

definition arrayIndex :: "string \<Rightarrow> nat option" where
  \<comment> \<open>the index a property name of an array stands for\<close>
  "arrayIndex k = (let n = decValue k in if decimal (int n) = k then Some n else None)"

section \<open>JSON pointers\<close>

definition pointerEscape :: "string \<Rightarrow> string" where
  "pointerEscape s = replaceAll [(''/'', ''~1'')] (replaceAll [(''~'', ''~0'')] s)"

definition pointerUnescape :: "string \<Rightarrow> string" where
  "pointerUnescape s = replaceAll [(''~0'', ''~'')] (replaceAll [(''~1'', ''/'')] s)"

definition compilePointer :: "string list \<Rightarrow> string" where
  "compilePointer ts = (if ts = [] then [] else CHR ''/'' # joinWith (CHR ''/'') (map pointerEscape ts))"

definition parsePointer :: "string \<Rightarrow> string list option" where
  \<comment> \<open>\<^verbatim>\<open>Ua.parse\<close>, which also replaces the module's own \<^verbatim>\<open>parse\<close>: a leading hash is dropped; \<open>None\<close> is the
     error of a pointer that does not start with a slash\<close>
  "parsePointer s =
     (let e = (case s of c # r \<Rightarrow> if c = CHR ''#'' then r else s | [] \<Rightarrow> [])
      in case e of
           [] \<Rightarrow> Some []
         | c # r \<Rightarrow> if c = CHR ''/'' then Some (map pointerUnescape (splitOn (CHR ''/'') r)) else None)"

fun getToken :: "json \<Rightarrow> string \<Rightarrow> json option" where
  "getToken (ObjV fs) k = map_of fs k"
| "getToken (ListV xs) k =
     (if k = ''length'' then Some (NumV (int (length xs)))
      else case arrayIndex k of None \<Rightarrow> None | Some n \<Rightarrow> if n < length xs then Some (xs ! n) else None)"
| "getToken _ k = None"

fun getPath :: "json \<Rightarrow> string list \<Rightarrow> json option" where
  "getPath e [] = Some e"
| "getPath e (t # ts) = (case getToken e t of None \<Rightarrow> None | Some e' \<Rightarrow> getPath e' ts)"

definition getPointer :: "json \<Rightarrow> string \<Rightarrow> json option" where
  "getPointer e s = (case parsePointer s of None \<Rightarrow> None | Some ts \<Rightarrow> getPath e ts)"

definition baseName :: "string \<Rightarrow> string option" where
  "baseName s = (case parsePointer s of None \<Rightarrow> None | Some ts \<Rightarrow> if ts = [] then None else Some (last ts))"

definition dirName :: "string \<Rightarrow> string option" where
  "dirName s = map_option (\<lambda>ts. compilePointer (butlast ts)) (parsePointer s)"

definition joinPointer :: "string \<Rightarrow> string list \<Rightarrow> string option" where
  "joinPointer base ts = map_option (\<lambda>bs. compilePointer (bs @ ts)) (parsePointer base)"

subsection \<open>Round trips\<close>

definition escapeToken :: "char \<Rightarrow> string" where
  "escapeToken c = (if c = CHR ''~'' then ''~0'' else if c = CHR ''/'' then ''~1'' else [c])"

definition escapeTilde :: "char \<Rightarrow> string" where
  "escapeTilde c = (if c = CHR ''~'' then ''~0'' else [c])"

lemma pointerEscape_concat: "pointerEscape s = concat (map escapeToken s)"
proof -
  have "replaceAll [(''~'', ''~0'')] s = concat (map escapeTilde s)"
    by (induction s) (simp_all add: hasPrefix_def escapeTilde_def)
  moreover have "replaceAll [(''/'', ''~1'')] (concat (map escapeTilde s)) = concat (map escapeToken s)"
    by (induction s) (simp_all add: hasPrefix_def escapeTilde_def escapeToken_def)
  ultimately show ?thesis by (simp add: pointerEscape_def)
qed

lemma unescape_slash: "replaceAll [(''~1'', ''/'')] (concat (map escapeToken s)) = concat (map escapeTilde s)"
  by (induction s) (simp_all add: hasPrefix_def escapeTilde_def escapeToken_def)

lemma unescape_tilde: "replaceAll [(''~0'', ''~'')] (concat (map escapeTilde s)) = s"
  by (induction s) (simp_all add: hasPrefix_def escapeTilde_def)

lemma pointer_unescape_escape: "pointerUnescape (pointerEscape s) = s"
  by (simp add: pointerUnescape_def pointerEscape_concat unescape_slash unescape_tilde)

lemma pointerEscape_no_slash: "CHR ''/'' \<notin> set (pointerEscape s)"
  by (auto simp: pointerEscape_concat escapeToken_def split: if_splits)

lemma parse_compile: "parsePointer (compilePointer ts) = Some ts" "parsePointer (CHR ''#'' # compilePointer ts) = Some ts"
proof -
  have "splitOn (CHR ''/'') (joinWith (CHR ''/'') (map pointerEscape ts)) = map pointerEscape ts" if "ts \<noteq> []"
    using that pointerEscape_no_slash by (intro splitOn_joinWith) auto
  then show "parsePointer (compilePointer ts) = Some ts" "parsePointer (CHR ''#'' # compilePointer ts) = Some ts"
    by (auto simp: parsePointer_def compilePointer_def pointer_unescape_escape comp_def)
qed

lemma getPath_append: "getPath e (ss @ ts) = Option.bind (getPath e ss) (\<lambda>e'. getPath e' ts)"
  by (induction e ss rule: getPath.induct) (auto split: option.split)

section \<open>References\<close>

record parserConf =
  pcSpec :: json
  pcIgnoreNamed :: "string set" \<comment> \<open>\<^verbatim>\<open>options.ignoreNamedSchemas\<close>\<close>
  pcMergeRefs :: bool \<comment> \<open>\<^verbatim>\<open>allowMergeRefs\<close>: the description has version 3.1\<close>

datatype specErr = InvalidDocument | URIError | RefTypeError | Unresolved string

definition newParser :: "json \<Rightarrow> string set \<Rightarrow> specErr + parserConf" where
  \<comment> \<open>the constructor of \<^verbatim>\<open>vc\<close> with its validation\<close>
  "newParser spec ignored =
     (case field spec ''openapi'' of
        None \<Rightarrow> Inl InvalidDocument
      | Some (TextV v) \<Rightarrow> Inr \<lparr>pcSpec = spec, pcIgnoreNamed = ignored, pcMergeRefs = hasPrefix v ''3.1''\<rparr>
      | Some _ \<Rightarrow> Inl RefTypeError)"

definition isRef :: "json \<Rightarrow> bool" where
  "isRef e = (case field e ''$ref'' of None \<Rightarrow> False | Some v \<Rightarrow> v \<noteq> NullV)"

definition byRef :: "parserConf \<Rightarrow> string \<Rightarrow> specErr + json" where
  "byRef pc ref =
     (let e = (case ref of c # _ \<Rightarrow> if c = CHR ''#'' then ref else CHR ''#'' # ref | [] \<Rightarrow> ''#'')
      in case pathUnescape e of
           None \<Rightarrow> Inl URIError
         | Some d \<Rightarrow> Inr (case getPointer (pcSpec pc) d of
                           None \<Rightarrow> ObjV []
                         | Some t \<Rightarrow> if jsonTruthy t then t else ObjV []))"

definition namedDefinition :: "string \<Rightarrow> string option" where
  \<comment> \<open>\<^verbatim>\<open>fs\<close>: the name in \<^verbatim>\<open>#/components/schemas/NAME\<close> or \<^verbatim>\<open>#/components/pathItems/NAME\<close>\<close>
  "namedDefinition ref =
     (let name = (if hasPrefix ref ''#/components/schemas/'' then drop 21 ref
                  else if hasPrefix ref ''#/components/pathItems/'' then drop 23 ref else [])
      in if name = [] \<or> CHR ''/'' \<in> set name then None else Some name)"

fun ownFields :: "json \<Rightarrow> (string \<times> json) list" where
  \<comment> \<open>what \<^verbatim>\<open>Object.assign\<close> and spreading copy\<close>
  "ownFields (ObjV fs) = fs"
| "ownFields (ListV xs) = map (\<lambda>i. (decimal (int i), xs ! i)) [0..<length xs]"
| "ownFields (TextV s) = map (\<lambda>i. (decimal (int i), TextV [s ! i])) [0..<length s]"
| "ownFields _ = []"

definition assignAll :: "(string \<times> json) list \<Rightarrow> (string \<times> json) list \<Rightarrow> (string \<times> json) list" where
  "assignAll acc fs = foldl (\<lambda>a q. setKey a (fst q) (snd q)) acc fs"

definition markCircular :: "json \<Rightarrow> json" where
  "markCircular i = ObjV (setKey (ownFields i) ''x-circular-ref'' (BoolV True))"

definition withoutKeys :: "string list \<Rightarrow> (string \<times> json) list \<Rightarrow> (string \<times> json) list" where
  "withoutKeys ks fs = filter (\<lambda>q. fst q \<notin> set ks) fs"

definition maybe :: "string \<Rightarrow> (string \<times> json) list \<Rightarrow> (string \<times> json) list" where
  \<comment> \<open>a destructured field; an undefined one is left out\<close>
  "maybe k fs = (case map_of fs k of None \<Rightarrow> [] | Some v \<Rightarrow> [(k, v)])"

definition mergeRefs :: "json \<Rightarrow> json \<Rightarrow> bool \<Rightarrow> json" where
  "mergeRefs ref resolved mergeAsAllOf =
     (let rest = withoutKeys [''$ref''] (ownFields ref)
      in if rest = [] then resolved
         else if mergeAsAllOf \<and> list_ex (\<lambda>q. fst q \<notin> set [''description'', ''title'', ''externalDocs'', ''x-refsStack'',
                  ''x-parentRefs'', ''readOnly'', ''writeOnly'']) rest
         then ObjV [(''allOf'', ListV
                [ObjV (maybe ''description'' rest @ maybe ''title'' rest @ maybe ''readOnly'' rest @ maybe ''writeOnly'' rest),
                 resolved, ObjV (withoutKeys [''description'', ''title'', ''readOnly'', ''writeOnly''] rest)])]
         else ObjV (assignAll (assignAll [] (ownFields resolved)) rest))"

definition refsStackOf :: "json \<Rightarrow> string list" where
  \<comment> \<open>the stack kept in a schema, a list of references\<close>
  "refsStackOf e =
     (case field e ''x-refsStack'' of
        Some (ListV xs) \<Rightarrow> concat (map (\<lambda>x. case x of TextV s \<Rightarrow> [s] | _ \<Rightarrow> []) xs)
      | _ \<Rightarrow> [])"

definition pushRef :: "string list \<Rightarrow> string \<Rightarrow> string list" where
  "pushRef t r = (if r \<noteq> [] \<and> (t = [] \<or> last t \<noteq> r) then t @ [r] else t)"

partial_function (option) deref :: "parserConf \<Rightarrow> json \<Rightarrow> string list \<Rightarrow> bool \<Rightarrow> (specErr + json \<times> string list) option" where
  "deref pc e t0 mergeAsAllOf =
     (let t = t0 @ refsStackOf e
      in case field e ''$ref'' of
           None \<Rightarrow> Some (Inr (e, t @ refsStackOf e))
         | Some v \<Rightarrow>
             (if v = NullV then Some (Inr (e, t @ refsStackOf e))
              else case v of
                TextV ref \<Rightarrow>
                  (if (case namedDefinition ref of None \<Rightarrow> False | Some n \<Rightarrow> n \<in> pcIgnoreNamed pc)
                   then Some (Inr (ObjV [(''type'', TextV ''object''), (''title'', TextV (the (namedDefinition ref)))], t))
                   else case byRef pc ref of
                     Inl err \<Rightarrow> Some (Inl err)
                   | Inr i \<Rightarrow>
                       (if \<not> jsonTruthy i then Some (Inl (Unresolved ref))
                        else Option.bind
                         (if ref \<in> set t \<or> 999 < length t then Some (Inr (markCircular i, t))
                          else if isRef i then deref pc i t mergeAsAllOf
                          else Some (Inr (i, t)))
                         (\<lambda>res. case res of
                            Inl err \<Rightarrow> Some (Inl err)
                          | Inr (i', _) \<Rightarrow>
                              Some (Inr (if pcMergeRefs pc then mergeRefs e i' mergeAsAllOf else i', pushRef t ref)))))
              | _ \<Rightarrow> Some (Inl RefTypeError)))"

lemma byRef_truthy: "byRef pc ref = Inr i \<Longrightarrow> jsonTruthy i"
  by (auto simp: byRef_def Let_def split: option.splits if_splits)

subsection \<open>The end of a chain of references\<close>

inductive follows :: "parserConf \<Rightarrow> json \<Rightarrow> json \<Rightarrow> bool" for pc where
  follows_done: "\<not> isRef e \<Longrightarrow> follows pc e e"
| follows_step: "field e ''$ref'' = Some (TextV ref) \<Longrightarrow> byRef pc ref = Inr i \<Longrightarrow> follows pc i j \<Longrightarrow> follows pc e j"

definition plainRefs :: "parserConf \<Rightarrow> bool" where
  \<comment> \<open>nothing the references lead to carries a stack of its own\<close>
  "plainRefs pc \<longleftrightarrow> pcIgnoreNamed pc = {} \<and> \<not> pcMergeRefs pc \<and> (\<forall>ref i. byRef pc ref = Inr i \<longrightarrow> refsStackOf i = [])"

definition rankedRefs :: "parserConf \<Rightarrow> (string \<Rightarrow> nat) \<Rightarrow> bool" where
  \<comment> \<open>a reference that leads to another one has a higher rank\<close>
  "rankedRefs pc rk \<longleftrightarrow>
     (\<forall>ref i s. byRef pc ref = Inr i \<longrightarrow> field i ''$ref'' = Some (TextV s) \<longrightarrow> rk s < rk ref)"

lemma deref_plain: "\<not> isRef e \<Longrightarrow> deref pc e t m = Some (Inr (e, (t @ refsStackOf e) @ refsStackOf e))"
  by (subst deref.simps) (auto simp: isRef_def Let_def split: option.splits)

lemma deref_ref:
  assumes "field e ''$ref'' = Some (TextV ref)" "pcIgnoreNamed pc = {}" "byRef pc ref = Inr i" "\<not> pcMergeRefs pc"
    "refsStackOf e = []" "ref \<notin> set t" "length t \<le> 999"
  shows "deref pc e t m =
    (if isRef i
     then Option.bind (deref pc i t m) (\<lambda>res. case res of Inl err \<Rightarrow> Some (Inl err) | Inr (j, _) \<Rightarrow> Some (Inr (j, pushRef t ref)))
     else Some (Inr (i, pushRef t ref)))"
  using assms byRef_truthy [OF assms(3)] by (subst deref.simps) (auto simp: Let_def split: option.splits)

lemma deref_badref:
  "field e ''$ref'' = Some v \<Longrightarrow> v \<noteq> NullV \<Longrightarrow> \<forall>s. v \<noteq> TextV s \<Longrightarrow> deref pc e t m = Some (Inl RefTypeError)"
  by (subst deref.simps) (cases v, simp_all add: Let_def)

lemma deref_chain:
  assumes pc: "plainRefs pc" "rankedRefs pc rk"
  shows "field e ''$ref'' = Some (TextV ref) \<Longrightarrow> refsStackOf e = [] \<Longrightarrow>
    (\<exists>j. deref pc e [] m = Some (Inr (j, pushRef [] ref)) \<and> follows pc e j \<and> \<not> isRef j)
    \<or> (\<exists>err. deref pc e [] m = Some (Inl err) \<and> (err = URIError \<or> err = RefTypeError))"
proof (induction "rk ref" arbitrary: e ref rule: less_induct)
  case less
  show ?case
  proof (cases "byRef pc ref")
    case (Inl err)
    then have "err = URIError" by (auto simp: byRef_def Let_def split: option.splits)
    moreover have "deref pc e [] m = Some (Inl err)"
      using less.prems Inl pc by (subst deref.simps) (auto simp: Let_def plainRefs_def split: option.splits)
    ultimately show ?thesis by blast
  next
    case (Inr i)
    have stack: "refsStackOf i = []" using pc(1) Inr by (auto simp: plainRefs_def)
    note step = deref_ref [OF less.prems(1) _ Inr _ less.prems(2), of "[]" m]
    show ?thesis
    proof (cases "isRef i")
      case False
      then show ?thesis using step pc(1) follows_step [OF less.prems(1) Inr follows_done] by (auto simp: plainRefs_def)
    next
      case True
      then obtain v where v: "field i ''$ref'' = Some v" "v \<noteq> NullV" by (auto simp: isRef_def split: option.splits)
      show ?thesis
      proof (cases "\<exists>s. v = TextV s")
        case True
        then obtain s where s: "v = TextV s" by blast
        have "rk s < rk ref" using pc(2) Inr v(1) s by (auto simp: rankedRefs_def)
        from less.hyps [OF this v(1) [unfolded s] stack] show ?thesis
          using step \<open>isRef i\<close> pc(1) follows_step [OF less.prems(1) Inr] by (auto simp: plainRefs_def)
      next
        case False
        then show ?thesis using deref_badref [OF v] step \<open>isRef i\<close> pc(1) by (auto simp: plainRefs_def)
      qed
    qed
  qed
qed

text \<open>
  C23. JSON pointers round trip: parsing what was compiled, with or without a leading hash, gives the
  tokens back, whatever characters they have, so that a compiled pointer finds exactly the value at
  its path; base name, directory and joining work on the tokens.
\<close>
theorem pointer_round_trip:
  "parsePointer (compilePointer ts) = Some ts
   \<and> getPointer e (CHR ''#'' # compilePointer ts) = getPath e ts
   \<and> baseName (compilePointer (ts @ [t])) = Some t
   \<and> dirName (compilePointer (ts @ [t])) = Some (compilePointer ts)
   \<and> joinPointer (compilePointer ss) ts = Some (compilePointer (ss @ ts))
   \<and> getPointer e (compilePointer (ss @ ts)) = Option.bind (getPath e ss) (\<lambda>e'. getPath e' ts)"
  by (simp add: parse_compile getPointer_def baseName_def dirName_def joinPointer_def getPath_append)


definition chainSpec :: json where
  "chainSpec = ObjV [(''openapi'', TextV ''3.0.0''), (''a'', ObjV [(''$ref'', TextV ''#/b'')]), (''b'', ObjV [(''type'', TextV ''string'')])]"

definition chainConf :: parserConf where
  "chainConf = \<lparr>pcSpec = chainSpec, pcIgnoreNamed = {}, pcMergeRefs = False\<rparr>"

lemma chain_values:
  "getPath chainSpec ts = Some v \<Longrightarrow>
   v \<in> {chainSpec, TextV ''3.0.0'', ObjV [(''$ref'', TextV ''#/b'')], TextV ''#/b'', ObjV [(''type'', TextV ''string'')], TextV ''string''}"
proof (cases ts)
  case (Cons t us)
  assume "getPath chainSpec ts = Some v"
  with Cons obtain w where w: "map_of [(''openapi'', TextV ''3.0.0''), (''a'', ObjV [(''$ref'', TextV ''#/b'')]),
      (''b'', ObjV [(''type'', TextV ''string'')])] t = Some w" "getPath w us = Some v"
    by (auto simp: chainSpec_def split: option.splits)
  then show ?thesis
    by (cases us) (auto split: if_splits option.splits, (case_tac list, auto)+)
qed simp

lemma chain_byRef:
  assumes "byRef chainConf ref = Inr i"
  shows "i \<in> {chainSpec, TextV ''3.0.0'', ObjV [(''$ref'', TextV ''#/b'')], TextV ''#/b'', ObjV [(''type'', TextV ''string'')], TextV ''string'', ObjV []}"
  using assms chain_values
  by (auto simp: byRef_def chainConf_def getPointer_def Let_def split: option.splits if_splits dest!: chain_values)

lemma chain_byRef_b: "byRef chainConf ''#/b'' = Inr (ObjV [(''type'', TextV ''string'')])"
  by (simp add: byRef_def chainConf_def getPointer_def parsePointer_def pointerUnescape_def hasPrefix_def chainSpec_def)

lemma chain_plain: "plainRefs chainConf"
  unfolding plainRefs_def using chain_byRef by (fastforce simp: chainConf_def chainSpec_def refsStackOf_def)

lemma chain_ranked: "rankedRefs chainConf (\<lambda>x. case byRef chainConf x of Inr j \<Rightarrow> if isRef j then 1 else 0 | Inl _ \<Rightarrow> 0)"
  unfolding rankedRefs_def
proof (intro allI impI)
  fix ref i s
  assume "byRef chainConf ref = Inr i" "field i ''$ref'' = Some (TextV s)"
  moreover from chain_byRef [OF this(1)] this(2) have "s = ''#/b''" by (auto simp: chainSpec_def)
  ultimately show "(case byRef chainConf s of Inr j \<Rightarrow> if isRef j then 1 else 0 | Inl _ \<Rightarrow> 0)
    < (case byRef chainConf ref of Inr j \<Rightarrow> if isRef j then 1 else 0 | Inl _ \<Rightarrow> (0 :: nat))"
    by (simp add: chain_byRef_b isRef_def)
qed


lemma deref_cycle_None:
  assumes cyc: "byRef pc a = Inr (ObjV [(''$ref'', TextV b)])" "byRef pc b = Inr (ObjV [(''$ref'', TextV a)])"
    and ign: "pcIgnoreNamed pc = {}"
  shows "deref pc (ObjV [(''$ref'', TextV a)]) [] m = None"
proof (rule ccontr)
  let ?P = "\<lambda>pc' e t (m :: bool) (y :: specErr + json \<times> string list). pc' = pc \<longrightarrow> t = ([] :: string list) \<longrightarrow> e = ObjV [(''$ref'', TextV a)] \<or> e = ObjV [(''$ref'', TextV b)] \<longrightarrow> False"
  assume "deref pc (ObjV [(''$ref'', TextV a)]) [] m \<noteq> None"
  then obtain y where ret: "deref pc (ObjV [(''$ref'', TextV a)]) [] m = Some y" by blast
  have "?P pc (ObjV [(''$ref'', TextV a)]) [] m y"
  proof (rule deref.raw_induct [where P = ?P, OF _ ret], intro impI, goal_cases)
    case (1 f pc' e t m y)
    then have "\<exists>e'. (e' = ObjV [(''$ref'', TextV a)] \<or> e' = ObjV [(''$ref'', TextV b)]) \<and> f pc e' [] m \<noteq> None"
      using cyc ign
      by (elim disjE) (auto simp: Let_def refsStackOf_def isRef_def bind_eq_Some_conv split: option.splits)
    then show False using 1(1) by blast
  qed
  then show False by simp
qed

text \<open>
  C40. References that only lead to each other are followed for ever: of two schemas that are each
  nothing but a reference to the other, following one never returns, since the stack is not extended
  on the way. A reference that is on the stack already is resolved at once and marked as circular.
\<close>
theorem deref_reference_cycle:
  assumes "byRef pc a = Inr (ObjV [(''$ref'', TextV b)])" and "byRef pc b = Inr (ObjV [(''$ref'', TextV a)])"
    and "pcIgnoreNamed pc = {}" and "byRef pc ref = Inr i" and "ref \<in> set t"
  shows "deref pc (ObjV [(''$ref'', TextV a)]) [] m = None
    \<and> (\<exists>st. deref pc (ObjV [(''$ref'', TextV ref)]) t m = Some (Inr (markCircular i, st)))"
proof -
  have "deref pc (ObjV [(''$ref'', TextV ref)]) t m =
      Some (Inr (if pcMergeRefs pc then mergeRefs (ObjV [(''$ref'', TextV ref)]) (markCircular i) m else markCircular i, pushRef t ref))"
    using assms(3-5) byRef_truthy [OF assms(4)]
    by (subst deref.simps) (auto simp: Let_def refsStackOf_def split: option.splits)
  then show ?thesis
    using deref_cycle_None [OF assms(1-3)] by (simp add: mergeRefs_def withoutKeys_def)
qed

definition cycleConf :: parserConf where
  "cycleConf = \<lparr>pcSpec = ObjV [(''openapi'', TextV ''3.0.0''), (''a'', ObjV [(''$ref'', TextV ''#/b'')]), (''b'', ObjV [(''$ref'', TextV ''#/a'')])],
     pcIgnoreNamed = {}, pcMergeRefs = False\<rparr>"

lemma cycle_byRef:
  "byRef cycleConf ''#/a'' = Inr (ObjV [(''$ref'', TextV ''#/b'')])" "byRef cycleConf ''#/b'' = Inr (ObjV [(''$ref'', TextV ''#/a'')])"
  by (simp_all add: byRef_def cycleConf_def getPointer_def parsePointer_def pointerUnescape_def hasPrefix_def)

theorem deref_reference_cycle_witness:
  "deref cycleConf (ObjV [(''$ref'', TextV ''#/a'')]) [] True = None"
  using deref_reference_cycle [OF cycle_byRef _ cycle_byRef(1), of "[''#/a'']" True] by (simp add: cycleConf_def)

end
