(* ===== verification/RedocSchema.thy ===== *)
theory RedocSchema
  imports Complex_Main RedocSpec
begin

text \<open>
  How the Redoc viewer words parts of a schema (\<^verbatim>\<open>redoc.standalone.js\<close>, line 41): the class of a response
  code (\<^verbatim>\<open>es\<close>), the texts of the length, count and number constraints (\<^verbatim>\<open>hs\<close>, \<^verbatim>\<open>ms\<close>) and the order of
  fields (\<^verbatim>\<open>gs\<close>). Numbers of a schema are rational; how the script prints one is an argument.
\<close>

section \<open>Response codes\<close>

datatype code = CodeText string | CodeNum int

fun parseIntJS :: "string \<Rightarrow> int option" where
  \<comment> \<open>\<^verbatim>\<open>parseInt(s, 10)\<close>, \<open>None\<close> for NaN\<close>
  "parseIntJS s =
     (let w = dropWhile (\<lambda>c. c \<in> set [CHR '' '', CHR 0x09, CHR 0x0A, CHR 0x0B, CHR 0x0C, CHR 0x0D]) s;
          digits = (\<lambda>d. let ds = takeWhile (\<lambda>c. c \<in> set ''0123456789'') d in if ds = [] then None else Some (int (decValue ds)))
      in case w of
           [] \<Rightarrow> None
         | c # r \<Rightarrow> if c = CHR ''-'' then map_option uminus (digits r) else if c = CHR ''+'' then digits r else digits w)"

fun hasRange :: "string \<Rightarrow> bool" where
  \<comment> \<open>\<^verbatim>\<open>/\dxx/i.test(e)\<close>\<close>
  "hasRange (a # b # c # s) =
     (a \<in> set ''0123456789'' \<and> b \<in> set ''xX'' \<and> c \<in> set ''xX'' \<or> hasRange (b # c # s))"
| "hasRange _ = False"

definition isStatusRange :: "code \<Rightarrow> bool" where
  "isStatusRange c = (case c of CodeText s \<Rightarrow> hasRange s | CodeNum _ \<Rightarrow> False)"

definition statusType :: "code \<Rightarrow> bool \<Rightarrow> string option" where
  \<comment> \<open>\<^verbatim>\<open>es\<close>; \<open>None\<close> is the error of an invalid code, and a comparison with NaN is false\<close>
  "statusType c defaultAsError =
     (if c = CodeText ''default'' then Some (if defaultAsError then ''error'' else ''success'')
      else
        let n = (case c of CodeText s \<Rightarrow> parseIntJS s | CodeNum k \<Rightarrow> Some k);
            n' = (if isStatusRange c then map_option (\<lambda>k. k * 100) n else n)
        in case n' of
             None \<Rightarrow> Some ''success''
           | Some k \<Rightarrow>
               (if k < 100 \<or> 599 < k then None
                else Some (if 300 \<le> k \<and> k < 400 then ''redirect'' else if 400 \<le> k then ''error''
                           else if k < 200 then ''info'' else ''success'')))"

section \<open>Constraints\<close>

datatype exclusive = ExNone | ExBool bool | ExNum rat

record constraints =
  minLength :: "rat option"
  maxLength :: "rat option"
  minItems :: "rat option"
  maxItems :: "rat option"
  minProperties :: "rat option"
  maxProperties :: "rat option"
  multipleOf :: "rat option"
  minimum :: "rat option"
  maximum :: "rat option"
  exclusiveMinimum :: exclusive
  exclusiveMaximum :: exclusive
  uniqueItems :: bool

definition rangeText :: "(rat \<Rightarrow> string) \<Rightarrow> string \<Rightarrow> rat option \<Rightarrow> rat option \<Rightarrow> string option" where
  "rangeText num what lo hi =
     (case (lo, hi) of
        (Some t, Some n) \<Rightarrow> Some (if t = n then ''= '' @ num t @ '' '' @ what else ''[ '' @ num t @ '' .. '' @ num n @ '' ] '' @ what)
      | (None, Some n) \<Rightarrow> Some (''<= '' @ num n @ '' '' @ what)
      | (Some t, None) \<Rightarrow> Some (if t = 1 then ''non-empty'' else ''>= '' @ num t @ '' '' @ what)
      | (None, None) \<Rightarrow> None)"

definition isTenth :: "string \<Rightarrow> bool" where
  \<comment> \<open>\<^verbatim>\<open>/^0\.0*1$/\<close>\<close>
  "isTenth s \<longleftrightarrow> take 2 s = ''0.'' \<and> dropWhile (\<lambda>c. c = CHR ''0'') (drop 2 s) = ''1''"

definition multipleText :: "(rat \<Rightarrow> string) \<Rightarrow> rat option \<Rightarrow> string option" where
  "multipleText num m =
     map_option (\<lambda>x. let t = num x in
       if isTenth t then ''decimal places <= '' @ decimal (int (length (splitOn (CHR ''.'') t ! 1))) else ''multiple of '' @ t) m"

record bounds =
  bLow :: "rat option"
  bLowOpen :: bool
  bHigh :: "rat option"
  bHighOpen :: bool

definition numberBounds :: "constraints \<Rightarrow> bounds" where
  \<comment> \<open>\<open>r\<close>, \<open>o\<close>, \<open>i\<close> and \<open>a\<close> of the source\<close>
  "numberBounds e =
     \<lparr>bLow = (case exclusiveMinimum e of ExNum x \<Rightarrow> Some (case minimum e of Some m \<Rightarrow> min x m | None \<Rightarrow> x) | _ \<Rightarrow> minimum e),
      bLowOpen = (case exclusiveMinimum e of ExNum _ \<Rightarrow> True | ExBool b \<Rightarrow> b | ExNone \<Rightarrow> False),
      bHigh = (case exclusiveMaximum e of ExNum x \<Rightarrow> Some (case maximum e of Some m \<Rightarrow> max x m | None \<Rightarrow> x) | _ \<Rightarrow> maximum e),
      bHighOpen = (case exclusiveMaximum e of ExNum _ \<Rightarrow> True | ExBool b \<Rightarrow> b | ExNone \<Rightarrow> False)\<rparr>"

definition boundsText :: "(rat \<Rightarrow> string) \<Rightarrow> bounds \<Rightarrow> string option" where
  "boundsText num b =
     (case (bLow b, bHigh b) of
        (Some r, Some i) \<Rightarrow>
          Some ((if bLowOpen b then ''( '' else ''[ '') @ num r @ '' .. '' @ num i @ (if bHighOpen b then '' )'' else '' ]''))
      | (None, Some i) \<Rightarrow> Some ((if bHighOpen b then ''< '' else ''<= '') @ num i)
      | (Some r, None) \<Rightarrow> Some ((if bLowOpen b then ''> '' else ''>= '') @ num r)
      | (None, None) \<Rightarrow> None)"

definition maybeText :: "string option \<Rightarrow> string list" where
  "maybeText t = (case t of None \<Rightarrow> [] | Some s \<Rightarrow> [s])"

definition humanizeConstraints :: "(rat \<Rightarrow> string) \<Rightarrow> constraints \<Rightarrow> string list" where
  "humanizeConstraints num e =
     maybeText (rangeText num ''characters'' (minLength e) (maxLength e))
     @ maybeText (rangeText num ''items'' (minItems e) (maxItems e))
     @ maybeText (rangeText num ''properties'' (minProperties e) (maxProperties e))
     @ maybeText (multipleText num (multipleOf e))
     @ maybeText (boundsText num (numberBounds e))
     @ (if uniqueItems e then [''unique''] else [])"

section \<open>Order of fields\<close>

record schemaField =
  fname :: string
  frequired :: bool

fun indexIn :: "string list \<Rightarrow> string \<Rightarrow> nat" where
  \<comment> \<open>\<^verbatim>\<open>indexOf\<close> for a name that occurs\<close>
  "indexIn [] x = 0"
| "indexIn (y # ys) x = (if y = x then 0 else Suc (indexIn ys x))"

definition sortByRequired :: "schemaField list \<Rightarrow> string list \<Rightarrow> schemaField list" where
  \<comment> \<open>\<^verbatim>\<open>gs\<close>; the script's sort is stable\<close>
  "sortByRequired fs order =
     (let listed = filter (\<lambda>f. frequired f \<and> fname f \<in> set order) fs;
          other = filter (\<lambda>f. frequired f \<and> fname f \<notin> set order) fs;
          optional = filter (\<lambda>f. \<not> frequired f) fs
      in sort_key (\<lambda>f. indexIn order (fname f)) listed @ other @ optional)"

section \<open>What the texts say\<close>

definition admits :: "bounds \<Rightarrow> rat \<Rightarrow> bool" where
  \<comment> \<open>a number between the displayed bounds\<close>
  "admits b n \<longleftrightarrow>
     (case bLow b of None \<Rightarrow> True | Some r \<Rightarrow> if bLowOpen b then r < n else r \<le> n)
     \<and> (case bHigh b of None \<Rightarrow> True | Some i \<Rightarrow> if bHighOpen b then n < i else n \<le> i)"

definition validNumber :: "constraints \<Rightarrow> rat \<Rightarrow> bool" where
  \<comment> \<open>validation against the four keywords; the boolean ones turn the other bound into a strict one\<close>
  "validNumber e n \<longleftrightarrow>
     (case minimum e of None \<Rightarrow> True | Some m \<Rightarrow> if exclusiveMinimum e = ExBool True then m < n else m \<le> n)
     \<and> (case exclusiveMinimum e of ExNum x \<Rightarrow> x < n | _ \<Rightarrow> True)
     \<and> (case maximum e of None \<Rightarrow> True | Some m \<Rightarrow> if exclusiveMaximum e = ExBool True then n < m else n \<le> m)
     \<and> (case exclusiveMaximum e of ExNum x \<Rightarrow> n < x | _ \<Rightarrow> True)"

definition oneBoundEach :: "constraints \<Rightarrow> bool" where
  \<comment> \<open>no side has an inclusive and a different exclusive bound\<close>
  "oneBoundEach e \<longleftrightarrow>
     (\<forall>x m. exclusiveMinimum e = ExNum x \<longrightarrow> minimum e = Some m \<longrightarrow> x = m)
     \<and> (\<forall>x m. exclusiveMaximum e = ExNum x \<longrightarrow> maximum e = Some m \<longrightarrow> x = m)"



text \<open>
  When a schema gives a numeric exclusive lower bound and a different inclusive one, and has no
  upper bound, the viewer shows the weaker of the two: there is a number inside the displayed range
  that the schema rejects, and the displayed range is never too narrow.
\<close>
theorem double_bound_too_wide:
  assumes "exclusiveMinimum e = ExNum x" and "minimum e = Some m" and "x \<noteq> m"
    and "maximum e = None" and "\<forall>y. exclusiveMaximum e \<noteq> ExNum y"
  shows "(\<exists>n. admits (numberBounds e) n \<and> \<not> validNumber e n) \<and> (validNumber e n \<longrightarrow> admits (numberBounds e) n)"
proof -
  have hi: "bHigh (numberBounds e) = None"
    using assms by (cases "exclusiveMaximum e") (simp_all add: numberBounds_def)
  have lo: "bLow (numberBounds e) = Some (min x m)" "bLowOpen (numberBounds e)"
    using assms by (simp_all add: numberBounds_def)
  obtain k where "min x m < k" "k < max x m" using dense [of "min x m" "max x m"] assms(3) by (meson linorder_neq_iff max_less_iff_conj min.strict_coboundedI1 min.strict_coboundedI2 min_less_iff_disj less_max_iff_disj)
  then have "admits (numberBounds e) k" "\<not> validNumber e k"
    using hi lo assms by (auto simp: admits_def validNumber_def min_def max_def split: if_splits)
  moreover have "validNumber e n \<longrightarrow> admits (numberBounds e) n"
    using hi lo assms by (auto simp: admits_def validNumber_def min_def)
  ultimately show ?thesis by blast
qed

theorem double_bound_too_wide_witness:
  "\<exists>n. admits (numberBounds \<lparr>minLength = None, maxLength = None, minItems = None, maxItems = None, minProperties = None,
             maxProperties = None, multipleOf = None, minimum = Some 5, maximum = None, exclusiveMinimum = ExNum 0,
             exclusiveMaximum = ExNone, uniqueItems = False\<rparr>) n \<and>
       \<not> validNumber \<lparr>minLength = None, maxLength = None, minItems = None, maxItems = None, minProperties = None,
             maxProperties = None, multipleOf = None, minimum = Some 5, maximum = None, exclusiveMinimum = ExNum 0,
             exclusiveMaximum = ExNone, uniqueItems = False\<rparr> n"
  by (rule conjunct1 [OF double_bound_too_wide [where x = 0 and m = 5]]) simp_all

section \<open>Response classes\<close>

lemma takeWhile_digits:
  "set ds \<subseteq> set ''0123456789'' \<Longrightarrow> (\<forall>c \<in> set r. c \<notin> set ''0123456789'') \<Longrightarrow>
   takeWhile (\<lambda>c. c \<in> set ''0123456789'') (ds @ r) = ds"
  by (induction ds) (cases r; simp)+

lemma parseIntJS_digits:
  assumes "set ds \<subseteq> set ''0123456789''" and "ds \<noteq> []" and "\<forall>c \<in> set r. c \<notin> set ''0123456789''"
  shows "parseIntJS (ds @ r) = Some (int (decValue ds))"
proof -
  obtain c cs where ds: "ds = c # cs" using assms(2) by (cases ds) auto
  then have c: "c \<in> set ''0123456789''" using assms(1) by simp
  have "dropWhile (\<lambda>c. c \<in> set [CHR '' '', CHR 0x09, CHR 0x0A, CHR 0x0B, CHR 0x0C, CHR 0x0D]) (ds @ r) = ds @ r"
    using c by (auto simp: ds)
  moreover have "c \<noteq> CHR ''-''" "c \<noteq> CHR ''+''" using c by auto
  ultimately show ?thesis
    using takeWhile_digits [OF assms(1, 3)] assms(2) unfolding parseIntJS.simps Let_def by (simp add: ds)
qed

lemma decimal_nat:
  assumes "0 \<le> k"
  shows "set (decimal k) \<subseteq> set ''0123456789'' \<and> decimal k \<noteq> [] \<and> int (decValue (decimal k)) = k"
proof (cases "k = 0")
  case True
  then show ?thesis by (simp add: decimal_def decValue_def digitVal_def)
next
  case False
  then have d: "decimal k = itoaLoop (nat k) []" using assms by (simp add: decimal_def)
  have v: "decValue (decimal k) = nat k" unfolding d decValue_itoaLoop by (simp add: decValue_def)
  then have "decimal k \<noteq> []" using False assms by (auto simp: decValue_def)
  with v show ?thesis using itoaLoop_digits [of "[]" "nat k"] assms d by simp
qed

lemma hasRange_digits: "set ds \<subseteq> set ''0123456789'' \<Longrightarrow> \<not> hasRange ds"
  by (induction ds rule: hasRange.induct) auto

lemma hasRange_suffix: "c \<in> set ''0123456789'' \<Longrightarrow> hasRange (cs @ [c, CHR ''X'', CHR ''X''])"
proof (induction cs)
  case (Cons a cs)
  then show ?case by (cases cs; cases "tl cs") auto
qed simp

lemma hasRange_XX:
  assumes "set ds \<subseteq> set ''0123456789''" and "ds \<noteq> []"
  shows "hasRange (ds @ ''XX'')"
proof -
  have "last ds \<in> set ''0123456789''" using assms last_in_set by blast
  moreover have "ds @ ''XX'' = butlast ds @ [last ds, CHR ''X'', CHR ''X'']"
    using append_butlast_last_id [OF assms(2)] by (metis append.assoc append_Cons append_Nil)
  ultimately show ?thesis using hasRange_suffix by (simp only:)
qed

lemma digits_not_default: "ds \<noteq> [] \<Longrightarrow> set ds \<subseteq> set ''0123456789'' \<Longrightarrow> ds @ r \<noteq> ''default''"
  by (cases ds) auto

text \<open>
  The class of a response code: a code written as text has the class of the number, a range such as
  4XX has the class of every code in it, the class is given by the hundreds, and exactly the numbers
  outside 100 to 599 are refused. A text that is not a number at all is not refused: it counts as a
  success.
\<close>
theorem status_code_type:
  assumes "0 \<le> k"
  shows "statusType (CodeText (decimal k)) b = statusType (CodeNum k) b
    \<and> statusType (CodeText (decimal (k div 100) @ ''XX'')) b = statusType (CodeNum k) b
    \<and> statusType (CodeNum k) b =
        (if k div 100 \<in> {1, 2, 3, 4, 5}
         then Some ([''info'', ''success'', ''redirect'', ''error'', ''error''] ! nat (k div 100 - 1)) else None)
    \<and> (parseIntJS s = None \<and> s \<noteq> ''default'' \<longrightarrow> statusType (CodeText s) b = Some ''success'')"
proof -
  have pos: "0 \<le> k div 100" using assms by simp
  note d = decimal_nat [OF assms] and e = decimal_nat [OF pos]
  have p: "parseIntJS (decimal k) = Some k" "parseIntJS (decimal (k div 100) @ ''XX'') = Some (k div 100)"
    using parseIntJS_digits [of "decimal k" "[]"] parseIntJS_digits [of "decimal (k div 100)" "''XX''"] d e by simp_all
  have n: "decimal k \<noteq> ''default''" "decimal (k div 100) @ ''XX'' \<noteq> ''default''"
    using digits_not_default [of "decimal k" "[]"] digits_not_default d e by auto
  have r: "\<not> hasRange (decimal k)" "hasRange (decimal (k div 100) @ ''XX'')"
    using hasRange_digits hasRange_XX d e by blast+
  have num: "statusType (CodeNum k) b =
      (if k div 100 \<in> {1, 2, 3, 4, 5}
       then Some ([''info'', ''success'', ''redirect'', ''error'', ''error''] ! nat (k div 100 - 1)) else None)"
  proof -
    consider "k < 100" | "k div 100 = 1" | "k div 100 = 2" | "k div 100 = 3" | "k div 100 = 4" | "k div 100 = 5" | "600 \<le> k"
      by linarith
    then show ?thesis by cases (auto simp: statusType_def isStatusRange_def)
  qed
  have "statusType (CodeText (decimal k)) b = statusType (CodeNum k) b"
    using p n r by (simp add: statusType_def isStatusRange_def)
  moreover have "statusType (CodeText (decimal (k div 100) @ ''XX'')) b = statusType (CodeNum k) b"
  proof -
    have "(k div 100 * 100) div 100 = k div 100" by simp
    then have "statusType (CodeText (decimal (k div 100) @ ''XX'')) b = statusType (CodeNum (k div 100 * 100)) b"
      using p n r by (simp add: statusType_def isStatusRange_def)
    also have "\<dots> = statusType (CodeNum k) b"
      unfolding statusType_def isStatusRange_def Let_def by (auto; presburger)
    finally show ?thesis .
  qed
  moreover have "parseIntJS s = None \<and> s \<noteq> ''default'' \<longrightarrow> statusType (CodeText s) b = Some ''success''"
    by (simp add: statusType_def)
  ultimately show ?thesis using num by simp
qed

theorem status_code_type_witness:
  "statusType (CodeText (decimal (404 div 100) @ ''XX'')) False = Some ''error''
   \<and> statusType (CodeText (decimal 404)) False = Some ''error''
   \<and> statusType (CodeText ''teapot'') False = Some ''success''"
  using status_code_type [of 404 False "''teapot''"] by simp

section \<open>Field order\<close>

definition fieldRank :: "string list \<Rightarrow> schemaField \<Rightarrow> nat" where
  "fieldRank order f =
     (if \<not> frequired f then Suc (length order)
      else if fname f \<in> set order then indexIn order (fname f) else length order)"

lemma indexIn_bound: "x \<in> set order \<Longrightarrow> indexIn order x < length order"
  by (induction order) auto

lemma insort_key_after: "(\<forall>x \<in> set xs. r x < r f) \<Longrightarrow> insort_key r f (xs @ ys) = xs @ insort_key r f ys"
  by (induction xs) (auto simp: not_le)

lemma insort_key_before: "(\<forall>y \<in> set ys. r f \<le> r y) \<Longrightarrow> insort_key r f (xs @ ys) = insort_key r f xs @ ys"
  by (induction xs) (auto simp: insort_is_Cons)

lemma insort_key_same: "(\<forall>x \<in> set (f # xs). r x = q x) \<Longrightarrow> insort_key r f xs = insort_key q f xs"
  by (induction xs) auto

lemma sortByRequired_rank: "sortByRequired fs order = sort_key (fieldRank order) fs"
proof (induction fs)
  case Nil
  show ?case by (simp add: sortByRequired_def)
next
  case (Cons f fs)
  let ?i = "\<lambda>f. indexIn order (fname f)" and ?r = "fieldRank order"
  let ?l = "sort_key ?i (filter (\<lambda>f. frequired f \<and> fname f \<in> set order) fs)"
  let ?o = "filter (\<lambda>f. frequired f \<and> fname f \<notin> set order) fs"
  let ?n = "filter (\<lambda>f. \<not> frequired f) fs"
  have l: "\<forall>x \<in> set ?l. ?r x = ?i x \<and> ?r x < length order" by (simp add: fieldRank_def indexIn_bound)
  have o: "\<forall>x \<in> set ?o. ?r x = length order" and n: "\<forall>x \<in> set ?n. ?r x = Suc (length order)"
    by (simp_all add: fieldRank_def)
  have ih: "sort_key ?r (f # fs) = insort_key ?r f (?l @ ?o @ ?n)"
    using Cons by (simp add: sortByRequired_def)
  consider "\<not> frequired f" | "frequired f" "fname f \<notin> set order" | "frequired f" "fname f \<in> set order" by blast
  then show ?case
  proof cases
    case 1
    then have "?r f = Suc (length order)" by (simp add: fieldRank_def)
    then have "insort_key ?r f ((?l @ ?o) @ ?n) = (?l @ ?o) @ f # ?n"
      using l o n by (subst insort_key_after) (auto simp: insort_is_Cons less_Suc_eq)
    then show ?thesis using 1 ih by (simp add: sortByRequired_def)
  next
    case 2
    then have rf: "?r f = length order" by (simp add: fieldRank_def)
    have "insort_key ?r f (?o @ ?n) = f # ?o @ ?n"
      using o n rf by (intro insort_is_Cons) (auto simp del: set_filter)
    then have "insort_key ?r f (?l @ ?o @ ?n) = ?l @ f # ?o @ ?n"
      using l rf by (subst insort_key_after) auto
    then show ?thesis using 2 ih by (simp add: sortByRequired_def)
  next
    case 3
    then have r: "?r f = ?i f" "?r f < length order" by (simp_all add: fieldRank_def indexIn_bound)
    then have "insort_key ?r f (?l @ ?o @ ?n) = insort_key ?r f ?l @ ?o @ ?n"
      using o n by (intro insort_key_before) (auto simp del: set_filter)
    also have "insort_key ?r f ?l = insort_key ?i f ?l" using l r by (intro insort_key_same) auto
    finally show ?thesis using 3 ih by (simp add: sortByRequired_def)
  qed
qed

text \<open>
  Sorting the fields of a schema neither loses nor duplicates a field; the required fields named in
  the schema's list come first, in the order of the list, then the other required ones, then the
  optional ones; and fields of the same rank keep their order.
\<close>
theorem sort_by_required:
  "mset (sortByRequired fs order) = mset fs
   \<and> sorted (map (fieldRank order) (sortByRequired fs order))
   \<and> filter (\<lambda>f. fieldRank order f = r) (sortByRequired fs order) = filter (\<lambda>f. fieldRank order f = r) fs"
  unfolding sortByRequired_rank using sort_key_stable [of "fieldRank order" r fs] by simp

end
