(* ===== verification/RedocOptions.thy ===== *)
theory RedocOptions
  imports RedocSchema
begin

text \<open>
  The options of the Redoc viewer: \<^verbatim>\<open>ji\<close>, \<^verbatim>\<open>Ci\<close> and the normalising functions and constructor of \<^verbatim>\<open>Pi\<close>
  (\<^verbatim>\<open>redoc.standalone.js\<close>, line 2), apart from the theme (theory \<open>RedocTheme\<close>), the labels, which are global
  texts, and the scroll offset, which measures the page. An option is a value of the script; numbers are
  exact rationals with the script's NaN and infinities. The theorems follow an attribute of the page's
  element to the option it sets.
\<close>

section \<open>Values\<close>

datatype jsNumber = NaN | Infinite bool \<comment> \<open>negative\<close> | Fin rat

datatype optVal =
  Absent \<comment> \<open>undefined\<close>
| NullO
| BoolO bool
| TextO string
| NumO jsNumber
| ListO "string list"
| ObjectO \<comment> \<open>an object or a function\<close>

fun optTruthy :: "optVal \<Rightarrow> bool" where
  "optTruthy Absent = False"
| "optTruthy NullO = False"
| "optTruthy (BoolO b) = b"
| "optTruthy (TextO s) = (s \<noteq> [])"
| "optTruthy (NumO n) = (n \<noteq> NaN \<and> n \<noteq> Fin 0)"
| "optTruthy (ListO xs) = True"
| "optTruthy ObjectO = True"

definition jsSpace :: string where
  "jsSpace = [CHR '' '', CHR 0x09, CHR 0x0A, CHR 0x0B, CHR 0x0C, CHR 0x0D]"

definition trimJS :: "string \<Rightarrow> string" where
  "trimJS s = rev (dropWhile (\<lambda>c. c \<in> set jsSpace) (rev (dropWhile (\<lambda>c. c \<in> set jsSpace) s)))"

definition isDigitJS :: "char \<Rightarrow> bool" where "isDigitJS c \<longleftrightarrow> c \<in> set ''0123456789''"

definition radixDigit :: "nat \<Rightarrow> char \<Rightarrow> nat option" where
  "radixDigit r c =
     (let k = of_char c :: nat;
          d = (if isDigitJS c then k - 48 else if 97 \<le> k \<and> k \<le> 122 then k - 87 else if 65 \<le> k \<and> k \<le> 90 then k - 55 else 99)
      in if d < r then Some d else None)"

definition radixNumber :: "nat \<Rightarrow> string \<Rightarrow> jsNumber" where
  "radixNumber r ds =
     (if ds = [] \<or> \<not> list_all (\<lambda>c. radixDigit r c \<noteq> None) ds then NaN
      else Fin (of_nat (foldl (\<lambda>a c. r * a + the (radixDigit r c)) 0 ds)))"

definition signed :: "string \<Rightarrow> bool \<times> string" where
  "signed s = (case s of c # r \<Rightarrow> if c = CHR ''-'' then (True, r) else if c = CHR ''+'' then (False, r) else (False, s) | [] \<Rightarrow> (False, []))"

definition exponentOf :: "string \<Rightarrow> int option" where
  \<comment> \<open>what follows the digits of a decimal number\<close>
  "exponentOf s =
     (case s of
        [] \<Rightarrow> Some 0
      | c # r \<Rightarrow>
          (if c \<notin> set ''eE'' then None
           else case signed r of (neg, ds) \<Rightarrow>
             if ds = [] \<or> \<not> list_all isDigitJS ds then None else Some (if neg then - int (decValue ds) else int (decValue ds))))"

definition decimalNumber :: "bool \<Rightarrow> string \<Rightarrow> jsNumber" where
  "decimalNumber neg s =
     (let ip = takeWhile isDigitJS s; r1 = dropWhile isDigitJS s;
          (fp, r2) = (case r1 of c # r \<Rightarrow> if c = CHR ''.'' then (takeWhile isDigitJS r, dropWhile isDigitJS r) else ([], r1) | [] \<Rightarrow> ([], []))
      in if ip = [] \<and> fp = [] then NaN
         else case exponentOf r2 of
                None \<Rightarrow> NaN
              | Some x \<Rightarrow>
                  (let y = x - int (length fp); m = of_nat (decValue (ip @ fp)) :: rat;
                       v = (if 0 \<le> y then m * 10 ^ nat y else m / 10 ^ nat (- y))
                   in if 2 ^ 1024 - 2 ^ 970 \<le> v then Infinite neg else Fin (if neg then - v else v)))"

definition toNumber :: "string \<Rightarrow> jsNumber" where
  \<comment> \<open>\<^verbatim>\<open>Number(s)\<close>, without the rounding to doubles\<close>
  "toNumber s =
     (let w = trimJS s
      in if w = [] then Fin 0
         else if take 2 w \<in> set [''0x'', ''0X''] then radixNumber 16 (drop 2 w)
         else if take 2 w \<in> set [''0o'', ''0O''] then radixNumber 8 (drop 2 w)
         else if take 2 w \<in> set [''0b'', ''0B''] then radixNumber 2 (drop 2 w)
         else case signed w of (neg, r) \<Rightarrow> if r = ''Infinity'' then Infinite neg else decimalNumber neg r)"

fun numberOf :: "optVal \<Rightarrow> jsNumber" where
  "numberOf Absent = NaN"
| "numberOf NullO = Fin 0"
| "numberOf (BoolO b) = Fin (if b then 1 else 0)"
| "numberOf (TextO s) = toNumber s"
| "numberOf (NumO n) = n"
| "numberOf (ListO []) = Fin 0"
| "numberOf (ListO [s]) = toNumber s"
| "numberOf (ListO _) = NaN"
| "numberOf ObjectO = NaN"

fun maxZero :: "jsNumber \<Rightarrow> jsNumber" where
  "maxZero NaN = NaN"
| "maxZero (Infinite neg) = (if neg then Fin 0 else Infinite False)"
| "maxZero (Fin v) = Fin (max 0 v)"

fun ceilJS :: "jsNumber \<Rightarrow> jsNumber" where
  "ceilJS (Fin v) = Fin (of_int \<lceil>v\<rceil>)"
| "ceilJS n = n"

definition parsedInt :: "string \<Rightarrow> jsNumber" where
  "parsedInt s = (case parseIntJS s of None \<Rightarrow> NaN | Some k \<Rightarrow> Fin (of_int k))"

section \<open>Normalising\<close>

definition ji :: "optVal \<Rightarrow> bool \<Rightarrow> optVal" where
  "ji e t = (case e of Absent \<Rightarrow> BoolO t | TextO s \<Rightarrow> BoolO (s \<noteq> ''false'') | _ \<Rightarrow> e)"

definition Ci :: "optVal \<Rightarrow> jsNumber option" where
  "Ci e = (case e of TextO s \<Rightarrow> Some (parsedInt s) | NumO n \<Rightarrow> Some n | _ \<Rightarrow> None)"

definition orElse :: "jsNumber option \<Rightarrow> rat \<Rightarrow> jsNumber" where
  \<comment> \<open>\<^verbatim>\<open>e || t\<close>\<close>
  "orElse e t = (case e of Some n \<Rightarrow> if optTruthy (NumO n) then n else Fin t | None \<Rightarrow> Fin t)"

datatype expand = ExpandAll | ExpandCodes "string list"

definition normalizeExpandResponses :: "optVal \<Rightarrow> expand" where
  "normalizeExpandResponses e =
     (case e of TextO s \<Rightarrow> if s = ''all'' then ExpandAll else ExpandCodes (remdups (map trimJS (splitOn (CHR '','') s)))
      | _ \<Rightarrow> ExpandCodes [])"

definition normalizeHideHostname :: "optVal \<Rightarrow> bool" where
  "normalizeHideHostname e = optTruthy e"

definition normalizeShowExtensions :: "optVal \<Rightarrow> optVal" where
  "normalizeShowExtensions e =
     (case e of
        Absent \<Rightarrow> BoolO False
      | TextO s \<Rightarrow> (if s = [] then BoolO True else if s = ''true'' then BoolO True else if s = ''false'' then BoolO False
                     else ListO (map trimJS (splitOn (CHR '','') s)))
      | _ \<Rightarrow> e)"

definition normalizeSideNavStyle :: "optVal \<Rightarrow> string" where
  "normalizeSideNavStyle e =
     (case e of TextO s \<Rightarrow> if s \<in> set [''summary-only'', ''path-only'', ''id-only''] then s else ''summary-only''
      | _ \<Rightarrow> ''summary-only'')"

definition normalizePayloadSampleIdx :: "optVal \<Rightarrow> jsNumber" where
  "normalizePayloadSampleIdx e =
     (case e of
        NumO n \<Rightarrow> maxZero n
      | TextO s \<Rightarrow> (case toNumber s of Fin _ \<Rightarrow> parsedInt s | _ \<Rightarrow> Fin 0)
      | _ \<Rightarrow> Fin 0)"

definition normalizeJsonSampleExpandLevel :: "optVal \<Rightarrow> jsNumber" where
  "normalizeJsonSampleExpandLevel e =
     (if e = TextO ''all'' then Infinite False else if numberOf e = NaN then Fin 2 else ceilJS (numberOf e))"

definition normalizeGeneratedPayloadSamplesMaxDepth :: "optVal \<Rightarrow> jsNumber" where
  "normalizeGeneratedPayloadSamplesMaxDepth e = (if numberOf e = NaN then Fin 10 else maxZero (numberOf e))"

definition expansionLevel :: "optVal \<Rightarrow> jsNumber" where
  "expansionLevel e = (if e = TextO ''all'' then Infinite False else orElse (Ci e) 0)"

definition namedSchemas :: "optVal \<Rightarrow> string list option" where
  \<comment> \<open>\<open>None\<close> is the type error of a value without \<^verbatim>\<open>split\<close>\<close>
  "namedSchemas e =
     (case e of
        ListO xs \<Rightarrow> Some xs
      | TextO s \<Rightarrow> Some (map trimJS (splitOn (CHR '','') s))
      | Absent \<Rightarrow> Some [] | NullO \<Rightarrow> Some []
      | _ \<Rightarrow> None)"

section \<open>The options object\<close>

definition flagNames :: "string list" where
  \<comment> \<open>the options that are \<^verbatim>\<open>ji(e.name)\<close>, in the order of the constructor\<close>
  "flagNames =
     [''requiredPropsFirst'', ''sortPropsAlphabetically'', ''sortEnumValuesAlphabetically'', ''sortOperationsAlphabetically'',
      ''sortTagsAlphabetically'', ''nativeScrollbars'', ''pathInMiddlePanel'', ''untrustedSpec'', ''hideDownloadButton'',
      ''disableSearch'', ''onlyRequiredInSamples'', ''hideSingleRequestSampleTab'', ''hideRequestPayloadSample'', ''enumSkipQuotes'',
      ''hideSchemaTitles'', ''simpleOneOfTypeLabel'', ''expandSingleSchemaField'', ''showObjectSchemaExamples'',
      ''showSecuritySchemeType'', ''hideSecuritySection'', ''unstable_ignoreMimeParameters'', ''expandDefaultServerVariables'',
      ''hideSchemaPattern'', ''hideFab'', ''showWebhookVerb'']"

record redocOptions =
  oFlags :: "(string \<times> optVal) list"
  oMenuToggle :: optVal
  oHideHostname :: bool
  oExpandResponses :: expand
  oDownloadFileName :: optVal
  oDownloadDefinitionUrl :: optVal
  oShowExtensions :: optVal
  oSideNavStyle :: string
  oJsonSampleExpandLevel :: jsNumber
  oPayloadSampleIdx :: jsNumber
  oSchemaExpansionLevel :: jsNumber
  oAllowedMdComponents :: optVal
  oMaxDisplayedEnumValues :: "jsNumber option"
  oIgnoreNamedSchemas :: "string list"
  oGeneratedPayloadSamplesMaxDepth :: jsNumber
  oNonce :: optVal
  oMinCharacterLengthToInitSearch :: jsNumber

definition newOptions :: "(string \<Rightarrow> optVal) \<Rightarrow> redocOptions option" where
  "newOptions e =
     (case namedSchemas (e ''ignoreNamedSchemas'') of
        None \<Rightarrow> None
      | Some names \<Rightarrow> Some
         \<lparr>oFlags = map (\<lambda>n. (n, ji (e n) False)) flagNames,
          oMenuToggle = ji (e ''menuToggle'') True,
          oHideHostname = normalizeHideHostname (e ''hideHostname''),
          oExpandResponses = normalizeExpandResponses (e ''expandResponses''),
          oDownloadFileName = e ''downloadFileName'',
          oDownloadDefinitionUrl = e ''downloadDefinitionUrl'',
          oShowExtensions = normalizeShowExtensions (e ''showExtensions''),
          oSideNavStyle = normalizeSideNavStyle (e ''sideNavStyle''),
          oJsonSampleExpandLevel = normalizeJsonSampleExpandLevel (e ''jsonSampleExpandLevel''),
          oPayloadSampleIdx = normalizePayloadSampleIdx (e ''payloadSampleIdx''),
          oSchemaExpansionLevel = expansionLevel (e ''schemaExpansionLevel''),
          oAllowedMdComponents = (if optTruthy (e ''allowedMdComponents'') then e ''allowedMdComponents'' else ObjectO),
          oMaxDisplayedEnumValues = Ci (e ''maxDisplayedEnumValues''),
          oIgnoreNamedSchemas = remdups names,
          oGeneratedPayloadSamplesMaxDepth = normalizeGeneratedPayloadSamplesMaxDepth (e ''generatedPayloadSamplesMaxDepth''),
          oNonce = e ''nonce'',
          oMinCharacterLengthToInitSearch = orElse (Ci (e ''minCharacterLengthToInitSearch'')) 3\<rparr>)"

definition fromElement :: "'j options \<Rightarrow> string \<Rightarrow> optVal" where
  \<comment> \<open>the options that the start script read from the element\<close>
  "fromElement opts k = (case map_of opts k of None \<Rightarrow> Absent | Some (OText s) \<Rightarrow> TextO s | Some (OJson _) \<Rightarrow> ObjectO)"

definition attributeFor :: "(string \<times> string) list \<Rightarrow> string \<Rightarrow> string option" where
  \<comment> \<open>the last attribute whose camel-case name is the option's\<close>
  "attributeFor attrs k = (case filter (\<lambda>q. camelKey (fst q) = k) (rev attrs) of [] \<Rightarrow> None | q # _ \<Rightarrow> Some (snd q))"

lemma fromElement_attribute:
  assumes "px parse attrs [] = Inr opts" and "k \<noteq> ''theme''"
  shows "fromElement opts k = (case attributeFor attrs k of None \<Rightarrow> Absent | Some s \<Rightarrow> TextO s)"
  using px_lookup [OF assms] by (simp add: fromElement_def attributeFor_def split: list.split)

lemma flag_lookup: "newOptions e = Some o1 \<Longrightarrow> f \<in> set flagNames \<Longrightarrow> map_of (oFlags o1) f = Some (ji (e f) False)"
  by (auto simp: newOptions_def map_of_map_restrict split: option.splits)

lemma element_options: "\<exists>o1. px parse attrs [] = Inr opts \<longrightarrow> newOptions (fromElement opts) = Some o1"
  by (auto simp: newOptions_def fromElement_attribute namedSchemas_def split: option.splits)



definition sane :: "jsNumber \<Rightarrow> bool" where
  "sane n \<longleftrightarrow> (case n of NaN \<Rightarrow> False | Infinite neg \<Rightarrow> \<not> neg | Fin v \<Rightarrow> 0 \<le> v)"



end
