(* ===== verification/MenuStore.thy ===== *)
theory MenuStore
  imports Complex_Main Prelude
begin

text \<open>
  The menu of the Redoc viewer (\<^verbatim>\<open>redoc.standalone.js\<close>, line 752: the items \<^verbatim>\<open>rf\<close>, the store \<^verbatim>\<open>vf\<close>, the scroll
  tests of \<^verbatim>\<open>Sf\<close>; line 41: operations \<^verbatim>\<open>Tu\<close>; lines 1326 and 1674: restoring and clicking). The objects of the
  menu are the entries of its flat list, linked to their parents by position. The page is the position of
  each section's element; calls on the browser's history are collected in order. Events are the steps of a
  relation, and an invariant holds in every state they reach.
\<close>

section \<open>Items\<close>

datatype itemKind = GroupItem | SectionItem | TagItem | SchemaItem | OperationItem

datatype menuTree = MenuTree string itemKind int "menuTree list" \<comment> \<open>id, type, depth and items\<close>

record menuItem =
  miId :: string
  miKind :: itemKind
  miDepth :: int
  miParent :: "nat option"
  miItems :: nat \<comment> \<open>how many items it has; the first one follows it in the flat list\<close>
  miActive :: bool
  miExpanded :: bool

fun treeSize :: "menuTree \<Rightarrow> nat" where
  "treeSize (MenuTree i k d ts) = Suc (sum_list (map treeSize ts))"

fun flatTree :: "nat option \<Rightarrow> nat \<Rightarrow> menuTree \<Rightarrow> menuItem list"
  and flatItems :: "nat option \<Rightarrow> nat \<Rightarrow> menuTree list \<Rightarrow> menuItem list" where
  \<comment> \<open>the flat list from a given position on; a group starts expanded\<close>
  "flatTree parent pos (MenuTree i k d ts) =
     \<lparr>miId = i, miKind = k, miDepth = d, miParent = parent, miItems = length ts, miActive = False, miExpanded = (k = GroupItem)\<rparr>
     # flatItems (Some pos) (Suc pos) ts"
| "flatItems parent pos [] = []"
| "flatItems parent pos (t # ts) = flatTree parent pos t @ flatItems parent (pos + treeSize t) ts"

function expandItem :: "menuItem list \<Rightarrow> nat \<Rightarrow> menuItem list" where
  \<comment> \<open>\<^verbatim>\<open>expand\<close>; parents precede their items, and an operation only expands its parent\<close>
  "expandItem items i =
     (let up = (case miParent (items ! i) of Some p \<Rightarrow> if p < i then expandItem items p else items | None \<Rightarrow> items)
      in if miKind (items ! i) = OperationItem then up else up[i := (up ! i)\<lparr>miExpanded := True\<rparr>])"
  by pat_completeness auto
termination by (relation "measure snd") auto

declare expandItem.simps [simp del]

definition collapseItem :: "menuItem list \<Rightarrow> nat \<Rightarrow> menuItem list" where
  "collapseItem items i =
     (if miKind (items ! i) = GroupItem \<or> miKind (items ! i) = OperationItem then items
      else items[i := (items ! i)\<lparr>miExpanded := False\<rparr>])"

function collapseUp :: "menuItem list \<Rightarrow> nat \<Rightarrow> menuItem list" where
  \<comment> \<open>the loop of \<^verbatim>\<open>deactivate\<close> over an item and its parents\<close>
  "collapseUp items i =
     (let items' = collapseItem items i
      in case miParent (items ! i) of Some p \<Rightarrow> if p < i then collapseUp items' p else items' | None \<Rightarrow> items')"
  by pat_completeness auto
termination by (relation "measure snd") auto

declare collapseUp.simps [simp del]

definition deactivate :: "menuItem list \<Rightarrow> nat option \<Rightarrow> menuItem list" where
  "deactivate items e =
     (case e of None \<Rightarrow> items | Some i \<Rightarrow> collapseUp (items[i := (items ! i)\<lparr>miActive := False\<rparr>]) i)"

section \<open>The store\<close>

record menuStore =
  mItems :: "menuItem list"
  mActive :: int \<comment> \<open>\<^verbatim>\<open>activeItemIdx\<close>\<close>
  mSideBar :: bool
  mHistory :: "(string \<times> bool) list" \<comment> \<open>the calls of \<^verbatim>\<open>history.replace\<close>, latest first\<close>

definition newMenu :: "menuTree list \<Rightarrow> menuStore" where
  "newMenu ts = \<lparr>mItems = flatItems None 0 ts, mActive = - 1, mSideBar = False, mHistory = []\<rparr>"

definition itemAt :: "menuStore \<Rightarrow> int \<Rightarrow> nat option" where
  \<comment> \<open>\<^verbatim>\<open>flatItems[n]\<close>, undefined out of range\<close>
  "itemAt m n = (if 0 \<le> n \<and> n < int (length (mItems m)) then Some (nat n) else None)"

definition activeItem :: "menuStore \<Rightarrow> nat option" where
  "activeItem m = itemAt m (mActive m)"

definition idOf :: "menuStore \<Rightarrow> nat option \<Rightarrow> string option" where
  "idOf m e = map_option (\<lambda>i. miId (mItems m ! i)) e"

definition isUnescaped :: "char \<Rightarrow> bool" where
  "isUnescaped c \<longleftrightarrow>
     c \<in> set ''ABCDEFGHIJKLMNOPQRSTUVWXYZabcdefghijklmnopqrstuvwxyz0123456789;,/?:@&=+$-_.!~*()#'' \<or> c = CHR 39"

definition encodeURI :: "string \<Rightarrow> string" where
  \<comment> \<open>on the bytes of a text\<close>
  "encodeURI s =
     concat (map (\<lambda>c. if isUnescaped c then [c]
                      else [CHR ''%'', ''0123456789ABCDEF'' ! (of_char c div 16), ''0123456789ABCDEF'' ! (of_char c mod 16)]) s)"

definition activate :: "menuStore \<Rightarrow> nat option \<Rightarrow> bool \<Rightarrow> bool \<Rightarrow> menuStore" where
  "activate m e updateHistory replaceState =
     (if idOf m (activeItem m) \<noteq> idOf m e \<and> (case e of None \<Rightarrow> True | Some i \<Rightarrow> miKind (mItems m ! i) \<noteq> GroupItem)
      then
        let m1 = m\<lparr>mItems := deactivate (mItems m) (activeItem m)\<rparr>
        in case e of
             None \<Rightarrow> m1\<lparr>mActive := - 1, mHistory := ([], replaceState) # mHistory m1\<rparr>
           | Some i \<Rightarrow>
               (if miDepth (mItems m1 ! i) \<le> 0 then m1
                else m1\<lparr>mActive := int i,
                        mHistory := (if updateHistory then (encodeURI (miId (mItems m1 ! i)), replaceState) # mHistory m1
                                     else mHistory m1),
                        mItems := expandItem ((mItems m1)[i := (mItems m1 ! i)\<lparr>miActive := True\<rparr>]) i\<rparr>)
      else m)"

definition closeSidebar :: "menuStore \<Rightarrow> menuStore" where
  "closeSidebar m = m\<lparr>mSideBar := False\<rparr>"

definition toggleSidebar :: "menuStore \<Rightarrow> menuStore" where
  "toggleSidebar m = m\<lparr>mSideBar := \<not> mSideBar m\<rparr>"

definition findItem :: "menuStore \<Rightarrow> (string \<Rightarrow> bool) \<Rightarrow> nat option" where
  \<comment> \<open>\<^verbatim>\<open>flatItems.find\<close> by id\<close>
  "findItem m P =
     (let n = length (takeWhile (\<lambda>it. \<not> P (miId it)) (mItems m)) in if n < length (mItems m) then Some n else None)"

definition activateAndScroll :: "menuStore \<Rightarrow> nat option \<Rightarrow> bool \<Rightarrow> bool \<Rightarrow> menuStore" where
  \<comment> \<open>scrolling to the element changes nothing in the store\<close>
  "activateAndScroll m e updateHistory replaceState =
     (let r = (case e of
                 None \<Rightarrow> None
               | Some i \<Rightarrow> (case findItem m (\<lambda>x. x = miId (mItems m ! i)) of Some j \<Rightarrow> Some j | None \<Rightarrow> Some i));
          m' = activate m r updateHistory replaceState
      in case r of
           Some j \<Rightarrow> if miItems (mItems m' ! j) \<noteq> 0 then m' else closeSidebar m'
         | None \<Rightarrow> closeSidebar m')"

section \<open>Scrolling\<close>

record page =
  pgTop :: "string \<Rightarrow> rat option" \<comment> \<open>the top of the element of a section, relative to the window\<close>
  pgOffset :: rat

definition isElementBellow :: "page \<Rightarrow> rat option \<Rightarrow> bool" where
  "isElementBellow pg e = (case e of None \<Rightarrow> False | Some t \<Rightarrow> pgOffset pg < t)"

definition isElementAbove :: "page \<Rightarrow> rat option \<Rightarrow> bool" where
  "isElementAbove pg e =
     (case e of None \<Rightarrow> False | Some t \<Rightarrow> (if 0 < t then of_int \<lfloor>t\<rfloor> else of_int \<lceil>t\<rceil>) \<le> pgOffset pg)"

definition getElementAt :: "page \<Rightarrow> menuStore \<Rightarrow> int \<Rightarrow> rat option" where
  "getElementAt pg m n = (case itemAt m n of None \<Rightarrow> None | Some i \<Rightarrow> pgTop pg (miId (mItems m ! i)))"

definition getElementAtOrFirstChild :: "page \<Rightarrow> menuStore \<Rightarrow> int \<Rightarrow> rat option" where
  "getElementAtOrFirstChild pg m n =
     (case itemAt m n of
        None \<Rightarrow> None
      | Some i \<Rightarrow>
          (if miKind (mItems m ! i) = GroupItem
           then (if miItems (mItems m ! i) = 0 then None else getElementAt pg m (n + 1))
           else pgTop pg (miId (mItems m ! i))))"

partial_function (option) scrollLoop :: "page \<Rightarrow> menuStore \<Rightarrow> bool \<Rightarrow> int \<Rightarrow> int option" where
  "scrollLoop pg m down n =
     (if (n \<noteq> - 1 \<or> down) \<and> \<not> (int (length (mItems m)) - 1 \<le> n \<and> down)
      then if down
           then (if isElementBellow pg (getElementAtOrFirstChild pg m (n + 1)) then Some n else scrollLoop pg m down (n + 1))
           else (if isElementAbove pg (getElementAt pg m n) then Some n else scrollLoop pg m down (n - 1))
      else Some n)"

definition updateOnScroll :: "page \<Rightarrow> menuStore \<Rightarrow> bool \<Rightarrow> menuStore option" where
  "updateOnScroll pg m down =
     map_option (\<lambda>n. activate m (itemAt m n) True True) (scrollLoop pg m down (mActive m))"

definition authSection :: string where "authSection = ''section/Authentication/''" \<comment> \<open>\<^verbatim>\<open>vs\<close>\<close>

definition updateOnHistory :: "menuStore \<Rightarrow> string \<Rightarrow> menuStore" where
  "updateOnHistory m e =
     (if e = [] then m
      else case findItem m (\<lambda>x. x = e) of
             Some i \<Rightarrow> activateAndScroll m (Some i) False False
           | None \<Rightarrow>
               (if hasPrefix e authSection then activateAndScroll m (findItem m (\<lambda>x. hasPrefix authSection x)) False False
                else m))"

definition clickItem :: "bool \<Rightarrow> menuStore \<Rightarrow> nat \<Rightarrow> menuStore" where
  \<comment> \<open>the menu's \<^verbatim>\<open>activate\<close> (\<^verbatim>\<open>Cv\<close>), with the option \<^verbatim>\<open>menuToggle\<close>\<close>
  "clickItem menuToggle m i =
     (if miActive (mItems m ! i) \<and> menuToggle
      then m\<lparr>mItems := (if miExpanded (mItems m ! i) then collapseItem (mItems m) i else expandItem (mItems m) i)\<rparr>
      else activateAndScroll m (Some i) True False)"

definition restoreMenu :: "menuStore \<Rightarrow> int \<Rightarrow> menuStore" where
  \<comment> \<open>\<^verbatim>\<open>fromJS\<close>: the saved index is set and its item activated\<close>
  "restoreMenu m saved = (let m' = m\<lparr>mActive := saved\<rparr> in activate m' (itemAt m' saved) True False)"

section \<open>Events\<close>

inductive menuStep :: "menuStore \<Rightarrow> menuStore \<Rightarrow> bool" where
  click: "i < length (mItems m) \<Longrightarrow> menuStep m (clickItem menuToggle m i)"
| search: "i < length (mItems m) \<Longrightarrow> menuStep m (activateAndScroll m (Some i) True False)"
| scroll: "updateOnScroll pg m down = Some m' \<Longrightarrow> menuStep m m'"
| hash: "menuStep m (updateOnHistory m e)"
| toggle: "menuStep m (toggleSidebar m)"
| close: "menuStep m (closeSidebar m)"

inductive menuReach :: "menuTree list \<Rightarrow> menuStore \<Rightarrow> bool" for ts where
  menu_new: "menuReach ts (newMenu ts)"
| menu_step: "menuReach ts m \<Longrightarrow> menuStep m m' \<Longrightarrow> menuReach ts m'"

inductive_cases menuStepE: "menuStep m m'"

section \<open>Paths to the root\<close>

function ancestors :: "menuItem list \<Rightarrow> nat \<Rightarrow> nat list" where
  "ancestors items i =
     (case miParent (items ! i) of Some p \<Rightarrow> if p < i then p # ancestors items p else [] | None \<Rightarrow> [])"
  by pat_completeness auto
termination by (relation "measure snd") auto

declare ancestors.simps [simp del]

definition wfItems :: "menuItem list \<Rightarrow> bool" where
  \<comment> \<open>parents precede their items and are not operations, and only groups are at depth 0\<close>
  "wfItems items \<longleftrightarrow>
     (\<forall>i < length items.
        (\<forall>p. miParent (items ! i) = Some p \<longrightarrow> p < i \<and> miKind (items ! p) \<noteq> OperationItem)
        \<and> (miKind (items ! i) \<noteq> GroupItem \<longrightarrow> 0 < miDepth (items ! i)))"

definition skeleton :: "menuItem list \<Rightarrow> (string \<times> itemKind \<times> int \<times> nat option \<times> nat) list" where
  \<comment> \<open>what activation never changes\<close>
  "skeleton items = map (\<lambda>it. (miId it, miKind it, miDepth it, miParent it, miItems it)) items"

lemma skeleton_length: "skeleton xs = skeleton ys \<Longrightarrow> length xs = length ys"
  unfolding skeleton_def by (rule map_eq_imp_length_eq)

lemma skeleton_nth:
  assumes "skeleton xs = skeleton ys" and "i < length ys"
  shows "miParent (xs ! i) = miParent (ys ! i)" "miKind (xs ! i) = miKind (ys ! i)" "miDepth (xs ! i) = miDepth (ys ! i)"
    "miId (xs ! i) = miId (ys ! i)" "miItems (xs ! i) = miItems (ys ! i)"
proof -
  have at: "skeleton zs ! i = (miId (zs ! i), miKind (zs ! i), miDepth (zs ! i), miParent (zs ! i), miItems (zs ! i))"
    if "i < length zs" for zs
    unfolding skeleton_def using that by (rule nth_map)
  have "i < length xs" using assms(2) skeleton_length [OF assms(1)] by simp
  from at [OF this] at [OF assms(2)] assms(1)
  show "miParent (xs ! i) = miParent (ys ! i)" "miKind (xs ! i) = miKind (ys ! i)" "miDepth (xs ! i) = miDepth (ys ! i)"
    "miId (xs ! i) = miId (ys ! i)" "miItems (xs ! i) = miItems (ys ! i)"
    by simp_all
qed

lemma map_update_id: "f y = f (xs ! i) \<Longrightarrow> map f (xs[i := y]) = map f xs"
proof (rule nth_equalityI)
  fix k assume "f y = f (xs ! i)" "k < length (map f (xs[i := y]))"
  then show "map f (xs[i := y]) ! k = map f xs ! k" by (cases "k = i") auto
qed simp

lemma skeleton_update:
  "skeleton (xs[i := (xs ! i)\<lparr>miExpanded := b\<rparr>]) = skeleton xs" "skeleton (xs[i := (xs ! i)\<lparr>miActive := b\<rparr>]) = skeleton xs"
  unfolding skeleton_def by (rule map_update_id, simp)+

lemma ancestors_skeleton: "skeleton xs = skeleton ys \<Longrightarrow> i < length ys \<Longrightarrow> ancestors xs i = ancestors ys i"
proof (induction ys i rule: ancestors.induct)
  case (1 ys i)
  show ?case using 1 skeleton_nth(1) [OF 1(2, 3)]
    by (subst (1 2) ancestors.simps) (auto split: option.split)
qed

lemma wfItems_skeleton: "skeleton xs = skeleton ys \<Longrightarrow> wfItems xs = wfItems ys"
proof -
  have one: "wfItems b" if "wfItems a" and eq: "skeleton b = skeleton a" for a b
    unfolding wfItems_def
  proof (intro allI impI)
    fix i assume "i < length b"
    then have i: "i < length a" using skeleton_length [OF eq] by simp
    have "p < i \<and> miKind (b ! p) \<noteq> OperationItem" if "miParent (b ! i) = Some p" for p
    proof -
      have "p < i \<and> miKind (a ! p) \<noteq> OperationItem"
        using \<open>wfItems a\<close> i that skeleton_nth(1) [OF eq i] unfolding wfItems_def by simp
      then show ?thesis using skeleton_nth(2) [OF eq, of p] i by simp
    qed
    moreover have "miKind (b ! i) \<noteq> GroupItem \<longrightarrow> 0 < miDepth (b ! i)"
      using \<open>wfItems a\<close> i skeleton_nth(2, 3) [OF eq i] unfolding wfItems_def by simp
    ultimately show "(\<forall>p. miParent (b ! i) = Some p \<longrightarrow> p < i \<and> miKind (b ! p) \<noteq> OperationItem)
        \<and> (miKind (b ! i) \<noteq> GroupItem \<longrightarrow> 0 < miDepth (b ! i))" by blast
  qed
  assume "skeleton xs = skeleton ys"
  then show ?thesis using one [of xs ys] one [of ys xs] by auto
qed

lemma expandItem_skeleton: "skeleton (expandItem items i) = skeleton items"
proof (induction items i rule: expandItem.induct)
  case (1 items i)
  then show ?case
    by (subst expandItem.simps) (auto simp: Let_def skeleton_update split: option.split)
qed

lemma collapseItem_skeleton: "skeleton (collapseItem items i) = skeleton items"
  by (simp add: collapseItem_def skeleton_update)

lemma collapseUp_skeleton: "skeleton (collapseUp items i) = skeleton items"
proof (induction items i rule: collapseUp.induct)
  case (1 items i)
  then show ?case
    by (subst collapseUp.simps) (auto simp: Let_def collapseItem_skeleton split: option.split)
qed

locale keeps_skeleton =
  fixes update :: "menuItem list \<Rightarrow> nat \<Rightarrow> menuItem list"
  assumes keeps: "skeleton (update items i) = skeleton items"
begin

lemma length_update [simp]: "length (update items i) = length items"
  by (rule skeleton_length [OF keeps])

lemma wf_update [simp]: "wfItems (update items i) = wfItems items"
  by (rule wfItems_skeleton [OF keeps])

lemma ancestors_update: "j < length items \<Longrightarrow> ancestors (update items i) j = ancestors items j"
  by (rule ancestors_skeleton [OF keeps])

end

interpretation expanding: keeps_skeleton expandItem
  by unfold_locales (rule expandItem_skeleton)

interpretation collapsing: keeps_skeleton collapseItem
  by unfold_locales (rule collapseItem_skeleton)

interpretation collapsing_up: keeps_skeleton collapseUp
  by unfold_locales (rule collapseUp_skeleton)

lemmas menu_skeletons = expandItem_skeleton collapseItem_skeleton collapseUp_skeleton skeleton_update

lemma ancestors_cases:
  assumes "p \<in> set (ancestors items i)"
  obtains q where "miParent (items ! i) = Some q" "q < i" "p = q \<or> p \<in> set (ancestors items q)"
  using assms ancestors.simps [of items i] by (auto split: option.splits if_splits)

lemma ancestors_less: "p \<in> set (ancestors items i) \<Longrightarrow> p < i"
proof (induction items i rule: ancestors.induct)
  case (1 items i)
  from 1(2) obtain q where q: "miParent (items ! i) = Some q" "q < i" "p = q \<or> p \<in> set (ancestors items q)"
    by (rule ancestors_cases)
  then show ?case using 1(1) [OF q(1, 2)] by auto
qed

lemma ancestors_not_operation:
  "wfItems items \<Longrightarrow> i < length items \<Longrightarrow> p \<in> set (ancestors items i) \<Longrightarrow> miKind (items ! p) \<noteq> OperationItem"
proof (induction items i rule: ancestors.induct)
  case (1 items i)
  from 1(4) obtain q where q: "miParent (items ! i) = Some q" "q < i" "p = q \<or> p \<in> set (ancestors items q)"
    by (rule ancestors_cases)
  have "miKind (items ! q) \<noteq> OperationItem" using 1(2, 3) q(1) unfolding wfItems_def by blast
  then show ?case using 1(1) [OF q(1, 2) 1(2)] 1(3) q by auto
qed

lemma expandItem_spec:
  "i < length items \<Longrightarrow> j < length items \<Longrightarrow>
   miActive (expandItem items i ! j) = miActive (items ! j)
   \<and> miExpanded (expandItem items i ! j) =
       (miExpanded (items ! j) \<or> j \<in> set (i # ancestors items i) \<and> miKind (items ! j) \<noteq> OperationItem)"
proof (induction items i rule: expandItem.induct)
  case (1 items i)
  let ?up = "case miParent (items ! i) of Some p \<Rightarrow> if p < i then expandItem items p else items | None \<Rightarrow> items"
  have len: "length ?up = length items"
    by (simp split: option.split)
  have up: "miActive (?up ! j) = miActive (items ! j)
      \<and> miExpanded (?up ! j) = (miExpanded (items ! j) \<or> j \<in> set (ancestors items i) \<and> miKind (items ! j) \<noteq> OperationItem)"
    using 1 by (subst ancestors.simps) (auto split: option.split)
  show ?case using up 1(2, 3) len
    by (subst (1 2) expandItem.simps) (auto simp: Let_def nth_list_update)
qed

lemma collapseUp_spec:
  "i < length items \<Longrightarrow> j < length items \<Longrightarrow>
   miActive (collapseUp items i ! j) = miActive (items ! j)
   \<and> miExpanded (collapseUp items i ! j) =
       (miExpanded (items ! j) \<and> (j \<notin> set (i # ancestors items i) \<or> miKind (items ! j) = GroupItem \<or> miKind (items ! j) = OperationItem))"
proof (induction items i rule: collapseUp.induct)
  case (1 items i)
  let ?c = "collapseItem items i"
  have len: "length ?c = length items" by simp
  have c: "miActive (?c ! j) = miActive (items ! j)"
    "miExpanded (?c ! j) = (miExpanded (items ! j) \<and> (j \<noteq> i \<or> miKind (items ! j) = GroupItem \<or> miKind (items ! j) = OperationItem))"
    "miKind (?c ! j) = miKind (items ! j)"
    using 1(2, 3) by (auto simp: collapseItem_def nth_list_update)
  show ?case
  proof (cases "\<exists>p. miParent (items ! i) = Some p \<and> p < i")
    case True
    then obtain p where p: "miParent (items ! i) = Some p" "p < i" by blast
    have "ancestors ?c p = ancestors items p" using collapsing.ancestors_update 1(2) p(2) by simp
    moreover have "collapseUp items i = collapseUp ?c p" using p by (subst collapseUp.simps) simp
    moreover have "ancestors items i = p # ancestors items p" using p by (subst ancestors.simps) simp
    ultimately show ?thesis using 1(1) [OF refl p] 1(2, 3) p(2) len c by auto
  next
    case False
    then have "collapseUp items i = ?c" by (subst collapseUp.simps) (auto simp: Let_def split: option.split)
    moreover have "ancestors items i = []" using False by (subst ancestors.simps) (auto split: option.split)
    ultimately show ?thesis using c by simp
  qed
qed

section \<open>The invariant\<close>

definition itemInv :: "menuItem list \<Rightarrow> nat option \<Rightarrow> nat \<Rightarrow> bool" where
  \<comment> \<open>one item, given the active one: groups stay open, operations never open, and any other item is open
      only on the path to the active one, whose parents are open\<close>
  "itemInv items a j \<longleftrightarrow>
     miActive (items ! j) = (a = Some j)
     \<and> (miKind (items ! j) = GroupItem \<longrightarrow> miExpanded (items ! j) \<and> a \<noteq> Some j)
     \<and> (miKind (items ! j) = OperationItem \<longrightarrow> \<not> miExpanded (items ! j))
     \<and> (miKind (items ! j) \<noteq> GroupItem \<and> miExpanded (items ! j) \<longrightarrow> (\<exists>i. a = Some i \<and> j \<in> set (i # ancestors items i)))
     \<and> (\<forall>i. a = Some i \<and> j \<in> set (ancestors items i) \<longrightarrow> miExpanded (items ! j))"

definition menuInv :: "menuStore \<Rightarrow> bool" where
  "menuInv m \<longleftrightarrow>
     wfItems (mItems m) \<and> - 1 \<le> mActive m \<and> mActive m < int (length (mItems m))
     \<and> (\<forall>j < length (mItems m). itemInv (mItems m) (activeItem m) j)"

lemma activeItem_less: "activeItem m = Some i \<Longrightarrow> i < length (mItems m)"
  by (auto simp: activeItem_def itemAt_def split: if_splits)

lemma itemAt_less: "itemAt m n = Some i \<Longrightarrow> i < length (mItems m)"
  by (auto simp: itemAt_def split: if_splits)

lemma deactivate_rest:
  assumes "menuInv m"
  shows "skeleton (deactivate (mItems m) (activeItem m)) = skeleton (mItems m)"
    and "j < length (mItems m) \<Longrightarrow> \<not> miActive (deactivate (mItems m) (activeItem m) ! j)"
    and "j < length (mItems m) \<Longrightarrow>
      miExpanded (deactivate (mItems m) (activeItem m) ! j) = (miKind (mItems m ! j) = GroupItem)"
proof -
  let ?d = "deactivate (mItems m) (activeItem m)"
  show sk: "skeleton ?d = skeleton (mItems m)"
    by (simp add: deactivate_def menu_skeletons split: option.split)
  have "\<not> miActive (?d ! j) \<and> miExpanded (?d ! j) = (miKind (mItems m ! j) = GroupItem)" if j: "j < length (mItems m)"
  proof -
    have inv: "itemInv (mItems m) (activeItem m) j" using assms j unfolding menuInv_def by blast
    show ?thesis
    proof (cases "activeItem m")
      case None
      then show ?thesis using inv by (auto simp: deactivate_def itemInv_def)
    next
      case (Some i)
      let ?o = "(mItems m)[i := (mItems m ! i)\<lparr>miActive := False\<rparr>]"
      have i: "i < length (mItems m)" by (rule activeItem_less [OF Some])
      have anc: "ancestors ?o i = ancestors (mItems m) i"
        using ancestors_skeleton [OF skeleton_update(2) i] .
      have o: "miActive (?o ! j) = False" "miExpanded (?o ! j) = miExpanded (mItems m ! j)" "miKind (?o ! j) = miKind (mItems m ! j)"
        using inv Some i by (auto simp: itemInv_def nth_list_update)
      have "?d = collapseUp ?o i" using Some by (simp add: deactivate_def)
      then show ?thesis
        using collapseUp_spec [of i ?o j] i j inv Some unfolding o anc by (auto simp: itemInv_def)
    qed
  qed
  then show "j < length (mItems m) \<Longrightarrow> \<not> miActive (?d ! j)"
    and "j < length (mItems m) \<Longrightarrow> miExpanded (?d ! j) = (miKind (mItems m ! j) = GroupItem)" by blast+
qed

lemma activate_some:
  assumes inv: "menuInv m" and i: "i < length (mItems m)" and kind: "miKind (mItems m ! i) \<noteq> GroupItem"
  defines "d \<equiv> deactivate (mItems m) (activeItem m)"
  defines "x \<equiv> expandItem (d[i := (d ! i)\<lparr>miActive := True\<rparr>]) i"
  shows "skeleton x = skeleton (mItems m)" "j < length (mItems m) \<Longrightarrow> itemInv x (Some i) j"
proof -
  let ?a = "d[i := (d ! i)\<lparr>miActive := True\<rparr>]"
  have skd: "skeleton d = skeleton (mItems m)" unfolding d_def by (rule deactivate_rest(1) [OF inv])
  have ska: "skeleton ?a = skeleton (mItems m)" using skd skeleton_update(2) by simp
  show skx: "skeleton x = skeleton (mItems m)" unfolding x_def using ska expandItem_skeleton by simp
  assume j: "j < length (mItems m)"
  have len: "length ?a = length (mItems m)" by (rule skeleton_length [OF ska])
  have anca: "ancestors ?a i = ancestors (mItems m) i" by (rule ancestors_skeleton [OF ska i])
  have ancx: "ancestors x i = ancestors (mItems m) i" by (rule ancestors_skeleton [OF skx i])
  have wf: "wfItems (mItems m)" using inv unfolding menuInv_def by blast
  have a: "miActive (?a ! j) = (i = j)" "miExpanded (?a ! j) = (miKind (mItems m ! j) = GroupItem)"
    "miKind (?a ! j) = miKind (mItems m ! j)"
    using deactivate_rest(2, 3) [OF inv j] skeleton_nth(2) [OF ska j] len i j
    unfolding d_def [symmetric] by (auto simp: nth_list_update)
  have "miActive (x ! j) = (i = j)"
    "miExpanded (x ! j) = (miKind (mItems m ! j) = GroupItem
       \<or> j \<in> set (i # ancestors (mItems m) i) \<and> miKind (mItems m ! j) \<noteq> OperationItem)"
    using expandItem_spec [of i ?a j] i j unfolding x_def [symmetric] len a anca by auto
  then show "itemInv x (Some i) j"
    using ancestors_not_operation [OF wf i] kind unfolding itemInv_def skeleton_nth(2) [OF skx j] by (auto simp: ancx)
qed

lemma activate_inv:
  assumes inv: "menuInv m" and e: "\<And>i. e = Some i \<Longrightarrow> i < length (mItems m)"
  shows "menuInv (activate m e h r) \<and> skeleton (mItems (activate m e h r)) = skeleton (mItems m)"
proof (cases "idOf m (activeItem m) \<noteq> idOf m e \<and> (case e of None \<Rightarrow> True | Some i \<Rightarrow> miKind (mItems m ! i) \<noteq> GroupItem)")
  case False
  then have "activate m e h r = m" unfolding activate_def by (simp only: if_False)
  then show ?thesis using inv by simp
next
  case True
  let ?d = "deactivate (mItems m) (activeItem m)"
  have skd: "skeleton ?d = skeleton (mItems m)" by (rule deactivate_rest(1) [OF inv])
  have wf: "wfItems (mItems m)" using inv unfolding menuInv_def by blast
  show ?thesis
  proof (cases e)
    case None
    then have "activate m e h r = m\<lparr>mItems := ?d, mActive := - 1, mHistory := ([], r) # mHistory m\<rparr>"
      using True by (simp add: activate_def)
    moreover have "wfItems ?d" using wf wfItems_skeleton [OF skd] by simp
    moreover have "itemInv ?d None j" if "j < length (mItems m)" for j
      using deactivate_rest(2, 3) [OF inv that] skeleton_nth(2) [OF skd that] by (simp add: itemInv_def)
    ultimately show ?thesis using skd skeleton_length [OF skd]
      by (simp add: menuInv_def activeItem_def itemAt_def)
  next
    case (Some i)
    let ?x = "expandItem (?d[i := (?d ! i)\<lparr>miActive := True\<rparr>]) i"
    have i: "i < length (mItems m)" and kind: "miKind (mItems m ! i) \<noteq> GroupItem" using e Some True by auto
    have "0 < miDepth (?d ! i)" using wf i kind skeleton_nth(3) [OF skd i] unfolding wfItems_def by simp
    then have items: "mItems (activate m e h r) = ?x" and act: "mActive (activate m e h r) = int i"
      using True Some by (simp_all add: activate_def Let_def)
    note x = activate_some [OF inv i kind]
    have len: "length ?x = length (mItems m)" by (rule skeleton_length [OF x(1)])
    then have "activeItem (activate m e h r) = Some i" using i by (simp add: activeItem_def itemAt_def items act)
    moreover have "wfItems ?x" using wf wfItems_skeleton [OF x(1)] by simp
    ultimately show ?thesis using x i len by (simp add: menuInv_def items act)
  qed
qed

lemma menuInv_sideBar [simp]: "menuInv (m\<lparr>mSideBar := b\<rparr>) = menuInv m"
  by (simp add: menuInv_def activeItem_def itemAt_def)

lemma findItem_less: "findItem m P = Some i \<Longrightarrow> i < length (mItems m)"
  by (auto simp: findItem_def Let_def split: if_splits)

lemma activateAndScroll_inv:
  assumes inv: "menuInv m" and e: "\<And>i. e = Some i \<Longrightarrow> i < length (mItems m)"
  shows "menuInv (activateAndScroll m e h r)"
proof -
  let ?r = "case e of None \<Rightarrow> None
    | Some i \<Rightarrow> (case findItem m (\<lambda>x. x = miId (mItems m ! i)) of Some j \<Rightarrow> Some j | None \<Rightarrow> Some i)"
  have "menuInv (activate m ?r h r)"
    by (rule activate_inv [OF inv, THEN conjunct1]) (auto split: option.splits dest: findItem_less e)
  then show ?thesis
    unfolding activateAndScroll_def Let_def closeSidebar_def by (auto split: option.split)
qed

lemma click_inv:
  assumes inv: "menuInv m" and i: "i < length (mItems m)"
  shows "menuInv (clickItem toggle m i)"
proof (cases "miActive (mItems m ! i) \<and> toggle")
  case False
  then have "clickItem toggle m i = activateAndScroll m (Some i) True False" unfolding clickItem_def by (simp only: if_False)
  then show ?thesis using activateAndScroll_inv [OF inv, of "Some i"] i by simp
next
  case True
  let ?y = "if miExpanded (mItems m ! i) then collapseItem (mItems m) i else expandItem (mItems m) i"
  have sk: "skeleton ?y = skeleton (mItems m)" by (simp add: menu_skeletons)
  have len: "length ?y = length (mItems m)" by (rule skeleton_length [OF sk])
  have wf: "wfItems (mItems m)" and act: "activeItem m = Some i"
    using inv i True unfolding menuInv_def itemInv_def by blast+
  have anc: "ancestors ?y i = ancestors (mItems m) i" by (rule ancestors_skeleton [OF sk i])
  have "itemInv ?y (Some i) j" if j: "j < length (mItems m)" for j
  proof -
    have old: "itemInv (mItems m) (Some i) j" using inv j act unfolding menuInv_def by simp
    have "miActive (?y ! j) = miActive (mItems m ! j)"
      "miExpanded (?y ! j) = (if j = i then (miKind (mItems m ! i) \<noteq> OperationItem \<and> \<not> miExpanded (mItems m ! i)
                                \<or> miKind (mItems m ! i) = GroupItem) else miExpanded (mItems m ! j))"
      using expandItem_spec [of i "mItems m" j] i j old by (auto simp: collapseItem_def nth_list_update itemInv_def)
    moreover have "i \<notin> set (ancestors (mItems m) i)" using ancestors_less by blast
    ultimately show ?thesis
      using old unfolding itemInv_def skeleton_nth(2) [OF sk j] by (auto simp: anc)
  qed
  moreover have "wfItems ?y" using wf wfItems_skeleton [OF sk] by simp
  moreover have "clickItem toggle m i = m\<lparr>mItems := ?y\<rparr>" using True by (simp add: clickItem_def)
  ultimately show ?thesis using inv act len by (simp add: menuInv_def activeItem_def itemAt_def)
qed

lemma menuStep_inv: "menuStep m m' \<Longrightarrow> menuInv m \<Longrightarrow> menuInv m'"
proof (induction rule: menuStep.induct)
  case (click i m menuToggle)
  then show ?case by (simp add: click_inv)
next
  case (search i m)
  then show ?case using activateAndScroll_inv [of m "Some i"] by simp
next
  case (scroll pg m down m')
  then show ?case using activate_inv [OF scroll(2)] itemAt_less by (auto simp: updateOnScroll_def)
next
  case (hash m e)
  have "menuInv (activateAndScroll m (findItem m P) False False)" for P
    by (rule activateAndScroll_inv [OF hash findItem_less])
  from this [of "\<lambda>x. x = e"] this [of "\<lambda>x. hasPrefix authSection x"]
  show ?case using hash by (auto simp: updateOnHistory_def split: option.split)
next
  case (toggle m)
  then show ?case by (simp add: toggleSidebar_def)
next
  case (close m)
  then show ?case by (simp add: closeSidebar_def)
qed

section \<open>The flat list\<close>

fun wfTree :: "menuTree \<Rightarrow> bool" where
  \<comment> \<open>operations have no items, and only groups are at depth 0\<close>
  "wfTree (MenuTree i k d ts) \<longleftrightarrow>
     (k = OperationItem \<longrightarrow> ts = []) \<and> (k \<noteq> GroupItem \<longrightarrow> 0 < d) \<and> list_all wfTree ts"

definition parentOk :: "nat option \<Rightarrow> nat \<Rightarrow> menuItem list \<Rightarrow> nat \<Rightarrow> bool" where
  "parentOk parent pos xs j \<longleftrightarrow>
     miParent (xs ! j) = parent
     \<or> (\<exists>p < j. miParent (xs ! j) = Some (pos + p) \<and> miKind (xs ! p) \<noteq> OperationItem)"

definition freshItem :: "menuItem \<Rightarrow> bool" where
  "freshItem it \<longleftrightarrow>
     (miKind it \<noteq> GroupItem \<longrightarrow> 0 < miDepth it) \<and> \<not> miActive it \<and> miExpanded it = (miKind it = GroupItem)"

definition flatOk :: "nat option \<Rightarrow> nat \<Rightarrow> menuItem list \<Rightarrow> bool" where
  "flatOk parent pos xs \<longleftrightarrow> (\<forall>j < length xs. parentOk parent pos xs j) \<and> list_all freshItem xs"

lemma parentOk_append_left:
  assumes "parentOk parent pos xs j" and "j < length xs"
  shows "parentOk parent pos (xs @ ys) j"
  using assms unfolding parentOk_def
proof (elim disjE exE conjE)
  fix p assume "p < j" "miParent (xs ! j) = Some (pos + p)" "miKind (xs ! p) \<noteq> OperationItem"
  then show "miParent ((xs @ ys) ! j) = parent
      \<or> (\<exists>p<j. miParent ((xs @ ys) ! j) = Some (pos + p) \<and> miKind ((xs @ ys) ! p) \<noteq> OperationItem)"
    using assms(2) by (intro disjI2 exI [of _ p]) (simp add: nth_append)
qed (simp add: nth_append)

lemma parentOk_append_right:
  assumes "parentOk parent (pos + length xs) ys k"
  shows "parentOk parent pos (xs @ ys) (length xs + k)"
  using assms unfolding parentOk_def
proof (elim disjE exE conjE)
  fix p assume "p < k" "miParent (ys ! k) = Some (pos + length xs + p)" "miKind (ys ! p) \<noteq> OperationItem"
  then show "miParent ((xs @ ys) ! (length xs + k)) = parent \<or> (\<exists>p<length xs + k.
      miParent ((xs @ ys) ! (length xs + k)) = Some (pos + p) \<and> miKind ((xs @ ys) ! p) \<noteq> OperationItem)"
    by (intro disjI2 exI [of _ "length xs + p"]) simp
qed simp

lemma flatOk_append:
  assumes "flatOk parent pos xs" and "flatOk parent (pos + length xs) ys"
  shows "flatOk parent pos (xs @ ys)"
proof -
  have "parentOk parent pos (xs @ ys) j" if "j < length (xs @ ys)" for j
  proof (cases "j < length xs")
    case True
    then show ?thesis using assms(1) parentOk_append_left unfolding flatOk_def by blast
  next
    case False
    then have j: "j = length xs + (j - length xs)" and "j - length xs < length ys" using that by auto
    then have "parentOk parent (pos + length xs) ys (j - length xs)" using assms(2) unfolding flatOk_def by blast
    then show ?thesis using parentOk_append_right j by metis
  qed
  then show ?thesis using assms unfolding flatOk_def by simp
qed

lemma flatOk_Cons:
  assumes "freshItem x" and "miParent x = parent" and "miKind x = OperationItem \<Longrightarrow> ys = []"
    and ys: "flatOk (Some pos) (Suc pos) ys"
  shows "flatOk parent pos (x # ys)"
proof -
  have "parentOk parent pos (x # ys) j" if j: "j < length (x # ys)" for j
  proof (cases j)
    case 0
    then show ?thesis using assms(2) by (simp add: parentOk_def)
  next
    case (Suc l)
    then have "parentOk (Some pos) (Suc pos) ys l" and op: "miKind x \<noteq> OperationItem"
      using ys assms(3) j unfolding flatOk_def by auto
    then consider "miParent (ys ! l) = Some pos"
      | p where "p < l" "miParent (ys ! l) = Some (Suc pos + p)" "miKind (ys ! p) \<noteq> OperationItem"
      unfolding parentOk_def by blast
    then show ?thesis
    proof cases
      case 1
      then show ?thesis using Suc op unfolding parentOk_def by (intro disjI2 exI [of _ 0]) simp
    next
      case 2
      then show ?thesis using Suc unfolding parentOk_def by (intro disjI2 exI [of _ "Suc p"]) simp
    qed
  qed
  then show ?thesis using assms(1) ys unfolding flatOk_def by simp
qed

lemma length_flat: "length (flatTree parent pos t) = treeSize t"
  "length (flatItems parent pos ts) = sum_list (map treeSize ts)"
  by (induction parent pos t and parent pos ts rule: flatTree_flatItems.induct) simp_all

lemma flat_ok: "wfTree t \<Longrightarrow> flatOk parent pos (flatTree parent pos t)"
  "list_all wfTree ts \<Longrightarrow> flatOk parent pos (flatItems parent pos ts)"
proof (induction parent pos t and parent pos ts rule: flatTree_flatItems.induct)
  case (1 parent pos i k d ts)
  then show ?case unfolding flatTree.simps by (intro flatOk_Cons) (auto simp: freshItem_def)
next
  case (2 parent pos)
  then show ?case by (simp add: flatOk_def)
next
  case (3 parent pos t ts)
  then show ?case by (simp add: flatOk_append length_flat)
qed

lemma newMenu_inv:
  assumes "list_all wfTree ts"
  shows "menuInv (newMenu ts)"
proof -
  have "flatOk None 0 (flatItems None 0 ts)" by (rule flat_ok(2) [OF assms])
  then have one: "freshItem (flatItems None 0 ts ! j)" "parentOk None 0 (flatItems None 0 ts) j"
    if "j < length (flatItems None 0 ts)" for j
    using that unfolding flatOk_def list_all_length by blast+
  have "wfItems (flatItems None 0 ts)" using one unfolding wfItems_def parentOk_def freshItem_def by fastforce
  moreover have "itemInv (flatItems None 0 ts) None j" if "j < length (flatItems None 0 ts)" for j
    using one(1) [OF that] unfolding itemInv_def freshItem_def by auto
  ultimately show ?thesis by (simp add: newMenu_def menuInv_def activeItem_def itemAt_def)
qed

lemma menuReach_inv: "menuReach ts m \<Longrightarrow> list_all wfTree ts \<Longrightarrow> menuInv m"
  by (induction rule: menuReach.induct) (blast intro: newMenu_inv menuStep_inv)+

definition demoMenu :: "menuTree list" where
  "demoMenu =
     [MenuTree ''section/Intro'' SectionItem 1 [],
      MenuTree ''tag/pets'' TagItem 1
        [MenuTree ''tag/pets/operation/list'' OperationItem 2 [], MenuTree ''tag/pets/operation/add'' OperationItem 2 []]]"

lemma demoMenu_reach: "list_all wfTree demoMenu" "menuReach demoMenu (clickItem False (newMenu demoMenu) 2)"
proof -
  show "list_all wfTree demoMenu" by (simp add: demoMenu_def)
  have "2 < length (mItems (newMenu demoMenu))" by (simp add: newMenu_def demoMenu_def)
  then show "menuReach demoMenu (clickItem False (newMenu demoMenu) 2)"
    by (rule menuReach.menu_step [OF menuReach.menu_new menuStep.click])
qed

section \<open>What scrolling activates\<close>

definition scrollTarget :: "page \<Rightarrow> menuStore \<Rightarrow> bool \<Rightarrow> int \<Rightarrow> int \<Rightarrow> bool" where
  \<comment> \<open>going down, the last item before the first one still below the offset; going up, the first item above it\<close>
  "scrollTarget pg m down a n \<longleftrightarrow>
     (if down
      then a \<le> n \<and> n < max (int (length (mItems m))) (a + 1)
           \<and> (int (length (mItems m)) - 1 \<le> n \<or> isElementBellow pg (getElementAtOrFirstChild pg m (n + 1)))
           \<and> (\<forall>k. a \<le> k \<and> k < n \<longrightarrow> \<not> isElementBellow pg (getElementAtOrFirstChild pg m (k + 1)))
      else - 1 \<le> n \<and> n \<le> a \<and> (n = - 1 \<or> isElementAbove pg (getElementAt pg m n))
           \<and> (\<forall>k. n < k \<and> k \<le> a \<longrightarrow> \<not> isElementAbove pg (getElementAt pg m k)))"

lemma scroll_down: "\<exists>n. scrollLoop pg m True a = Some n \<and> scrollTarget pg m True a n"
proof (induction "nat (int (length (mItems m)) - a)" arbitrary: a rule: less_induct)
  case less
  let ?below = "\<lambda>k. isElementBellow pg (getElementAtOrFirstChild pg m (k + 1))"
  show ?case
  proof (cases "int (length (mItems m)) - 1 \<le> a \<or> ?below a")
    case True
    then have "scrollLoop pg m True a = Some a" by (subst scrollLoop.simps) auto
    then show ?thesis using True by (intro exI [of _ a]) (auto simp: scrollTarget_def)
  next
    case False
    then obtain n where n: "scrollLoop pg m True (a + 1) = Some n" "scrollTarget pg m True (a + 1) n"
      using less [of "a + 1"] by auto
    have "scrollLoop pg m True a = scrollLoop pg m True (a + 1)" using False by (subst scrollLoop.simps) auto
    moreover have "\<not> ?below k" if "a \<le> k" "k < n" for k
      using n(2) False that by (cases "k = a") (auto simp: scrollTarget_def)
    ultimately show ?thesis using n False by (intro exI [of _ n]) (auto simp: scrollTarget_def)
  qed
qed

lemma scroll_up: "- 1 \<le> a \<Longrightarrow> \<exists>n. scrollLoop pg m False a = Some n \<and> scrollTarget pg m False a n"
proof (induction "nat (a + 1)" arbitrary: a rule: less_induct)
  case less
  let ?above = "\<lambda>k. isElementAbove pg (getElementAt pg m k)"
  show ?case
  proof (cases "a = - 1 \<or> ?above a")
    case True
    then have "scrollLoop pg m False a = Some a" by (subst scrollLoop.simps) auto
    then show ?thesis using True less(2) by (intro exI [of _ a]) (auto simp: scrollTarget_def)
  next
    case False
    then obtain n where n: "scrollLoop pg m False (a - 1) = Some n" "scrollTarget pg m False (a - 1) n"
      using less(1) [of "a - 1"] less(2) by auto
    have "scrollLoop pg m False a = scrollLoop pg m False (a - 1)" using False by (subst scrollLoop.simps) auto
    moreover have "\<not> ?above k" if "n < k" "k \<le> a" for k
      using n(2) False that by (cases "k = a") (auto simp: scrollTarget_def)
    ultimately show ?thesis using n by (intro exI [of _ n]) (auto simp: scrollTarget_def)
  qed
qed

lemma activate_index:
  assumes inv: "menuInv m" and ids: "distinct (map miId (mItems m))"
    and n: "itemAt m n = None \<or> (\<exists>i. itemAt m n = Some i \<and> miKind (mItems m ! i) \<noteq> GroupItem)" and "- 1 \<le> n" and "n < int (length (mItems m))"
  shows "mActive (activate m (itemAt m n) h r) = n"
proof (cases "itemAt m n")
  case None
  then have "n = - 1" using assms(4, 5) by (auto simp: itemAt_def split: if_splits)
  moreover have "mActive m = - 1" if "activeItem m = None"
    using that inv by (auto simp: menuInv_def activeItem_def itemAt_def split: if_splits)
  ultimately show ?thesis using None by (cases "activeItem m") (auto simp: activate_def idOf_def Let_def)
next
  case (Some i)
  then have i: "i < length (mItems m)" "n = int i" by (auto simp: itemAt_def split: if_splits)
  have kind: "miKind (mItems m ! i) \<noteq> GroupItem" using n Some by simp
  let ?d = "deactivate (mItems m) (activeItem m)"
  have "0 < miDepth (?d ! i)"
    using inv i(1) kind skeleton_nth(3) [OF deactivate_rest(1) [OF inv] i(1)] unfolding menuInv_def wfItems_def by simp
  moreover have "mActive m = int i" if same: "idOf m (activeItem m) = idOf m (Some i)"
  proof -
    obtain j where j: "activeItem m = Some j" "miId (mItems m ! j) = miId (mItems m ! i)"
      using same unfolding idOf_def by (auto simp: map_option_case split: option.splits)
    then have "j = i" using nth_eq_iff_index_eq [OF ids, of j i] i(1) activeItem_less [OF j(1)] by simp
    then show ?thesis using j(1) by (auto simp: activeItem_def itemAt_def split: if_splits)
  qed
  ultimately show ?thesis using Some i kind by (auto simp: activate_def Let_def)
qed

lemma scroll_activates:
  assumes "list_all wfTree ts" and "menuReach ts m" and "distinct (map miId (mItems m))"
  shows "\<exists>n m'. updateOnScroll pg m down = Some m' \<and> scrollTarget pg m down (mActive m) n
           \<and> ((\<forall>i. itemAt m n = Some i \<longrightarrow> miKind (mItems m ! i) \<noteq> GroupItem) \<longrightarrow> mActive m' = n)"
proof -
  have inv: "menuInv m" using assms(1, 2) menuReach_inv by blast
  then have range: "- 1 \<le> mActive m" "mActive m < int (length (mItems m))" unfolding menuInv_def by blast+
  obtain n where n: "scrollLoop pg m down (mActive m) = Some n" "scrollTarget pg m down (mActive m) n"
    using scroll_down [of pg m "mActive m"] scroll_up [OF range(1), of pg m] by (cases down) auto
  then have b: "- 1 \<le> n" "n < int (length (mItems m))" using range by (auto simp: scrollTarget_def split: if_splits)
  have "(\<forall>i. itemAt m n = Some i \<longrightarrow> miKind (mItems m ! i) \<noteq> GroupItem)
      \<longrightarrow> mActive (activate m (itemAt m n) True True) = n"
    using activate_index [OF inv assms(3) _ b] by (cases "itemAt m n") auto
  then show ?thesis using n by (auto simp: updateOnScroll_def)
qed

definition demoPage :: page where
  "demoPage = \<lparr>pgTop = (\<lambda>s. if s = ''section/Intro'' then Some (- 300) else if s = ''tag/pets'' then Some (- 20) else Some 400),
               pgOffset = 0\<rparr>"

section \<open>Restoring a saved menu\<close>

lemma activate_active: "activate m (activeItem m) h r = m"
  by (simp add: activate_def)

lemma flat_inactive: "list_all (\<lambda>it. \<not> miActive it) (flatTree parent pos t)"
  "list_all (\<lambda>it. \<not> miActive it) (flatItems parent pos ts)"
  by (induction parent pos t and parent pos ts rule: flatTree_flatItems.induct) simp_all

text \<open>
  Restoring a saved menu never shows the saved item as active: the index is set before the item is activated,
  so activation finds it active already and does nothing; no item is active although the index names one.\<close>
theorem restored_menu_not_active:
  "mActive (restoreMenu (newMenu ts) saved) = saved
   \<and> mItems (restoreMenu (newMenu ts) saved) = mItems (newMenu ts)
   \<and> mHistory (restoreMenu (newMenu ts) saved) = []
   \<and> list_all (\<lambda>it. \<not> miActive it) (mItems (restoreMenu (newMenu ts) saved))"
proof -
  have "restoreMenu (newMenu ts) saved = (newMenu ts)\<lparr>mActive := saved\<rparr>"
    using activate_active [of "(newMenu ts)\<lparr>mActive := saved\<rparr>"] by (simp add: restoreMenu_def activeItem_def)
  then show ?thesis by (simp add: newMenu_def flat_inactive)
qed

end
