(* ===== verification/MenuBuilder.thy ===== *)
theory MenuBuilder
  imports MenuStore RedocSpec "HOL-Library.Multiset"
begin

text \<open>
  How the Redoc viewer builds its menu from the API description (\<^verbatim>\<open>redoc.standalone.js\<close>, line 752: the
  builder \<^verbatim>\<open>hf\<close>; line 41: the names and ids of operations \<^verbatim>\<open>Tu\<close> and the heading collector \<^verbatim>\<open>Ml\<close>). The
  operations are collected by tag, following the references of path items, on an explicit stack of what
  is under way; a script error is the left of the result. The slugs of names, the order of the reader's
  language and the headings the Markdown renderer reports are parameters.
\<close>

section \<open>Operations by tag\<close>

record opItem =
  opSpec :: json
  opPathName :: string
  opPointer :: string
  opHttpVerb :: string
  opPathParams :: json
  opPathServers :: "json option"
  opWebhook :: bool

record tagEntry =
  teInfo :: "(string \<times> json) list"
  teOps :: "opItem list"

type_synonym tagMap = "(string \<times> tagEntry) list"

fun jsText :: "json \<Rightarrow> string" and jsElem :: "json \<Rightarrow> string" where
  \<comment> \<open>a value as a property name; in an array null reads as empty\<close>
  "jsText NullV = ''null''"
| "jsText (BoolV b) = (if b then ''true'' else ''false'')"
| "jsText (NumV n) = decimal n"
| "jsText (FracV s) = s"
| "jsText (TextV s) = s"
| "jsText (ListV xs) = joinWith (CHR '','') (map jsElem xs)"
| "jsText (ObjV fs) = ''[object Object]''"
| "jsElem v = (if v = NullV then [] else jsText v)"

definition textOf :: "json option \<Rightarrow> string" where
  "textOf v = (case v of None \<Rightarrow> ''undefined'' | Some j \<Rightarrow> jsText j)"

definition truthyAt :: "json \<Rightarrow> string \<Rightarrow> json option" where
  \<comment> \<open>the field, if it counts as true\<close>
  "truthyAt e k = (case field e k of None \<Rightarrow> None | Some v \<Rightarrow> if jsonTruthy v then Some v else None)"

definition protoNames :: "string list" where
  \<comment> \<open>what every object inherits\<close>
  "protoNames = [''constructor'', ''__defineGetter__'', ''__defineSetter__'', ''hasOwnProperty'', ''__lookupGetter__'',
     ''__lookupSetter__'', ''isPrototypeOf'', ''propertyIsEnumerable'', ''toString'', ''valueOf'', ''__proto__'', ''toLocaleString'']"

definition isOperationName :: "string \<Rightarrow> bool" where
  "isOperationName k \<longleftrightarrow>
     k \<in> set [''get'', ''post'', ''put'', ''head'', ''patch'', ''delete'', ''options'', ''$ref''] \<or> k \<in> set protoNames"

definition opKeys :: "json \<Rightarrow> string list" where
  "opKeys a = filter isOperationName (map fst (ownFields a))"

definition opTags :: "json option \<Rightarrow> specErr + json list" where
  \<comment> \<open>without tags an operation is under the empty one; what has a length and cannot be iterated is an error\<close>
  "opTags s =
     (case (case s of None \<Rightarrow> None | Some v \<Rightarrow> truthyAt v ''tags'') of
        Some (ListV (x # xs)) \<Rightarrow> Inr (x # xs)
      | Some (TextV (c # cs)) \<Rightarrow> Inr (map (\<lambda>c. TextV [c]) (c # cs))
      | Some (ObjV fs) \<Rightarrow> if truthyAt (ObjV fs) ''length'' \<noteq> None then Inl RefTypeError else Inr [TextV []]
      | _ \<Rightarrow> Inr [TextV []])"

definition isTrait :: "tagEntry \<Rightarrow> bool" where
  "isTrait te \<longleftrightarrow> truthyAt (ObjV (teInfo te)) ''x-traitTag'' \<noteq> None"

definition addToTag :: "opItem \<Rightarrow> tagMap \<Rightarrow> json \<Rightarrow> specErr + tagMap" where
  \<comment> \<open>an undeclared tag with the name of an inherited property finds that property, which has no operations\<close>
  "addToTag op m e =
     (let k = jsText e
      in case map_of m k of
           Some te \<Rightarrow> Inr (if isTrait te then m else setKey m k (te\<lparr>teOps := teOps te @ [op]\<rparr>))
         | None \<Rightarrow> if k \<in> set protoNames then Inl RefTypeError
                   else Inr (setKey m k \<lparr>teInfo = [(''name'', e)], teOps = [op]\<rparr>))"

fun addToTags :: "opItem \<Rightarrow> tagMap \<Rightarrow> json list \<Rightarrow> specErr + tagMap" where
  "addToTags op m [] = Inr m"
| "addToTags op m (e # es) = (case addToTag op m e of Inl err \<Rightarrow> Inl err | Inr m' \<Rightarrow> addToTags op m' es)"

definition opEntry :: "bool \<Rightarrow> string \<Rightarrow> json \<Rightarrow> string \<Rightarrow> opItem" where
  "opEntry webhook pathName a verb =
     \<lparr>opSpec = (case field a verb of None \<Rightarrow> NullV | Some s \<Rightarrow> s), opPathName = pathName,
      opPointer = compilePointer [''paths'', pathName, verb], opHttpVerb = verb,
      opPathParams = (case truthyAt a ''parameters'' of None \<Rightarrow> ListV [] | Some p \<Rightarrow> p),
      opPathServers = field a ''servers'', opWebhook = webhook\<rparr>"

definition addOperation :: "bool \<Rightarrow> string \<Rightarrow> json \<Rightarrow> string \<Rightarrow> tagMap \<Rightarrow> specErr + tagMap" where
  "addOperation webhook pathName a verb m =
     (case opTags (field a verb) of Inl err \<Rightarrow> Inl err | Inr tags \<Rightarrow> addToTags (opEntry webhook pathName a verb) m tags)"

datatype tagFrame = PathsF "(string \<times> json) list" | VerbsF string json "string list"

partial_function (option) getTags :: "parserConf \<Rightarrow> bool \<Rightarrow> tagFrame list \<Rightarrow> tagMap \<Rightarrow> (specErr + tagMap) option" where
  \<comment> \<open>the inner function of \<^verbatim>\<open>getTagsWithOperations\<close>; the stack holds the loops under way\<close>
  "getTags pc webhook fs m =
     (case fs of
        [] \<Rightarrow> Some (Inr m)
      | PathsF ps # fs' \<Rightarrow>
          (case ps of
             [] \<Rightarrow> getTags pc webhook fs' m
           | p # ps' \<Rightarrow> if snd p = NullV then Some (Inl RefTypeError)
                        else getTags pc webhook (VerbsF (fst p) (snd p) (opKeys (snd p)) # PathsF ps' # fs') m)
      | VerbsF pathName a vs # fs' \<Rightarrow>
          (case vs of
             [] \<Rightarrow> getTags pc webhook fs' m
           | verb # vs' \<Rightarrow>
               (if truthyAt a ''$ref'' \<noteq> None
                then case deref pc a [] False of
                       None \<Rightarrow> None
                     | Some (Inl err) \<Rightarrow> Some (Inl err)
                     | Some (Inr (resolved, _)) \<Rightarrow>
                         getTags pc webhook (PathsF [(pathName, resolved)] # VerbsF pathName a vs' # fs') m
                else case addOperation webhook pathName a verb m of
                       Inl err \<Rightarrow> Some (Inl err)
                     | Inr m' \<Rightarrow> getTags pc webhook (VerbsF pathName a vs' # fs') m')))"

fun declareTags :: "tagMap \<Rightarrow> json list \<Rightarrow> specErr + tagMap" where
  "declareTags m [] = Inr m"
| "declareTags m (e # es) =
     (if e = NullV then Inl RefTypeError
      else declareTags (setKey m (textOf (field e ''name'')) \<lparr>teInfo = withoutKeys [''operations''] (ownFields e), teOps = []\<rparr>) es)"

definition iterate :: "json \<Rightarrow> specErr + json list" where
  \<comment> \<open>what \<^verbatim>\<open>for ... of\<close> runs over\<close>
  "iterate v = (case v of ListV xs \<Rightarrow> Inr xs | TextV s \<Rightarrow> Inr (map (\<lambda>c. TextV [c]) s) | _ \<Rightarrow> Inl RefTypeError)"

definition declaredTags :: "json \<Rightarrow> specErr + tagMap" where
  "declaredTags spec =
     (case truthyAt spec ''tags'' of
        None \<Rightarrow> Inr []
      | Some v \<Rightarrow> (case iterate v of Inl err \<Rightarrow> Inl err | Inr es \<Rightarrow> declareTags [] es))"

definition webhooksOf :: "json \<Rightarrow> (string \<times> json) list" where
  "webhooksOf spec =
     (case truthyAt spec ''x-webhooks'' of
        Some v \<Rightarrow> ownFields v
      | None \<Rightarrow> (case truthyAt spec ''webhooks'' of Some v \<Rightarrow> ownFields v | None \<Rightarrow> []))"

definition pathsOf :: "json \<Rightarrow> (string \<times> json) list" where
  "pathsOf spec = (case truthyAt spec ''paths'' of Some v \<Rightarrow> ownFields v | None \<Rightarrow> [])"

definition getTagsWithOperations :: "parserConf \<Rightarrow> json \<Rightarrow> (specErr + tagMap) option" where
  "getTagsWithOperations pc spec =
     (case declaredTags spec of
        Inl err \<Rightarrow> Some (Inl err)
      | Inr m \<Rightarrow>
          (case getTags pc True [PathsF (webhooksOf spec)] m of
             None \<Rightarrow> None
           | Some (Inl err) \<Rightarrow> Some (Inl err)
           | Some (Inr m') \<Rightarrow> getTags pc False [PathsF (pathsOf spec)] m'))"

section \<open>Which operations a tag has\<close>

definition opsUnder :: "tagMap \<Rightarrow> string \<Rightarrow> opItem list" where
  "opsUnder m k = (case map_of m k of None \<Rightarrow> [] | Some te \<Rightarrow> teOps te)"

definition traitName :: "tagMap \<Rightarrow> string \<Rightarrow> bool" where
  "traitName m k = (case map_of m k of None \<Rightarrow> False | Some te \<Rightarrow> isTrait te)"

definition tagNames :: "json \<Rightarrow> string \<Rightarrow> string list" where
  \<comment> \<open>the tags of an operation of a path item\<close>
  "tagNames a verb = (case opTags (field a verb) of Inl _ \<Rightarrow> [] | Inr es \<Rightarrow> map jsText es)"

definition listed :: "bool \<Rightarrow> string \<Rightarrow> (string \<times> json) list \<Rightarrow> opItem list" where
  \<comment> \<open>the operations that name a tag, in the order of the description\<close>
  "listed webhook k ps =
     concat (map (\<lambda>p. concat (map (\<lambda>v. replicate (count_list (tagNames (snd p) v) k) (opEntry webhook (fst p) (snd p) v))
                                 (opKeys (snd p)))) ps)"

definition refFree :: "(string \<times> json) list \<Rightarrow> bool" where
  "refFree ps = list_all (\<lambda>p. truthyAt (snd p) ''$ref'' = None) ps"

definition cleanPaths :: "(string \<times> json) list \<Rightarrow> bool" where
  \<comment> \<open>no path item is null and no operation names an inherited property as its tag\<close>
  "cleanPaths ps =
     list_all (\<lambda>p. snd p \<noteq> NullV
        \<and> list_all (\<lambda>v. isl (opTags (field (snd p) v)) = False \<and> list_all (\<lambda>k. k \<notin> set protoNames) (tagNames (snd p) v))
            (opKeys (snd p))) ps"

lemma addToTag_spec:
  assumes "addToTag op m e = Inr m'"
  shows "opsUnder m' k = opsUnder m k @ (if jsText e = k \<and> \<not> traitName m k then [op] else [])"
    and "traitName m' k = traitName m k"
proof -
  have fresh: "\<not> isTrait \<lparr>teInfo = [(''name'', e)], teOps = [op]\<rparr>" by (simp add: isTrait_def truthyAt_def)
  show "opsUnder m' k = opsUnder m k @ (if jsText e = k \<and> \<not> traitName m k then [op] else [])"
    using assms by (auto simp: addToTag_def Let_def opsUnder_def traitName_def map_of_setKey split: option.splits if_splits)
  show "traitName m' k = traitName m k"
    using assms fresh by (auto simp: addToTag_def Let_def traitName_def isTrait_def map_of_setKey split: option.splits if_splits)
qed

lemma addToTags_spec:
  "addToTags op m es = Inr m' \<Longrightarrow>
   opsUnder m' k = opsUnder m k @ (if traitName m k then [] else replicate (count_list (map jsText es) k) op)
   \<and> traitName m' k = traitName m k"
proof (induction op m es rule: addToTags.induct)
  case (2 op m e es)
  then obtain m1 where m1: "addToTag op m e = Inr m1" by (auto split: sum.splits)
  note step = addToTag_spec [OF m1, of k] 
  show ?case using 2 m1 step by (auto simp: replicate_append_same)
qed simp

lemma addToTags_clean:
  "list_all (\<lambda>e. jsText e \<notin> set protoNames) es \<Longrightarrow> \<exists>m'. addToTags op m es = Inr m'"
proof (induction es arbitrary: m)
  case (Cons e es)
  have "\<exists>m1. addToTag op m e = Inr m1"
    using Cons.prems by (cases "map_of m (jsText e)") (simp_all add: addToTag_def Let_def)
  then obtain m1 where "addToTag op m e = Inr m1" by blast
  then show ?case using Cons by simp
qed simp

fun addVerbs :: "bool \<Rightarrow> string \<Rightarrow> json \<Rightarrow> string list \<Rightarrow> tagMap \<Rightarrow> specErr + tagMap" where
  "addVerbs webhook o' a [] m = Inr m"
| "addVerbs webhook o' a (v # vs) m =
     (case addOperation webhook o' a v m of Inl err \<Rightarrow> Inl err | Inr m' \<Rightarrow> addVerbs webhook o' a vs m')"

fun addPaths :: "bool \<Rightarrow> (string \<times> json) list \<Rightarrow> tagMap \<Rightarrow> specErr + tagMap" where
  "addPaths webhook [] m = Inr m"
| "addPaths webhook (p # ps) m =
     (if snd p = NullV then Inl RefTypeError
      else case addVerbs webhook (fst p) (snd p) (opKeys (snd p)) m of Inl err \<Rightarrow> Inl err | Inr m' \<Rightarrow> addPaths webhook ps m')"

lemma getTags_verbs:
  "truthyAt a ''$ref'' = None \<Longrightarrow>
   getTags pc webhook (VerbsF o' a vs # fs) m =
     (case addVerbs webhook o' a vs m of Inl err \<Rightarrow> Some (Inl err) | Inr m' \<Rightarrow> getTags pc webhook fs m')"
proof (induction vs arbitrary: m)
  case Nil
  show ?case by (subst getTags.simps) simp
next
  case (Cons v vs)
  show ?case using Cons
    by (subst getTags.simps) (cases "addOperation webhook o' a v m", simp_all)
qed

lemma getTags_paths:
  "refFree ps \<Longrightarrow>
   getTags pc webhook (PathsF ps # fs) m =
     (case addPaths webhook ps m of Inl err \<Rightarrow> Some (Inl err) | Inr m' \<Rightarrow> getTags pc webhook fs m')"
proof (induction ps arbitrary: m)
  case Nil
  show ?case by (subst getTags.simps) simp
next
  case (Cons p ps)
  then show ?case
    by (subst getTags.simps) (auto simp: refFree_def getTags_verbs split: sum.splits)
qed

lemma addVerbs_spec:
  "addVerbs webhook o' a vs m = Inr m' \<Longrightarrow>
   opsUnder m' k = opsUnder m k @ (if traitName m k then []
     else concat (map (\<lambda>v. replicate (count_list (tagNames a v) k) (opEntry webhook o' a v)) vs))
   \<and> traitName m' k = traitName m k"
proof (induction vs arbitrary: m)
  case (Cons v vs)
  then obtain es m1 where e: "opTags (field a v) = Inr es" "addToTags (opEntry webhook o' a v) m es = Inr m1"
    "addVerbs webhook o' a vs m1 = Inr m'" by (auto simp: addOperation_def split: sum.splits)
  have "tagNames a v = map jsText es" by (simp add: tagNames_def e(1))
  then show ?case using addToTags_spec [OF e(2), of k] Cons.IH [OF e(3)] by auto
qed simp

lemma addPaths_spec:
  "addPaths webhook ps m = Inr m' \<Longrightarrow>
   opsUnder m' k = opsUnder m k @ (if traitName m k then [] else listed webhook k ps) \<and> traitName m' k = traitName m k"
proof (induction ps arbitrary: m)
  case (Cons p ps)
  then obtain m1 where m1: "addVerbs webhook (fst p) (snd p) (opKeys (snd p)) m = Inr m1" "addPaths webhook ps m1 = Inr m'"
    by (auto split: sum.splits if_splits)
  show ?case using addVerbs_spec [OF m1(1), of k] Cons.IH [OF m1(2)] by (auto simp: listed_def)
qed (simp add: listed_def)

lemma addVerbs_clean:
  "list_all (\<lambda>v. isl (opTags (field a v)) = False \<and> list_all (\<lambda>k. k \<notin> set protoNames) (tagNames a v)) vs \<Longrightarrow>
   \<exists>m'. addVerbs webhook o' a vs m = Inr m'"
proof (induction vs arbitrary: m)
  case (Cons v vs)
  then obtain es where es: "opTags (field a v) = Inr es" by (cases "opTags (field a v)") auto
  then have "list_all (\<lambda>e. jsText e \<notin> set protoNames) es" using Cons.prems by (simp add: tagNames_def list_all_iff)
  from addToTags_clean [OF this] obtain m1 where "addToTags (opEntry webhook o' a v) m es = Inr m1" by blast
  then show ?case using Cons es by (simp add: addOperation_def)
qed simp

lemma addPaths_clean: "cleanPaths ps \<Longrightarrow> \<exists>m'. addPaths webhook ps m = Inr m'"
proof (induction ps arbitrary: m)
  case (Cons p ps)
  then obtain m1 where "addVerbs webhook (fst p) (snd p) (opKeys (snd p)) m = Inr m1"
    using addVerbs_clean by (fastforce simp: cleanPaths_def)
  then show ?case using Cons by (simp add: cleanPaths_def)
qed simp

lemma declareTags_empty: "declareTags m es = Inr m' \<Longrightarrow> \<forall>k. opsUnder m k = [] \<Longrightarrow> opsUnder m' k = []"
  by (induction m es rule: declareTags.induct) (auto simp: opsUnder_def map_of_setKey split: if_splits)

lemma declaredTags_empty: "declaredTags spec = Inr m \<Longrightarrow> opsUnder m k = []"
  unfolding declaredTags_def
  by (auto simp: opsUnder_def split: option.splits sum.splits dest: declareTags_empty [where k = k])

definition plainTags :: "json \<Rightarrow> specErr + tagMap" where
  \<comment> \<open>the operations by tag when no path item is a reference\<close>
  "plainTags spec =
     (case declaredTags spec of
        Inl err \<Rightarrow> Inl err
      | Inr m \<Rightarrow> (case addPaths True (webhooksOf spec) m of Inl err \<Rightarrow> Inl err | Inr m' \<Rightarrow> addPaths False (pathsOf spec) m'))"

lemma getTags_done: "getTags pc b [] m = Some (Inr m)"
  by (subst getTags.simps) simp

lemma getTagsWithOperations_plain:
  "refFree (webhooksOf spec) \<Longrightarrow> refFree (pathsOf spec) \<Longrightarrow> getTagsWithOperations pc spec = Some (plainTags spec)"
  by (auto simp: getTagsWithOperations_def plainTags_def getTags_paths getTags_done split: sum.split)

lemma operations_listed:
  assumes "declaredTags spec = Inr m0" and "refFree (webhooksOf spec)" and "refFree (pathsOf spec)"
    and "cleanPaths (webhooksOf spec)" and "cleanPaths (pathsOf spec)"
  shows "\<exists>m. getTagsWithOperations pc spec = Some (Inr m)
           \<and> (\<forall>k. opsUnder m k = (if traitName m0 k then []
                                   else listed True k (webhooksOf spec) @ listed False k (pathsOf spec)))"
proof -
  obtain m1 where m1: "addPaths True (webhooksOf spec) m0 = Inr m1" using addPaths_clean assms(4) by blast
  obtain m2 where m2: "addPaths False (pathsOf spec) m1 = Inr m2" using addPaths_clean assms(5) by blast
  have "getTagsWithOperations pc spec = Some (Inr m2)"
    by (simp add: getTagsWithOperations_plain plainTags_def assms(1-3) m1 m2)
  moreover have "opsUnder m2 k = (if traitName m0 k then [] else listed True k (webhooksOf spec) @ listed False k (pathsOf spec))" for k
    using addPaths_spec [OF m1, of k] addPaths_spec [OF m2, of k] declaredTags_empty [OF assms(1), of k] by simp
  ultimately show ?thesis by blast
qed

section \<open>References and inherited names\<close>

lemma getTags_ref:
  assumes "truthyAt a ''$ref'' \<noteq> None" and "deref pc a [] False = Some (Inr (r, st))"
    and "truthyAt r ''$ref'' = None"
  shows "getTags pc webhook (VerbsF o' a vs # fs) m =
    (case addPaths webhook (replicate (length vs) (o', r)) m of Inl err \<Rightarrow> Some (Inl err) | Inr m' \<Rightarrow> getTags pc webhook fs m')"
proof (induction vs arbitrary: m)
  case Nil
  show ?case by (subst getTags.simps) simp
next
  case (Cons v vs)
  have "refFree [(o', r)]" using assms(3) by (simp add: refFree_def)
  note step = getTags_paths [OF this, of pc webhook "VerbsF o' a vs # fs" m]
  show ?case using assms step Cons
    by (subst getTags.simps) (auto split: sum.splits)
qed

lemma addPaths_replicate:
  "addPaths webhook (replicate n (o', r)) m = Inr m' \<Longrightarrow>
   opsUnder m' k = opsUnder m k @ (if traitName m k then [] else concat (replicate n (listed webhook k [(o', r)])))"
  using addPaths_spec [of webhook "replicate n (o', r)" m m' k] by (simp add: listed_def)

text \<open>
  C28. A path item that is a reference stands for the path item it leads to, with the reference's own siblings
  where they are merged; but its operations are added again for every operation key beside the
  reference: an item with a reference and one operation of its own lists all of them twice.\<close>
theorem ref_path_items_repeated:
  assumes "truthyAt a ''$ref'' \<noteq> None" and "deref pc a [] False = Some (Inr (r, st))"
    and "truthyAt r ''$ref'' = None" and "a \<noteq> NullV" and "cleanPaths [(pathName, r)]"
  shows "\<exists>m'. getTags pc webhook [PathsF [(pathName, a)]] m = Some (Inr m')
    \<and> (\<forall>k. opsUnder m' k = opsUnder m k @ (if traitName m k then []
              else concat (replicate (length (opKeys a)) (listed webhook k [(pathName, r)]))))"
proof -
  have "cleanPaths (replicate (length (opKeys a)) (pathName, r))" using assms(5) by (auto simp: cleanPaths_def list_all_iff)
  then obtain m' where m': "addPaths webhook (replicate (length (opKeys a)) (pathName, r)) m = Inr m'"
    using addPaths_clean by blast
  have fin: "getTags pc webhook [PathsF []] m' = Some (Inr m')" by (subst getTags.simps, simp, subst getTags.simps) simp
  have "getTags pc webhook [PathsF [(pathName, a)]] m = getTags pc webhook [VerbsF pathName a (opKeys a), PathsF []] m"
    using assms(4) by (subst getTags.simps) simp
  also have "\<dots> = Some (Inr m')" using getTags_ref [OF assms(1-3)] m' fin by simp
  finally show ?thesis using addPaths_replicate [OF m'] by blast
qed

definition refItem :: json where
  \<comment> \<open>a path item that is a reference, with an operation of its own beside it\<close>
  "refItem = ObjV [(''$ref'', TextV ''#/shared''), (''get'', ObjV [])]"

definition refTarget :: json where
  "refTarget = ObjV [(''post'', ObjV [(''tags'', ListV [TextV ''pets''])])]"

definition refConf :: parserConf where
  "refConf = \<lparr>pcSpec = ObjV [(''openapi'', TextV ''3.0.0''), (''shared'', refTarget)], pcIgnoreNamed = {}, pcMergeRefs = False\<rparr>"

lemma refConf_deref: "deref refConf refItem [] False = Some (Inr (refTarget, [''#/shared'']))"
proof -
  have "byRef refConf ''#/shared'' = Inr refTarget"
    by (simp add: byRef_def refConf_def refTarget_def getPointer_def parsePointer_def pointerUnescape_def hasPrefix_def)
  moreover have "\<not> isRef refTarget" by (simp add: isRef_def refTarget_def)
  ultimately show ?thesis
    using deref_ref [of refItem "''#/shared''" refConf refTarget "[]" False]
    by (simp add: refItem_def refConf_def refsStackOf_def pushRef_def)
qed

theorem ref_path_items_repeated_witness:
  "\<exists>m'. getTags refConf False [PathsF [(''/pets'', refItem)]] [] = Some (Inr m')
     \<and> opsUnder m' ''pets'' = replicate 2 (opEntry False ''/pets'' refTarget ''post'')"
proof -
  have hyps: "truthyAt refItem ''$ref'' \<noteq> None" "truthyAt refTarget ''$ref'' = None" "refItem \<noteq> NullV"
    "cleanPaths [(''/pets'', refTarget)]" by code_simp+
  have keys: "length (opKeys refItem) = 2" by code_simp
  have one: "listed False ''pets'' [(''/pets'', refTarget)] = [opEntry False ''/pets'' refTarget ''post'']" by code_simp
  have empty: "opsUnder [] ''pets'' = []" "\<not> traitName [] ''pets''" by code_simp+
  obtain m' where "getTags refConf False [PathsF [(''/pets'', refItem)]] [] = Some (Inr m')"
    and "opsUnder m' ''pets'' = concat (replicate 2 [opEntry False ''/pets'' refTarget ''post''])"
    using ref_path_items_repeated [OF hyps(1) refConf_deref hyps(2-4), of False "[]"] one keys empty by auto
  then show ?thesis by (simp add: numeral_2_eq_2)
qed

lemma grow_trans:
  "A \<union> X \<subseteq> B \<and> B \<inter> P \<subseteq> A \<Longrightarrow> B \<union> Y \<subseteq> C \<and> C \<inter> P \<subseteq> B \<Longrightarrow> A \<union> (X \<union> Y) \<subseteq> C \<and> C \<inter> P \<subseteq> A"
  by blast

lemma addToTags_dom:
  "addToTags op m es = Inr m' \<Longrightarrow>
   dom (map_of m) \<union> jsText ` set es \<subseteq> dom (map_of m') \<and> dom (map_of m') \<inter> set protoNames \<subseteq> dom (map_of m)"
proof (induction op m es rule: addToTags.induct)
  case (2 op m e es)
  then obtain m1 where m1: "addToTag op m e = Inr m1" by (auto split: sum.splits)
  then have "dom (map_of m) \<union> {jsText e} \<subseteq> dom (map_of m1) \<and> dom (map_of m1) \<inter> set protoNames \<subseteq> dom (map_of m)"
    by (auto simp: addToTag_def Let_def map_of_setKey split: option.splits if_splits)
  from grow_trans [OF this, of "jsText ` set es" "dom (map_of m')"] show ?case using 2 m1 by simp
qed auto

lemma addVerbs_dom:
  "addVerbs webhook o' a vs m = Inr m' \<Longrightarrow>
   dom (map_of m) \<union> (\<Union>v \<in> set vs. set (tagNames a v)) \<subseteq> dom (map_of m') \<and> dom (map_of m') \<inter> set protoNames \<subseteq> dom (map_of m)"
proof (induction vs arbitrary: m)
  case (Cons v vs)
  then obtain es m1 where e: "opTags (field a v) = Inr es" "addToTags (opEntry webhook o' a v) m es = Inr m1"
    "addVerbs webhook o' a vs m1 = Inr m'" by (auto simp: addOperation_def split: sum.splits)
  have "set (tagNames a v) = jsText ` set es" by (simp add: tagNames_def e(1))
  then show ?case using grow_trans [OF addToTags_dom [OF e(2)] Cons.IH [OF e(3)]] by simp
qed auto

lemma addPaths_dom:
  "addPaths webhook ps m = Inr m' \<Longrightarrow>
   dom (map_of m) \<union> (\<Union>p \<in> set ps. \<Union>v \<in> set (opKeys (snd p)). set (tagNames (snd p) v)) \<subseteq> dom (map_of m')
   \<and> dom (map_of m') \<inter> set protoNames \<subseteq> dom (map_of m)"
proof (induction ps arbitrary: m)
  case (Cons p ps)
  then obtain m1 where m1: "addVerbs webhook (fst p) (snd p) (opKeys (snd p)) m = Inr m1" "addPaths webhook ps m1 = Inr m'"
    by (auto split: sum.splits if_splits)
  show ?case using grow_trans [OF addVerbs_dom [OF m1(1)] Cons.IH [OF m1(2)]] by simp
qed auto

text \<open>
  C29. An operation whose tag has the name of a property every object inherits, such as \<^verbatim>\<open>constructor\<close>, and is not
  declared, stops the viewer: collecting the operations ends in an error.\<close>
theorem inherited_tag_name_fails:
  assumes "declaredTags spec = Inr m0" and "refFree (webhooksOf spec)" and "refFree (pathsOf spec)"
    and "(pathName, a) \<in> set (pathsOf spec)" and "verb \<in> set (opKeys a)" and "k \<in> set (tagNames a verb)"
    and "k \<in> set protoNames" and "map_of m0 k = None"
  shows "\<exists>err. getTagsWithOperations pc spec = Some (Inl err)"
proof (cases "addPaths True (webhooksOf spec) m0")
  case (Inl err)
  then show ?thesis by (simp add: getTagsWithOperations_plain plainTags_def assms(1-3))
next
  case (Inr m1)
  show ?thesis
  proof (cases "addPaths False (pathsOf spec) m1")
    case (Inl err)
    then show ?thesis by (simp add: getTagsWithOperations_plain plainTags_def assms(1-3) Inr)
  next
    case (Inr m2)
    have "k \<in> (\<Union>p \<in> set (pathsOf spec). \<Union>v \<in> set (opKeys (snd p)). set (tagNames (snd p) v))"
      using assms(4-6) by force
    then have "k \<in> dom (map_of m2)" using addPaths_dom [OF Inr] by blast
    then have "k \<in> dom (map_of m1)" using addPaths_dom [OF Inr] assms(7) by blast
    then have "k \<in> dom (map_of m0)" using addPaths_dom [OF \<open>addPaths True (webhooksOf spec) m0 = Inr m1\<close>] assms(7) by blast
    then show ?thesis using assms(8) by blast
  qed
qed

definition formulaSpec :: json where
  "formulaSpec = ObjV [(''openapi'', TextV ''3.0.0''),
     (''paths'', ObjV [(''/teams'', ObjV [(''get'', ObjV [(''tags'', ListV [TextV ''constructor''])])])])]"

theorem inherited_tag_name_fails_witness: "\<exists>err. getTagsWithOperations refConf formulaSpec = Some (Inl err)"
proof -
  let ?a = "ObjV [(''get'', ObjV [(''tags'', ListV [TextV ''constructor''])])]"
  have "declaredTags formulaSpec = Inr []" "refFree (webhooksOf formulaSpec)" "refFree (pathsOf formulaSpec)"
    "(''/teams'', ?a) \<in> set (pathsOf formulaSpec)" "''get'' \<in> set (opKeys ?a)" "''constructor'' \<in> set (tagNames ?a ''get'')"
    "''constructor'' \<in> set protoNames" "map_of ([] :: tagMap) ''constructor'' = None" by code_simp+
  then show ?thesis by (rule inherited_tag_name_fails)
qed

section \<open>One entry per tag\<close>

lemma setKey_distinct: "distinct (map fst m) \<Longrightarrow> distinct (map fst (setKey m k v))"
proof (cases "k \<in> fst ` set m")
  case True
  moreover have "map fst (map (\<lambda>q. if fst q = k then (k, v) else q) m) = map fst m" by (induction m) auto
  moreover assume "distinct (map fst m)"
  ultimately show ?thesis unfolding setKey_def by (simp only: if_True)
next
  case False
  moreover assume "distinct (map fst m)"
  ultimately show ?thesis by (simp add: setKey_def)
qed

lemma addToTags_distinct: "addToTags op m es = Inr m' \<Longrightarrow> distinct (map fst m) \<Longrightarrow> distinct (map fst m')"
proof (induction op m es rule: addToTags.induct)
  case (2 op m e es)
  then obtain m1 where m1: "addToTag op m e = Inr m1" "addToTags op m1 es = Inr m'" by (auto split: sum.splits)
  have "distinct (map fst m1)" using m1(1) 2(3)
    by (auto simp: addToTag_def Let_def setKey_distinct split: option.splits if_splits)
  then show ?case using 2(1) m1 by blast
qed simp

lemma addOperation_distinct:
  "addOperation webhook o' a v m = Inr m' \<Longrightarrow> distinct (map fst m) \<Longrightarrow> distinct (map fst m')"
  by (auto simp: addOperation_def addToTags_distinct split: sum.splits)

lemma getTags_distinct:
  assumes "getTags pc webhook fs m = Some (Inr m')" and "distinct (map fst m)"
  shows "distinct (map fst m')"
proof -
  let ?P = "\<lambda>(pc :: parserConf) (w :: bool) (fs :: tagFrame list) (m :: tagMap) (y :: specErr + tagMap).
    distinct (map fst m) \<longrightarrow> (\<forall>m'. y = Inr m' \<longrightarrow> distinct (map fst m'))"
  have "?P pc webhook fs m (Inr m')"
  proof (rule getTags.raw_induct [where P = ?P, OF _ assms(1)], goal_cases)
    case (1 f pc w fs m y)
    have ih: "distinct (map fst m'')" if "f pc w fs'' n = Some (Inr m'')" "distinct (map fst n)" for fs'' n m''
      using 1(1) that by blast
    show ?case using 1(2)
      by (auto split: list.splits tagFrame.splits if_splits option.splits sum.splits dest: ih addOperation_distinct)
  qed
  then show ?thesis using assms(2) by simp
qed

lemma declareTags_distinct: "declareTags m es = Inr m' \<Longrightarrow> distinct (map fst m) \<Longrightarrow> distinct (map fst m')"
  by (induction m es rule: declareTags.induct) (auto simp: setKey_distinct split: if_splits)

lemma getTagsWithOperations_distinct:
  assumes "getTagsWithOperations pc spec = Some (Inr m)"
  shows "distinct (map fst m)"
proof -
  obtain m0 m1 where m: "declaredTags spec = Inr m0" "getTags pc True [PathsF (webhooksOf spec)] m0 = Some (Inr m1)"
    "getTags pc False [PathsF (pathsOf spec)] m1 = Some (Inr m)"
    using assms by (auto simp: getTagsWithOperations_def split: sum.splits option.splits)
  have "distinct (map fst m0)"
    using m(1) by (auto simp: declaredTags_def dest: declareTags_distinct split: option.splits sum.splits)
  then show ?thesis using getTags_distinct [OF m(2)] getTags_distinct [OF m(3)] by blast
qed

end
