(* ===== verification/MenuItems.thy ===== *)
theory MenuItems
  imports MenuBuilder
begin

text \<open>
  The items of the Redoc viewer's menu (\<^verbatim>\<open>redoc.standalone.js\<close>, line 752: \<^verbatim>\<open>buildStructure\<close> and the functions
  of \<^verbatim>\<open>hf\<close> it calls; line 41: operations \<^verbatim>\<open>Tu\<close> and headings \<^verbatim>\<open>Ml\<close>). The sections of the empty tag, whose
  parent is not in the menu, are here items of the level they are shown on: collapsing and
  expanding the hidden parent shows nowhere.
\<close>

section \<open>Headings\<close>

datatype heading = Heading string string "heading list" \<comment> \<open>id, name and items\<close>

record menuEnv =
  meSlug :: "string \<Rightarrow> string" \<comment> \<open>\<^verbatim>\<open>di\<close>: the slug of a name\<close>
  meCollate :: "string \<Rightarrow> rat" \<comment> \<open>where a name sorts in the reader's language\<close>
  meHeadings :: "string \<Rightarrow> (string \<times> nat) list" \<comment> \<open>text and level of the headings of a Markdown text\<close>
  meSortTags :: bool
  meSortOperations :: bool

fun addSubheading :: "menuEnv \<Rightarrow> string \<Rightarrow> heading \<Rightarrow> heading" where
  "addSubheading env e (Heading i n hs) = Heading i n (hs @ [Heading (i @ ''/'' @ meSlug env e) e []])"

fun saveHeadings :: "menuEnv \<Rightarrow> string option \<Rightarrow> bool \<Rightarrow> heading list \<Rightarrow> (string \<times> nat) list \<Rightarrow> heading list" where
  \<comment> \<open>\<^verbatim>\<open>headingRule\<close> with \<^verbatim>\<open>saveHeading\<close>: a second-level heading goes to the last first-level one, if there is one\<close>
  "saveHeadings env parentId seen acc [] = acc"
| "saveHeadings env parentId seen acc ((e, level) # hs) =
     (let new = Heading ((if parentId = None \<or> parentId = Some [] then ''section'' else the parentId) @ ''/'' @ meSlug env e) e []
      in if level = 1 then saveHeadings env parentId True (acc @ [new]) hs
         else if level = 2
         then if seen then saveHeadings env parentId seen (butlast acc @ [addSubheading env e (last acc)]) hs
              else saveHeadings env parentId seen (acc @ [new]) hs
         else saveHeadings env parentId seen acc hs)"

fun sectionItem :: "int \<Rightarrow> heading \<Rightarrow> menuTree" where
  "sectionItem n (Heading i name hs) = MenuTree i SectionItem n (map (sectionItem (n + 1)) hs)"

definition headingName :: "heading \<Rightarrow> string" where
  "headingName h = (case h of Heading _ n _ \<Rightarrow> n)"

definition addMarkdownItems :: "menuEnv \<Rightarrow> string \<Rightarrow> string option \<Rightarrow> int \<Rightarrow> (string \<times> menuTree) list" where
  \<comment> \<open>each item with its name, which sorting uses\<close>
  "addMarkdownItems env text parentId n =
     map (\<lambda>h. (headingName h, sectionItem n h)) (saveHeadings env parentId False [] (meHeadings env text))"

section \<open>Items of tags\<close>

fun mapE :: "('a \<Rightarrow> 'e + 'b) \<Rightarrow> 'a list \<Rightarrow> 'e + 'b list" where
  "mapE f [] = Inr []"
| "mapE f (x # xs) =
     (case f x of Inl e \<Rightarrow> Inl e | Inr y \<Rightarrow> (case mapE f xs of Inl e \<Rightarrow> Inl e | Inr ys \<Rightarrow> Inr (y # ys)))"

definition descriptionOf :: "json \<Rightarrow> string" where
  "descriptionOf e = (case truthyAt e ''description'' of None \<Rightarrow> [] | Some v \<Rightarrow> jsText v)"

definition itemId :: "menuEnv \<Rightarrow> string \<Rightarrow> json \<Rightarrow> specErr + string" where
  \<comment> \<open>the constructor of \<^verbatim>\<open>rf\<close>: a slug needs a text\<close>
  "itemId env type t =
     (case truthyAt t ''id'' of
        Some v \<Rightarrow> Inr (jsText v)
      | None \<Rightarrow> (case field t ''name'' of Some (TextV n) \<Rightarrow> Inr (type @ ''/'' @ meSlug env n) | _ \<Rightarrow> Inl RefTypeError))"

definition itemName :: "json \<Rightarrow> string" where
  "itemName t = (case truthyAt t ''x-displayName'' of Some v \<Rightarrow> jsText v | None \<Rightarrow> textOf (field t ''name''))"

definition opName :: "opItem \<Rightarrow> string" where
  \<comment> \<open>summary, id, start of the description or path, the first that is there\<close>
  "opName op =
     (case truthyAt (opSpec op) ''summary'' of
        Some v \<Rightarrow> jsText v
      | None \<Rightarrow> (case truthyAt (opSpec op) ''operationId'' of
          Some v \<Rightarrow> jsText v
        | None \<Rightarrow> (if descriptionOf (opSpec op) \<noteq> [] then take 50 (descriptionOf (opSpec op))
                   else if opPathName op \<noteq> [] then opPathName op else ''<no summary>'')))"

definition opId :: "string option \<Rightarrow> opItem \<Rightarrow> string" where
  "opId parentId op =
     (case field (opSpec op) ''operationId'' of
        Some v \<Rightarrow> (case parentId of Some p \<Rightarrow> p @ ''/'' | None \<Rightarrow> []) @ (if jsonTruthy v then ''operation/'' @ jsText v else jsText v)
      | None \<Rightarrow> (case parentId of Some p \<Rightarrow> p @ opPointer op | None \<Rightarrow> opPointer op))"

definition sortByName :: "menuEnv \<Rightarrow> bool \<Rightarrow> (string \<times> menuTree) list \<Rightarrow> (string \<times> menuTree) list" where
  "sortByName env really xs = (if really then sort_key (\<lambda>x. meCollate env (fst x)) xs else xs)"

definition getOperationsItems :: "menuEnv \<Rightarrow> string option \<Rightarrow> tagEntry \<Rightarrow> int \<Rightarrow> (string \<times> menuTree) list" where
  "getOperationsItems env parentId te n =
     sortByName env (meSortOperations env) (map (\<lambda>op. (opName op, MenuTree (opId parentId op) OperationItem n [])) (teOps te))"

fun isSubtext :: "string \<Rightarrow> string \<Rightarrow> bool" where
  "isSubtext p [] = (p = [])"
| "isSubtext p (c # s) = (hasPrefix (c # s) p \<or> isSubtext p s)"

definition schemaHasTag :: "json \<Rightarrow> json \<Rightarrow> specErr + bool" where
  "schemaHasTag name r =
     (case r of
        NullV \<Rightarrow> Inl RefTypeError
      | _ \<Rightarrow> (case field r ''x-tags'' of
               None \<Rightarrow> Inr False
             | Some NullV \<Rightarrow> Inr False
             | Some (ListV xs) \<Rightarrow> Inr (name \<in> set xs)
             | Some (TextV s) \<Rightarrow> Inr (isSubtext (jsText name) s)
             | Some _ \<Rightarrow> Inl RefTypeError))"

definition schemasOf :: "json \<Rightarrow> (string \<times> json) list" where
  "schemasOf spec =
     (case field spec ''components'' of
        None \<Rightarrow> []
      | Some c \<Rightarrow> (case truthyAt c ''schemas'' of None \<Rightarrow> [] | Some v \<Rightarrow> ownFields v))"

definition getTagRelatedSchema :: "menuEnv \<Rightarrow> json \<Rightarrow> json \<Rightarrow> int \<Rightarrow> specErr + menuTree list" where
  "getTagRelatedSchema env spec name n =
     (case mapE (\<lambda>q. case schemaHasTag name (snd q) of
                        Inl e \<Rightarrow> Inl e
                      | Inr b \<Rightarrow> Inr (if b then [MenuTree (''schema/'' @ meSlug env (fst q)) SchemaItem (n + 1) []] else []))
             (schemasOf spec) of
        Inl e \<Rightarrow> Inl e
      | Inr xs \<Rightarrow> Inr (concat xs))"

definition tagItems :: "menuEnv \<Rightarrow> json \<Rightarrow> tagEntry \<Rightarrow> specErr + (string \<times> menuTree) list" where
  \<comment> \<open>one tag of \<^verbatim>\<open>getTagsItems\<close>; the items of the empty tag take its place\<close>
  "tagItems env spec te =
     (let t = ObjV (teInfo te)
      in case itemId env ''tag'' t of
           Inl e \<Rightarrow> Inl e
         | Inr i \<Rightarrow>
             (if field t ''name'' = Some (TextV [])
              then Inr (addMarkdownItems env (descriptionOf t) (Some i) 2 @ getOperationsItems env None te 2)
              else case getTagRelatedSchema env spec (case field t ''name'' of Some v \<Rightarrow> v | None \<Rightarrow> NullV) 1 of
                     Inl e \<Rightarrow> Inl e
                   | Inr schemas \<Rightarrow>
                       Inr [(itemName t, MenuTree i TagItem 1
                              (schemas @ map snd (addMarkdownItems env (descriptionOf t) (Some i) 2)
                               @ map snd (getOperationsItems env (Some i) te 2)))]))"

definition tagsNamed :: "tagMap \<Rightarrow> string list \<Rightarrow> specErr + tagEntry list" where
  \<comment> \<open>the tags a group names; unknown ones are skipped with a warning, inherited properties lead to an error\<close>
  "tagsNamed m ks =
     (case mapE (\<lambda>k. case map_of m k of
                        Some te \<Rightarrow> Inr [te]
                      | None \<Rightarrow> if k \<in> set protoNames then Inl RefTypeError else Inr []) ks of
        Inl e \<Rightarrow> Inl e
      | Inr tes \<Rightarrow> Inr (concat tes))"

definition getTagsItems :: "menuEnv \<Rightarrow> json \<Rightarrow> tagMap \<Rightarrow> string list \<Rightarrow> specErr + menuTree list" where
  "getTagsItems env spec m ks =
     (case tagsNamed m ks of
        Inl e \<Rightarrow> Inl e
      | Inr tes \<Rightarrow>
          (case mapE (tagItems env spec) tes of
             Inl e \<Rightarrow> Inl e
           | Inr xs \<Rightarrow> Inr (map snd (sortByName env (meSortTags env) (concat xs)))))"

definition objectKeys :: "tagMap \<Rightarrow> string list" where
  \<comment> \<open>\<^verbatim>\<open>Object.keys\<close>: array indices first, in their order, then the rest as they were added\<close>
  "objectKeys m =
     (let isIndex = (\<lambda>k. case arrayIndex k of None \<Rightarrow> False | Some n \<Rightarrow> int n < 4294967295)
      in sort_key (\<lambda>k. the (arrayIndex k)) (filter isIndex (map fst m)) @ filter (\<lambda>k. \<not> isIndex k) (map fst m))"

definition groupItem :: "menuEnv \<Rightarrow> json \<Rightarrow> tagMap \<Rightarrow> json \<Rightarrow> specErr + menuTree" where
  "groupItem env spec m a =
     (case itemId env ''group'' a of
        Inl e \<Rightarrow> Inl e
      | Inr i \<Rightarrow>
          (case field a ''tags'' of
             Some (ListV ks) \<Rightarrow>
               (case getTagsItems env spec m (map jsText ks) of
                  Inl e \<Rightarrow> Inl e
                | Inr ts \<Rightarrow> Inr (MenuTree i GroupItem 0 ts))
           | _ \<Rightarrow> Inl RefTypeError))"

definition buildStructure :: "menuEnv \<Rightarrow> parserConf \<Rightarrow> (specErr + menuTree list) option" where
  \<comment> \<open>\<^verbatim>\<open>x-tagGroups\<close> counts when it has a positive length, and then must be a list\<close>
  "buildStructure env pc =
     (let spec = pcSpec pc
      in case getTagsWithOperations pc spec of
           None \<Rightarrow> None
         | Some (Inl e) \<Rightarrow> Some (Inl e)
         | Some (Inr m) \<Rightarrow> Some
             (case field spec ''info'' of
                None \<Rightarrow> Inl RefTypeError
              | Some info \<Rightarrow>
                  (if info = NullV then Inl RefTypeError
                   else
                     let sections = map snd (addMarkdownItems env (descriptionOf info) None 1);
                         rest = (case truthyAt spec ''x-tagGroups'' of
                                   Some (ListV (g # gs)) \<Rightarrow> mapE (groupItem env spec m) (g # gs)
                                 | Some (TextV (c # cs)) \<Rightarrow> Inl RefTypeError
                                 | _ \<Rightarrow> getTagsItems env spec m (objectKeys m))
                     in case rest of Inl e \<Rightarrow> Inl e | Inr ts \<Rightarrow> Inr (sections @ ts))))"

section \<open>The built menu is well formed\<close>

lemma mapE_results: "mapE f xs = Inr ys \<Longrightarrow> list_all2 (\<lambda>x y. f x = Inr y) xs ys"
  by (induction xs arbitrary: ys) (auto split: sum.splits)

lemma mapE_all: "mapE f xs = Inr ys \<Longrightarrow> (\<And>x y. x \<in> set xs \<Longrightarrow> f x = Inr y \<Longrightarrow> P y) \<Longrightarrow> list_all P ys"
  using mapE_results [of f xs ys] unfolding list_all2_conv_all_nth list_all_length by (metis nth_mem)

lemma sectionItem_wf: "0 < n \<Longrightarrow> wfTree (sectionItem n h)"
proof (induction n h rule: sectionItem.induct)
  case (1 n i name hs)
  then show ?case by (auto simp: list_all_iff)
qed

lemma addMarkdownItems_wf: "0 < n \<Longrightarrow> list_all wfTree (map snd (addMarkdownItems env text p n))"
  by (simp add: addMarkdownItems_def list_all_iff sectionItem_wf)

lemma set_sortByName [simp]: "set (sortByName env b xs) = set xs" "mset (sortByName env b xs) = mset xs"
  by (simp_all add: sortByName_def)

lemma getOperationsItems_wf: "0 < n \<Longrightarrow> list_all wfTree (map snd (getOperationsItems env p te n))"
  by (auto simp: getOperationsItems_def list_all_iff)

lemma getTagRelatedSchema_wf: "getTagRelatedSchema env spec name 1 = Inr ts \<Longrightarrow> list_all wfTree ts"
  unfolding getTagRelatedSchema_def
  by (auto split: sum.splits if_splits simp: list_all_iff dest!: mapE_all [where P = "list_all wfTree"])

lemma tagItems_wf: "tagItems env spec te = Inr xs \<Longrightarrow> list_all wfTree (map snd xs)"
  using addMarkdownItems_wf [of 2] getOperationsItems_wf [of 2] getTagRelatedSchema_wf
  by (auto simp: tagItems_def Let_def split: sum.splits if_splits option.splits)

lemma getTagsItems_wf: "getTagsItems env spec m ks = Inr ts \<Longrightarrow> list_all wfTree ts"
proof -
  assume "getTagsItems env spec m ks = Inr ts"
  then obtain tes xs where "mapE (tagItems env spec) tes = Inr xs" and ts: "ts = map snd (sortByName env (meSortTags env) (concat xs))"
    by (auto simp: getTagsItems_def split: sum.splits)
  then have "list_all (\<lambda>x. list_all wfTree (map snd x)) xs" using mapE_all tagItems_wf by metis
  then show ?thesis by (auto simp: ts list_all_iff)
qed

lemma groupItem_wf: "groupItem env spec m a = Inr t \<Longrightarrow> wfTree t"
  by (auto simp: groupItem_def split: sum.splits option.splits json.splits dest: getTagsItems_wf)

lemma buildStructure_wf: "buildStructure env pc = Some (Inr ts) \<Longrightarrow> list_all wfTree ts"
  using addMarkdownItems_wf [of 1] getTagsItems_wf mapE_all [where P = wfTree and f = "groupItem env (pcSpec pc) m" for m] groupItem_wf
  by (auto simp: buildStructure_def Let_def split: sum.splits option.splits json.splits list.splits if_splits)

section \<open>The operations of the menu\<close>

fun opIds :: "menuTree \<Rightarrow> string list" where
  \<comment> \<open>the ids of the operations of an item, in the order shown\<close>
  "opIds (MenuTree i k d ts) = (if k = OperationItem then [i] else []) @ concat (map opIds ts)"

definition tagParent :: "menuEnv \<Rightarrow> tagEntry \<Rightarrow> string option" where
  \<comment> \<open>the id of the item a tag's operations are under\<close>
  "tagParent env te =
     (if field (ObjV (teInfo te)) ''name'' = Some (TextV []) then None
      else case itemId env ''tag'' (ObjV (teInfo te)) of Inr i \<Rightarrow> Some i | Inl _ \<Rightarrow> None)"

abbreviation allOpIds :: "menuTree list \<Rightarrow> string list" where
  "allOpIds ts \<equiv> concat (map opIds ts)"

lemma opIds_section [simp]: "opIds (sectionItem n h) = []"
proof (induction n h rule: sectionItem.induct)
  case (1 n i name hs)
  then show ?case by (simp add: comp_def)
qed

lemma opIds_markdown [simp]: "allOpIds (map snd (addMarkdownItems env text p n)) = []"
  by (simp add: addMarkdownItems_def comp_def)

lemma mset_allOpIds_sort: "mset (allOpIds (map snd (sortByName env b xs))) = mset (allOpIds (map snd xs))"
  by (simp add: mset_concat flip: sum_mset_sum_list)

lemma opIds_operations: "mset (allOpIds (map snd (getOperationsItems env p te n))) = mset (map (opId p) (teOps te))"
proof -
  have "allOpIds (map (\<lambda>op. MenuTree (opId p op) OperationItem n []) ops) = map (opId p) ops" for ops
    by (induction ops) simp_all
  then show ?thesis unfolding getOperationsItems_def mset_allOpIds_sort by (simp add: comp_def)
qed

lemma opIds_schemas: "getTagRelatedSchema env spec name n = Inr ts \<Longrightarrow> allOpIds ts = []"
  unfolding getTagRelatedSchema_def
  by (auto split: sum.splits if_splits simp: list_all_iff dest!: mapE_all [where P = "list_all (\<lambda>t. opIds t = [])"])

lemma opIds_tag: "tagItems env spec te = Inr xs \<Longrightarrow> mset (allOpIds (map snd xs)) = mset (map (opId (tagParent env te)) (teOps te))"
  by (auto simp: tagItems_def tagParent_def Let_def opIds_operations opIds_schemas split: sum.splits if_splits simp del: map_map)

lemma opIds_tags:
  assumes "getTagsItems env spec m ks = Inr ts" and "list_all2 (\<lambda>k te. map_of m k = Some te) ks tes"
  shows "mset (allOpIds ts) = (\<Sum>te \<leftarrow> tes. mset (map (opId (tagParent env te)) (teOps te)))"
proof -
  have named: "tagsNamed m ks = Inr tes"
  proof -
    have "mapE (\<lambda>k. case map_of m k of Some te \<Rightarrow> Inr [te] | None \<Rightarrow> if k \<in> set protoNames then Inl RefTypeError else Inr []) ks
        = Inr (map (\<lambda>te. [te]) tes)"
      using assms(2) by (induction rule: list_all2_induct) auto
    then show ?thesis by (simp add: tagsNamed_def)
  qed
  obtain xs where xs: "mapE (tagItems env spec) tes = Inr xs" and ts: "ts = map snd (sortByName env (meSortTags env) (concat xs))"
    using assms(1) named by (auto simp: getTagsItems_def split: sum.splits)
  have "mset (allOpIds (map snd (concat xs))) = (\<Sum>te \<leftarrow> tes. mset (map (opId (tagParent env te)) (teOps te)))"
    using mapE_results [OF xs] by (induction rule: list_all2_induct) (auto simp: opIds_tag simp del: map_map)
  then show ?thesis unfolding ts mset_allOpIds_sort .
qed

lemma mset_objectKeys: "mset (objectKeys m) = mset (map fst m)"
  by (simp add: objectKeys_def Let_def flip: filter_mset_False)

lemma menu_operations:
  assumes "buildStructure env pc = Some (Inr ts)" and "truthyAt (pcSpec pc) ''x-tagGroups'' = None"
    and m: "getTagsWithOperations pc (pcSpec pc) = Some (Inr m)"
  shows "mset (allOpIds ts) = (\<Sum>q \<leftarrow> m. mset (map (opId (tagParent env (snd q))) (teOps (snd q))))"
proof -
  let ?ops = "\<lambda>te. mset (map (opId (tagParent env te)) (teOps te))"
  obtain info us where us: "getTagsItems env (pcSpec pc) m (objectKeys m) = Inr us"
    and ts: "ts = map snd (addMarkdownItems env (descriptionOf info) None 1) @ us"
    using assms by (auto simp: buildStructure_def Let_def split: option.splits if_splits sum.splits)
  have keys: "set (objectKeys m) = fst ` set m" using mset_objectKeys [of m] by (metis list.set_map set_mset_mset)
  have "list_all2 (\<lambda>k te. map_of m k = Some te) (objectKeys m) (map (\<lambda>k. the (map_of m k)) (objectKeys m))"
    using keys by (auto simp: list_all2_map2 list_all2_same weak_map_of_SomeI)
  from opIds_tags [OF us this]
  have "mset (allOpIds us) = (\<Sum>k \<in># mset (objectKeys m). ?ops (the (map_of m k)))"
    by (simp add: sum_mset_sum_list comp_def flip: mset_map)
  also have "\<dots> = (\<Sum>q \<in># mset m. ?ops (the (map_of m (fst q))))"
    by (simp add: mset_objectKeys image_mset.compositionality comp_def)
  also have "\<dots> = (\<Sum>q \<in># mset m. ?ops (snd q))"
    using getTagsWithOperations_distinct [OF m] by (intro arg_cong [of _ _ sum_mset] image_mset_cong) auto
  finally show ?thesis by (simp add: ts sum_mset_sum_list del: map_map flip: mset_map)
qed


definition demoEnv :: menuEnv where
  "demoEnv = \<lparr>meSlug = (\<lambda>s. s), meCollate = (\<lambda>s. 0), meHeadings = (\<lambda>s. if s = [] then [] else [(''Intro'', 1)]),
              meSortTags = False, meSortOperations = True\<rparr>"

definition demoSpec :: json where
  "demoSpec = ObjV
     [(''openapi'', TextV ''3.0.0''), (''info'', ObjV [(''description'', TextV ''# Intro'')]),
      (''paths'', ObjV [(''/pets'', ObjV
         [(''get'', ObjV [(''tags'', ListV [TextV ''pets'']), (''operationId'', TextV ''list'')]),
          (''post'', ObjV [(''tags'', ListV [TextV ''pets'']), (''operationId'', TextV ''add'')])])])]"

definition demoConf :: parserConf where
  "demoConf = \<lparr>pcSpec = demoSpec, pcIgnoreNamed = {}, pcMergeRefs = False\<rparr>"

lemma demo_paths: "refFree (webhooksOf demoSpec)" "refFree (pathsOf demoSpec)" "cleanPaths (webhooksOf demoSpec)"
  "cleanPaths (pathsOf demoSpec)" "declaredTags demoSpec = Inr []" "truthyAt demoSpec ''x-tagGroups'' = None"
  by code_simp+

definition demoTags :: tagMap where
  "demoTags =
     [(''pets'', \<lparr>teInfo = [(''name'', TextV ''pets'')],
        teOps = map (\<lambda>v. opEntry False ''/pets'' (snd (hd (pathsOf demoSpec))) v) [''get'', ''post'']\<rparr>)]"

lemma demo_tags: "plainTags demoSpec = Inr demoTags"
  by code_simp

lemma demo_keys: "objectKeys demoTags = [''pets'']"
proof -
  have "arrayIndex ''pets'' = None" by (simp add: arrayIndex_def decValue_def digitVal_def decimal_def itoa_def itoaLoop.simps)
  then show ?thesis by (simp add: objectKeys_def demoTags_def)
qed

lemma demo_items: "getTagsItems demoEnv demoSpec demoTags [''pets''] = Inr (tl demoMenu)"
  by code_simp

lemma demo_sections: "map snd (addMarkdownItems demoEnv ''# Intro'' None 1) = [hd demoMenu]"
  by code_simp

lemma demo_built: "buildStructure demoEnv demoConf = Some (Inr demoMenu)"
proof -
  have spec: "pcSpec demoConf = demoSpec" by (simp add: demoConf_def)
  have info: "field demoSpec ''info'' = Some (ObjV [(''description'', TextV ''# Intro'')])" by (simp add: demoSpec_def)
  have "descriptionOf (ObjV [(''description'', TextV ''# Intro'')]) = ''# Intro''" by (simp add: descriptionOf_def truthyAt_def)
  then show ?thesis
    unfolding buildStructure_def Let_def spec
    by (simp add: getTagsWithOperations_plain demo_paths demo_tags info demo_keys demo_items demo_sections) (simp add: demoMenu_def)
qed


section \<open>The menu at work\<close>

text \<open>
  C16. In every state the menu built from any description reaches by clicks, searches, scrolling, changes of the
  address and the side bar's button, the active index is in range or -1; an item is active exactly when the index
  names it; groups stay open and are never active, operations never open, and any other item is open only on the
  path from the root to the active one, all of whose parents are open.\<close>
theorem menu_invariant:
  assumes "buildStructure env pc = Some (Inr ts)" and "menuReach ts m"
  shows "menuInv m"
  by (rule menuReach_inv [OF assms(2) buildStructure_wf [OF assms(1)]])

theorem menu_invariant_witness:
  "menuInv (clickItem False (newMenu demoMenu) 2) \<and> mActive (clickItem False (newMenu demoMenu) 2) = 2
   \<and> miExpanded (mItems (clickItem False (newMenu demoMenu) 2) ! 1)"
proof (intro conjI)
  show "menuInv (clickItem False (newMenu demoMenu) 2)" by (rule menu_invariant [OF demo_built demoMenu_reach(2)])
  show "mActive (clickItem False (newMenu demoMenu) 2) = 2" by code_simp
  show "miExpanded (mItems (clickItem False (newMenu demoMenu) 2) ! 1)" by code_simp
qed

text \<open>
  C19. Scrolling always ends. Going down it walks from the active item to the last one before an element
  still below the offset, going up to the first item whose element is above it, or to -1, and skips nothing
  on the way; when the ids differ and the item found is not a group, it is the active one afterwards.\<close>
theorem scroll_activates_section:
  assumes "buildStructure env pc = Some (Inr ts)" and "menuReach ts m" and "distinct (map miId (mItems m))"
  shows "\<exists>n m'. updateOnScroll pg m down = Some m' \<and> scrollTarget pg m down (mActive m) n
           \<and> ((\<forall>i. itemAt m n = Some i \<longrightarrow> miKind (mItems m ! i) \<noteq> GroupItem) \<longrightarrow> mActive m' = n)"
  by (rule scroll_activates [OF buildStructure_wf [OF assms(1)] assms(2, 3)])

theorem scroll_activates_section_witness:
  "\<exists>n m'. updateOnScroll demoPage (newMenu demoMenu) True = Some m' \<and> scrollTarget demoPage (newMenu demoMenu) True (- 1) n
     \<and> ((\<forall>i. itemAt (newMenu demoMenu) n = Some i \<longrightarrow> miKind (mItems (newMenu demoMenu) ! i) \<noteq> GroupItem) \<longrightarrow> mActive m' = n)"
proof -
  have "distinct (map miId (mItems (newMenu demoMenu)))" by (simp add: newMenu_def demoMenu_def)
  moreover have "mActive (newMenu demoMenu) = - 1" by (simp add: newMenu_def)
  ultimately show ?thesis
    using scroll_activates_section [OF demo_built menuReach.menu_new, of demoPage True] by simp
qed

end
