(* ===== verification/Spec2Isabelle.thy ===== *)
theory Spec2Isabelle
  imports Prelude Patterns Hooks Errors Writers GoStd Context SlidingWindow TokenBucket RateLimit Middleware RateLimitShell ErrorBody Routes Dispatch
    IdempotencyStore CaptureWriter Idempotency ViewerPage ViewerScripts Styled RedocBaseStyles RedocCodeStyles RedocSchemaStyles
    RedocMenuStyles StyleNesting StyleLayout RedocTheme RedocDefaults RedocSpec RedocSchema RedocOptions MenuStore MenuBuilder MenuItems
begin

text \<open>
  A verification library for \<^verbatim>\<open>aarv\<close>, a web framework with plugins, one of which (\<^verbatim>\<open>openapi-ui\<close>) ships
  two API viewers written in JavaScript. All paths below are under \<^verbatim>\<open>src/\<close>.

  \<^bold>\<open>The program.\<close> The application (\<^verbatim>\<open>dispatch.go\<close>, \<^verbatim>\<open>app_routes.go\<close>, \<^verbatim>\<open>router.go\<close>) keeps tables of routes and
  middleware and answers a request in \<^verbatim>\<open>ServeHTTP\<close>: hooks run, a route is looked up, the chain of
  middleware around its handler runs on a pooled context and a response writer, and a returned error
  goes to the error handler. Plugins are middleware: the rate limiter keeps counters for each client, the
  idempotency plugin keeps responses for each key and replays them. The viewer plugin mounts pages whose
  scripts (\<^verbatim>\<open>swagger-initializer.js\<close>, the end of \<^verbatim>\<open>redoc.standalone.js\<close>) read the address of the
  specification from the page and start the viewer; the viewer resolves its options and theme, looks up
  parts of the specification, builds a menu of its operations, words them and styles them.

  \<^bold>\<open>The viewers' scripts\<close>
    \<^item> \<open>ViewerPage\<close>: \<^verbatim>\<open>plugins/openapi-ui/openapi_ui.go\<close>: configuration defaults, page templates, escaping,
      mounting. Whatever the configured values are, a page reads as the same elements with the values
      read back exactly, so that nothing can be injected.
    \<^item> \<open>ViewerScripts\<close>: \<^verbatim>\<open>swagger-initializer.js\<close> and the start of Redoc (\<^verbatim>\<open>px\<close>, \<^verbatim>\<open>dx\<close>, \<^verbatim>\<open>autoInit\<close>). Both viewers are
      started with the configured address, also when the load event fires after the script has run.
    \<^item> \<open>Styled\<close>, \<open>RedocBaseStyles\<close>, \<open>RedocCodeStyles\<close>, \<open>RedocSchemaStyles\<close>, \<open>RedocMenuStyles\<close>: the styled components of
      \<^verbatim>\<open>redoc.standalone.js\<close>, one definition per template, as functions of theme and properties, and the
      functions that flatten them into style sheets (\<^verbatim>\<open>Vo\<close>, \<^verbatim>\<open>Wo\<close>, \<^verbatim>\<open>va\<close>).
    \<^item> \<open>StyleNesting\<close>: every template but four is well nested; the four and a doubled dot are shown to be
      broken. \<open>StyleLayout\<close>: which panels and menus are displayed, and how wide, for each medium and width.
    \<^item> \<open>RedocTheme\<close>, \<open>RedocDefaults\<close>: the default theme, merging, and the resolution of theme functions with its
      memory and its counter (\<^verbatim>\<open>Zr\<close>, \<^verbatim>\<open>ci\<close>, \<^verbatim>\<open>Pi\<close>): resolution computes what a memory-free evaluation gives, ends
      always, succeeds on themes without cycles and fails on cyclic ones.
    \<^item> \<open>RedocOptions\<close>: the other options (\<^verbatim>\<open>ji\<close>, \<^verbatim>\<open>Ci\<close>, \<^verbatim>\<open>Pi\<close>): how attributes become options and the ranges of the
      numeric ones. \<open>RedocSpec\<close>: JSON pointers and references (\<^verbatim>\<open>Ua\<close>, \<^verbatim>\<open>vc\<close>): round trips, the end of a chain of
      references, and the cycle that is never left. \<open>RedocSchema\<close>: response classes, constraint texts and the
      order of fields (\<^verbatim>\<open>es\<close>, \<^verbatim>\<open>hs\<close>, \<^verbatim>\<open>ms\<close>, \<^verbatim>\<open>gs\<close>).
    \<^item> \<open>MenuBuilder\<close>, \<open>MenuItems\<close>: how the menu is built (\<^verbatim>\<open>hf\<close>, \<^verbatim>\<open>rf\<close>, the names of \<^verbatim>\<open>Tu\<close>, the headings of \<^verbatim>\<open>Ml\<close>): every
      operation is under each of its tags, in the order of the description; path items that are references
      with operations of their own are listed repeatedly, and a tag named like an inherited property is an
      error. \<open>MenuStore\<close>: the menu's items and store (\<^verbatim>\<open>vf\<close>, \<^verbatim>\<open>Sf\<close>) under clicks, searches, scrolling and changes of the
      address, as a step relation: its invariant, the section that scrolling activates, and the restored
      menu that shows no active item. The locale \<open>keeps_skeleton\<close> is what expanding and collapsing leave alone.

  \<^bold>\<open>The framework\<close>
    \<^item> \<open>Prelude\<close>, \<open>GoStd\<close>: strings, results with panics and the functions of the standard library that the code uses.
    \<^item> \<open>Errors\<close> (\<^verbatim>\<open>errors.go\<close>, the default handler of \<^verbatim>\<open>server.go\<close>): how an error is classified along its chain of
      causes. \<open>Hooks\<close> (\<^verbatim>\<open>hooks.go\<close>): order and failure of lifecycle hooks.
    \<^item> \<open>Writers\<close> (\<^verbatim>\<open>recorder.go\<close>, \<^verbatim>\<open>response.go\<close>): the locale \<open>response_writer\<close> is the contract of a response writer;
      the server's writer satisfies it, and wrapping in the status recorder gives it again. Recording
      and buffering are transparent.
    \<^item> \<open>Context\<close> (\<^verbatim>\<open>context.go\<close>): a recycled context behaves as a new one; addresses, bodies, the store.
    \<^item> \<open>Patterns\<close> (\<^verbatim>\<open>dispatch.go\<close>): compiled route patterns accept exactly the paths of their segments.
    \<^item> \<open>Middleware\<close> (\<^verbatim>\<open>middleware.go\<close>, \<^verbatim>\<open>skippaths.go\<close>): chains; the locale \<open>dual_middleware\<close> states that the native and
      the standard variant of a middleware agree, and the framework's constructors are instances.
    \<^item> \<open>Routes\<close>, \<open>Dispatch\<close> (\<^verbatim>\<open>app_routes.go\<close>, \<^verbatim>\<open>router.go\<close>, \<^verbatim>\<open>dispatch.go\<close>): registration keeps the tables consistent,
      prebuilt chains are complete, unmatched requests are answered 405 or 404, failing hooks stop a request.

  \<^bold>\<open>The plugins\<close>
    \<^item> \<open>SlidingWindow\<close>, \<open>TokenBucket\<close>, \<open>RateLimit\<close> (\<^verbatim>\<open>plugins/ratelimit\<close>): the limiter refines, key by key, a log of
      accepted requests, through the locale \<open>entry_store\<close> for the sharded store; \<open>RateLimitShell\<close>: the
      middleware around it lets exactly the admitted requests through and answers the others 429.
    \<^item> \<open>ErrorBody\<close>: the JSON error body of the plugins.
    \<^item> \<open>IdempotencyStore\<close> (\<^verbatim>\<open>plugins/idempotency/store.go\<close>): the memory store, and its goroutines as a step relation:
      one handler per key, waiters are woken, and the expiry that breaks the exclusion.
    \<^item> \<open>CaptureWriter\<close> (\<^verbatim>\<open>writer.go\<close>): capturing a response does not change it.
    \<^item> \<open>Idempotency\<close> (\<^verbatim>\<open>idempotency.go\<close>): both variants of the middleware over the locale \<open>response_store\<close>, which the
      memory store satisfies: a retry is replayed without running the handler, a first request runs once,
      a different payload is refused, protected headers are never replayed, and the variants agree.

  \<^bold>\<open>How code is modelled.\<close> Structures are records, enumerations and interface values datatypes, methods
  functions on explicit state, errors and panics values of sum types. Maps whose order the code reads are
  association lists. The Go heap appears only where a pointer outlives its map entry (the store's entries).
  Concurrency is modelled where the code relies on it: the store's goroutines interleave in steps under
  its mutex. Times and counters are integers; the token bucket has the rounding of its floating-point
  numbers; 64-bit wrap-around is written out where the code can reach it.

  \<^bold>\<open>Parameters.\<close> Code outside the repository is an argument: the Swagger UI bundle and Redoc's rendering, the
  colour functions of the theme, \<^verbatim>\<open>JSON.parse\<close>, slugs, collation and the Markdown renderer, the printing of fractional numbers, \<^verbatim>\<open>http.ServeMux\<close>, the file
  server, JSON codecs, SHA-256 and the result of a blocking wait. What a theorem assumes of one of them is
  a hypothesis with an instance in its witness.

  \<^bold>\<open>Bounds and recursion.\<close> Functions are total, with a measure where the recursion is not structural. The theme
  resolution counts its computations up to the code's own limit of one thousand, and the theorem on themes
  without cycles has that bound as a hypothesis. Following references may not end and is a partial function
  into \<open>option\<close>: it is shown to return when no chain comes back to itself, and not to return on a cycle.
  Collecting the operations follows references too; it is shown to return when no path item is one or the
  references resolve. The loop of scrolling is a partial function and always returns.

  \<^bold>\<open>Not modelled.\<close> The Swagger UI bundle and the rest of the Redoc bundle (its components, the merging of
  \<^verbatim>\<open>allOf\<close>, sample generation, search and the libraries packed with it) are minified third-party code;
  listening, TLS and shutdown, streaming, uploads and cookies are effects of the operating system or of
  cryptographic libraries; binding and validation are driven by reflection; the remaining plugins, codecs
  and adapters are thin layers over libraries.
\<close>

end
